(* ===== verification/Prelude.thy ===== *)
theory Prelude
  imports Main "HOL-Library.Monad_Syntax" "HOL-Library.Multiset" "HOL-Library.Word"
begin

section \<open>Prelude: C integers, lists of the commons library, byte buffers\<close>

text \<open>
  What every component shares. A step of the C program that has no defined outcome (a NULL or
  freed pointer is dereferenced, a buffer is overrun, a function falls off its end, a reply is
  awaited for ever) is the value \<open>None\<close>; everything else is \<open>Some\<close>, threaded through
  the \<open>do\<close> notation of the option type.

  C \<open>int\<close> values are HOL integers; a conversion to \<open>uint32_t\<close> or back is written out
  with \<open>u32\<close> and \<open>i32\<close>, which are the 32-bit readings of the Word library.
  The lists of the commons library (\<open>t_list\<close>) are HOL lists; \<open>list_get\<close> out of
  range is NULL, that is \<open>None\<close>.
\<close>

named_theorems listas \<open>laws of the list operations of the commons library\<close>
named_theorems bytes \<open>laws of byte buffers\<close>

type_synonym ptr = nat

subsection \<open>Integers\<close>

definition u32 :: "int \<Rightarrow> int" where
  "u32 x = x mod 4294967296"

definition i32 :: "int \<Rightarrow> int" where
  "i32 x = (x + 2147483648) mod 4294967296 - 2147483648"

lemma u32_word: "u32 x = uint (word_of_int x :: 32 word)"
  by (simp add: u32_def unsigned_of_int take_bit_eq_mod)

lemma i32_word: "i32 x = sint (word_of_int x :: 32 word)"
  by (simp add: i32_def signed_of_int signed_take_bit_eq_take_bit_shift take_bit_eq_mod)

lemma u32_id [simp]: "0 \<le> x \<Longrightarrow> x < 4294967296 \<Longrightarrow> u32 x = x"
  by (simp add: u32_def)

lemma i32_id [simp]: "- 2147483648 \<le> x \<Longrightarrow> x < 2147483648 \<Longrightarrow> i32 x = x"
  by (simp add: i32_def)

lemma u32_range: "0 \<le> u32 x" "u32 x < 4294967296"
  by (simp_all add: u32_def)

lemma u32_minus_one [simp]: "u32 (- 1) = 4294967295"
  by (simp add: u32_def)

text \<open>C's unsigned division of two 32-bit values.\<close>

definition div_u32 :: "int \<Rightarrow> int \<Rightarrow> int" where
  "div_u32 a b = u32 a div u32 b"

definition mod_u32 :: "int \<Rightarrow> int \<Rightarrow> int" where
  "mod_u32 a b = u32 a mod u32 b"

subsection \<open>Lists of the commons library\<close>

definition exige :: "bool \<Rightarrow> unit option" where
  "exige b = (if b then Some () else None)"

lemma exige_simps [simp]: "exige True = Some ()" "exige False = None"
  by (simp_all add: exige_def)

lemma exige_eq_Some [simp]: "exige b = Some u \<longleftrightarrow> b"
  by (simp add: exige_def)

definition list_size :: "'a list \<Rightarrow> int" where
  "list_size xs = int (length xs)"

definition list_get :: "'a list \<Rightarrow> int \<Rightarrow> 'a option" where
  "list_get xs i = (if 0 \<le> i \<and> i < list_size xs then Some (xs ! nat i) else None)"

definition list_find :: "('a \<Rightarrow> bool) \<Rightarrow> 'a list \<Rightarrow> 'a option" where
  "list_find P xs = list_get (filter P xs) 0"

definition list_remove :: "'a list \<Rightarrow> int \<Rightarrow> 'a list" where
  "list_remove xs i =
     (if 0 \<le> i \<and> i < list_size xs then take (nat i) xs @ drop (Suc (nat i)) xs else xs)"

definition list_add_in_index :: "'a list \<Rightarrow> int \<Rightarrow> 'a \<Rightarrow> 'a list" where
  "list_add_in_index xs i x =
     (if 0 \<le> i \<and> i \<le> list_size xs then take (nat i) xs @ x # drop (nat i) xs else xs)"

text \<open>
  A filter whose predicate dereferences pointers: it fails where the predicate does.
\<close>

fun filtrar :: "('a \<Rightarrow> bool option) \<Rightarrow> 'a list \<Rightarrow> 'a list option" where
  "filtrar P [] = Some []"
| "filtrar P (x # xs) =
     do { b \<leftarrow> P x; ys \<leftarrow> filtrar P xs; Some (if b then x # ys else ys) }"

lemma list_size_simps [simp]:
  "list_size [] = 0" "list_size (x # xs) = list_size xs + 1"
  "list_size (xs @ ys) = list_size xs + list_size ys"
  by (simp_all add: list_size_def)

lemma list_size_nonneg [simp]: "0 \<le> list_size xs"
  by (simp add: list_size_def)

lemma list_size_eq_0 [simp]: "list_size xs = 0 \<longleftrightarrow> xs = []"
  by (simp add: list_size_def)

lemma list_get_Some [listas]:
  "list_get xs i = Some x \<longleftrightarrow> 0 \<le> i \<and> i < list_size xs \<and> x = xs ! nat i"
  by (auto simp: list_get_def)

lemma list_get_None [listas]: "list_get xs i = None \<longleftrightarrow> i < 0 \<or> list_size xs \<le> i"
  by (auto simp: list_get_def)

lemma list_get_Cons_0 [simp]: "list_get (x # xs) 0 = Some x"
  by (auto simp: list_get_def list_size_def)

lemma list_get_Nil [simp]: "list_get [] i = None"
  by (simp add: list_get_def)

lemma list_get_nat: "n < length xs \<Longrightarrow> list_get xs (int n) = Some (xs ! n)"
  by (simp add: list_get_def list_size_def)

lemma list_get_0_hd: "list_get xs 0 = (case xs of [] \<Rightarrow> None | x # _ \<Rightarrow> Some x)"
  by (cases xs) auto

lemma list_get_mem: "list_get xs i = Some x \<Longrightarrow> x \<in> set xs"
  by (auto simp: listas list_size_def)

lemma list_find_Some_iff:
  "list_find P xs = Some x \<longleftrightarrow> (\<exists>ys. filter P xs = x # ys)"
  by (auto simp: list_find_def list_get_0_hd split: list.splits)

lemma list_find_Nil [simp]: "list_find P [] = None"
  by (simp add: list_find_def)

lemma list_find_Cons [simp]: "list_find P (x # xs) = (if P x then Some x else list_find P xs)"
  by (simp add: list_find_def)

lemma list_find_SomeD: "list_find P xs = Some x \<Longrightarrow> x \<in> set xs \<and> P x"
  by (induction xs) (auto split: if_splits)

lemma list_find_None_iff: "list_find P xs = None \<longleftrightarrow> (\<forall>x\<in>set xs. \<not> P x)"
  by (induction xs) auto

lemma list_find_unique:
  "x \<in> set xs \<Longrightarrow> P x \<Longrightarrow> (\<And>y. y \<in> set xs \<Longrightarrow> P y \<Longrightarrow> y = x) \<Longrightarrow> list_find P xs = Some x"
  by (metis list_find_None_iff list_find_SomeD not_None_eq)

lemma filtrar_total:
  "(\<And>x. x \<in> set xs \<Longrightarrow> P x = Some (Q x)) \<Longrightarrow> filtrar P xs = Some (filter Q xs)"
  by (induction xs) auto

lemma filtrar_subset: "filtrar P xs = Some ys \<Longrightarrow> set ys \<subseteq> set xs"
proof (induction xs arbitrary: ys)
  case (Cons x xs)
  then obtain b zs where "filtrar P xs = Some zs" and "ys = (if b then x # zs else zs)"
    by (auto simp: bind_eq_Some_conv)
  with Cons.IH [of zs] show ?case by auto
qed simp

text \<open>A loop that returns the index of the first element that satisfies its test.\<close>

fun posicion :: "('a \<Rightarrow> bool) \<Rightarrow> 'a list \<Rightarrow> int \<Rightarrow> int option" where
  "posicion P [] i = None"
| "posicion P (x # xs) i = (if P x then Some i else posicion P xs (i + 1))"

lemma posicion_append:
  "\<forall>y\<in>set as. \<not> P y \<Longrightarrow> P x \<Longrightarrow> posicion P (as @ x # bs) i = Some (i + int (length as))"
  by (induction as arbitrary: i) auto

lemma posicion_SomeD:
  assumes "posicion P xs i = Some k"
  obtains as x bs where "xs = as @ x # bs" "k = i + int (length as)" "P x" "\<forall>y\<in>set as. \<not> P y"
  using assms
proof (induction xs arbitrary: i thesis)
  case (Cons x xs)
  show ?case
  proof (cases "P x")
    case True
    then show ?thesis using Cons.prems(1) [of "[]" x xs] Cons.prems(2) by simp
  next
    case False
    then have "posicion P xs (i + 1) = Some k" using Cons.prems(2) by simp
    then obtain as y bs where "xs = as @ y # bs" "k = i + 1 + int (length as)" "P y" "\<forall>z\<in>set as. \<not> P z"
      using Cons.IH by blast
    then show ?thesis using Cons.prems(1) [of "x # as" y bs] False by simp
  qed
qed simp

lemma posicion_None: "posicion P xs i = None \<longleftrightarrow> (\<forall>x\<in>set xs. \<not> P x)"
  by (induction xs arbitrary: i) auto

subsection \<open>Sorting\<close>

text \<open>
  \<open>list_sort\<close> belongs to the commons library, which is not part of this repository: it is a
  parameter of the definitions that call it. What they rely on is its documentation: the result
  holds the same elements, ordered by the comparator. Every comparator of the program compares
  an integer key with \<open><\<close>; the order of elements with equal keys is left open.
\<close>

type_synonym 'a list_sort = "('a \<Rightarrow> 'a \<Rightarrow> bool) \<Rightarrow> 'a list \<Rightarrow> 'a list"

definition ordena :: "'a list_sort \<Rightarrow> bool" where
  "ordena srt \<longleftrightarrow> (\<forall>(clave :: 'a \<Rightarrow> int) xs.
     mset (srt (\<lambda>a b. clave a < clave b) xs) = mset xs \<and>
     sorted_wrt (\<lambda>a b. clave a \<le> clave b) (srt (\<lambda>a b. clave a < clave b) xs))"

lemma ordenaD:
  fixes clave :: "'a \<Rightarrow> int"
  assumes "ordena srt"
  shows ordena_mset: "mset (srt (\<lambda>a b. clave a < clave b) xs) = mset xs"
    and ordena_sorted: "sorted_wrt (\<lambda>a b. clave a \<le> clave b) (srt (\<lambda>a b. clave a < clave b) xs)"
  using assms unfolding ordena_def by blast+

lemma ordena_set:
  fixes clave :: "'a \<Rightarrow> int"
  assumes "ordena srt"
  shows "set (srt (\<lambda>a b. clave a < clave b) xs) = set xs"
  using ordena_mset [OF assms, of clave xs] by (metis set_mset_mset)

lemma ordena_length:
  fixes clave :: "'a \<Rightarrow> int"
  assumes "ordena srt"
  shows "length (srt (\<lambda>a b. clave a < clave b) xs) = length xs"
  using ordena_mset [OF assms, of clave xs] by (metis size_mset)

lemma ordena_first:
  fixes clave :: "'a \<Rightarrow> int"
  assumes "ordena srt" and "xs \<noteq> []"
  obtains x where "list_get (srt (\<lambda>a b. clave a < clave b) xs) 0 = Some x"
    and "x \<in> set xs" and "\<And>y. y \<in> set xs \<Longrightarrow> clave x \<le> clave y"
proof -
  let ?ys = "srt (\<lambda>a b. clave a < clave b) xs"
  have st: "set ?ys = set xs" by (rule ordena_set [OF assms(1)])
  with assms(2) obtain x zs where ys: "?ys = x # zs" by (cases ?ys) auto
  have "sorted_wrt (\<lambda>a b. clave a \<le> clave b) (x # zs)"
    using ordena_sorted [OF assms(1), of clave xs] ys by simp
  then have "\<And>y. y \<in> set xs \<Longrightarrow> clave x \<le> clave y"
    using st ys by auto
  moreover have "x \<in> set xs" using st ys by auto
  ultimately show ?thesis using that ys by simp
qed

text \<open>
  A concrete instance, used where a property is applied to a concrete input.
\<close>

fun insertar :: "('a \<Rightarrow> 'a \<Rightarrow> bool) \<Rightarrow> 'a \<Rightarrow> 'a list \<Rightarrow> 'a list" where
  "insertar menor x [] = [x]"
| "insertar menor x (y # ys) = (if menor y x then y # insertar menor x ys else x # y # ys)"

fun orden_insercion :: "'a list_sort" where
  "orden_insercion menor [] = []"
| "orden_insercion menor (x # xs) = insertar menor x (orden_insercion menor xs)"

lemma mset_insertar [simp]: "mset (insertar menor x xs) = add_mset x (mset xs)"
  by (induction xs) auto

lemma set_insertar [simp]: "set (insertar menor x xs) = insert x (set xs)"
  by (induction xs) auto

lemma sorted_insertar:
  fixes clave :: "'a \<Rightarrow> int"
  shows "sorted_wrt (\<lambda>a b. clave a \<le> clave b) xs \<Longrightarrow>
    sorted_wrt (\<lambda>a b. clave a \<le> clave b) (insertar (\<lambda>a b. clave a < clave b) x xs)"
  by (induction xs) fastforce+

lemma ordena_orden_insercion [simp]: "ordena orden_insercion"
proof -
  have "mset (orden_insercion m xs) = mset xs" for m and xs :: "'a list"
    by (induction xs) auto
  moreover have "sorted_wrt (\<lambda>a b. clave a \<le> clave b)
      (orden_insercion (\<lambda>a b. clave a < clave b) xs)" for clave :: "'a \<Rightarrow> int" and xs
    by (induction xs) (auto intro: sorted_insertar)
  ultimately show ?thesis by (simp add: ordena_def)
qed

subsection \<open>Byte buffers\<close>

text \<open>
  A buffer is a list of bytes (\<open>char\<close>). A block copy or read outside the buffer is
  undefined.
\<close>

definition lee_bytes :: "char list \<Rightarrow> int \<Rightarrow> int \<Rightarrow> char list option" where
  "lee_bytes buf off n =
     (if 0 \<le> off \<and> 0 \<le> n \<and> off + n \<le> list_size buf
      then Some (take (nat n) (drop (nat off) buf)) else None)"

definition copia_bytes :: "char list \<Rightarrow> int \<Rightarrow> char list \<Rightarrow> char list option" where
  "copia_bytes buf off bs =
     (if 0 \<le> off \<and> off + list_size bs \<le> list_size buf
      then Some (take (nat off) buf @ bs @ drop (nat off + length bs) buf) else None)"

lemma copia_bytes_length [bytes]:
  "copia_bytes buf off bs = Some buf' \<Longrightarrow> length buf' = length buf"
  by (auto simp: copia_bytes_def list_size_def split: if_splits)

lemma lee_bytes_length [bytes]: "lee_bytes buf off n = Some bs \<Longrightarrow> list_size bs = n"
  by (auto simp: lee_bytes_def list_size_def split: if_splits)

lemma lee_copia_igual [bytes]:
  "copia_bytes buf off bs = Some buf' \<Longrightarrow> lee_bytes buf' off (list_size bs) = Some bs"
  by (auto simp: copia_bytes_def lee_bytes_def list_size_def split: if_splits)

lemma lee_copia_nth:
  assumes "copia_bytes buf off bs = Some buf'" and "i < length buf"
  shows "buf' ! i = (if nat off \<le> i \<and> i < nat off + length bs then bs ! (i - nat off) else buf ! i)"
  using assms by (auto simp: copia_bytes_def list_size_def nth_append min_def split: if_splits)

lemma lee_bytes_cong:
  assumes "length b1 = length b2"
    and "\<And>i. off \<le> int i \<Longrightarrow> int i < off + n \<Longrightarrow> i < length b1 \<Longrightarrow> b1 ! i = b2 ! i"
  shows "lee_bytes b1 off n = lee_bytes b2 off n"
proof -
  have "take (nat n) (drop (nat off) b1) = take (nat n) (drop (nat off) b2)"
    if "0 \<le> off" "0 \<le> n" "off + n \<le> list_size b1"
    by (rule nth_equalityI) (use that assms in \<open>auto simp: list_size_def\<close>)
  then show ?thesis using assms(1) by (auto simp: lee_bytes_def list_size_def)
qed

lemma lee_copia_disjunto [bytes]:
  assumes "copia_bytes buf off bs = Some buf'"
    and "off + list_size bs \<le> o' \<or> o' + n \<le> off"
  shows "lee_bytes buf' o' n = lee_bytes buf o' n"
proof (rule lee_bytes_cong)
  show "length buf' = length buf" using assms(1) by (rule copia_bytes_length)
  fix i assume i: "o' \<le> int i" "int i < o' + n" "i < length buf'"
  then have "i < length buf" using copia_bytes_length [OF assms(1)] by simp
  with lee_copia_nth [OF assms(1) this] assms i show "buf' ! i = buf ! i"
    by (auto simp: list_size_def copia_bytes_def split: if_splits)
qed

lemma bloque_copia:
  assumes "i + T \<le> length b" "k + length bs \<le> T"
  shows "take T (drop i (take (i + k) b @ bs @ drop (i + k + length bs) b)) =
    take k (take T (drop i b)) @ bs @ drop (k + length bs) (take T (drop i b))"
proof -
  have "drop i (take (i + k) b @ bs @ drop (i + k + length bs) b) =
      take k (drop i b) @ bs @ drop (k + length bs) (drop i b)"
    using assms by (simp add: drop_take add.commute add.left_commute)
  moreover have "min k T = k" "min T k = k" using assms(2) by auto
  ultimately show ?thesis
    using assms by (simp add: drop_take)
qed

lemma bloque_otro:
  assumes "i + k + length bs \<le> length b" "j + T \<le> i + k \<or> i + k + length bs \<le> j"
  shows "take T (drop j (take (i + k) b @ bs @ drop (i + k + length bs) b)) = take T (drop j b)"
  using assms(2)
proof
  assume "j + T \<le> i + k"
  moreover have "length (take (i + k) b) = i + k" using assms(1) by simp
  ultimately have "take T (drop j (take (i + k) b @ X)) = take T (drop j (take (i + k) b))" for X
    by simp
  moreover have "take T (drop j (take (i + k) b)) = take T (drop j b)"
    using \<open>j + T \<le> i + k\<close> by (simp add: drop_take)
  ultimately show ?thesis by (simp only:)
next
  assume "i + k + length bs \<le> j"
  then have "j - min (length b) (i + k) - length bs + (i + k + length bs) = j" using assms(1) by auto
  then show ?thesis using assms(1) \<open>i + k + length bs \<le> j\<close> by (simp add: min_def)
qed
text \<open>The four bytes of a \<open>uint32_t\<close> in memory, least significant first.\<close>

definition le32 :: "int \<Rightarrow> char list" where
  "le32 x = map (\<lambda>k. char_of (nat (u32 x div 256 ^ k mod 256))) [0, 1, 2, 3]"

definition de_le32 :: "char list \<Rightarrow> int" where
  "de_le32 bs = (case bs of [a, b, c, d] \<Rightarrow>
      int (of_char a) + 256 * int (of_char b) + 65536 * int (of_char c) + 16777216 * int (of_char d)
    | _ \<Rightarrow> 0)"

lemma length_le32 [simp]: "length (le32 x) = 4"
  by (simp add: le32_def)

lemma of_char_nat_byte: "0 \<le> b \<Longrightarrow> b < 256 \<Longrightarrow> int (of_char (char_of (nat b))) = b"
  by (simp add: nat_less_iff)

lemma de_le32_le32 [simp]: "de_le32 (le32 x) = u32 x"
proof -
  define y where "y = u32 x"
  have y: "0 \<le> y" "y < 4294967296" by (simp_all add: y_def u32_range)
  define y1 where "y1 = y div 256"
  define y2 where "y2 = y1 div 256"
  define y3 where "y3 = y2 div 256"
  have d: "y div 65536 = y2" "y div 16777216 = y3"
    by (simp_all add: y1_def y2_def y3_def zdiv_zmult2_eq [symmetric])
  have "y3 mod 256 = y3"
    using y by (intro mod_pos_pos_trivial) (simp_all add: d(2) [symmetric] div_less_iff_less_mult)
  moreover have "y = y mod 256 + 256 * y1" "y1 = y1 mod 256 + 256 * y2" "y2 = y2 mod 256 + 256 * y3"
    by (simp_all add: y1_def y2_def y3_def)
  ultimately have "y mod 256 + 256 * (y div 256 mod 256) + 65536 * (y div 65536 mod 256)
      + 16777216 * (y div 16777216 mod 256) = y"
    unfolding d y1_def [symmetric] by linarith
  moreover have b: "int (of_char (char_of (nat (z mod 256)))) = z mod 256" for z :: int
    by (rule of_char_nat_byte) simp_all
  have "de_le32 (le32 x) = y mod 256 + 256 * (y div 256 mod 256) + 65536 * (y div 65536 mod 256)
      + 16777216 * (y div 16777216 mod 256)"
    unfolding de_le32_def le32_def y_def [symmetric] list.map list.case b by simp
  ultimately show ?thesis by (simp only: y_def)
qed

text \<open>
  \<open>strlen\<close> plus its terminator: the bytes up to the first NUL of the buffer, or of what
  follows the buffer in memory (\<open>resto\<close>) when the buffer itself has none; undefined when
  there is none either.
\<close>

definition cadena_c :: "char list \<Rightarrow> char list \<Rightarrow> char list option" where
  "cadena_c buf resto =
     (if CHR 0x00 \<in> set (buf @ resto)
      then Some (takeWhile (\<lambda>c. c \<noteq> CHR 0x00) (buf @ resto) @ [CHR 0x00]) else None)"

end
