(* ===== verification/Memoria_Estado.thy ===== *)
theory Memoria_Estado
  imports Prelude
begin

section \<open>Memoria: data, global state, processes and frames\<close>

text \<open>
  The data of \<^verbatim>\<open>memoria/src/memory.h\<close> and \<^verbatim>\<open>memoria/src/lib.h\<close>, the global variables
  of the memory process as one record, and the functions of \<^verbatim>\<open>memory.c\<close> on processes
  (\<open>carpinchos\<close>), frames (\<open>marcos\<close>) and the bytes of the cache.

  A \<open>t_pagina*\<close> is an address of \<open>heap\<close>, which holds the live page objects
  (\<open>None\<close>: never allocated or freed). A \<open>t_carpincho*\<close> is the pid of a member of
  \<open>carpinchos_list\<close> (\<open>create_carpincho\<close> never adds a pid twice), a \<open>t_marco*\<close> the number
  of the frame and a \<open>t_tlb*\<close> the \<open>entrada\<close> of the item, neither of which the code ever
  changes. Log and console output, the sleeps and the two mutexes are left out.
\<close>

subsection \<open>Data\<close>

record t_config_memoria =
  tamanio :: int
  tamanio_pagina :: int
  tipo_asignacion :: string
  algoritmo_reemplazo_mmu :: string
  cantida_entradas_tlb :: int
  algoritmo_reemplazo_tlb :: string
  debug :: bool
  marcos_por_carpincho :: int

datatype status_memory_op = EXITO | SIN_ESPACIO | DIRECCION_INVALIDA

datatype check_alloc_respuesta =
  ALLOC_HEAP | ALLOC_PAGINA | ALLOC_SOLICITAR_PAGINA | ALLOC_SIN_ESPACIO

record t_alloc =
  al_direccion :: int
  al_isFree :: bool
  al_tamanio_data :: int

record t_carpincho =
  crp_pid :: int
  crp_tlb_hits :: int
  crp_tlb_miss :: int
  crp_stack_pointer :: int
  crp_paginas :: "ptr list"
  crp_allocs :: "t_alloc list"
  crp_numero :: int

record t_pagina =
  pag_marco :: int
  pag_pid :: int
  pag_pagina :: int
  pag_presencia :: int
  pag_uso :: int
  pag_modif :: int
  pag_carp_num :: int
  pag_timestamp :: int

record t_marco =
  mrc_marco :: int
  mrc_isFree :: bool
  mrc_pagina :: int
  mrc_pid :: int

record t_tlb =
  tlb_entrada :: int
  tlb_pid :: int
  tlb_pagina :: int
  tlb_marco :: int
  tlb_timestamp :: int

record t_mensaje_dump =
  dmp_carpincho_pid :: int
  dmp_entrada :: int
  dmp_estado :: int
  dmp_pagina :: int
  dmp_marco :: int

text \<open>
  The global variables. \<open>swamp\<close> is the state of the peer at the other end of the socket;
  \<open>prox_ptr\<close> is the address the next \<open>malloc\<close> of a page returns.
\<close>

record 's memoria =
  CACHE :: "char list"
  cantidad_maxima_marcos :: int
  marcos_list :: "t_marco list"
  carpinchos_list :: "t_carpincho list"
  contador_carpinchos :: int
  contador_timestamp :: int
  contador_timestamp_tlb :: int
  algoritm_stack_pointer :: int
  tlb_fifo_pointer :: int
  tlb_list :: "t_tlb list"
  mensajes_dump_list :: "t_mensaje_dump list"
  tlb_hits_totales :: int
  tlb_miss_totales :: int
  heap :: "ptr \<Rightarrow> t_pagina option"
  prox_ptr :: ptr
  swamp :: 's

text \<open>
  What the process is given and does not define: its configuration, the sorting routine of the
  commons library, the contents of freshly allocated or neighbouring heap memory, and the answers
  of the swap server (\<open>None\<close>: no reply ever comes). \<open>srv_leer\<close> answers \<open>None\<close> for a reply
  whose PID is -1 and the page's bytes otherwise.
\<close>

record 's entorno =
  datosConfigMemoria :: t_config_memoria
  list_sort_pagina :: "ptr list_sort"
  list_sort_marco :: "t_marco list_sort"
  list_sort_tlb :: "t_tlb list_sort"
  basura_pagina :: "ptr \<Rightarrow> t_pagina"
  basura_tlb :: "int \<Rightarrow> int"
  resto_heap :: "char list \<Rightarrow> char list"
  srv_escribir :: "int \<Rightarrow> int \<Rightarrow> char list \<Rightarrow> 's \<Rightarrow> (int \<times> 's) option"
  srv_leer :: "int \<Rightarrow> int \<Rightarrow> 's \<Rightarrow> (char list option \<times> 's) option"
  srv_puede_escribir :: "int \<Rightarrow> int \<Rightarrow> 's \<Rightarrow> (int \<times> 's) option"

abbreviation tam_pag :: "'s entorno \<Rightarrow> int" where
  "tam_pag E \<equiv> tamanio_pagina (datosConfigMemoria E)"

abbreviation tam_mem :: "'s entorno \<Rightarrow> int" where
  "tam_mem E \<equiv> tamanio (datosConfigMemoria E)"

abbreviation en_debug :: "'s entorno \<Rightarrow> bool" where
  "en_debug E \<equiv> debug (datosConfigMemoria E)"

abbreviation es_fija :: "'s entorno \<Rightarrow> bool" where
  "es_fija E \<equiv> tipo_asignacion (datosConfigMemoria E) = ''FIJA''"

abbreviation es_dinamica :: "'s entorno \<Rightarrow> bool" where
  "es_dinamica E \<equiv> tipo_asignacion (datosConfigMemoria E) = ''DINAMICA''"

abbreviation es_m_clock :: "'s entorno \<Rightarrow> bool" where
  "es_m_clock E \<equiv> algoritmo_reemplazo_mmu (datosConfigMemoria E) = ''M-CLOCK''"

abbreviation es_tlb_lru :: "'s entorno \<Rightarrow> bool" where
  "es_tlb_lru E \<equiv> algoritmo_reemplazo_tlb (datosConfigMemoria E) = ''LRU''"

subsection \<open>Time stamps\<close>

definition obtenerTimeStamp :: "'s memoria \<Rightarrow> int \<times> 's memoria" where
  "obtenerTimeStamp s =
     (contador_timestamp s, s\<lparr>contador_timestamp := contador_timestamp s + 1\<rparr>)"

definition obtenerTimeStampTLB :: "'s memoria \<Rightarrow> int \<times> 's memoria" where
  "obtenerTimeStampTLB s =
     (contador_timestamp_tlb s, s\<lparr>contador_timestamp_tlb := contador_timestamp_tlb s + 1\<rparr>)"

subsection \<open>Processes\<close>

definition exist_carpincho :: "'s memoria \<Rightarrow> int \<Rightarrow> bool" where
  "exist_carpincho s pid \<longleftrightarrow> list_size (filter (\<lambda>c. crp_pid c = pid) (carpinchos_list s)) \<noteq> 0"

definition get_carpincho :: "'s memoria \<Rightarrow> int \<Rightarrow> t_carpincho option" where
  "get_carpincho s pid =
     (let carpinchos = filter (\<lambda>c. crp_pid c = pid) (carpinchos_list s)
      in if list_size carpinchos \<noteq> 0 then list_get carpinchos 0 else None)"

definition modifica_carpincho ::
  "int \<Rightarrow> (t_carpincho \<Rightarrow> t_carpincho) \<Rightarrow> 's memoria \<Rightarrow> 's memoria" where
  "modifica_carpincho pid f s =
     s\<lparr>carpinchos_list := map (\<lambda>c. if crp_pid c = pid then f c else c) (carpinchos_list s)\<rparr>"

definition create_carpincho :: "int \<Rightarrow> 's memoria \<Rightarrow> 's memoria" where
  "create_carpincho pid s =
     (if exist_carpincho s pid then s
      else s\<lparr>carpinchos_list := carpinchos_list s @
               [\<lparr>crp_pid = pid, crp_tlb_hits = 0, crp_tlb_miss = 0, crp_stack_pointer = 0,
                 crp_paginas = [], crp_allocs = [], crp_numero = contador_carpinchos s + 1\<rparr>],
             contador_carpinchos := contador_carpinchos s + 1\<rparr>)"

definition limpiar_conteos_tlb_de_carpincho :: "t_carpincho \<Rightarrow> t_carpincho" where
  "limpiar_conteos_tlb_de_carpincho c = c\<lparr>crp_tlb_hits := 0, crp_tlb_miss := 0\<rparr>"

definition reinciar_conteos_tlb :: "'s memoria \<Rightarrow> 's memoria" where
  "reinciar_conteos_tlb s =
     s\<lparr>tlb_miss_totales := 0, tlb_hits_totales := 0,
       carpinchos_list := map limpiar_conteos_tlb_de_carpincho (carpinchos_list s)\<rparr>"

subsection \<open>Pages of a process\<close>

text \<open>
  \<open>get_page\<close> counts the duplicates with \<open>list_filter\<close> before it searches with \<open>list_find\<close>,
  so every page of the list is dereferenced and must be live; NULL is \<open>Some None\<close>.
\<close>

fun buscar_pagina :: "(ptr \<Rightarrow> t_pagina option) \<Rightarrow> int \<Rightarrow> int \<Rightarrow> ptr list \<Rightarrow> ptr option option" where
  "buscar_pagina h pid pagina [] = Some None"
| "buscar_pagina h pid pagina (p # ps) =
     do { g \<leftarrow> h p; r \<leftarrow> buscar_pagina h pid pagina ps;
          Some (if pag_pid g = pid \<and> pag_pagina g = pagina then Some p else r) }"

definition get_page :: "'s memoria \<Rightarrow> t_carpincho \<Rightarrow> int \<Rightarrow> ptr option option" where
  "get_page s c pagina = buscar_pagina (heap s) (crp_pid c) pagina (crp_paginas c)"

definition get_page_by_ints :: "'s memoria \<Rightarrow> int \<Rightarrow> int \<Rightarrow> ptr option option" where
  "get_page_by_ints s carpincho pagina =
     do { c \<leftarrow> get_carpincho s carpincho; get_page s c pagina }"

subsection \<open>Frames\<close>

definition get_amount_marcos :: "'s entorno \<Rightarrow> int" where
  "get_amount_marcos E = div_u32 (tam_mem E) (tam_pag E)"

definition create_marcos :: "'s entorno \<Rightarrow> t_marco list" where
  "create_marcos E =
     map (\<lambda>n. \<lparr>mrc_marco = int n, mrc_isFree = True, mrc_pagina = 0, mrc_pid = 0\<rparr>)
       [0..<nat (get_amount_marcos E)]"

definition get_marco :: "'s memoria \<Rightarrow> int \<Rightarrow> int \<Rightarrow> t_marco option" where
  "get_marco s carpincho pagina =
     list_get (filter (\<lambda>m. mrc_pid m = carpincho \<and> mrc_pagina m = pagina) (marcos_list s)) 0"

definition amount_frame_used_by_carpincho_pid :: "'s memoria \<Rightarrow> int \<Rightarrow> int" where
  "amount_frame_used_by_carpincho_pid s pid =
     list_size (filter (\<lambda>m. mrc_pid m = pid) (marcos_list s))"

definition amount_frame_used_by_carpincho :: "'s memoria \<Rightarrow> t_carpincho \<Rightarrow> int" where
  "amount_frame_used_by_carpincho s c =
     list_size (filter (\<lambda>m. mrc_pid m = crp_pid c) (marcos_list s))"

definition any_marco_free :: "'s memoria \<Rightarrow> bool" where
  "any_marco_free s \<longleftrightarrow> list_size (filter mrc_isFree (marcos_list s)) \<noteq> 0"

definition get_free_marco :: "'s entorno \<Rightarrow> 's memoria \<Rightarrow> t_marco option" where
  "get_free_marco E s =
     list_get (list_sort_marco E (\<lambda>a b. mrc_marco a < mrc_marco b)
                 (filter mrc_isFree (marcos_list s))) 0"

definition obtener_marco_de_tlb :: "'s memoria \<Rightarrow> int \<Rightarrow> int \<Rightarrow> int" where
  "obtener_marco_de_tlb s carpincho pagina =
     (let lista = filter (\<lambda>t. tlb_pid t = carpincho \<and> tlb_pagina t = pagina) (tlb_list s)
      in case list_get lista 0 of Some t \<Rightarrow> tlb_marco t | None \<Rightarrow> - 1)"

definition obtener_marco_de_cache :: "'s memoria \<Rightarrow> int \<Rightarrow> int \<Rightarrow> int" where
  "obtener_marco_de_cache s carpincho pagina =
     (let lista = filter (\<lambda>m. mrc_pid m = carpincho \<and> mrc_pagina m = pagina) (marcos_list s)
      in case list_get lista 0 of Some m \<Rightarrow> mrc_marco m | None \<Rightarrow> - 1)"

text \<open>
  \<open>(t_marco* ) -1\<close> is returned for a number that does not exist; every caller dereferences it.
\<close>

definition get_marco_by_marco_number :: "'s memoria \<Rightarrow> int \<Rightarrow> t_marco option" where
  "get_marco_by_marco_number s n = list_get (filter (\<lambda>m. mrc_marco m = n) (marcos_list s)) 0"

definition modifica_marco :: "int \<Rightarrow> (t_marco \<Rightarrow> t_marco) \<Rightarrow> 's memoria \<Rightarrow> 's memoria" where
  "modifica_marco n f s =
     s\<lparr>marcos_list := map (\<lambda>m. if mrc_marco m = n then f m else m) (marcos_list s)\<rparr>"

subsection \<open>Printing the frames (with the debug switch on)\<close>

fun recorre_marcos :: "'s memoria \<Rightarrow> t_marco list \<Rightarrow> unit option" where
  "recorre_marcos s [] = Some ()"
| "recorre_marcos s (m # ms) =
     do { _ \<leftarrow> (if \<not> mrc_isFree m
               then do { c \<leftarrow> get_carpincho s (mrc_pid m);
                         p \<leftarrow> get_page_by_ints s (mrc_pid m) (mrc_pagina m);
                         q \<leftarrow> p; g \<leftarrow> heap s q; Some () }
               else Some ());
          recorre_marcos s ms }"

definition imprimir_marcos :: "'s entorno \<Rightarrow> 's memoria \<Rightarrow> 's memoria option" where
  "imprimir_marcos E s =
     (if en_debug E
      then let ms = list_sort_marco E (\<lambda>a b. mrc_marco a < mrc_marco b) (marcos_list s);
               s1 = s\<lparr>marcos_list := ms\<rparr>
           in do { _ \<leftarrow> recorre_marcos s1 ms; Some s1 }
      else Some s)"

subsection \<open>The bytes of the cache\<close>

text \<open>The offset of a frame in \<open>CACHE\<close>.\<close>

definition get_marco_ptr :: "'s entorno \<Rightarrow> int \<Rightarrow> int" where
  "get_marco_ptr E marco = marco * tam_pag E"

definition escribir_en_cache ::
  "'s entorno \<Rightarrow> int \<Rightarrow> char list \<Rightarrow> int \<Rightarrow> int \<Rightarrow> 's memoria \<Rightarrow> (int \<times> 's memoria) option" where
  "escribir_en_cache E marco buffer n offset s =
     (if u32 (n + offset) > tam_pag E then Some (- 1, s)
      else do { bs \<leftarrow> lee_bytes buffer 0 n;
                cache \<leftarrow> copia_bytes (CACHE s) (get_marco_ptr E marco + offset) bs;
                Some (0, s\<lparr>CACHE := cache\<rparr>) })"

text \<open>\<open>Some None\<close> is the pointer -1 that stands for an error.\<close>

definition retornar_contenido ::
  "'s entorno \<Rightarrow> 's memoria \<Rightarrow> int \<Rightarrow> int \<Rightarrow> int \<Rightarrow> char list option option" where
  "retornar_contenido E s marco offset n =
     (if u32 (offset + n) > tam_pag E then Some None
      else do { bs \<leftarrow> lee_bytes (CACHE s) (get_marco_ptr E marco + offset) n; Some (Some bs) })"

definition limpiar_cache_con_offset ::
  "'s entorno \<Rightarrow> int \<Rightarrow> int \<Rightarrow> 's memoria \<Rightarrow> 's memoria option" where
  "limpiar_cache_con_offset E marco offset s =
     do { cache \<leftarrow> copia_bytes (CACHE s) (get_marco_ptr E marco + offset)
                     (replicate (nat (tam_mem E)) CHR ''_'');
          Some (s\<lparr>CACHE := cache\<rparr>) }"

end
