(* ===== verification/Memoria_Tlb.thy ===== *)
theory Memoria_Tlb
  imports Memoria_Estado
begin

section \<open>Memoria: the TLB\<close>

text \<open>
  The functions of \<^verbatim>\<open>memory.c\<close> on \<open>tlb_list\<close>: creation, lookup, replacement (FIFO and
  LRU), the update after a page has been given a frame, the hit and miss counters, and the list
  of dump messages.
\<close>

subsection \<open>Items\<close>

definition modifica_tlb :: "int \<Rightarrow> (t_tlb \<Rightarrow> t_tlb) \<Rightarrow> 's memoria \<Rightarrow> 's memoria" where
  "modifica_tlb e f s =
     s\<lparr>tlb_list := map (\<lambda>t. if tlb_entrada t = e then f t else t) (tlb_list s)\<rparr>"

fun create_tlb_desde :: "'s entorno \<Rightarrow> nat list \<Rightarrow> 's memoria \<Rightarrow> 's memoria" where
  "create_tlb_desde E [] s = s"
| "create_tlb_desde E (i # is) s =
     (let (ts, s1) = (if es_tlb_lru E then obtenerTimeStampTLB s else (basura_tlb E (int i), s));
          t = \<lparr>tlb_entrada = int i, tlb_pid = 0, tlb_pagina = 0, tlb_marco = - 1, tlb_timestamp = ts\<rparr>
      in create_tlb_desde E is (s1\<lparr>tlb_list := tlb_list s1 @ [t]\<rparr>))"

definition create_tlb :: "'s entorno \<Rightarrow> 's memoria \<Rightarrow> 's memoria" where
  "create_tlb E s =
     create_tlb_desde E [0..<nat (cantida_entradas_tlb (datosConfigMemoria E))] (s\<lparr>tlb_list := []\<rparr>)"

definition mismo_item :: "t_pagina \<Rightarrow> t_tlb \<Rightarrow> bool" where
  "mismo_item g t \<longleftrightarrow> tlb_pid t = pag_pid g \<and> tlb_pagina t = pag_pagina g"

definition pagina_is_in_tlb :: "'s memoria \<Rightarrow> t_pagina \<Rightarrow> bool" where
  "pagina_is_in_tlb s g =
     (let tlb = filter (mismo_item g) (tlb_list s)
      in if list_size tlb > 1 then True else tlb \<noteq> [])"

definition get_tlb_item :: "'s memoria \<Rightarrow> t_pagina \<Rightarrow> t_tlb option" where
  "get_tlb_item s g = list_get (filter (mismo_item g) (tlb_list s)) 0"

definition get_tlb_item_by_marco_number :: "'s memoria \<Rightarrow> int \<Rightarrow> t_tlb option" where
  "get_tlb_item_by_marco_number s marco =
     list_get (filter (\<lambda>t. tlb_marco t = marco) (tlb_list s)) 0"

definition any_tlb_item_is_free :: "'s memoria \<Rightarrow> bool" where
  "any_tlb_item_is_free s \<longleftrightarrow> filter (\<lambda>t. tlb_pid t = 0) (tlb_list s) \<noteq> []"

definition get_next_free_tlb_item :: "'s memoria \<Rightarrow> t_tlb option" where
  "get_next_free_tlb_item s = list_get (filter (\<lambda>t. tlb_pid t = 0) (tlb_list s)) 0"

definition vaciar_pagina_tlb :: "int \<Rightarrow> 's memoria \<Rightarrow> 's memoria" where
  "vaciar_pagina_tlb e s =
     modifica_tlb e (\<lambda>t. t\<lparr>tlb_pid := 0, tlb_pagina := 0, tlb_marco := - 1\<rparr>) s"

text \<open>
  With the debug switch on, printing sorts the list and reads ten items whatever their number.
\<close>

definition print_tlb_status :: "'s entorno \<Rightarrow> 's memoria \<Rightarrow> 's memoria option" where
  "print_tlb_status E s =
     (if en_debug E
      then let ts = list_sort_tlb E (\<lambda>a b. tlb_entrada a < tlb_entrada b) (tlb_list s)
           in if list_size ts < 10 then None else Some (s\<lparr>tlb_list := ts\<rparr>)
      else Some s)"

definition is_marco_in_tlb :: "'s entorno \<Rightarrow> int \<Rightarrow> 's memoria \<Rightarrow> (bool \<times> 's memoria) option" where
  "is_marco_in_tlb E marco s =
     (let lista = filter (\<lambda>t. tlb_marco t = marco) (tlb_list s)
      in do { s1 \<leftarrow> (if list_size lista > 1 then print_tlb_status E s else Some s);
              Some (list_size lista \<noteq> 0, s1) })"

subsection \<open>Replacement\<close>

definition proxima_pagina_a_sacar_tlb_by_lru ::
  "'s entorno \<Rightarrow> 's memoria \<Rightarrow> (t_tlb \<times> 's memoria) option" where
  "proxima_pagina_a_sacar_tlb_by_lru E s =
     (if any_tlb_item_is_free s
      then do { t \<leftarrow> get_next_free_tlb_item s; Some (t, s) }
      else let l1 = list_sort_tlb E (\<lambda>a b. tlb_entrada a < tlb_entrada b) (tlb_list s);
               l2 = list_sort_tlb E (\<lambda>a b. tlb_timestamp a < tlb_timestamp b) l1
           in do { t \<leftarrow> list_get l2 0; Some (t, s\<lparr>tlb_list := l2\<rparr>) })"

definition proxima_pagina_a_sacar_tlb_by_fifo ::
  "'s entorno \<Rightarrow> 's memoria \<Rightarrow> (t_tlb \<times> 's memoria) option" where
  "proxima_pagina_a_sacar_tlb_by_fifo E s =
     (if any_tlb_item_is_free s
      then do { t \<leftarrow> get_next_free_tlb_item s; Some (t, s) }
      else let l1 = list_sort_tlb E (\<lambda>a b. tlb_entrada a < tlb_entrada b) (tlb_list s);
               p1 = tlb_fifo_pointer s + 1;
               p2 = (if p1 > cantida_entradas_tlb (datosConfigMemoria E) - 1 then 0 else p1)
           in do { t \<leftarrow> list_get l1 (tlb_fifo_pointer s);
                   Some (t, s\<lparr>tlb_list := l1, tlb_fifo_pointer := p2\<rparr>) })"

definition cargar_pagina_pagina_tlb ::
  "t_pagina \<Rightarrow> int \<Rightarrow> 's memoria \<Rightarrow> 's memoria option" where
  "cargar_pagina_pagina_tlb g marco s =
     do { t \<leftarrow> get_next_free_tlb_item s;
          let (ts, s1) = obtenerTimeStampTLB s;
          Some (modifica_tlb (tlb_entrada t)
            (\<lambda>x. x\<lparr>tlb_pid := pag_pid g, tlb_pagina := pag_pagina g, tlb_marco := marco,
                   tlb_timestamp := ts\<rparr>) s1) }"

text \<open>
  When the frame is already in the TLB the code passes the page \<open>get_page_by_ints(pid, pid)\<close> to
  \<open>vaciar_pagina_tlb\<close>, which takes a TLB item: the stores to \<open>pid\<close>, \<open>pagina\<close> and \<open>marco\<close> of a
  \<open>t_tlb\<close> (byte offsets 4, 8 and 12) fall on \<open>carpincho_pid\<close>, \<open>pagina\<close> and \<open>bit_presencia\<close>
  of the \<open>t_pagina\<close>.
\<close>

definition vaciar_pagina_tlb_de_pagina :: "ptr \<Rightarrow> 's memoria \<Rightarrow> 's memoria option" where
  "vaciar_pagina_tlb_de_pagina p s =
     do { g \<leftarrow> heap s p;
          Some (s\<lparr>heap := (heap s)(p \<mapsto> g\<lparr>pag_pid := 0, pag_pagina := 0, pag_presencia := - 1\<rparr>)\<rparr>) }"

definition actualizar_tlb ::
  "'s entorno \<Rightarrow> t_pagina \<Rightarrow> int \<Rightarrow> 's memoria \<Rightarrow> 's memoria option" where
  "actualizar_tlb E g marco s =
     (if marco \<noteq> - 1
      then do {
        s1 \<leftarrow> print_tlb_status E s;
        (esta, s2) \<leftarrow> is_marco_in_tlb E marco s1;
        if esta
        then do {
          t \<leftarrow> get_tlb_item_by_marco_number s2 marco;
          p \<leftarrow> get_page_by_ints s2 (tlb_pid t) (tlb_pid t);
          q \<leftarrow> p;
          vaciar_pagina_tlb_de_pagina q s2 }
        else do {
          (t, s3) \<leftarrow> (if es_tlb_lru E then proxima_pagina_a_sacar_tlb_by_lru E s2
                      else proxima_pagina_a_sacar_tlb_by_fifo E s2);
          s5 \<leftarrow> cargar_pagina_pagina_tlb g marco (vaciar_pagina_tlb (tlb_entrada t) s3);
          print_tlb_status E s5 } }
      else Some s)"

subsection \<open>Counters\<close>

definition tlb_hit :: "t_pagina \<Rightarrow> 's memoria \<Rightarrow> 's memoria option" where
  "tlb_hit g s =
     do { c \<leftarrow> get_carpincho s (pag_pid g);
          Some (modifica_carpincho (pag_pid g) (\<lambda>c. c\<lparr>crp_tlb_hits := crp_tlb_hits c + 1\<rparr>)
                 (s\<lparr>tlb_hits_totales := tlb_hits_totales s + 1\<rparr>)) }"

definition tlb_miss :: "t_pagina \<Rightarrow> 's memoria \<Rightarrow> 's memoria option" where
  "tlb_miss g s =
     do { c \<leftarrow> get_carpincho s (pag_pid g);
          Some (modifica_carpincho (pag_pid g) (\<lambda>c. c\<lparr>crp_tlb_miss := crp_tlb_miss c + 1\<rparr>)
                 (s\<lparr>tlb_miss_totales := tlb_miss_totales s + 1\<rparr>)) }"

definition vaciar_tlb :: "'s memoria \<Rightarrow> 's memoria" where
  "vaciar_tlb s = s\<lparr>tlb_list := []\<rparr>"

subsection \<open>Dump messages\<close>

definition create_mensaje_dump :: "int \<Rightarrow> int \<Rightarrow> int \<Rightarrow> int \<Rightarrow> 's memoria \<Rightarrow> 's memoria" where
  "create_mensaje_dump carpincho_pid estado pagina marco s =
     s\<lparr>mensajes_dump_list := mensajes_dump_list s @
        [\<lparr>dmp_carpincho_pid = carpincho_pid, dmp_entrada = list_size (mensajes_dump_list s) + 1,
          dmp_estado = estado, dmp_pagina = pagina, dmp_marco = marco\<rparr>]\<rparr>"

definition clear_mensajes_dump :: "'s memoria \<Rightarrow> 's memoria" where
  "clear_mensajes_dump s = s\<lparr>mensajes_dump_list := []\<rparr>"

subsection \<open>Start of the process\<close>

definition inicializarMemoria :: "'s entorno \<Rightarrow> 's \<Rightarrow> 's memoria" where
  "inicializarMemoria E w =
     (let s = \<lparr>CACHE = replicate (nat (tam_mem E)) CHR ''_'',
               cantidad_maxima_marcos = i32 (div_u32 (tam_mem E) (tam_pag E)),
               marcos_list = create_marcos E, carpinchos_list = [], contador_carpinchos = 0,
               contador_timestamp = 0, contador_timestamp_tlb = 0, algoritm_stack_pointer = 0,
               tlb_fifo_pointer = 0, tlb_list = [], mensajes_dump_list = [],
               tlb_hits_totales = 0, tlb_miss_totales = 0, heap = Map.empty, prox_ptr = 0,
               swamp = w\<rparr>
      in create_tlb E s)"

end
