(* ===== verification/Memoria_Reemplazo.thy ===== *)
theory Memoria_Reemplazo
  imports Memoria_Tlb
begin

section \<open>Memoria: choosing the page to send to swap\<close>

text \<open>
  The candidate lists of the two allocation schemes (every page present in memory, or the pages
  of one process that hold a frame) and the two replacement algorithms of \<^verbatim>\<open>memory.c\<close>,
  LRU and M-CLOCK.
\<close>

subsection \<open>Candidates\<close>

definition presente :: "'s memoria \<Rightarrow> ptr \<Rightarrow> bool option" where
  "presente s p = do { g \<leftarrow> heap s p; Some (pag_presencia g \<noteq> 0) }"

definition get_all_pages_in_cache :: "'s memoria \<Rightarrow> ptr list option" where
  "get_all_pages_in_cache s =
     filtrar (presente s) (concat (map crp_paginas (carpinchos_list s)))"

definition pagina_is_in_cache :: "'s memoria \<Rightarrow> t_pagina \<Rightarrow> bool" where
  "pagina_is_in_cache s g \<longleftrightarrow>
     filter (\<lambda>m. mrc_pid m = pag_pid g \<and> mrc_pagina m = pag_pagina g) (marcos_list s) \<noteq> []"

definition en_cache :: "'s memoria \<Rightarrow> ptr \<Rightarrow> bool option" where
  "en_cache s p = do { g \<leftarrow> heap s p; Some (pagina_is_in_cache s g) }"

definition get_pages_in_cache_by_carpincho_pid :: "'s memoria \<Rightarrow> int \<Rightarrow> ptr list option" where
  "get_pages_in_cache_by_carpincho_pid s carpincho =
     do { c \<leftarrow> get_carpincho s carpincho; filtrar (en_cache s) (crp_paginas c) }"

definition candidatas :: "'s entorno \<Rightarrow> int \<Rightarrow> 's memoria \<Rightarrow> ptr list option" where
  "candidatas E carpincho s =
     (if es_fija E then get_pages_in_cache_by_carpincho_pid s carpincho
      else get_all_pages_in_cache s)"

subsection \<open>LRU\<close>

definition clave_timestamp :: "'s memoria \<Rightarrow> ptr \<Rightarrow> int" where
  "clave_timestamp s p = (case heap s p of Some g \<Rightarrow> pag_timestamp g | None \<Rightarrow> 0)"

definition clave_marco :: "'s memoria \<Rightarrow> ptr \<Rightarrow> int" where
  "clave_marco s p = (case heap s p of Some g \<Rightarrow> pag_marco g | None \<Rightarrow> 0)"

definition get_proxima_a_swampear_by_lru :: "'s entorno \<Rightarrow> ptr list \<Rightarrow> 's memoria \<Rightarrow> ptr option" where
  "get_proxima_a_swampear_by_lru E paginas s =
     list_get (list_sort_pagina E (\<lambda>p q. clave_timestamp s p < clave_timestamp s q) paginas) 0"

subsection \<open>M-CLOCK\<close>

text \<open>
  One pass of the inner loop over the pages from index \<open>j\<close> on: it stops at the first page with
  use bit 0 and the modification bit looked for, and the second pass (\<open>i = 1\<close>) clears the use bit
  of the pages it steps over.
\<close>

fun m_clock_pasada ::
  "nat \<Rightarrow> int \<Rightarrow> int \<Rightarrow> ptr list \<Rightarrow> (ptr \<Rightarrow> t_pagina option) \<Rightarrow>
   ((ptr \<times> int) option \<times> (ptr \<Rightarrow> t_pagina option)) option" where
  "m_clock_pasada i edit_bit_searched j [] h = Some (None, h)"
| "m_clock_pasada i edit_bit_searched j (p # ps) h =
     do { g \<leftarrow> h p;
          if pag_uso g = 0 \<and> pag_modif g = edit_bit_searched then Some (Some (p, j), h)
          else m_clock_pasada i edit_bit_searched (j + 1) ps
                 (if i = 1 then h(p \<mapsto> g\<lparr>pag_uso := 0\<rparr>) else h) }"

text \<open>
  The outer loop, four times; every pass starts again at the pointer. Falling out of the loop
  falls off the end of the function.
\<close>

fun m_clock_bucle ::
  "nat list \<Rightarrow> int \<Rightarrow> int \<Rightarrow> ptr list \<Rightarrow> (ptr \<Rightarrow> t_pagina option) \<Rightarrow>
   ((ptr \<times> int) \<times> (ptr \<Rightarrow> t_pagina option)) option" where
  "m_clock_bucle [] edit_bit_searched j ps h = None"
| "m_clock_bucle (i # is) edit_bit_searched j ps h =
     do { (r, h1) \<leftarrow> m_clock_pasada i edit_bit_searched j ps h;
          (case r of Some pj \<Rightarrow> Some (pj, h1)
           | None \<Rightarrow> m_clock_bucle is (if i = 0 \<or> i = 2 then 1 else 0) j ps h1) }"

definition get_proxima_a_swampear_by_m_clock ::
  "'s entorno \<Rightarrow> ptr list \<Rightarrow> 's memoria \<Rightarrow> (ptr \<times> 's memoria) option" where
  "get_proxima_a_swampear_by_m_clock E paginas0 s =
     (let stack_size = list_size paginas0;
          paginas = list_sort_pagina E (\<lambda>p q. clave_marco s p < clave_marco s q) paginas0
      in do {
        c \<leftarrow> (if es_fija E
              then do { p \<leftarrow> list_get paginas 0; g \<leftarrow> heap s p;
                        c \<leftarrow> get_carpincho s (pag_pid g); Some (Some c) }
              else Some None);
        let last_pointer_position =
          (case c of Some c \<Rightarrow> crp_stack_pointer c | None \<Rightarrow> algoritm_stack_pointer s);
        _ \<leftarrow> exige (0 \<le> last_pointer_position);
        ((p, j), h) \<leftarrow> m_clock_bucle [0, 1, 2, 3] 0 last_pointer_position
                         (drop (nat last_pointer_position) paginas) (heap s);
        let puntero = (if j + 1 \<ge> stack_size then 0 else j + 1);
        let s1 = s\<lparr>heap := h\<rparr>;
        Some (p, case c of
            Some c \<Rightarrow> modifica_carpincho (crp_pid c) (\<lambda>c. c\<lparr>crp_stack_pointer := puntero\<rparr>) s1
          | None \<Rightarrow> s1\<lparr>algoritm_stack_pointer := puntero\<rparr>) })"

definition elegir_victima ::
  "'s entorno \<Rightarrow> ptr list \<Rightarrow> 's memoria \<Rightarrow> (ptr \<times> 's memoria) option" where
  "elegir_victima E paginas s =
     (if es_m_clock E then get_proxima_a_swampear_by_m_clock E paginas s
      else do { p \<leftarrow> get_proxima_a_swampear_by_lru E paginas s; Some (p, s) })"

end
