(* ===== verification/Memoria_Paginas.thy ===== *)
theory Memoria_Paginas
  imports Memoria_Reemplazo
begin

section \<open>Memoria: paging\<close>

text \<open>
  The client side of the swap protocol, eviction and loading of pages, the lookup of the frame of
  a page, creation of pages, and reading and writing inside one page (\<^verbatim>\<open>memory.c\<close>, with
  the requests of \<^verbatim>\<open>client.c\<close>).
\<close>

subsection \<open>Requests to the swap server\<close>

text \<open>
  The page is sent as a C string: up to the first NUL byte, wherever in memory that is.
\<close>

definition serializar_escritura_swap :: "'s entorno \<Rightarrow> char list \<Rightarrow> char list option" where
  "serializar_escritura_swap E msg = cadena_c msg (resto_heap E msg)"

definition enviar_escritura_swap ::
  "'s entorno \<Rightarrow> int \<Rightarrow> int \<Rightarrow> char list \<Rightarrow> 's memoria \<Rightarrow> (int \<times> 's memoria) option" where
  "enviar_escritura_swap E pid_carpincho pagina msg s =
     do { stream \<leftarrow> serializar_escritura_swap E msg;
          (resultado, w) \<leftarrow> srv_escribir E pid_carpincho pagina stream (swamp s);
          Some (resultado, s\<lparr>swamp := w\<rparr>) }"

definition lectura_swamp ::
  "'s entorno \<Rightarrow> int \<Rightarrow> int \<Rightarrow> int \<Rightarrow> 's memoria \<Rightarrow> (int \<times> 's memoria) option" where
  "lectura_swamp E pid_carpincho pagina marco s =
     do { (contenidoLectura, w) \<leftarrow> srv_leer E pid_carpincho pagina (swamp s);
          (case contenidoLectura of
             None \<Rightarrow> Some (- 1, s\<lparr>swamp := w\<rparr>)
           | Some c \<Rightarrow>
               do { (_, s1) \<leftarrow> escribir_en_cache E marco c (tam_pag E) 0 (s\<lparr>swamp := w\<rparr>);
                    Some (0, s1) }) }"

definition enviar_consulta_puede_escribir_en_swap ::
  "'s entorno \<Rightarrow> int \<Rightarrow> int \<Rightarrow> 's memoria \<Rightarrow> (int \<times> 's memoria) option" where
  "enviar_consulta_puede_escribir_en_swap E carpinchoID cantPag s =
     do { (resultado, w) \<leftarrow> srv_puede_escribir E carpinchoID cantPag (swamp s);
          Some (resultado, s\<lparr>swamp := w\<rparr>) }"

subsection \<open>Emptying a frame\<close>

definition vaciar_marco_en_cache :: "'s entorno \<Rightarrow> int \<Rightarrow> 's memoria \<Rightarrow> 's memoria option" where
  "vaciar_marco_en_cache E marco s =
     do { m \<leftarrow> list_get (marcos_list s) marco;
          cache \<leftarrow> copia_bytes (CACHE s) (get_marco_ptr E marco)
                     (replicate (nat (tam_pag E)) CHR ''_'');
          (esta, s1) \<leftarrow> is_marco_in_tlb E marco (s\<lparr>CACHE := cache\<rparr>);
          s2 \<leftarrow> (if esta then do { t \<leftarrow> get_tlb_item_by_marco_number s1 marco;
                                   Some (vaciar_pagina_tlb (tlb_entrada t) s1) }
                 else Some s1);
          Some (modifica_marco (mrc_marco m)
                  (\<lambda>m. m\<lparr>mrc_isFree := True, mrc_pagina := 0, mrc_pid := 0\<rparr>) s2) }"

definition vaciar_pagina :: "'s entorno \<Rightarrow> ptr \<Rightarrow> 's memoria \<Rightarrow> (int \<times> 's memoria) option" where
  "vaciar_pagina E p s =
     do { g \<leftarrow> heap s p;
          if pag_presencia g = 0 then Some (0, s)
          else do { s1 \<leftarrow> vaciar_marco_en_cache E (pag_marco g) s;
                    Some (1, s1\<lparr>heap := (heap s1)(p \<mapsto> g\<lparr>pag_presencia := 0\<rparr>)\<rparr>) } }"

subsection \<open>Eviction\<close>

text \<open>
  The part that \<open>swampear_pagina\<close> and \<open>swampear_pagina_when_create_page\<close> share: write the victim
  to swap (unless M-CLOCK finds it unmodified), empty its frame, and give the frame to the new page.
  It returns the number of the frame.
\<close>

definition desalojar ::
  "'s entorno \<Rightarrow> ptr \<Rightarrow> int \<Rightarrow> int \<Rightarrow> 's memoria \<Rightarrow> (int \<times> 's memoria) option" where
  "desalojar E v carpincho pagina s =
     do { g \<leftarrow> heap s v;
          s1 \<leftarrow> (if es_m_clock E \<and> pag_modif g = 0 then Some s
                 else do { r \<leftarrow> retornar_contenido E s (pag_marco g) 0 (tam_pag E);
                           contenido \<leftarrow> r;
                           (_, s1) \<leftarrow> enviar_escritura_swap E (pag_pid g) (pag_pagina g) contenido s;
                           Some s1 });
          s2 \<leftarrow> vaciar_marco_en_cache E (pag_marco g) s1;
          m \<leftarrow> get_marco_by_marco_number s2 (pag_marco g);
          let s3 = modifica_marco (mrc_marco m)
            (\<lambda>m. m\<lparr>mrc_pagina := pagina, mrc_pid := carpincho, mrc_isFree := False\<rparr>) s2;
          Some (mrc_marco m,
                s3\<lparr>heap := (heap s3)(v \<mapsto> g\<lparr>pag_presencia := 0, pag_marco := 0\<rparr>)\<rparr>) }"

definition swampear_pagina ::
  "'s entorno \<Rightarrow> int \<Rightarrow> int \<Rightarrow> 's memoria \<Rightarrow> (int \<times> 's memoria) option" where
  "swampear_pagina E carpincho pagina s =
     do { paginas \<leftarrow> candidatas E carpincho s;
          (v, s1) \<leftarrow> elegir_victima E paginas s;
          g \<leftarrow> heap s1 v;
          if \<not> pagina_is_in_cache s1 g then Some (- 1, s1)
          else do {
            (marco, s2) \<leftarrow> desalojar E v carpincho pagina s1;
            (r, s3) \<leftarrow> lectura_swamp E carpincho pagina marco s2;
            if r \<noteq> - 1 then Some (marco, s3) else Some (- 1, s3) } }"

definition swampear_pagina_when_create_page ::
  "'s entorno \<Rightarrow> int \<Rightarrow> int \<Rightarrow> 's memoria \<Rightarrow> (int \<times> 's memoria) option" where
  "swampear_pagina_when_create_page E carpincho pagina s =
     do { paginas \<leftarrow> candidatas E carpincho s;
          (v, s1) \<leftarrow> elegir_victima E paginas s;
          desalojar E v carpincho pagina s1 }"

subsection \<open>The frame of a page\<close>

text \<open>
  \<open>obtener_marco_para_pagina\<close> and \<open>get_marco_de_tlb\<close> call each other: when the TLB item of
  the page names a frame that now holds another page, the item is emptied and the lookup starts
  again. The recursion is written out here with \<open>get_marco_de_tlb\<close> in place; it is stated
  as a function of its own below.
\<close>

partial_function (option) obtener_marco_para_pagina ::
  "'s entorno \<Rightarrow> ptr \<Rightarrow> 's memoria \<Rightarrow> (int \<times> 's memoria) option" where
  "obtener_marco_para_pagina E p s =
     do { g \<leftarrow> heap s p;
          if pagina_is_in_tlb s g
          then do {
            s1 \<leftarrow> tlb_hit g s;
            t \<leftarrow> get_tlb_item s1 g;
            m \<leftarrow> get_marco_by_marco_number s1 (tlb_marco t);
            (marco, s2) \<leftarrow>
              (if \<not> (mrc_pagina m = pag_pagina g \<and> mrc_pid m = pag_pid g)
               then obtener_marco_para_pagina E p (vaciar_pagina_tlb (tlb_entrada t) s1)
               else Some (tlb_marco t, s1));
            if es_tlb_lru E
            then do { g2 \<leftarrow> heap s2 p;
                      t2 \<leftarrow> get_tlb_item s2 g2;
                      let (ts, s3) = obtenerTimeStamp s2;
                      Some (marco, modifica_tlb (tlb_entrada t2) (\<lambda>x. x\<lparr>tlb_timestamp := ts\<rparr>) s3) }
            else Some (marco, s2) }
          else do {
            (marco, s2) \<leftarrow>
              (if pagina_is_in_cache s g
               then do { s1 \<leftarrow> tlb_miss g s;
                         Some (obtener_marco_de_cache s1 (pag_pid g) (pag_pagina g), s1) }
               else do { s1 \<leftarrow> tlb_hit g s;
                         swampear_pagina E (pag_pid g) (pag_pagina g) s1 });
            g2 \<leftarrow> heap s2 p;
            s3 \<leftarrow> actualizar_tlb E g2 marco s2;
            Some (marco, s3) } }"

definition get_marco_de_tlb ::
  "'s entorno \<Rightarrow> ptr \<Rightarrow> 's memoria \<Rightarrow> (int \<times> 's memoria) option" where
  "get_marco_de_tlb E p s =
     do { g \<leftarrow> heap s p;
          if \<not> pagina_is_in_tlb s g then Some (- 1, s)
          else do {
            t \<leftarrow> get_tlb_item s g;
            m \<leftarrow> get_marco_by_marco_number s (tlb_marco t);
            if \<not> (mrc_pagina m = pag_pagina g \<and> mrc_pid m = pag_pid g)
            then obtener_marco_para_pagina E p (vaciar_pagina_tlb (tlb_entrada t) s)
            else Some (tlb_marco t, s) } }"

subsection \<open>Creating a page\<close>

definition can_carpincho_add_marco_to_page ::
  "'s entorno \<Rightarrow> t_carpincho \<Rightarrow> 's memoria \<Rightarrow> bool option" where
  "can_carpincho_add_marco_to_page E c s =
     do { paginas \<leftarrow> get_all_pages_in_cache s;
          Some (if es_dinamica E
                then list_size paginas \<le> cantidad_maxima_marcos s \<and> any_marco_free s
                else list_size paginas \<le> cantidad_maxima_marcos s \<and> any_marco_free s \<and>
                     amount_frame_used_by_carpincho s c
                       < marcos_por_carpincho (datosConfigMemoria E)) }"

text \<open>The new page object, at a fresh address; the fields the code does not set keep what
  \<open>malloc\<close> left there.\<close>

definition create_pagina :: "'s entorno \<Rightarrow> int \<Rightarrow> 's memoria \<Rightarrow> (ptr \<times> 's memoria) option" where
  "create_pagina E carpincho s =
     do { c \<leftarrow> get_carpincho s carpincho;
          before_value \<leftarrow> can_carpincho_add_marco_to_page E c s;
          let p = prox_ptr s;
          let pagina = list_size (crp_paginas c) + 1;
          let s0 = s\<lparr>prox_ptr := Suc p\<rparr>;
          (marco, s1) \<leftarrow>
            (if before_value
             then do { m \<leftarrow> get_free_marco E s0; Some (mrc_marco m, s0) }
             else do { (n, s1) \<leftarrow> swampear_pagina_when_create_page E (crp_pid c) pagina s0;
                       m \<leftarrow> get_marco_by_marco_number s1 n;
                       Some (mrc_marco m, s1) });
          let s2 = modifica_marco marco
            (\<lambda>m. m\<lparr>mrc_pid := crp_pid c, mrc_pagina := pagina, mrc_isFree := False\<rparr>) s1;
          let g = (basura_pagina E p)\<lparr>pag_pagina := pagina, pag_pid := crp_pid c,
                     pag_carp_num := crp_numero c, pag_marco := marco, pag_presencia := 1\<rparr>;
          s3 \<leftarrow> actualizar_tlb E g marco s2;
          let (g1, s4) =
            (if es_m_clock E then (g\<lparr>pag_uso := 1, pag_modif := 0\<rparr>, s3)
             else let (ts, s') = obtenerTimeStamp s3 in (g\<lparr>pag_timestamp := ts\<rparr>, s'));
          let s5 = modifica_carpincho (crp_pid c) (\<lambda>c. c\<lparr>crp_paginas := crp_paginas c @ [p]\<rparr>)
                     (s4\<lparr>heap := (heap s4)(p \<mapsto> g1)\<rparr>);
          s6 \<leftarrow> imprimir_marcos E s5;
          Some (p, s6) }"

fun asignar_paginas_carpincho :: "'s entorno \<Rightarrow> int \<Rightarrow> nat \<Rightarrow> 's memoria \<Rightarrow> 's memoria option" where
  "asignar_paginas_carpincho E carpincho 0 s = Some s"
| "asignar_paginas_carpincho E carpincho (Suc n) s =
     do { (_, s1) \<leftarrow> create_pagina E carpincho s;
          asignar_paginas_carpincho E carpincho n s1 }"

subsection \<open>Reading and writing inside a page\<close>

definition tocar_tlb_lru :: "'s entorno \<Rightarrow> t_pagina \<Rightarrow> 's memoria \<Rightarrow> 's memoria option" where
  "tocar_tlb_lru E g s =
     (if pagina_is_in_tlb s g \<and> es_tlb_lru E
      then do { t \<leftarrow> get_tlb_item s g;
                let (ts, s1) = obtenerTimeStamp s;
                Some (modifica_tlb (tlb_entrada t) (\<lambda>x. x\<lparr>tlb_timestamp := ts\<rparr>) s1) }
      else Some s)"

text \<open>
  \<open>Some (None, s)\<close> is the error pointer. When \<open>retornar_contenido\<close> fails its error pointer is
  printed as a string, which is undefined.
\<close>

definition leer_en_pagina ::
  "'s entorno \<Rightarrow> ptr \<Rightarrow> int \<Rightarrow> int \<Rightarrow> 's memoria \<Rightarrow> (char list option \<times> 's memoria) option" where
  "leer_en_pagina E p n offset s =
     do { g0 \<leftarrow> heap s p;
          s1 \<leftarrow> tocar_tlb_lru E g0 s;
          (marco, s2) \<leftarrow> obtener_marco_para_pagina E p s1;
          g1 \<leftarrow> heap s2 p;
          let g2 = g1\<lparr>pag_marco := marco\<rparr>;
          if marco = - 1 then Some (None, s2\<lparr>heap := (heap s2)(p \<mapsto> g2)\<rparr>)
          else do {
            let g3 = g2\<lparr>pag_presencia := 1\<rparr>;
            let s3 = s2\<lparr>heap := (heap s2)(p \<mapsto> g3)\<rparr>;
            if pagina_is_in_cache s3 g3 \<and> pagina_is_in_tlb s3 g3
            then do {
              r \<leftarrow> retornar_contenido E s3 marco offset n;
              result \<leftarrow> r;
              let (g4, s4) =
                (if es_m_clock E then (g3\<lparr>pag_uso := 1\<rparr>, s3)
                 else let (ts, s') = obtenerTimeStamp s3 in (g3\<lparr>pag_timestamp := ts\<rparr>, s'));
              s5 \<leftarrow> imprimir_marcos E (s4\<lparr>heap := (heap s4)(p \<mapsto> g4)\<rparr>);
              Some (Some result, s5) }
            else Some (None, s3) } }"

definition escribir_en_pagina ::
  "'s entorno \<Rightarrow> ptr \<Rightarrow> char list \<Rightarrow> int \<Rightarrow> int \<Rightarrow> 's memoria \<Rightarrow> (int \<times> 's memoria) option" where
  "escribir_en_pagina E p buffer n offset s =
     do { g0 \<leftarrow> heap s p;
          s1 \<leftarrow> tocar_tlb_lru E g0 s;
          (marco, s2) \<leftarrow> obtener_marco_para_pagina E p s1;
          g1 \<leftarrow> heap s2 p;
          let g2 = g1\<lparr>pag_marco := marco\<rparr>;
          if marco = - 1 then Some (- 1, s2\<lparr>heap := (heap s2)(p \<mapsto> g2)\<rparr>)
          else do {
            let g3 = g2\<lparr>pag_presencia := 1\<rparr>;
            let s3 = s2\<lparr>heap := (heap s2)(p \<mapsto> g3)\<rparr>;
            if pagina_is_in_cache s3 g3 \<and> pagina_is_in_tlb s3 g3
            then do {
              (result, s4) \<leftarrow> escribir_en_cache E marco buffer n offset s3;
              let (g4, s5) =
                (if es_m_clock E then (g3\<lparr>pag_uso := 1, pag_modif := 1\<rparr>, s4)
                 else let (ts, s') = obtenerTimeStamp s4 in (g3\<lparr>pag_timestamp := ts\<rparr>, s'));
              s6 \<leftarrow> imprimir_marcos E (s5\<lparr>heap := (heap s5)(p \<mapsto> g4)\<rparr>);
              Some (result, s6) }
            else Some (- 1, s3) } }"

end
