(* ===== verification/Memoria_Invariante.thy ===== *)
theory Memoria_Invariante
  imports Memoria_Paginas
begin

section \<open>Memoria: the invariant of paging\<close>

text \<open>
  What must hold between frames, TLB, page objects and processes, and the operations on the TLB
  and on the frames under it. The parts of the state that only the TLB and the counters own are
  separated from the rest (\<open>datos\<close>), so that a lookup is known to leave the rest alone.
\<close>

named_theorems datos_simps \<open>operations that leave the data alone\<close>

subsection \<open>The invariant\<close>

definition marcos_ok :: "'s entorno \<Rightarrow> 's memoria \<Rightarrow> bool" where
  "marcos_ok E s \<longleftrightarrow>
     0 < tam_pag E \<and> tam_pag E < 2147483648 \<and>
     list_size (marcos_list s) * tam_pag E \<le> list_size (CACHE s) \<and>
     (\<forall>i<length (marcos_list s). mrc_marco (marcos_list s ! i) = int i)"

text \<open>Frame \<open>i\<close> holds page \<open>pagina\<close> of \<open>pid\<close>.\<close>

definition ocupa :: "t_marco list \<Rightarrow> int \<Rightarrow> int \<Rightarrow> int \<Rightarrow> bool" where
  "ocupa ms i pid pagina \<longleftrightarrow>
     0 \<le> i \<and> i < list_size ms \<and> \<not> mrc_isFree (ms ! nat i) \<and>
     mrc_pid (ms ! nat i) = pid \<and> mrc_pagina (ms ! nat i) = pagina"

definition item_ok :: "t_marco list \<Rightarrow> t_tlb \<Rightarrow> bool" where
  "item_ok ms t \<longleftrightarrow>
     (if tlb_pid t = 0 then tlb_marco t = - 1
      else ocupa ms (tlb_marco t) (tlb_pid t) (tlb_pagina t))"

definition tlb_ok :: "'s entorno \<Rightarrow> 's memoria \<Rightarrow> bool" where
  "tlb_ok E s \<longleftrightarrow>
     tlb_list s \<noteq> [] \<and> list_size (tlb_list s) = cantida_entradas_tlb (datosConfigMemoria E) \<and>
     0 \<le> tlb_fifo_pointer s \<and> tlb_fifo_pointer s < list_size (tlb_list s) \<and>
     distinct (map tlb_entrada (tlb_list s)) \<and>
     (\<forall>t\<in>set (tlb_list s). item_ok (marcos_list s) t) \<and>
     (\<forall>t\<in>set (tlb_list s). \<forall>u\<in>set (tlb_list s).
        tlb_marco t = tlb_marco u \<longrightarrow> tlb_marco t \<noteq> - 1 \<longrightarrow> t = u)"

text \<open>The pages of a process are numbered from 1 in the order of its list.\<close>

definition paginas_ok :: "(ptr \<Rightarrow> t_pagina option) \<Rightarrow> t_carpincho \<Rightarrow> bool" where
  "paginas_ok h c \<longleftrightarrow>
     (\<forall>k<length (crp_paginas c). \<exists>g. h (crp_paginas c ! k) = Some g \<and>
        pag_pid g = crp_pid c \<and> pag_pagina g = int k + 1 \<and> pag_presencia g \<in> {0, 1})"

definition procesos_ok :: "'s memoria \<Rightarrow> bool" where
  "procesos_ok s \<longleftrightarrow>
     distinct (map crp_pid (carpinchos_list s)) \<and>
     (\<forall>c\<in>set (carpinchos_list s). crp_pid c \<noteq> 0 \<and> paginas_ok (heap s) c \<and>
        (\<forall>p\<in>set (crp_paginas c). p < prox_ptr s))"

definition paginas_de :: "'s memoria \<Rightarrow> ptr set" where
  "paginas_de s = (\<Union>c\<in>set (carpinchos_list s). set (crp_paginas c))"

text \<open>A page is present exactly when a frame holds it, and then it names that frame.\<close>

definition presencia_ok :: "'s memoria \<Rightarrow> bool" where
  "presencia_ok s \<longleftrightarrow>
     (\<forall>p\<in>paginas_de s. \<forall>g. heap s p = Some g \<longrightarrow> pag_presencia g \<noteq> 0 \<longrightarrow>
        ocupa (marcos_list s) (pag_marco g) (pag_pid g) (pag_pagina g)) \<and>
     (\<forall>i<length (marcos_list s).
        if mrc_isFree (marcos_list s ! i)
        then mrc_pid (marcos_list s ! i) = 0 \<and> mrc_pagina (marcos_list s ! i) = 0
        else \<exists>p\<in>paginas_de s. \<exists>g. heap s p = Some g \<and> pag_presencia g \<noteq> 0 \<and>
               pag_marco g = int i \<and> pag_pid g = mrc_pid (marcos_list s ! i) \<and>
               pag_pagina g = mrc_pagina (marcos_list s ! i))"

definition inv_mem :: "'s entorno \<Rightarrow> 's memoria \<Rightarrow> bool" where
  "inv_mem E s \<longleftrightarrow>
     \<not> en_debug E \<and> marcos_ok E s \<and> tlb_ok E s \<and> procesos_ok s \<and> presencia_ok s"

subsection \<open>The data that lookups leave alone\<close>

definition datos_carp :: "t_carpincho \<Rightarrow> int \<times> int \<times> ptr list \<times> t_alloc list \<times> int" where
  "datos_carp c =
     (crp_pid c, crp_stack_pointer c, crp_paginas c, crp_allocs c, crp_numero c)"

definition datos :: "'s memoria \<Rightarrow> char list \<times> int \<times> t_marco list \<times>
  (int \<times> int \<times> ptr list \<times> t_alloc list \<times> int) list \<times> (ptr \<Rightarrow> t_pagina option) \<times> ptr \<times> 's" where
  "datos s = (CACHE s, cantidad_maxima_marcos s, marcos_list s,
     map datos_carp (carpinchos_list s), heap s, prox_ptr s, swamp s)"

lemma datos_eqD:
  assumes "datos s = datos s'"
  shows "CACHE s = CACHE s'" "marcos_list s = marcos_list s'" "heap s = heap s'"
    "prox_ptr s = prox_ptr s'" "swamp s = swamp s'"
    "cantidad_maxima_marcos s = cantidad_maxima_marcos s'"
    "map datos_carp (carpinchos_list s) = map datos_carp (carpinchos_list s')"
  using assms by (auto simp: datos_def)

lemma datos_proyeccion:
  assumes "map datos_carp cs = map datos_carp ds"
  shows "map crp_pid cs = map crp_pid ds" "map crp_paginas cs = map crp_paginas ds"
    "map crp_allocs cs = map crp_allocs ds"
    "map (\<lambda>c. (crp_pid c, crp_paginas c)) cs = map (\<lambda>c. (crp_pid c, crp_paginas c)) ds"
proof -
  have "map (f \<circ> datos_carp) cs = map (f \<circ> datos_carp) ds" for f :: "_ \<Rightarrow> 'z"
    using assms by (metis map_map)
  from this [of fst] this [of "fst \<circ> snd \<circ> snd"] this [of "fst \<circ> snd \<circ> snd \<circ> snd"]
    this [of "\<lambda>x. (fst x, fst (snd (snd x)))"]
  show "map crp_pid cs = map crp_pid ds" "map crp_paginas cs = map crp_paginas ds"
    "map crp_allocs cs = map crp_allocs ds"
    "map (\<lambda>c. (crp_pid c, crp_paginas c)) cs = map (\<lambda>c. (crp_pid c, crp_paginas c)) ds"
    by (simp_all add: datos_carp_def comp_def)
qed

lemma procesos_ok_alt:
  "procesos_ok s \<longleftrightarrow>
     distinct (map crp_pid (carpinchos_list s)) \<and>
     (\<forall>(pid, ps)\<in>set (map (\<lambda>c. (crp_pid c, crp_paginas c)) (carpinchos_list s)).
        pid \<noteq> 0 \<and> (\<forall>k<length ps. \<exists>g. heap s (ps ! k) = Some g \<and>
        pag_pid g = pid \<and> pag_pagina g = int k + 1 \<and> pag_presencia g \<in> {0, 1}) \<and>
        (\<forall>p\<in>set ps. p < prox_ptr s))"
  by (auto simp: procesos_ok_def paginas_ok_def)

lemma paginas_de_alt: "paginas_de s = \<Union> (set (map set (map crp_paginas (carpinchos_list s))))"
  by (simp add: paginas_de_def)

lemma datos_paginas_de: "datos s = datos s' \<Longrightarrow> paginas_de s = paginas_de s'"
  unfolding paginas_de_alt by (drule datos_eqD(7), drule datos_proyeccion(2)) (simp only:)

lemma datos_procesos_ok:
  assumes "datos s = datos s'"
  shows "procesos_ok s = procesos_ok s'"
  unfolding procesos_ok_alt datos_proyeccion(1,4) [OF datos_eqD(7) [OF assms]]
    datos_eqD(3,4) [OF assms] by (rule refl)

lemma datos_presencia_ok:
  assumes "datos s = datos s'"
  shows "presencia_ok s = presencia_ok s'"
  unfolding presencia_ok_def datos_paginas_de [OF assms] datos_eqD(2,3) [OF assms] by (rule refl)

lemma datos_marcos_ok:
  assumes "datos s = datos s'"
  shows "marcos_ok E s = marcos_ok E s'"
  unfolding marcos_ok_def datos_eqD(1,2) [OF assms] by (rule refl)

lemma inv_mem_datos:
  assumes "inv_mem E s" and "datos s' = datos s" and "tlb_ok E s'"
  shows "inv_mem E s'"
  using assms datos_procesos_ok [of s' s] datos_presencia_ok [of s' s] datos_marcos_ok [of s' s E]
  by (simp add: inv_mem_def)

text \<open>
  The invariant reads four fields of a page and two of a process.
\<close>

definition clave_pag :: "t_pagina \<Rightarrow> int \<times> int \<times> int \<times> int" where
  "clave_pag g = (pag_pid g, pag_pagina g, pag_presencia g, pag_marco g)"

definition vista :: "'s memoria \<Rightarrow> ptr \<Rightarrow> (int \<times> int \<times> int \<times> int) option" where
  "vista s p = map_option clave_pag (heap s p)"

lemma vista_Some:
  "vista s p = Some (a, b, c, d) \<longleftrightarrow> (\<exists>g. heap s p = Some g \<and> pag_pid g = a \<and> pag_pagina g = b \<and>
     pag_presencia g = c \<and> pag_marco g = d)"
  by (auto simp: vista_def clave_pag_def)

definition procesos_vista ::
  "(int \<times> ptr list) list \<Rightarrow> ptr \<Rightarrow> (ptr \<Rightarrow> (int \<times> int \<times> int \<times> int) option) \<Rightarrow> bool" where
  "procesos_vista cs n v \<longleftrightarrow>
     distinct (map fst cs) \<and>
     (\<forall>(pid, ps)\<in>set cs. pid \<noteq> 0 \<and> (\<forall>p\<in>set ps. p < n) \<and>
        (\<forall>k<length ps. \<exists>c\<in>{0, 1}. \<exists>d. v (ps ! k) = Some (pid, int k + 1, c, d)))"

definition presencia_vista ::
  "ptr set \<Rightarrow> t_marco list \<Rightarrow> (ptr \<Rightarrow> (int \<times> int \<times> int \<times> int) option) \<Rightarrow> bool" where
  "presencia_vista P ms v \<longleftrightarrow>
     (\<forall>p\<in>P. \<forall>a b c d. v p = Some (a, b, c, d) \<longrightarrow> c \<noteq> 0 \<longrightarrow> ocupa ms d a b) \<and>
     (\<forall>i<length ms.
        if mrc_isFree (ms ! i) then mrc_pid (ms ! i) = 0 \<and> mrc_pagina (ms ! i) = 0
        else \<exists>p\<in>P. \<exists>c. c \<noteq> 0 \<and> v p = Some (mrc_pid (ms ! i), mrc_pagina (ms ! i), c, int i))"

abbreviation pids_paginas :: "'s memoria \<Rightarrow> (int \<times> ptr list) list" where
  "pids_paginas s \<equiv> map (\<lambda>c. (crp_pid c, crp_paginas c)) (carpinchos_list s)"

lemma procesos_ok_vista:
  "procesos_ok s \<longleftrightarrow> procesos_vista (pids_paginas s) (prox_ptr s) (vista s)"
proof -
  have "(\<exists>g. heap s p = Some g \<and> pag_pid g = a \<and> pag_pagina g = b \<and> pag_presencia g \<in> {0, 1}) \<longleftrightarrow>
      (\<exists>c\<in>{0, 1}. \<exists>d. vista s p = Some (a, b, c, d))" for p a b
    by (auto simp: vista_Some)
  then show ?thesis
    unfolding procesos_ok_alt procesos_vista_def by (auto simp: comp_def)
qed

lemma presencia_ok_vista: "presencia_ok s \<longleftrightarrow> presencia_vista (paginas_de s) (marcos_list s) (vista s)"
proof -
  have 1: "(\<forall>g. heap s p = Some g \<longrightarrow> pag_presencia g \<noteq> 0 \<longrightarrow>
        ocupa (marcos_list s) (pag_marco g) (pag_pid g) (pag_pagina g)) \<longleftrightarrow>
      (\<forall>a b c d. vista s p = Some (a, b, c, d) \<longrightarrow> c \<noteq> 0 \<longrightarrow> ocupa (marcos_list s) d a b)" for p
    by (auto simp: vista_Some)
  have 2: "(\<exists>g. heap s p = Some g \<and> pag_presencia g \<noteq> 0 \<and> pag_marco g = i \<and> pag_pid g = a \<and>
        pag_pagina g = b) \<longleftrightarrow> (\<exists>c. c \<noteq> 0 \<and> vista s p = Some (a, b, c, i))" for p i a b
    by (auto simp: vista_Some)
  show ?thesis unfolding presencia_ok_def presencia_vista_def 1 2 by (rule refl)
qed

lemma paginas_de_pids: "paginas_de s = (\<Union>(pid, ps)\<in>set (pids_paginas s). set ps)"
  by (auto simp: paginas_de_def)

lemma inv_mem_cong:
  assumes "inv_mem E s" "vista s' = vista s" "pids_paginas s' = pids_paginas s"
    "marcos_list s' = marcos_list s" "prox_ptr s' = prox_ptr s"
    "length (CACHE s') = length (CACHE s)" "tlb_ok E s'"
  shows "inv_mem E s'"
  using assms unfolding inv_mem_def procesos_ok_vista presencia_ok_vista paginas_de_pids
  by (auto simp: marcos_ok_def list_size_def)

subsection \<open>Processes\<close>

lemma get_carpincho_find: "get_carpincho s pid = list_find (\<lambda>c. crp_pid c = pid) (carpinchos_list s)"
  by (simp add: get_carpincho_def list_find_def Let_def)

lemma get_carpinchoD:
  assumes "get_carpincho s pid = Some c"
  shows "c \<in> set (carpinchos_list s)" "crp_pid c = pid"
  using list_find_SomeD [of _ _ c] assms by (auto simp: get_carpincho_find)

lemma get_carpincho_mem:
  assumes "procesos_ok s" and "c \<in> set (carpinchos_list s)"
  shows "get_carpincho s (crp_pid c) = Some c"
  unfolding get_carpincho_find
proof (rule list_find_unique [OF assms(2)])
  fix d assume "d \<in> set (carpinchos_list s)" "crp_pid d = crp_pid c"
  moreover have "inj_on crp_pid (set (carpinchos_list s))"
    using assms(1) by (simp add: procesos_ok_def distinct_map)
  ultimately show "d = c" using assms(2) by (auto dest: inj_onD)
qed simp

lemma pagina_viva:
  assumes "procesos_ok s" and "p \<in> paginas_de s"
  obtains g c where "heap s p = Some g" "c \<in> set (carpinchos_list s)" "p \<in> set (crp_paginas c)"
    "pag_pid g = crp_pid c" "pag_pid g \<noteq> 0" "pag_presencia g \<in> {0, 1}" "p < prox_ptr s"
    "get_carpincho s (pag_pid g) = Some c" "pag_pagina g \<ge> 1"
proof -
  obtain c where c: "c \<in> set (carpinchos_list s)" "p \<in> set (crp_paginas c)"
    using assms(2) by (auto simp: paginas_de_def)
  then obtain k where k: "k < length (crp_paginas c)" "crp_paginas c ! k = p"
    by (meson in_set_conv_nth)
  have "paginas_ok (heap s) c" "crp_pid c \<noteq> 0" "p < prox_ptr s"
    using assms(1) c by (auto simp: procesos_ok_def)
  moreover from this k obtain g where "heap s p = Some g" "pag_pid g = crp_pid c"
    "pag_presencia g \<in> {0, 1}" "pag_pagina g = int k + 1"
    by (auto simp: paginas_ok_def)
  ultimately show ?thesis
    using that [of g c] c get_carpincho_mem [OF assms(1) c(1)] by simp
qed

lemma pagina_viva_de:
  assumes "procesos_ok s" "p \<in> paginas_de s" "heap s p = Some g"
  shows "pag_pid g \<noteq> 0" "pag_presencia g \<in> {0, 1}" "p < prox_ptr s" "pag_pagina g \<ge> 1"
    "\<exists>c. get_carpincho s (pag_pid g) = Some c \<and> c \<in> set (carpinchos_list s) \<and> p \<in> set (crp_paginas c)"
  by (rule pagina_viva [OF assms(1,2)]; use assms(3) in force)+

text \<open>A page object is determined by its process and its number.\<close>

lemma pagina_unica:
  assumes "procesos_ok s" "p \<in> paginas_de s" "q \<in> paginas_de s"
    and "heap s p = Some g" "heap s q = Some g'"
    and "pag_pid g = pag_pid g'" "pag_pagina g = pag_pagina g'"
  shows "p = q"
proof -
  have *: "\<exists>c k. c \<in> set (carpinchos_list s) \<and> k < length (crp_paginas c) \<and> crp_paginas c ! k = r \<and>
      pag_pid f = crp_pid c \<and> pag_pagina f = int k + 1"
    if r: "r \<in> paginas_de s" "heap s r = Some f" for r f
  proof -
    obtain c where c: "c \<in> set (carpinchos_list s)" "r \<in> set (crp_paginas c)"
      using r(1) by (auto simp: paginas_de_def)
    then obtain k where k: "k < length (crp_paginas c)" "crp_paginas c ! k = r"
      by (meson in_set_conv_nth)
    with assms(1) c r(2) show ?thesis by (fastforce simp: procesos_ok_def paginas_ok_def)
  qed
  from * [OF assms(2,4)] obtain c k where 1: "c \<in> set (carpinchos_list s)"
    "crp_paginas c ! k = p" "pag_pid g = crp_pid c" "pag_pagina g = int k + 1" by blast
  from * [OF assms(3,5)] obtain d l where 2: "d \<in> set (carpinchos_list s)"
    "crp_paginas d ! l = q" "pag_pid g' = crp_pid d" "pag_pagina g' = int l + 1" by blast
  have "c = d" using 1 2 assms(1,6) get_carpincho_mem by (metis option.inject)
  with 1 2 assms(7) show ?thesis by simp
qed

subsection \<open>Operations that only touch the TLB and the counters\<close>

definition misma_tlb :: "'s memoria \<Rightarrow> 's memoria \<Rightarrow> bool" where
  "misma_tlb s s' \<longleftrightarrow>
     datos s' = datos s \<and> tlb_list s' = tlb_list s \<and> tlb_fifo_pointer s' = tlb_fifo_pointer s"

lemma misma_tlb_refl [simp]: "misma_tlb s s"
  by (simp add: misma_tlb_def)

lemma misma_tlb_ok: "misma_tlb s s' \<Longrightarrow> tlb_ok E s \<Longrightarrow> tlb_ok E s'"
  using datos_eqD(2) [of s' s] by (simp add: misma_tlb_def tlb_ok_def)

lemma modifica_carpincho_datos [datos_simps]:
  "(\<And>c. datos_carp (f c) = datos_carp c) \<Longrightarrow> datos (modifica_carpincho pid f s) = datos s"
  by (simp add: datos_def modifica_carpincho_def comp_def)

lemma modifica_tlb_datos [datos_simps]: "datos (modifica_tlb e f s) = datos s"
  by (simp add: datos_def modifica_tlb_def)

lemma vaciar_pagina_tlb_datos [datos_simps]: "datos (vaciar_pagina_tlb e s) = datos s"
  by (simp add: vaciar_pagina_tlb_def modifica_tlb_datos)

lemma obtenerTimeStamp_misma: "obtenerTimeStamp s = (ts, s') \<Longrightarrow> misma_tlb s s'"
  by (auto simp: obtenerTimeStamp_def misma_tlb_def datos_def)

lemma obtenerTimeStampTLB_misma: "obtenerTimeStampTLB s = (ts, s') \<Longrightarrow> misma_tlb s s'"
  by (auto simp: obtenerTimeStampTLB_def misma_tlb_def datos_def)

lemma tlb_hit_misma:
  assumes "get_carpincho s (pag_pid g) = Some c"
  obtains s' where "tlb_hit g s = Some s'" and "misma_tlb s s'"
  using assms by (simp add: tlb_hit_def misma_tlb_def datos_def modifica_carpincho_def
      comp_def datos_carp_def cong: if_cong)

lemma tlb_miss_misma:
  assumes "get_carpincho s (pag_pid g) = Some c"
  obtains s' where "tlb_miss g s = Some s'" and "misma_tlb s s'"
  using assms by (simp add: tlb_miss_def misma_tlb_def datos_def modifica_carpincho_def
      comp_def datos_carp_def cong: if_cong)

subsection \<open>Rewriting one item of the TLB\<close>

lemma tlb_ok_mset:
  assumes "tlb_ok E s" and "mset (tlb_list s') = mset (tlb_list s)"
    and "marcos_list s' = marcos_list s"
    and "0 \<le> tlb_fifo_pointer s'" "tlb_fifo_pointer s' < list_size (tlb_list s')"
  shows "tlb_ok E s'"
proof -
  have "set (tlb_list s') = set (tlb_list s)" "length (tlb_list s') = length (tlb_list s)"
    using assms(2) by (metis set_mset_mset, metis size_mset)
  moreover have "distinct (map tlb_entrada (tlb_list s'))"
    using assms(1,2) by (metis mset_eq_imp_distinct_iff mset_map tlb_ok_def)
  moreover have "tlb_list s' \<noteq> []" using assms(1,2) by (auto simp: tlb_ok_def)
  ultimately show ?thesis using assms by (simp add: tlb_ok_def list_size_def)
qed

lemma entrada_unica:
  assumes "distinct (map tlb_entrada ts)" "t \<in> set ts" "u \<in> set ts" "tlb_entrada t = tlb_entrada u"
  shows "t = u"
  using assms by (metis distinct_map inj_onD)

lemma tlb_ok_modifica:
  assumes ok: "tlb_ok E s" and t: "t \<in> set (tlb_list s)"
    and f: "tlb_entrada (f t) = tlb_entrada t" "item_ok (marcos_list s) (f t)"
    and libre: "tlb_marco (f t) \<noteq> - 1 \<Longrightarrow>
      (\<And>u. u \<in> set (tlb_list s) \<Longrightarrow> u \<noteq> t \<Longrightarrow> tlb_marco u \<noteq> tlb_marco (f t))"
  shows "tlb_ok E (modifica_tlb (tlb_entrada t) f s)"
proof -
  let ?g = "\<lambda>u. if tlb_entrada u = tlb_entrada t then f u else u"
  have g: "?g u = (if u = t then f t else u)" if "u \<in> set (tlb_list s)" for u
    using that t ok entrada_unica [of "tlb_list s" u t] by (auto simp: tlb_ok_def)
  define ts where "ts = map ?g (tlb_list s)"
  have en: "\<exists>u\<in>set (tlb_list s). x = (if u = t then f t else u)" if "x \<in> set ts" for x
    using that g by (auto simp: ts_def)
  have "map tlb_entrada ts = map tlb_entrada (tlb_list s)"
    using g f(1) by (auto simp: ts_def)
  then have "distinct (map tlb_entrada ts)" using ok by (simp add: tlb_ok_def)
  moreover have "\<forall>x\<in>set ts. item_ok (marcos_list s) x"
    using en f(2) ok by (fastforce simp: tlb_ok_def)
  moreover have "x = y" if xy: "x \<in> set ts" "y \<in> set ts" "tlb_marco x = tlb_marco y"
    "tlb_marco x \<noteq> - 1" for x y
  proof -
    obtain u v where "u \<in> set (tlb_list s)" "x = (if u = t then f t else u)"
      "v \<in> set (tlb_list s)" "y = (if v = t then f t else v)"
      using en xy(1,2) by blast
    with xy(3,4) libre ok show ?thesis by (auto simp: tlb_ok_def split: if_splits)
  qed
  moreover have "tlb_list (modifica_tlb (tlb_entrada t) f s) = ts"
    by (simp add: modifica_tlb_def ts_def)
  moreover have "list_size ts = list_size (tlb_list s)" "ts = [] \<longleftrightarrow> tlb_list s = []"
    by (simp_all add: ts_def list_size_def)
  ultimately show ?thesis
    using ok by (simp add: tlb_ok_def modifica_tlb_def)
qed

lemma vaciar_pagina_tlb_ok:
  "tlb_ok E s \<Longrightarrow> t \<in> set (tlb_list s) \<Longrightarrow> tlb_ok E (vaciar_pagina_tlb (tlb_entrada t) s)"
  unfolding vaciar_pagina_tlb_def by (rule tlb_ok_modifica) (auto simp: item_ok_def)

lemma sellar_tlb_ok:
  assumes "tlb_ok E s" "t \<in> set (tlb_list s)"
  shows "tlb_ok E (modifica_tlb (tlb_entrada t) (\<lambda>x. x\<lparr>tlb_timestamp := ts\<rparr>) s)"
proof (rule tlb_ok_modifica [OF assms])
  show "item_ok (marcos_list s) (t\<lparr>tlb_timestamp := ts\<rparr>)"
    using assms by (auto simp: tlb_ok_def item_ok_def)
qed (use assms in \<open>auto simp: tlb_ok_def\<close>)

subsection \<open>Lookups in the TLB\<close>

lemma filtro_cero: "list_get (filter P xs) 0 = list_find P xs"
  by (simp add: list_find_def)

lemma get_next_free_tlb_itemD:
  "get_next_free_tlb_item s = Some t \<Longrightarrow> t \<in> set (tlb_list s) \<and> tlb_pid t = 0"
  unfolding get_next_free_tlb_item_def filtro_cero by (rule list_find_SomeD)

lemma get_next_free_tlb_itemI:
  assumes "t \<in> set (tlb_list s)" "tlb_pid t = 0"
  obtains f where "get_next_free_tlb_item s = Some f"
  using assms list_find_None_iff [of "\<lambda>t. tlb_pid t = 0" "tlb_list s"]
  by (auto simp: get_next_free_tlb_item_def filtro_cero)

lemma any_tlb_item_is_free_iff:
  "any_tlb_item_is_free s \<longleftrightarrow> (\<exists>t\<in>set (tlb_list s). tlb_pid t = 0)"
  by (auto simp: any_tlb_item_is_free_def filter_empty_conv)

lemma pagina_is_in_tlb_iff: "pagina_is_in_tlb s g \<longleftrightarrow> (\<exists>t\<in>set (tlb_list s). mismo_item g t)"
  by (auto simp: pagina_is_in_tlb_def filter_empty_conv Let_def list_size_def)
    (metis filter_False length_greater_0_conv less_numeral_extra(3) list.size(3) not_less_zero
      of_nat_0 zero_less_one order.asym)

lemma pagina_is_in_tlb_sellar [simp]:
  "pagina_is_in_tlb (modifica_tlb e (\<lambda>x. x\<lparr>tlb_timestamp := ts\<rparr>) s) g = pagina_is_in_tlb s g"
proof -
  have "mismo_item g (t\<lparr>tlb_timestamp := ts\<rparr>) = mismo_item g t" for t
    by (simp add: mismo_item_def)
  then show ?thesis
    unfolding pagina_is_in_tlb_iff by (auto simp: modifica_tlb_def)
qed

lemma pagina_is_in_tlb_misma: "misma_tlb s s' \<Longrightarrow> pagina_is_in_tlb s' g = pagina_is_in_tlb s g"
  by (simp add: misma_tlb_def pagina_is_in_tlb_iff)

lemma get_tlb_item_find: "get_tlb_item s g = list_find (mismo_item g) (tlb_list s)"
  by (simp add: get_tlb_item_def filtro_cero)

lemma get_tlb_itemI:
  assumes "pagina_is_in_tlb s g"
  obtains t where "get_tlb_item s g = Some t" "t \<in> set (tlb_list s)" "mismo_item g t"
  using assms list_find_None_iff list_find_SomeD
  unfolding pagina_is_in_tlb_iff get_tlb_item_find by (metis not_None_eq)

lemma print_tlb_status_nodebug [simp]: "\<not> en_debug E \<Longrightarrow> print_tlb_status E s = Some s"
  by (simp add: print_tlb_status_def)

lemma imprimir_marcos_nodebug [simp]: "\<not> en_debug E \<Longrightarrow> imprimir_marcos E s = Some s"
  by (simp add: imprimir_marcos_def)

lemma is_marco_in_tlb_nodebug [simp]:
  "\<not> en_debug E \<Longrightarrow>
   is_marco_in_tlb E m s = Some (\<exists>t\<in>set (tlb_list s). tlb_marco t = m, s)"
  by (auto simp: is_marco_in_tlb_def Let_def filter_empty_conv)

subsection \<open>Replacement in the TLB\<close>

text \<open>
  What \<open>actualizar_tlb\<close> needs of a replacement algorithm: it answers with an item of the TLB, a free
  one if there is any, and only reorders the list.
\<close>

locale reemplazo_tlb =
  fixes elegir :: "'s entorno \<Rightarrow> 's memoria \<Rightarrow> (t_tlb \<times> 's memoria) option"
  assumes elegir: "tlb_ok E s \<Longrightarrow> ordena (list_sort_tlb E) \<Longrightarrow>
    \<exists>t s'. elegir E s = Some (t, s') \<and> t \<in> set (tlb_list s) \<and> datos s' = datos s \<and>
      mset (tlb_list s') = mset (tlb_list s) \<and> tlb_ok E s' \<and>
      (tlb_pid t = 0 \<or> \<not> any_tlb_item_is_free s)"
begin

lemma cargar_en_victima:
  assumes "tlb_ok E s" "ordena (list_sort_tlb E)"
    and oc: "ocupa (marcos_list s) i (pag_pid g) (pag_pagina g)" "pag_pid g \<noteq> 0"
    and no: "\<And>t. t \<in> set (tlb_list s) \<Longrightarrow> tlb_marco t \<noteq> i"
  obtains t s1 s2 where "elegir E s = Some (t, s1)"
    "cargar_pagina_pagina_tlb g i (vaciar_pagina_tlb (tlb_entrada t) s1) = Some s2"
    "datos s2 = datos s" "tlb_ok E s2" "pagina_is_in_tlb s2 g"
proof -
  obtain t s1 where el: "elegir E s = Some (t, s1)" and t: "t \<in> set (tlb_list s)"
    and d1: "datos s1 = datos s" and ms: "mset (tlb_list s1) = mset (tlb_list s)"
    and ok1: "tlb_ok E s1"
    using elegir [OF assms(1,2)] by blast
  have set1: "set (tlb_list s1) = set (tlb_list s)" using ms by (metis set_mset_mset)
  let ?v = "vaciar_pagina_tlb (tlb_entrada t) s1"
  have okv: "tlb_ok E ?v" using ok1 t set1 vaciar_pagina_tlb_ok by blast
  have dv: "datos ?v = datos s" by (simp add: datos_simps d1)
  have tv: "t\<lparr>tlb_pid := 0, tlb_pagina := 0, tlb_marco := - 1\<rparr> \<in> set (tlb_list ?v)"
    using t set1 by (force simp: vaciar_pagina_tlb_def modifica_tlb_def)
  have nov: "tlb_marco u \<noteq> i" if "u \<in> set (tlb_list ?v)" for u
    using that no set1 oc(1)
    by (auto simp: vaciar_pagina_tlb_def modifica_tlb_def ocupa_def split: if_splits)
  obtain f where f: "get_next_free_tlb_item ?v = Some f"
    using get_next_free_tlb_itemI [OF tv] by auto
  then have fm: "f \<in> set (tlb_list ?v)" using get_next_free_tlb_itemD by blast
  obtain ts s' where ts: "obtenerTimeStampTLB ?v = (ts, s')" by force
  have m: "misma_tlb ?v s'" using ts by (rule obtenerTimeStampTLB_misma)
  let ?c = "\<lambda>x. x\<lparr>tlb_pid := pag_pid g, tlb_pagina := pag_pagina g, tlb_marco := i,
                 tlb_timestamp := ts\<rparr>"
  have fm': "f \<in> set (tlb_list s')" using fm m by (simp add: misma_tlb_def)
  have mar: "marcos_list s' = marcos_list s"
    using m dv datos_eqD(2) by (metis misma_tlb_def)
  have ok2: "tlb_ok E (modifica_tlb (tlb_entrada f) ?c s')"
  proof (rule tlb_ok_modifica [OF misma_tlb_ok [OF m okv] fm'])
    show "item_ok (marcos_list s') (?c f)" using oc mar by (simp add: item_ok_def)
    show "tlb_marco u \<noteq> tlb_marco (?c f)" if "u \<in> set (tlb_list s')" for u
      using nov [of u] that m by (simp add: misma_tlb_def)
  qed simp
  have "?c f \<in> set (tlb_list (modifica_tlb (tlb_entrada f) ?c s'))"
    using fm' by (force simp: modifica_tlb_def)
  then have "pagina_is_in_tlb (modifica_tlb (tlb_entrada f) ?c s') g"
    unfolding pagina_is_in_tlb_iff by (intro bexI [of _ "?c f"]) (simp_all add: mismo_item_def)
  moreover have "cargar_pagina_pagina_tlb g i ?v = Some (modifica_tlb (tlb_entrada f) ?c s')"
    using f ts by (simp add: cargar_pagina_pagina_tlb_def)
  moreover have "datos (modifica_tlb (tlb_entrada f) ?c s') = datos s"
    using m dv by (simp add: datos_simps misma_tlb_def)
  ultimately show ?thesis using that el ok2 by blast
qed

end

lemma proxima_tlb_libre:
  assumes "tlb_ok E s" "any_tlb_item_is_free s"
  obtains t where "get_next_free_tlb_item s = Some t" "t \<in> set (tlb_list s)" "tlb_pid t = 0"
  using assms get_next_free_tlb_itemI get_next_free_tlb_itemD
  by (metis any_tlb_item_is_free_iff)

interpretation tlb_lru: reemplazo_tlb proxima_pagina_a_sacar_tlb_by_lru
proof
  fix E :: "'s entorno" and s
  assume ok: "tlb_ok E s" and srt: "ordena (list_sort_tlb E)"
  let ?l1 = "list_sort_tlb E (\<lambda>a b. tlb_entrada a < tlb_entrada b) (tlb_list s)"
  let ?l2 = "list_sort_tlb E (\<lambda>a b. tlb_timestamp a < tlb_timestamp b) ?l1"
  have ms: "mset ?l2 = mset (tlb_list s)"
    using ordena_mset [OF srt, of tlb_timestamp ?l1] ordena_mset [OF srt, of tlb_entrada "tlb_list s"]
    by simp
  have "?l2 \<noteq> []" using ms ok by (auto simp: tlb_ok_def)
  then obtain t ts where l2: "?l2 = t # ts" by (cases ?l2) auto
  have tm: "t \<in> set (tlb_list s)" using ms l2 by (metis list.set_intros(1) set_mset_mset)
  have okn: "tlb_ok E (s\<lparr>tlb_list := ?l2\<rparr>)"
  proof (rule tlb_ok_mset [OF ok])
    have "length ?l2 = length (tlb_list s)" using ms by (metis size_mset)
    then show "tlb_fifo_pointer (s\<lparr>tlb_list := ?l2\<rparr>) < list_size (tlb_list (s\<lparr>tlb_list := ?l2\<rparr>))"
      using ok by (simp add: tlb_ok_def list_size_def)
  qed (use ms ok in \<open>auto simp: tlb_ok_def\<close>)
  have dn: "datos (s\<lparr>tlb_list := ?l2\<rparr>) = datos s" by (simp add: datos_def)
  show "\<exists>t s'. proxima_pagina_a_sacar_tlb_by_lru E s = Some (t, s') \<and>
      t \<in> set (tlb_list s) \<and> datos s' = datos s \<and> mset (tlb_list s') = mset (tlb_list s) \<and>
      tlb_ok E s' \<and> (tlb_pid t = 0 \<or> \<not> any_tlb_item_is_free s)"
  proof (cases "any_tlb_item_is_free s")
    case True
    then obtain u where "get_next_free_tlb_item s = Some u" "u \<in> set (tlb_list s)" "tlb_pid u = 0"
      using proxima_tlb_libre [OF ok] by blast
    with True ok show ?thesis by (simp add: proxima_pagina_a_sacar_tlb_by_lru_def)
  next
    case False
    then have "proxima_pagina_a_sacar_tlb_by_lru E s = Some (t, s\<lparr>tlb_list := ?l2\<rparr>)"
      using l2 by (simp add: proxima_pagina_a_sacar_tlb_by_lru_def Let_def)
    with False ms tm okn dn show ?thesis by auto
  qed
qed

interpretation tlb_fifo: reemplazo_tlb proxima_pagina_a_sacar_tlb_by_fifo
proof
  fix E :: "'s entorno" and s
  assume ok: "tlb_ok E s" and srt: "ordena (list_sort_tlb E)"
  let ?l1 = "list_sort_tlb E (\<lambda>a b. tlb_entrada a < tlb_entrada b) (tlb_list s)"
  let ?p = "if tlb_fifo_pointer s + 1 > cantida_entradas_tlb (datosConfigMemoria E) - 1 then 0
            else tlb_fifo_pointer s + 1"
  let ?s' = "s\<lparr>tlb_list := ?l1, tlb_fifo_pointer := ?p\<rparr>"
  have ms: "mset ?l1 = mset (tlb_list s)" by (rule ordena_mset [OF srt])
  have len: "length ?l1 = length (tlb_list s)" using ms by (metis size_mset)
  have p: "0 \<le> tlb_fifo_pointer s" "tlb_fifo_pointer s < list_size ?l1"
    "list_size ?l1 = cantida_entradas_tlb (datosConfigMemoria E)"
    using ok len by (auto simp: tlb_ok_def list_size_def)
  then obtain t where t: "list_get ?l1 (tlb_fifo_pointer s) = Some t" by (auto simp: list_get_def)
  then have tm: "t \<in> set (tlb_list s)" using ms list_get_mem by (metis set_mset_mset)
  have okn: "tlb_ok E ?s'"
    using p by (intro tlb_ok_mset [OF ok]) (auto simp: ms)
  have dn: "datos ?s' = datos s" by (simp add: datos_def)
  show "\<exists>t s'. proxima_pagina_a_sacar_tlb_by_fifo E s = Some (t, s') \<and>
      t \<in> set (tlb_list s) \<and> datos s' = datos s \<and> mset (tlb_list s') = mset (tlb_list s) \<and>
      tlb_ok E s' \<and> (tlb_pid t = 0 \<or> \<not> any_tlb_item_is_free s)"
  proof (cases "any_tlb_item_is_free s")
    case True
    then obtain u where "get_next_free_tlb_item s = Some u" "u \<in> set (tlb_list s)" "tlb_pid u = 0"
      using proxima_tlb_libre [OF ok] by blast
    with True ok show ?thesis by (simp add: proxima_pagina_a_sacar_tlb_by_fifo_def)
  next
    case False
    then have "proxima_pagina_a_sacar_tlb_by_fifo E s = Some (t, ?s')"
      using t by (simp add: proxima_pagina_a_sacar_tlb_by_fifo_def Let_def)
    with False ms tm okn dn show ?thesis by auto
  qed
qed

end
