(* ===== verification/Memoria_Acceso.thy ===== *)
theory Memoria_Acceso
  imports Memoria_Invariante
begin

section \<open>Memoria: the frame of a page\<close>

text \<open>
  Under the invariant the lookup of a frame returns, gives the frame that holds the page, leaves
  the page in the TLB and changes no data when the page is present. Reading and writing inside a
  present page follow.
\<close>

subsection \<open>Frames under the invariant\<close>

lemma marco_por_numero:
  assumes "marcos_ok E s" "0 \<le> i" "i < list_size (marcos_list s)"
  shows "get_marco_by_marco_number s i = Some (marcos_list s ! nat i)"
  unfolding get_marco_by_marco_number_def filtro_cero
proof (rule list_find_unique)
  show "marcos_list s ! nat i \<in> set (marcos_list s)" using assms by (simp add: list_size_def)
  show "mrc_marco (marcos_list s ! nat i) = i" using assms by (auto simp: marcos_ok_def list_size_def)
  fix m assume "m \<in> set (marcos_list s)" "mrc_marco m = i"
  with assms(1) show "m = marcos_list s ! nat i" by (auto simp: marcos_ok_def in_set_conv_nth)
qed

lemma presente_ocupa:
  assumes "presencia_ok s" "p \<in> paginas_de s" "heap s p = Some g" "pag_presencia g \<noteq> 0"
  shows "ocupa (marcos_list s) (pag_marco g) (pag_pid g) (pag_pagina g)"
  using assms unfolding presencia_ok_def by blast

lemma ocupa_presente:
  assumes "procesos_ok s" "presencia_ok s" "p \<in> paginas_de s" "heap s p = Some g"
    and oc: "ocupa (marcos_list s) i (pag_pid g) (pag_pagina g)"
  shows "pag_presencia g \<noteq> 0 \<and> pag_marco g = i"
proof -
  have i: "nat i < length (marcos_list s)" "\<not> mrc_isFree (marcos_list s ! nat i)" "0 \<le> i"
    using oc by (auto simp: ocupa_def list_size_def)
  with assms(2) obtain q f where q: "q \<in> paginas_de s" "heap s q = Some f" "pag_presencia f \<noteq> 0"
    "pag_marco f = int (nat i)" "pag_pid f = mrc_pid (marcos_list s ! nat i)"
    "pag_pagina f = mrc_pagina (marcos_list s ! nat i)"
    unfolding presencia_ok_def by meson
  with oc have "pag_pid f = pag_pid g" "pag_pagina f = pag_pagina g" by (auto simp: ocupa_def)
  with pagina_unica [OF assms(1) q(1) assms(3) q(2) assms(4)] q(2) assms(4) have "f = g" by auto
  with q i show ?thesis by simp
qed

lemma marco_con_clave:
  assumes "marcos_ok E s" "presencia_ok s" "m \<in> set (marcos_list s)" "mrc_pid m = pid"
    "mrc_pagina m = pagina" "pid \<noteq> 0"
  shows "ocupa (marcos_list s) (mrc_marco m) pid pagina"
proof -
  obtain i where i: "i < length (marcos_list s)" "m = marcos_list s ! i"
    using assms(3) by (auto simp: in_set_conv_nth)
  with assms show ?thesis
    by (auto simp: marcos_ok_def presencia_ok_def ocupa_def list_size_def)
qed

lemma pagina_is_in_cache_iff:
  "pagina_is_in_cache s g \<longleftrightarrow>
     (\<exists>m\<in>set (marcos_list s). mrc_pid m = pag_pid g \<and> mrc_pagina m = pag_pagina g)"
  by (auto simp: pagina_is_in_cache_def filter_empty_conv)

lemma ocupa_in_cache:
  "ocupa (marcos_list s) i (pag_pid g) (pag_pagina g) \<Longrightarrow> pagina_is_in_cache s g"
  unfolding pagina_is_in_cache_iff ocupa_def list_size_def
  by (intro bexI [of _ "marcos_list s ! nat i"]) auto

text \<open>The four tables agree on whether a page is present.\<close>

lemma presencia_cache:
  assumes "inv_mem E s" "p \<in> paginas_de s" "heap s p = Some g"
  shows "pagina_is_in_cache s g \<longleftrightarrow> pag_presencia g \<noteq> 0"
proof
  have ok: "marcos_ok E s" "procesos_ok s" "presencia_ok s" using assms(1) by (auto simp: inv_mem_def)
  assume "pagina_is_in_cache s g"
  then obtain m where "m \<in> set (marcos_list s)" "mrc_pid m = pag_pid g" "mrc_pagina m = pag_pagina g"
    by (auto simp: pagina_is_in_cache_iff)
  moreover have "pag_pid g \<noteq> 0" using pagina_viva_de(1) [OF ok(2) assms(2,3)] .
  ultimately have "ocupa (marcos_list s) (mrc_marco m) (pag_pid g) (pag_pagina g)"
    using marco_con_clave [OF ok(1,3)] by blast
  then show "pag_presencia g \<noteq> 0" using ocupa_presente [OF ok(2,3) assms(2,3)] by blast
next
  assume "pag_presencia g \<noteq> 0"
  then show "pagina_is_in_cache s g"
    using assms presente_ocupa ocupa_in_cache by (metis inv_mem_def)
qed

lemma en_tlb_ocupa:
  assumes "tlb_ok E s" "pag_pid g \<noteq> 0" "t \<in> set (tlb_list s)" "mismo_item g t"
  shows "ocupa (marcos_list s) (tlb_marco t) (pag_pid g) (pag_pagina g)"
  using assms by (auto simp: tlb_ok_def item_ok_def mismo_item_def split: if_splits)

lemma ausente_no_tlb:
  assumes "inv_mem E s" "p \<in> paginas_de s" "heap s p = Some g" "pag_presencia g = 0"
  shows "\<not> pagina_is_in_tlb s g"
proof
  have ok: "procesos_ok s" "presencia_ok s" "tlb_ok E s" using assms(1) by (auto simp: inv_mem_def)
  have "pag_pid g \<noteq> 0" using pagina_viva_de(1) [OF ok(1) assms(2,3)] .
  moreover assume "pagina_is_in_tlb s g"
  ultimately obtain i where "ocupa (marcos_list s) i (pag_pid g) (pag_pagina g)"
    using en_tlb_ocupa [OF ok(3)] by (auto simp: pagina_is_in_tlb_iff)
  then show False using ocupa_presente [OF ok(1,2) assms(2,3)] assms(4) by blast
qed

lemma obtener_marco_de_cache_presente:
  assumes "inv_mem E s" "p \<in> paginas_de s" "heap s p = Some g" "pag_presencia g \<noteq> 0"
  shows "obtener_marco_de_cache s (pag_pid g) (pag_pagina g) = pag_marco g"
proof -
  have ok: "marcos_ok E s" "procesos_ok s" "presencia_ok s" using assms(1) by (auto simp: inv_mem_def)
  have pid: "pag_pid g \<noteq> 0" using pagina_viva_de(1) [OF ok(2) assms(2,3)] .
  let ?P = "\<lambda>m. mrc_pid m = pag_pid g \<and> mrc_pagina m = pag_pagina g"
  have "list_find ?P (marcos_list s) \<noteq> None"
    using presencia_cache [OF assms(1-3)] assms(4) list_find_None_iff [of ?P "marcos_list s"]
    by (metis pagina_is_in_cache_iff)
  then obtain m where m: "list_find ?P (marcos_list s) = Some m" by blast
  then have "m \<in> set (marcos_list s)" "?P m" using list_find_SomeD [OF m] by auto
  then have "ocupa (marcos_list s) (mrc_marco m) (pag_pid g) (pag_pagina g)"
    using marco_con_clave [OF ok(1,3)] pid by blast
  then have "mrc_marco m = pag_marco g" using ocupa_presente [OF ok(2,3) assms(2,3)] by simp
  with m show ?thesis by (simp add: obtener_marco_de_cache_def filtro_cero Let_def)
qed

subsection \<open>Updating the TLB\<close>

lemma actualizar_tlb_ok:
  assumes "\<not> en_debug E" "tlb_ok E s" "ordena (list_sort_tlb E)"
    and oc: "ocupa (marcos_list s) i (pag_pid g) (pag_pagina g)" "pag_pid g \<noteq> 0"
    and no: "\<And>t. t \<in> set (tlb_list s) \<Longrightarrow> tlb_marco t \<noteq> i"
  obtains s' where "actualizar_tlb E g i s = Some s'" "datos s' = datos s" "tlb_ok E s'"
    "pagina_is_in_tlb s' g"
proof -
  have i: "i \<noteq> - 1" using oc by (simp add: ocupa_def)
  have not: "\<not> (\<exists>t\<in>set (tlb_list s). tlb_marco t = i)" using no by blast
  define el where "el = (if es_tlb_lru E then proxima_pagina_a_sacar_tlb_by_lru E s
                         else proxima_pagina_a_sacar_tlb_by_fifo E s)"
  obtain t s1 s2 where s2: "el = Some (t, s1)"
    "cargar_pagina_pagina_tlb g i (vaciar_pagina_tlb (tlb_entrada t) s1) = Some s2"
    "datos s2 = datos s" "tlb_ok E s2" "pagina_is_in_tlb s2 g"
  proof (cases "es_tlb_lru E")
    case True
    from tlb_lru.cargar_en_victima [OF assms(2,3) oc no] obtain t s1 s2
      where 1: "proxima_pagina_a_sacar_tlb_by_lru E s = Some (t, s1)"
      "cargar_pagina_pagina_tlb g i (vaciar_pagina_tlb (tlb_entrada t) s1) = Some s2"
      "datos s2 = datos s" "tlb_ok E s2" "pagina_is_in_tlb s2 g" .
    have "el = Some (t, s1)" unfolding el_def using True 1(1) by simp
    then show ?thesis using that 1(2-) by blast
  next
    case False
    from tlb_fifo.cargar_en_victima [OF assms(2,3) oc no] obtain t s1 s2
      where 1: "proxima_pagina_a_sacar_tlb_by_fifo E s = Some (t, s1)"
      "cargar_pagina_pagina_tlb g i (vaciar_pagina_tlb (tlb_entrada t) s1) = Some s2"
      "datos s2 = datos s" "tlb_ok E s2" "pagina_is_in_tlb s2 g" .
    have "el = Some (t, s1)" unfolding el_def using False 1(1) by simp
    then show ?thesis using that 1(2-) by blast
  qed
  have "actualizar_tlb E g i s = Some s2"
    using i not assms(1) s2(1,2)
    by (cases "es_tlb_lru E") (simp_all add: actualizar_tlb_def el_def)
  with s2 show ?thesis using that by blast
qed

subsection \<open>The frame of a page that is present\<close>

text \<open>The equations of the lookup, one per path.\<close>

lemma obtener_marco_en_tlb:
  assumes "heap s p = Some g" "pagina_is_in_tlb s g" "tlb_hit g s = Some s1"
    "get_tlb_item s1 g = Some t" "get_marco_by_marco_number s1 (tlb_marco t) = Some m"
    "mrc_pagina m = pag_pagina g" "mrc_pid m = pag_pid g" "heap s1 p = Some g"
  shows "obtener_marco_para_pagina E p s =
    (if es_tlb_lru E
     then let (ts, s3) = obtenerTimeStamp s1
          in Some (tlb_marco t, modifica_tlb (tlb_entrada t) (\<lambda>x. x\<lparr>tlb_timestamp := ts\<rparr>) s3)
     else Some (tlb_marco t, s1))"
  unfolding obtener_marco_para_pagina.simps [of E p s] using assms
  by (simp only: Option.bind.simps if_True if_False not_True_eq_False simp_thms prod.case Let_def
      option.simps case_prod_beta split: if_split) simp

lemma obtener_marco_en_cache:
  assumes "heap s p = Some g" "\<not> pagina_is_in_tlb s g" "pagina_is_in_cache s g"
    "tlb_miss g s = Some s1" "heap s1 p = Some g"
  shows "obtener_marco_para_pagina E p s =
    do { s3 \<leftarrow> actualizar_tlb E g (obtener_marco_de_cache s1 (pag_pid g) (pag_pagina g)) s1;
         Some (obtener_marco_de_cache s1 (pag_pid g) (pag_pagina g), s3) }"
  unfolding obtener_marco_para_pagina.simps [of E p s] using assms by simp

lemma obtener_marco_ausente:
  assumes "heap s p = Some g" "\<not> pagina_is_in_tlb s g" "\<not> pagina_is_in_cache s g"
    "tlb_hit g s = Some s1"
  shows "obtener_marco_para_pagina E p s =
    do { (marco, s2) \<leftarrow> swampear_pagina E (pag_pid g) (pag_pagina g) s1;
         g2 \<leftarrow> heap s2 p;
         s3 \<leftarrow> actualizar_tlb E g2 marco s2;
         Some (marco, s3) }"
  unfolding obtener_marco_para_pagina.simps [of E p s] using assms by simp

text \<open>A page that is present: found in the TLB, or in the table of frames.\<close>

lemma obtener_presente_en_tlb:
  assumes inv: "inv_mem E s" and p: "p \<in> paginas_de s" "heap s p = Some g" "pag_presencia g \<noteq> 0"
    and en: "pagina_is_in_tlb s g"
  obtains s' where "obtener_marco_para_pagina E p s = Some (pag_marco g, s')"
    "datos s' = datos s" "inv_mem E s'" "pagina_is_in_tlb s' g"
proof -
  have ok: "marcos_ok E s" "procesos_ok s" "presencia_ok s" "tlb_ok E s" using inv by (auto simp: inv_mem_def)
  obtain c where c: "get_carpincho s (pag_pid g) = Some c" and pid: "pag_pid g \<noteq> 0"
    using pagina_viva_de(1,5) [OF ok(2) p(1,2)] by blast
  have oc: "ocupa (marcos_list s) (pag_marco g) (pag_pid g) (pag_pagina g)"
    using presente_ocupa [OF ok(3) p] .
  obtain s1 where s1: "tlb_hit g s = Some s1" and m: "misma_tlb s s1"
    using tlb_hit_misma [OF c] .
  have d: "datos s1 = datos s" "tlb_list s1 = tlb_list s" using m by (auto simp: misma_tlb_def)
  have ok1: "tlb_ok E s1" "marcos_ok E s1"
    using misma_tlb_ok [OF m ok(4)] datos_marcos_ok [OF d(1)] ok(1) by auto
  have tlb1: "pagina_is_in_tlb s1 g" using en d(2) by (simp add: pagina_is_in_tlb_iff)
  then obtain t where t: "get_tlb_item s1 g = Some t" "t \<in> set (tlb_list s1)" "mismo_item g t"
    by (rule get_tlb_itemI)
  have "ocupa (marcos_list s) (tlb_marco t) (pag_pid g) (pag_pagina g)"
    using en_tlb_ocupa [OF ok(4) pid] t d(2) by auto
  from ocupa_presente [OF ok(2,3) p(1,2) this] have tm: "tlb_marco t = pag_marco g" by simp
  have gm: "get_marco_by_marco_number s1 (pag_marco g) = Some (marcos_list s ! nat (pag_marco g))"
    using marco_por_numero [OF ok1(2)] oc datos_eqD(2) [OF d(1)] by (simp add: ocupa_def)
  have h1: "heap s1 p = Some g" using datos_eqD(3) [OF d(1)] p(2) by simp
  note res = obtener_marco_en_tlb [OF p(2) en s1 t(1) gm [folded tm] _ _ h1]
  show ?thesis
  proof (cases "es_tlb_lru E")
    case False
    have "obtener_marco_para_pagina E p s = Some (pag_marco g, s1)"
      using res oc tm False by (simp add: ocupa_def)
    then show ?thesis using that d(1) inv_mem_datos [OF inv d(1) ok1(1)] tlb1 by blast
  next
    case True
    obtain ts s3 where ts: "obtenerTimeStamp s1 = (ts, s3)" by force
    have m3: "misma_tlb s1 s3" using obtenerTimeStamp_misma [OF ts] .
    let ?s' = "modifica_tlb (tlb_entrada t) (\<lambda>x. x\<lparr>tlb_timestamp := ts\<rparr>) s3"
    have "obtener_marco_para_pagina E p s = Some (pag_marco g, ?s')"
      using res oc tm True ts by (simp add: ocupa_def)
    moreover have d3: "datos ?s' = datos s" using m3 d by (simp add: datos_simps misma_tlb_def)
    moreover have "tlb_ok E ?s'"
      using sellar_tlb_ok [OF misma_tlb_ok [OF m3 ok1(1)]] t(2) m3 by (simp add: misma_tlb_def)
    moreover have "pagina_is_in_tlb ?s' g"
      using tlb1 pagina_is_in_tlb_misma [OF m3] by simp
    ultimately show ?thesis using that inv_mem_datos [OF inv] by blast
  qed
qed

lemma obtener_presente_en_marcos:
  assumes inv: "inv_mem E s" and srt: "ordena (list_sort_tlb E)"
    and p: "p \<in> paginas_de s" "heap s p = Some g" "pag_presencia g \<noteq> 0" and no_en: "\<not> pagina_is_in_tlb s g"
  obtains s' where "obtener_marco_para_pagina E p s = Some (pag_marco g, s')"
    "datos s' = datos s" "inv_mem E s'" "pagina_is_in_tlb s' g"
proof -
  have ok: "procesos_ok s" "presencia_ok s" "tlb_ok E s" "\<not> en_debug E" using inv by (auto simp: inv_mem_def)
  obtain c where c: "get_carpincho s (pag_pid g) = Some c" and pid: "pag_pid g \<noteq> 0"
    using pagina_viva_de(1,5) [OF ok(1) p(1,2)] by blast
  obtain s1 where s1: "tlb_miss g s = Some s1" and m: "misma_tlb s s1"
    using tlb_miss_misma [OF c] .
  have d: "datos s1 = datos s" "tlb_list s1 = tlb_list s" using m by (auto simp: misma_tlb_def)
  have ok1: "tlb_ok E s1" using misma_tlb_ok [OF m ok(3)] .
  have inv1: "inv_mem E s1" using inv_mem_datos [OF inv d(1) ok1] .
  have h1: "heap s1 p = Some g" using datos_eqD(3) [OF d(1)] p(2) by simp
  have oc1: "ocupa (marcos_list s1) (pag_marco g) (pag_pid g) (pag_pagina g)"
    using presente_ocupa [OF ok(2) p] datos_eqD(2) [OF d(1)] by simp
  have cache: "obtener_marco_de_cache s1 (pag_pid g) (pag_pagina g) = pag_marco g"
    using obtener_marco_de_cache_presente [OF inv1 _ h1 p(3)] p(1) datos_paginas_de [OF d(1)] by simp
  have no: "tlb_marco t \<noteq> pag_marco g" if "t \<in> set (tlb_list s1)" for t
  proof
    assume "tlb_marco t = pag_marco g"
    then have "mismo_item g t"
      using ok1 that oc1 by (auto simp: tlb_ok_def item_ok_def ocupa_def mismo_item_def split: if_splits)
    with no_en that d(2) show False by (auto simp: pagina_is_in_tlb_iff)
  qed
  obtain s3 where s3: "actualizar_tlb E g (pag_marco g) s1 = Some s3" "datos s3 = datos s1"
    "tlb_ok E s3" "pagina_is_in_tlb s3 g"
    using actualizar_tlb_ok [OF ok(4) ok1 srt oc1 pid no] by blast
  have "obtener_marco_para_pagina E p s = Some (pag_marco g, s3)"
    using obtener_marco_en_cache [OF p(2) no_en _ s1 h1] p(3) presencia_cache [OF inv p(1,2)]
      cache s3(1) by simp
  then show ?thesis using that s3 d inv_mem_datos [OF inv] by auto
qed

lemma obtener_marco_presente:
  assumes inv: "inv_mem E s" and srt: "ordena (list_sort_tlb E)"
    and p: "p \<in> paginas_de s" "heap s p = Some g" "pag_presencia g \<noteq> 0"
  obtains s' where "obtener_marco_para_pagina E p s = Some (pag_marco g, s')"
    "datos s' = datos s" "inv_mem E s'" "pagina_is_in_tlb s' g"
  using obtener_presente_en_tlb [OF inv p] obtener_presente_en_marcos [OF inv srt p] by blast

subsection \<open>The end of an access\<close>

text \<open>
  Both \<open>leer_en_pagina\<close> and \<open>escribir_en_pagina\<close> mark the page as present in the frame they were
  given. Between the lookup and that mark the page of a fault is in a frame and not present yet.
\<close>

definition presentar :: "ptr \<Rightarrow> int \<Rightarrow> 's memoria \<Rightarrow> 's memoria" where
  "presentar p m s =
     s\<lparr>heap := (heap s)(p := map_option (\<lambda>g. g\<lparr>pag_marco := m, pag_presencia := 1\<rparr>) (heap s p))\<rparr>"

definition acceso_ok :: "'s entorno \<Rightarrow> ptr \<Rightarrow> int \<Rightarrow> 's memoria \<Rightarrow> bool" where
  "acceso_ok E p m s \<longleftrightarrow>
     p \<in> paginas_de s \<and> inv_mem E (presentar p m s) \<and>
     (\<exists>g. heap s p = Some g \<and> ocupa (marcos_list s) m (pag_pid g) (pag_pagina g) \<and>
          pagina_is_in_tlb s g)"

text \<open>What an access leaves behind: the page is present in frame \<open>m\<close>, nothing else has changed
  but the bytes of the cache.\<close>

definition tras_acceso :: "'s entorno \<Rightarrow> ptr \<Rightarrow> int \<Rightarrow> 's memoria \<Rightarrow> 's memoria \<Rightarrow> bool" where
  "tras_acceso E p m s s' \<longleftrightarrow>
     inv_mem E s' \<and> marcos_list s' = marcos_list s \<and> swamp s' = swamp s \<and>
     carpinchos_list s' = carpinchos_list s \<and> prox_ptr s' = prox_ptr s \<and>
     (\<forall>q. q \<noteq> p \<longrightarrow> heap s' q = heap s q) \<and>
     (\<exists>g g'. heap s p = Some g \<and> heap s' p = Some g' \<and> pag_pid g' = pag_pid g \<and>
        pag_pagina g' = pag_pagina g \<and> pag_presencia g' = 1 \<and> pag_marco g' = m)"

text \<open>Fields of a page that the invariant does not mention.\<close>

definition misma_pagina :: "t_pagina \<Rightarrow> t_pagina \<Rightarrow> bool" where
  "misma_pagina g g' \<longleftrightarrow>
     pag_pid g' = pag_pid g \<and> pag_pagina g' = pag_pagina g \<and> pag_presencia g' = pag_presencia g \<and>
     pag_marco g' = pag_marco g"

lemma procesos_ok_pagina:
  assumes ok: "procesos_ok s" and g: "heap s p = Some g"
    and g': "pag_pid g' = pag_pid g" "pag_pagina g' = pag_pagina g" "pag_presencia g' \<in> {0, 1}"
  shows "procesos_ok (s\<lparr>heap := (heap s)(p \<mapsto> g')\<rparr>)"
proof -
  have "paginas_ok ((heap s)(p \<mapsto> g')) c" if pc: "paginas_ok (heap s) c" for c
    unfolding paginas_ok_def
  proof (intro allI impI)
    fix k assume "k < length (crp_paginas c)"
    then obtain f where f: "heap s (crp_paginas c ! k) = Some f" "pag_pid f = crp_pid c"
      "pag_pagina f = int k + 1" "pag_presencia f \<in> {0, 1}"
      using pc unfolding paginas_ok_def by blast
    show "\<exists>f. ((heap s)(p \<mapsto> g')) (crp_paginas c ! k) = Some f \<and> pag_pid f = crp_pid c \<and>
        pag_pagina f = int k + 1 \<and> pag_presencia f \<in> {0, 1}"
    proof (cases "crp_paginas c ! k = p")
      case True
      with f(1) g have "f = g" by simp
      with f g' True show ?thesis by simp
    qed (use f in simp)
  qed
  with ok show ?thesis by (simp add: procesos_ok_def)
qed

lemma paginas_de_cong: "carpinchos_list s' = carpinchos_list s \<Longrightarrow> paginas_de s' = paginas_de s"
  by (simp add: paginas_de_def)

lemma inv_mem_pagina:
  assumes inv: "inv_mem E s" and g: "heap s p = Some g" and m: "misma_pagina g g'"
    and s': "marcos_list s' = marcos_list s" "carpinchos_list s' = carpinchos_list s"
      "prox_ptr s' = prox_ptr s" "heap s' = (heap s)(p \<mapsto> g')" "length (CACHE s') = length (CACHE s)"
      "tlb_list s' = tlb_list s" "tlb_fifo_pointer s' = tlb_fifo_pointer s"
  shows "inv_mem E s'"
proof -
  have ok: "procesos_ok s" "presencia_ok s" using inv by (auto simp: inv_mem_def)
  have *: "procesos_ok s' = procesos_ok (s\<lparr>heap := (heap s)(p \<mapsto> g')\<rparr>)" if "pag_presencia g \<in> {0, 1}"
    by (simp add: procesos_ok_def s')
  have "procesos_ok s'"
  proof (cases "p \<in> paginas_de s")
    case True
    have "pag_presencia g \<in> {0, 1}" by (rule pagina_viva_de(2) [OF ok(1) True g])
    then show ?thesis using * procesos_ok_pagina [OF ok(1) g] m by (simp add: misma_pagina_def)
  next
    case False
    then have "crp_paginas c ! k \<noteq> p" if "c \<in> set (carpinchos_list s)" "k < length (crp_paginas c)" for c k
      using that by (auto simp: paginas_de_def)
    then show ?thesis using ok(1) by (auto simp: procesos_ok_def s' paginas_ok_def)
  qed
  moreover have "presencia_ok s'"
  proof -
    have ps: "paginas_de s' = paginas_de s" using paginas_de_cong [OF s'(2)] .
    have h: "(\<exists>f'. heap s' q = Some f' \<and> Q (pag_presencia f') (pag_marco f') (pag_pid f') (pag_pagina f')) \<longleftrightarrow>
        (\<exists>f. heap s q = Some f \<and> Q (pag_presencia f) (pag_marco f) (pag_pid f) (pag_pagina f))" for q Q
      using g m by (auto simp: s'(4) misma_pagina_def)
    have "ocupa (marcos_list s') (pag_marco f) (pag_pid f) (pag_pagina f)"
      if q: "q \<in> paginas_de s'" "heap s' q = Some f" "pag_presencia f \<noteq> 0" for q f
    proof -
      obtain f0 where f0: "heap s q = Some f0" "pag_presencia f0 \<noteq> 0" "pag_marco f = pag_marco f0"
        "pag_pid f = pag_pid f0" "pag_pagina f = pag_pagina f0"
        using q(2,3) g m by (auto simp: s'(4) misma_pagina_def split: if_splits)
      show ?thesis using presente_ocupa [OF ok(2) _ f0(1,2)] q(1) ps f0 s'(1) by simp
    qed
    moreover have "\<exists>q\<in>paginas_de s'. \<exists>f. heap s' q = Some f \<and> pag_presencia f \<noteq> 0 \<and>
        pag_marco f = int i \<and> pag_pid f = mrc_pid (marcos_list s' ! i) \<and>
        pag_pagina f = mrc_pagina (marcos_list s' ! i)"
      if i: "i < length (marcos_list s')" "\<not> mrc_isFree (marcos_list s' ! i)" for i
    proof -
      obtain q f0 where f0: "q \<in> paginas_de s" "heap s q = Some f0" "pag_presencia f0 \<noteq> 0"
        "pag_marco f0 = int i" "pag_pid f0 = mrc_pid (marcos_list s ! i)"
        "pag_pagina f0 = mrc_pagina (marcos_list s ! i)"
        using ok(2) i s'(1) unfolding presencia_ok_def by metis
      then show ?thesis
        using h [of q "\<lambda>a b c d. a \<noteq> 0 \<and> b = int i \<and> c = mrc_pid (marcos_list s ! i) \<and>
          d = mrc_pagina (marcos_list s ! i)"] ps s'(1) by auto
    qed
    ultimately show ?thesis
      using ok(2) s'(1) unfolding presencia_ok_def by (metis (no_types, lifting))
  qed
  moreover have "marcos_ok E s'" using inv s' by (simp add: inv_mem_def marcos_ok_def list_size_def)
  moreover have "tlb_ok E s'" using inv s' by (simp add: inv_mem_def tlb_ok_def)
  ultimately show ?thesis using inv by (simp add: inv_mem_def)
qed

subsection \<open>The bytes of a frame\<close>

definition bytes_marco :: "'s entorno \<Rightarrow> 's memoria \<Rightarrow> int \<Rightarrow> char list" where
  "bytes_marco E s m = take (nat (tam_pag E)) (drop (nat (m * tam_pag E)) (CACHE s))"

lemma marco_dentro:
  assumes "marcos_ok E s" "0 \<le> m" "m < list_size (marcos_list s)"
  shows "0 \<le> m * tam_pag E" "m * tam_pag E + tam_pag E \<le> list_size (CACHE s)"
proof -
  have t: "0 < tam_pag E" "list_size (marcos_list s) * tam_pag E \<le> list_size (CACHE s)"
    using assms(1) by (auto simp: marcos_ok_def)
  show "0 \<le> m * tam_pag E" using assms(2) t(1) by simp
  have "(m + 1) * tam_pag E \<le> list_size (marcos_list s) * tam_pag E"
    using assms(3) t(1) by (intro mult_right_mono) auto
  then show "m * tam_pag E + tam_pag E \<le> list_size (CACHE s)"
    using t(2) by (simp add: distrib_right)
qed

lemma length_bytes_marco:
  assumes "marcos_ok E s" "0 \<le> m" "m < list_size (marcos_list s)"
  shows "list_size (bytes_marco E s m) = tam_pag E"
  using marco_dentro [OF assms] assms(1) by (simp add: bytes_marco_def list_size_def marcos_ok_def)

lemma leer_marco:
  assumes ok: "marcos_ok E s" "0 \<le> m" "m < list_size (marcos_list s)"
    and r: "0 \<le> off" "0 \<le> n" "off + n \<le> tam_pag E"
  shows "retornar_contenido E s m off n =
    Some (Some (take (nat n) (drop (nat off) (bytes_marco E s m))))"
proof -
  note d = marco_dentro [OF ok]
  have t: "0 < tam_pag E" "tam_pag E < 2147483648" using ok(1) by (auto simp: marcos_ok_def)
  have "take (nat n) (drop (nat off) (bytes_marco E s m)) =
      take (nat n) (drop (nat (m * tam_pag E + off)) (CACHE s))"
    using r d(1) by (simp add: bytes_marco_def drop_take min_def nat_add_distrib ac_simps)
  moreover have "u32 (off + n) = off + n" using r t by simp
  ultimately show ?thesis
    using r d by (simp add: retornar_contenido_def lee_bytes_def get_marco_ptr_def)
qed

lemma escribir_marco:
  assumes ok: "marcos_ok E s" "0 \<le> m" "m < list_size (marcos_list s)"
    and r: "0 \<le> off" "off + n \<le> tam_pag E" and b: "list_size buffer = n"
  obtains cache where
    "escribir_en_cache E m buffer n off s = Some (0, s\<lparr>CACHE := cache\<rparr>)"
    "copia_bytes (CACHE s) (get_marco_ptr E m + off) buffer = Some cache"
    "length cache = length (CACHE s)"
    "bytes_marco E (s\<lparr>CACHE := cache\<rparr>) m =
       take (nat off) (bytes_marco E s m) @ buffer @ drop (nat (off + n)) (bytes_marco E s m)"
    "\<forall>j. 0 \<le> j \<and> j \<noteq> m \<longrightarrow> bytes_marco E (s\<lparr>CACHE := cache\<rparr>) j = bytes_marco E s j"
proof -
  note d = marco_dentro [OF ok]
  have t: "0 < tam_pag E" "tam_pag E < 2147483648" using ok(1) by (auto simp: marcos_ok_def)
  have n: "0 \<le> n" "nat n = length buffer" using b by (auto simp: list_size_def)
  have u: "u32 (n + off) = n + off" using r t n by simp
  let ?i = "nat (m * tam_pag E)" and ?o = "nat off" and ?T = "nat (tam_pag E)"
  let ?c = "take (?i + ?o) (CACHE s) @ buffer @ drop (?i + ?o + length buffer) (CACHE s)"
  have len: "?i + ?T \<le> length (CACHE s)" "?o + length buffer \<le> ?T"
    using d r n t by (auto simp: list_size_def nat_add_distrib [symmetric] nat_le_eq_zle)
  have idx: "nat (m * tam_pag E + off) = ?i + ?o" using d(1) r(1) by (simp add: nat_add_distrib)
  have cb: "copia_bytes (CACHE s) (get_marco_ptr E m + off) buffer = Some ?c"
    using r d b by (simp add: copia_bytes_def get_marco_ptr_def idx)
  then have e: "escribir_en_cache E m buffer n off s = Some (0, s\<lparr>CACHE := ?c\<rparr>)"
    using u r n b by (simp add: escribir_en_cache_def lee_bytes_def list_size_def)
  have lc: "length ?c = length (CACHE s)" using len by simp
  have cs: "CACHE (s\<lparr>CACHE := ?c\<rparr>) = ?c" by simp
  have off_n: "nat (off + n) = ?o + length buffer" using n r(1) by (simp add: nat_add_distrib)
  have "bytes_marco E (s\<lparr>CACHE := ?c\<rparr>) m = take ?o (bytes_marco E s m) @ buffer @
      drop (nat (off + n)) (bytes_marco E s m)"
    unfolding bytes_marco_def off_n cs by (rule bloque_copia [OF len])
  moreover have "bytes_marco E (s\<lparr>CACHE := ?c\<rparr>) j = bytes_marco E s j" if j: "0 \<le> j" "j \<noteq> m" for j
  proof -
    have "j * tam_pag E + tam_pag E \<le> m * tam_pag E \<or> m * tam_pag E + tam_pag E \<le> j * tam_pag E"
    proof (cases "j < m")
      case True
      then have "(j + 1) * tam_pag E \<le> m * tam_pag E" using t(1) by (intro mult_right_mono) auto
      then show ?thesis by (simp add: distrib_right)
    next
      case False
      then have "(m + 1) * tam_pag E \<le> j * tam_pag E" using j t(1) by (intro mult_right_mono) auto
      then show ?thesis by (simp add: distrib_right)
    qed
    then have dis: "nat (j * tam_pag E) + ?T \<le> ?i \<or> ?i + ?T \<le> nat (j * tam_pag E)"
      using d(1) j(1) t(1) by (auto simp: nat_add_distrib [symmetric] nat_le_eq_zle)
    then show ?thesis
      using bloque_otro [of ?i ?o buffer "CACHE s" "nat (j * tam_pag E)" ?T] len
      by (auto simp: bytes_marco_def)
  qed
  ultimately show ?thesis using that [OF e cb lc] by blast
qed

subsection \<open>Reading and writing once the frame is known\<close>

lemma tocar_tlb_lru_ok:
  assumes "inv_mem E s"
  obtains s1 where "tocar_tlb_lru E g s = Some s1" "datos s1 = datos s" "inv_mem E s1"
proof (cases "pagina_is_in_tlb s g \<and> es_tlb_lru E")
  case True
  then obtain t where t: "get_tlb_item s g = Some t" "t \<in> set (tlb_list s)"
    using get_tlb_itemI by metis
  obtain ts s1 where ts: "obtenerTimeStamp s = (ts, s1)" by force
  have m: "misma_tlb s s1" using obtenerTimeStamp_misma [OF ts] .
  have tok: "tlb_ok E s" using assms by (simp add: inv_mem_def)
  let ?s' = "modifica_tlb (tlb_entrada t) (\<lambda>x. x\<lparr>tlb_timestamp := ts\<rparr>) s1"
  have "tlb_ok E ?s'"
    using sellar_tlb_ok [OF misma_tlb_ok [OF m tok]] t(2) m by (simp add: misma_tlb_def)
  moreover have d: "datos ?s' = datos s" using m by (simp add: datos_simps misma_tlb_def)
  ultimately have "inv_mem E ?s'" using inv_mem_datos [OF assms] by blast
  then show ?thesis using that [of ?s'] d True t(1) ts by (simp add: tocar_tlb_lru_def)
next
  case False
  then show ?thesis using that [of s] assms by (auto simp: tocar_tlb_lru_def)
qed

lemma acceso_presente:
  assumes "inv_mem E s" "p \<in> paginas_de s" "heap s p = Some g" "pag_presencia g \<noteq> 0"
    "pagina_is_in_tlb s g"
  shows "acceso_ok E p (pag_marco g) s" "presentar p (pag_marco g) s = s"
proof -
  have ok: "procesos_ok s" "presencia_ok s" using assms(1) by (auto simp: inv_mem_def)
  have "pag_presencia g = 1" using pagina_viva_de(2) [OF ok(1) assms(2,3)] assms(4) by auto
  then have "(heap s)(p := map_option (\<lambda>g'. g'\<lparr>pag_marco := pag_marco g, pag_presencia := 1\<rparr>) (heap s p)) = heap s"
    using assms(3) by (auto simp: fun_eq_iff)
  then show *: "presentar p (pag_marco g) s = s" by (simp add: presentar_def)
  then show "acceso_ok E p (pag_marco g) s"
    using assms presente_ocupa [OF ok(2) assms(2-4)] by (simp add: acceso_ok_def)
qed

text \<open>The state in which the bytes are read or written.\<close>

lemma acceso_presentado:
  assumes "acceso_ok E p m s" "heap s p = Some g"
  defines "g' \<equiv> g\<lparr>pag_marco := m, pag_presencia := 1\<rparr>"
  shows "presentar p m s = s\<lparr>heap := (heap s)(p \<mapsto> g')\<rparr>" "inv_mem E (s\<lparr>heap := (heap s)(p \<mapsto> g')\<rparr>)"
    "pagina_is_in_cache (s\<lparr>heap := (heap s)(p \<mapsto> g')\<rparr>) g'"
    "pagina_is_in_tlb (s\<lparr>heap := (heap s)(p \<mapsto> g')\<rparr>) g'"
    "marcos_ok E s" "0 \<le> m" "m < list_size (marcos_list s)"
proof -
  have p: "presentar p m s = s\<lparr>heap := (heap s)(p \<mapsto> g')\<rparr>"
    using assms(2) by (simp add: presentar_def g'_def)
  then show "presentar p m s = s\<lparr>heap := (heap s)(p \<mapsto> g')\<rparr>" .
  from assms(1) p show inv: "inv_mem E (s\<lparr>heap := (heap s)(p \<mapsto> g')\<rparr>)"
    by (simp add: acceso_ok_def)
  then show "marcos_ok E s" by (simp add: inv_mem_def marcos_ok_def)
  have oc: "ocupa (marcos_list s) m (pag_pid g) (pag_pagina g)" and tlb: "pagina_is_in_tlb s g"
    using assms(1,2) by (auto simp: acceso_ok_def)
  from oc show "0 \<le> m" "m < list_size (marcos_list s)" by (auto simp: ocupa_def)
  show "pagina_is_in_cache (s\<lparr>heap := (heap s)(p \<mapsto> g')\<rparr>) g'"
    using ocupa_in_cache [OF oc] by (simp add: pagina_is_in_cache_iff g'_def)
  show "pagina_is_in_tlb (s\<lparr>heap := (heap s)(p \<mapsto> g')\<rparr>) g'"
    using tlb by (simp add: pagina_is_in_tlb_iff g'_def mismo_item_def)
qed

lemma tras_accesoI:
  assumes "acceso_ok E p m s" "heap s p = Some g" "misma_pagina (g\<lparr>pag_marco := m, pag_presencia := 1\<rparr>) g'"
    and "marcos_list s' = marcos_list s" "carpinchos_list s' = carpinchos_list s"
      "prox_ptr s' = prox_ptr s" "heap s' = (heap s)(p \<mapsto> g')" "length (CACHE s') = length (CACHE s)"
      "tlb_list s' = tlb_list s" "tlb_fifo_pointer s' = tlb_fifo_pointer s" "swamp s' = swamp s"
  shows "tras_acceso E p m s s'"
proof -
  have "inv_mem E s'"
    by (rule inv_mem_pagina [OF acceso_presentado(2) [OF assms(1,2)] _ assms(3), of p])
      (use assms(4-) in simp_all)
  then show ?thesis using assms by (auto simp: tras_acceso_def misma_pagina_def)
qed

lemma leer_en_pagina_tras:
  assumes h: "heap s p = Some g0" "tocar_tlb_lru E g0 s = Some s1"
    "obtener_marco_para_pagina E p s1 = Some (m, s2)"
    and ac: "acceso_ok E p m s2" and r: "0 \<le> off" "0 \<le> n" "off + n \<le> tam_pag E"
  obtains s' where
    "leer_en_pagina E p n off s = Some (Some (take (nat n) (drop (nat off) (bytes_marco E s2 m))), s')"
    "tras_acceso E p m s2 s'" "CACHE s' = CACHE s2"
proof -
  obtain g where g: "heap s2 p = Some g" using ac by (auto simp: acceso_ok_def)
  let ?g = "g\<lparr>pag_marco := m, pag_presencia := 1\<rparr>" and ?s = "s2\<lparr>heap := (heap s2)(p \<mapsto>
      g\<lparr>pag_marco := m, pag_presencia := 1\<rparr>)\<rparr>"
  note a = acceso_presentado [OF ac g]
  have nd: "\<not> en_debug E" using a(2) by (simp add: inv_mem_def)
  have rc: "retornar_contenido E ?s m off n =
      Some (Some (take (nat n) (drop (nat off) (bytes_marco E s2 m))))"
    using leer_marco [of E ?s, OF _ _ _ r] a(2,6,7)
    by (simp add: inv_mem_def bytes_marco_def)
  obtain ts s5 where ts: "obtenerTimeStamp ?s = (ts, s5)" by force
  define g4 where "g4 = (if es_m_clock E then ?g\<lparr>pag_uso := 1\<rparr> else ?g\<lparr>pag_timestamp := ts\<rparr>)"
  define s4 where "s4 = (if es_m_clock E then ?s else s5)"
  have l: "leer_en_pagina E p n off s = Some (Some (take (nat n) (drop (nat off) (bytes_marco E s2 m))),
      s4\<lparr>heap := (heap s4)(p \<mapsto> g4)\<rparr>)"
    using h g a(3,4,6) rc nd ts by (simp add: leer_en_pagina_def g4_def s4_def)
  have s4: "marcos_list s4 = marcos_list s2" "carpinchos_list s4 = carpinchos_list s2"
    "prox_ptr s4 = prox_ptr s2" "heap s4 = (heap s2)(p \<mapsto> ?g)" "CACHE s4 = CACHE s2"
    "tlb_list s4 = tlb_list s2" "tlb_fifo_pointer s4 = tlb_fifo_pointer s2" "swamp s4 = swamp s2"
    using ts by (auto simp: s4_def obtenerTimeStamp_def)
  have "tras_acceso E p m s2 (s4\<lparr>heap := (heap s4)(p \<mapsto> g4)\<rparr>)"
    by (rule tras_accesoI [OF ac g, of g4]) (simp_all add: s4 g4_def misma_pagina_def)
  with l s4(5) show ?thesis using that by simp
qed

lemma escribir_en_pagina_tras:
  assumes h: "heap s p = Some g0" "tocar_tlb_lru E g0 s = Some s1"
    "obtener_marco_para_pagina E p s1 = Some (m, s2)"
    and ac: "acceso_ok E p m s2" and r: "0 \<le> off" "off + n \<le> tam_pag E" "list_size buffer = n"
  obtains s' where
    "escribir_en_pagina E p buffer n off s = Some (0, s')" "tras_acceso E p m s2 s'"
    "bytes_marco E s' m = take (nat off) (bytes_marco E s2 m) @ buffer @
       drop (nat (off + n)) (bytes_marco E s2 m)"
    "\<forall>j. 0 \<le> j \<and> j \<noteq> m \<longrightarrow> bytes_marco E s' j = bytes_marco E s2 j"
proof -
  obtain g where g: "heap s2 p = Some g" using ac by (auto simp: acceso_ok_def)
  let ?g = "g\<lparr>pag_marco := m, pag_presencia := 1\<rparr>" and ?s = "s2\<lparr>heap := (heap s2)(p \<mapsto>
      g\<lparr>pag_marco := m, pag_presencia := 1\<rparr>)\<rparr>"
  note a = acceso_presentado [OF ac g]
  have nd: "\<not> en_debug E" and mok: "marcos_ok E ?s" using a(2) by (auto simp: inv_mem_def)
  have ms: "0 \<le> m" "m < list_size (marcos_list ?s)" using a(6,7) by simp_all
  from escribir_marco [OF mok ms r] obtain cache
    where c: "escribir_en_cache E m buffer n off ?s = Some (0, ?s\<lparr>CACHE := cache\<rparr>)"
      and cb: "copia_bytes (CACHE ?s) (get_marco_ptr E m + off) buffer = Some cache"
      and len: "length cache = length (CACHE ?s)"
      and b: "bytes_marco E (?s\<lparr>CACHE := cache\<rparr>) m =
        take (nat off) (bytes_marco E ?s m) @ buffer @ drop (nat (off + n)) (bytes_marco E ?s m)"
      and o: "\<forall>j. 0 \<le> j \<and> j \<noteq> m \<longrightarrow>
        bytes_marco E (?s\<lparr>CACHE := cache\<rparr>) j = bytes_marco E ?s j" .
  obtain ts s5 where ts: "obtenerTimeStamp (?s\<lparr>CACHE := cache\<rparr>) = (ts, s5)" by force
  define g4 where "g4 = (if es_m_clock E then ?g\<lparr>pag_uso := 1, pag_modif := 1\<rparr>
                         else ?g\<lparr>pag_timestamp := ts\<rparr>)"
  define s4 where "s4 = (if es_m_clock E then ?s\<lparr>CACHE := cache\<rparr> else s5)"
  have l: "escribir_en_pagina E p buffer n off s = Some (0, s4\<lparr>heap := (heap s4)(p \<mapsto> g4)\<rparr>)"
    using h g a(3,4,6) c nd ts by (simp add: escribir_en_pagina_def g4_def s4_def)
  have s4: "marcos_list s4 = marcos_list s2" "carpinchos_list s4 = carpinchos_list s2"
    "prox_ptr s4 = prox_ptr s2" "heap s4 = (heap s2)(p \<mapsto> ?g)" "CACHE s4 = cache"
    "tlb_list s4 = tlb_list s2" "tlb_fifo_pointer s4 = tlb_fifo_pointer s2" "swamp s4 = swamp s2"
    using ts by (auto simp: s4_def obtenerTimeStamp_def)
  have "tras_acceso E p m s2 (s4\<lparr>heap := (heap s4)(p \<mapsto> g4)\<rparr>)"
    by (rule tras_accesoI [OF ac g, of g4]) (use len in \<open>simp_all add: s4 g4_def misma_pagina_def\<close>)
  moreover have "bytes_marco E (s4\<lparr>heap := h\<rparr>) j = bytes_marco E (?s\<lparr>CACHE := cache\<rparr>) j"
    "bytes_marco E ?s j = bytes_marco E s2 j" for j h
    by (simp_all add: bytes_marco_def s4)
  ultimately show ?thesis using that [OF l] b o by simp
qed

end
