(* ===== verification/Memoria_Victima.thy ===== *)
theory Memoria_Victima
  imports Memoria_Acceso
begin

section \<open>Memoria: laws of the page replacement\<close>

text \<open>
  The candidates are the present pages; both algorithms answer with one of them and change nothing
  but use bits and pointers (locale \<open>reemplazo_pagina\<close>). M-CLOCK answers exactly when its pointer
  is inside the list.
\<close>

subsection \<open>Candidates\<close>

definition candidata :: "'s entorno \<Rightarrow> 's memoria \<Rightarrow> int \<Rightarrow> ptr \<Rightarrow> bool" where
  "candidata E s pid p \<longleftrightarrow>
     p \<in> paginas_de s \<and>
     (\<exists>g. heap s p = Some g \<and> pag_presencia g \<noteq> 0 \<and> (es_fija E \<longrightarrow> pag_pid g = pid))"

lemma get_all_pages_in_cache_ok:
  assumes "procesos_ok s"
  shows "\<exists>ps. get_all_pages_in_cache s = Some ps \<and>
    set ps = {p \<in> paginas_de s. \<exists>g. heap s p = Some g \<and> pag_presencia g \<noteq> 0}"
proof -
  let ?Q = "\<lambda>p. case heap s p of Some g \<Rightarrow> pag_presencia g \<noteq> 0 | None \<Rightarrow> False"
  have "presente s p = Some (?Q p)" if p: "p \<in> paginas_de s" for p
  proof -
    obtain g where "heap s p = Some g" using pagina_viva [OF assms p] by metis
    then show ?thesis by (simp add: presente_def)
  qed
  then have "get_all_pages_in_cache s = Some (filter ?Q (concat (map crp_paginas (carpinchos_list s))))"
    unfolding get_all_pages_in_cache_def by (intro filtrar_total) (auto simp: paginas_de_def)
  then show ?thesis by (auto simp: paginas_de_def split: option.splits)
qed

lemma candidatas_ok:
  assumes inv: "inv_mem E s" and c: "get_carpincho s pid = Some c"
  shows "\<exists>ps. candidatas E pid s = Some ps \<and> set ps = {p. candidata E s pid p}"
proof (cases "es_fija E")
  case False
  then show ?thesis
    using get_all_pages_in_cache_ok [of s] inv
    by (auto simp: candidatas_def candidata_def inv_mem_def)
next
  case True
  have ok: "procesos_ok s" using inv by (simp add: inv_mem_def)
  have cm: "c \<in> set (carpinchos_list s)" "crp_pid c = pid" using get_carpinchoD [OF c] by auto
  let ?Q = "\<lambda>p. case heap s p of Some g \<Rightarrow> pag_presencia g \<noteq> 0 | None \<Rightarrow> False"
  have pg: "p \<in> paginas_de s" if "p \<in> set (crp_paginas c)" for p
    using that cm by (auto simp: paginas_de_def)
  have "en_cache s p = Some (?Q p)" if p: "p \<in> set (crp_paginas c)" for p
  proof -
    obtain g where g: "heap s p = Some g" using pagina_viva [OF ok pg [OF p]] by metis
    then show ?thesis using presencia_cache [OF inv pg [OF p] g] by (simp add: en_cache_def)
  qed
  then have "candidatas E pid s = Some (filter ?Q (crp_paginas c))"
    using True c by (simp add: candidatas_def get_pages_in_cache_by_carpincho_pid_def filtrar_total)
  moreover have "p \<in> set (crp_paginas c) \<longleftrightarrow> p \<in> paginas_de s \<and> pag_pid g = pid"
    if g: "heap s p = Some g" for p g
  proof
    assume p: "p \<in> set (crp_paginas c)"
    then obtain k where k: "k < length (crp_paginas c)" "crp_paginas c ! k = p" by (meson in_set_conv_nth)
    then have "pag_pid g = pid" using ok cm g by (fastforce simp: procesos_ok_def paginas_ok_def)
    with pg [OF p] show "p \<in> paginas_de s \<and> pag_pid g = pid" by simp
  next
    assume "p \<in> paginas_de s \<and> pag_pid g = pid"
    then show "p \<in> set (crp_paginas c)" using pagina_viva_de(5) [OF ok _ g] c by auto
  qed
  ultimately show ?thesis using True by (fastforce simp: candidata_def split: option.splits)
qed

subsection \<open>What choosing may change\<close>

definition solo_uso :: "(ptr \<Rightarrow> t_pagina option) \<Rightarrow> (ptr \<Rightarrow> t_pagina option) \<Rightarrow> bool" where
  "solo_uso h h' \<longleftrightarrow>
     (\<forall>p. map_option (\<lambda>g. g\<lparr>pag_uso := 0\<rparr>) (h' p) = map_option (\<lambda>g. g\<lparr>pag_uso := 0\<rparr>) (h p))"

lemma solo_uso_refl [simp]: "solo_uso h h"
  by (simp add: solo_uso_def)

lemma solo_uso_trans: "solo_uso h h' \<Longrightarrow> solo_uso h' h'' \<Longrightarrow> solo_uso h h''"
  by (simp add: solo_uso_def)

lemma solo_uso_upd: "h p = Some g \<Longrightarrow> solo_uso h (h(p \<mapsto> g\<lparr>pag_uso := u\<rparr>))"
  by (simp add: solo_uso_def)

lemma solo_usoD:
  assumes "solo_uso h h'" "h p = Some g"
  obtains g' where "h' p = Some g'" "pag_modif g' = pag_modif g" "clave_pag g' = clave_pag g"
    "pag_timestamp g' = pag_timestamp g"
proof -
  have "map_option (\<lambda>g. g\<lparr>pag_uso := 0\<rparr>) (h' p) = Some (g\<lparr>pag_uso := 0\<rparr>)"
    using assms by (simp add: solo_uso_def)
  then obtain g' where g': "h' p = Some g'" "g'\<lparr>pag_uso := 0\<rparr> = g\<lparr>pag_uso := 0\<rparr>" by auto
  have "pag_modif (g'\<lparr>pag_uso := 0\<rparr>) = pag_modif (g\<lparr>pag_uso := 0\<rparr>)"
    "clave_pag (g'\<lparr>pag_uso := 0\<rparr>) = clave_pag (g\<lparr>pag_uso := 0\<rparr>)"
    "pag_timestamp (g'\<lparr>pag_uso := 0\<rparr>) = pag_timestamp (g\<lparr>pag_uso := 0\<rparr>)"
    by (simp_all only: g'(2))
  then show ?thesis using that [OF g'(1)] by (simp add: clave_pag_def)
qed

definition solo_bits :: "'s memoria \<Rightarrow> 's memoria \<Rightarrow> bool" where
  "solo_bits s s' \<longleftrightarrow>
     solo_uso (heap s) (heap s') \<and> pids_paginas s' = pids_paginas s \<and>
     CACHE s' = CACHE s \<and> marcos_list s' = marcos_list s \<and> prox_ptr s' = prox_ptr s \<and>
     swamp s' = swamp s \<and> tlb_list s' = tlb_list s \<and> tlb_fifo_pointer s' = tlb_fifo_pointer s"

lemma solo_bits_refl [simp]: "solo_bits s s"
  by (simp add: solo_bits_def)

lemma solo_uso_vista: "solo_uso (heap s) (heap s') \<Longrightarrow> vista s' = vista s"
proof
  fix p assume u: "solo_uso (heap s) (heap s')"
  have "map_option clave_pag (map_option (\<lambda>g. g\<lparr>pag_uso := 0\<rparr>) (heap s' p)) =
      map_option clave_pag (map_option (\<lambda>g. g\<lparr>pag_uso := 0\<rparr>) (heap s p))"
    using u by (simp only: solo_uso_def)
  moreover have "clave_pag \<circ> (\<lambda>g. g\<lparr>pag_uso := 0\<rparr>) = clave_pag"
    by (simp add: fun_eq_iff clave_pag_def)
  ultimately show "vista s' p = vista s p" by (simp add: vista_def option.map_comp)
qed

lemma solo_bits_inv:
  assumes "inv_mem E s" "solo_bits s s'"
  shows "inv_mem E s'"
proof (rule inv_mem_cong [OF assms(1)])
  show "tlb_ok E s'" using assms by (simp add: inv_mem_def solo_bits_def tlb_ok_def)
qed (use assms(2) in \<open>simp_all add: solo_bits_def solo_uso_vista\<close>)

subsection \<open>The contract of a replacement algorithm\<close>

locale reemplazo_pagina =
  fixes elegir :: "'s entorno \<Rightarrow> ptr list \<Rightarrow> 's memoria \<Rightarrow> (ptr \<times> 's memoria) option"
    and listo :: "'s entorno \<Rightarrow> ptr list \<Rightarrow> 's memoria \<Rightarrow> bool"
  assumes elegir: "ordena (list_sort_pagina E) \<Longrightarrow> listo E ps s \<Longrightarrow> ps \<noteq> [] \<Longrightarrow>
    (\<forall>p\<in>set ps. \<exists>g. heap s p = Some g) \<Longrightarrow>
    \<exists>v s'. elegir E ps s = Some (v, s') \<and> v \<in> set ps \<and> solo_bits s s'"
begin

text \<open>Under the invariant the victim is a present page and its frame is the one it names.\<close>

lemma victima:
  assumes inv: "inv_mem E s" and c: "get_carpincho s pid = Some c"
    and srt: "ordena (list_sort_pagina E)" and q: "candidata E s pid q"
    and l: "\<And>ps. candidatas E pid s = Some ps \<Longrightarrow> listo E ps s"
  obtains ps v s1 g where "candidatas E pid s = Some ps" "elegir E ps s = Some (v, s1)"
    "solo_bits s s1" "inv_mem E s1" "candidata E s pid v" "heap s1 v = Some g"
    "pag_presencia g \<noteq> 0" "pagina_is_in_cache s1 g" "v \<in> paginas_de s1"
proof -
  obtain ps where ps: "candidatas E pid s = Some ps" "set ps = {p. candidata E s pid p}"
    using candidatas_ok [OF inv c] by blast
  moreover have "ps \<noteq> []" using ps(2) q by auto
  moreover have "\<forall>p\<in>set ps. \<exists>g. heap s p = Some g" using ps(2) by (auto simp: candidata_def)
  ultimately obtain v s1 where v: "elegir E ps s = Some (v, s1)" "v \<in> set ps" "solo_bits s s1"
    using elegir [OF srt l] by blast
  have cv: "candidata E s pid v" using v(2) ps(2) by simp
  then obtain g0 where g0: "heap s v = Some g0" "pag_presencia g0 \<noteq> 0" "v \<in> paginas_de s"
    by (auto simp: candidata_def)
  obtain g where g: "heap s1 v = Some g" "clave_pag g = clave_pag g0"
    using solo_usoD [of "heap s" "heap s1" v g0] v(3) g0(1) unfolding solo_bits_def by metis
  have inv1: "inv_mem E s1" using solo_bits_inv [OF inv v(3)] .
  have vp: "v \<in> paginas_de s1" using g0(3) v(3) by (simp add: paginas_de_pids solo_bits_def)
  have "pag_presencia g \<noteq> 0" using g(2) g0(2) by (simp add: clave_pag_def)
  then show ?thesis
    using that ps(1) v(1,3) inv1 cv g(1) vp presencia_cache [OF inv1 vp g(1)] by blast
qed

end

definition elegir_lru :: "'s entorno \<Rightarrow> ptr list \<Rightarrow> 's memoria \<Rightarrow> (ptr \<times> 's memoria) option" where
  "elegir_lru E paginas s = do { p \<leftarrow> get_proxima_a_swampear_by_lru E paginas s; Some (p, s) }"

lemma lru_minimo:
  assumes "ordena (list_sort_pagina E)" "ps \<noteq> []"
  obtains v where "get_proxima_a_swampear_by_lru E ps s = Some v" "v \<in> set ps"
    "\<And>q. q \<in> set ps \<Longrightarrow> clave_timestamp s v \<le> clave_timestamp s q"
  using ordena_first [OF assms, of "clave_timestamp s"]
  unfolding get_proxima_a_swampear_by_lru_def by blast

interpretation lru: reemplazo_pagina elegir_lru "\<lambda>E ps s. True"
proof
  fix E :: "'s entorno" and ps :: "ptr list" and s :: "'s memoria"
  assume "ordena (list_sort_pagina E)" "ps \<noteq> []"
  then show "\<exists>v s'. elegir_lru E ps s = Some (v, s') \<and> v \<in> set ps \<and> solo_bits s s'"
    by (rule lru_minimo [of E ps s]) (auto simp: elegir_lru_def)
qed

subsection \<open>M-CLOCK\<close>

definition cumple :: "int \<Rightarrow> t_pagina \<Rightarrow> bool" where
  "cumple e g \<longleftrightarrow> pag_uso g = 0 \<and> pag_modif g = e"

text \<open>One pass over live pages always ends: with the first match, or with none, and then the second
  pass has cleared every use bit.\<close>

lemma m_clock_pasada_ok:
  assumes "\<forall>p\<in>set ps. \<exists>g. h p = Some g"
  shows "\<exists>r h'. m_clock_pasada i e j ps h = Some (r, h') \<and> solo_uso h h' \<and> (i \<noteq> 1 \<longrightarrow> h' = h) \<and>
    (\<forall>q. q \<notin> set ps \<longrightarrow> h' q = h q) \<and>
    (case r of
       Some (p, j') \<Rightarrow> (\<exists>k<length ps. j' = j + int k \<and> p = ps ! k) \<and> (\<exists>g. h' p = Some g \<and> cumple e g)
     | None \<Rightarrow> (\<forall>p\<in>set ps. \<forall>g. h' p = Some g \<longrightarrow>
                 (if i = 1 then pag_uso g = 0 else \<not> cumple e g)))"
  using assms
proof (induction ps arbitrary: j h)
  case Nil
  then show ?case by simp
next
  case (Cons p ps)
  then obtain g where g: "h p = Some g" by auto
  show ?case
  proof (cases "cumple e g")
    case True
    then show ?thesis using g by (auto simp: cumple_def intro!: exI [of _ 0])
  next
    case False
    let ?h = "if i = 1 then h(p \<mapsto> g\<lparr>pag_uso := 0\<rparr>) else h"
    have u: "solo_uso h ?h" using g by (simp add: solo_uso_upd)
    have "\<forall>q\<in>set ps. \<exists>g. ?h q = Some g" using Cons.prems by auto
    from Cons.IH [OF this, of "j + 1"] obtain r h' where
      r: "m_clock_pasada i e (j + 1) ps ?h = Some (r, h')" "solo_uso ?h h'" "i \<noteq> 1 \<longrightarrow> h' = ?h"
      "\<forall>q. q \<notin> set ps \<longrightarrow> h' q = ?h q"
      "case r of
         Some (p, j') \<Rightarrow> (\<exists>k<length ps. j' = j + 1 + int k \<and> p = ps ! k) \<and> (\<exists>g. h' p = Some g \<and> cumple e g)
       | None \<Rightarrow> (\<forall>p\<in>set ps. \<forall>g. h' p = Some g \<longrightarrow> (if i = 1 then pag_uso g = 0 else \<not> cumple e g))"
      by blast
    have eq: "m_clock_pasada i e j (p # ps) h = Some (r, h')"
      using g False r(1) by (auto simp: cumple_def)
    have u': "solo_uso h h'" using solo_uso_trans [OF u r(2)] .
    have fuera: "\<forall>q. q \<notin> set (p # ps) \<longrightarrow> h' q = h q" using r(4) by auto
    have igual: "i \<noteq> 1 \<longrightarrow> h' = h" using r(3) by simp
    show ?thesis
    proof (cases r)
      case (Some pj)
      obtain v j' where pj: "pj = (v, j')" by (cases pj)
      obtain k where "k < length ps" "j' = j + 1 + int k" "v = ps ! k" "\<exists>g. h' v = Some g \<and> cumple e g"
        using r(5) Some pj by auto
      then have "\<exists>k<length (p # ps). j' = j + int k \<and> v = (p # ps) ! k" "\<exists>g. h' v = Some g \<and> cumple e g"
        by (auto intro!: exI [of _ "Suc k"])
      then show ?thesis using eq u' fuera igual Some pj by (intro exI [of _ r] exI [of _ h']) simp
    next
      case None
      have "if i = 1 then pag_uso g' = 0 else \<not> cumple e g'" if g': "h' p = Some g'" for g'
      proof (cases "p \<in> set ps")
        case True
        then show ?thesis using r(5) None g' by simp
      next
        case np: False
        have "h' p = ?h p" using r(4) np by blast
        then show ?thesis using g' g False by (auto split: if_splits)
      qed
      then show ?thesis using eq u' fuera igual r(5) None by (intro exI [of _ r] exI [of _ h']) simp
    qed
  qed
qed

text \<open>
  The four passes find a page whenever the pointer is inside the list, and leave the list alone when
  some page is neither used nor modified.
\<close>

definition bits_ok :: "(ptr \<Rightarrow> t_pagina option) \<Rightarrow> ptr list \<Rightarrow> bool" where
  "bits_ok h ps \<longleftrightarrow> (\<forall>p\<in>set ps. \<exists>g. h p = Some g \<and> pag_modif g \<in> {0, 1})"

lemma bits_ok_uso: "bits_ok h ps \<Longrightarrow> solo_uso h h' \<Longrightarrow> bits_ok h' ps"
  unfolding bits_ok_def by (metis solo_usoD)

lemma bits_ok_vivas: "bits_ok h ps \<Longrightarrow> \<forall>p\<in>set ps. \<exists>g. h p = Some g"
  unfolding bits_ok_def by blast

lemma pasada_otra:
  assumes "\<forall>p\<in>set ps. \<exists>g. h p = Some g" "i \<noteq> 1"
  obtains (halla) k where "m_clock_pasada i e j ps h = Some (Some (ps ! k, j + int k), h)"
      "k < length ps" "\<exists>g. h (ps ! k) = Some g \<and> cumple e g"
  | (nada) "m_clock_pasada i e j ps h = Some (None, h)"
      "\<forall>p\<in>set ps. \<forall>g. h p = Some g \<longrightarrow> \<not> cumple e g"
  using m_clock_pasada_ok [OF assms(1), of i e j] assms(2)
  by (auto split: option.splits simp del: not_None_eq)

lemma pasada_uno:
  assumes "\<forall>p\<in>set ps. \<exists>g. h p = Some g"
  obtains (halla) k h' where "m_clock_pasada 1 e j ps h = Some (Some (ps ! k, j + int k), h')"
      "k < length ps" "solo_uso h h'"
  | (nada) h' where "m_clock_pasada 1 e j ps h = Some (None, h')" "solo_uso h h'"
      "\<forall>p\<in>set ps. \<forall>g. h' p = Some g \<longrightarrow> pag_uso g = 0"
  using m_clock_pasada_ok [OF assms(1), of 1 e j]
  by (auto split: option.splits simp del: not_None_eq)

lemma distintos: "(0::nat) \<noteq> 1" "(2::nat) \<noteq> 1" "(3::nat) \<noteq> 1"
  by simp_all

lemma m_clock_bucle_ok:
  assumes "bits_ok h ps" "ps \<noteq> []"
  shows "\<exists>h' k. m_clock_bucle [0, 1, 2, 3] 0 j ps h = Some ((ps ! k, j + int k), h') \<and> solo_uso h h' \<and>
    k < length ps \<and>
    ((\<exists>p\<in>set ps. \<exists>g. h p = Some g \<and> cumple 0 g) \<longrightarrow>
       h' = h \<and> (\<exists>g. h (ps ! k) = Some g \<and> cumple 0 g))"
proof (cases rule: pasada_otra [OF bits_ok_vivas [OF assms(1)] distintos(1), of 0 j])
  case (1 k)
  then show ?thesis by (intro exI [of _ h] exI [of _ k]) simp
next
  case n0: 2
  show ?thesis
  proof (cases rule: pasada_uno [OF bits_ok_vivas [OF assms(1)], of 1 j])
    case (1 k h')
    then show ?thesis using n0 by (intro exI [of _ h'] exI [of _ k]) auto
  next
    case n1: (2 h2)
    have b2: "bits_ok h2 ps" using bits_ok_uso [OF assms(1) n1(2)] .
    show ?thesis
    proof (cases rule: pasada_otra [OF bits_ok_vivas [OF b2] distintos(2), of 0 j])
      case (1 k)
      then show ?thesis using n0 n1 by (intro exI [of _ h2] exI [of _ k]) auto
    next
      case n2: 2
      show ?thesis
      proof (cases rule: pasada_otra [OF bits_ok_vivas [OF b2] distintos(3), of 1 j])
        case (1 k)
        then show ?thesis using n0 n1 n2 by (intro exI [of _ h2] exI [of _ k]) auto
      next
        case n3: 2
        have "hd ps \<in> set ps" using assms(2) by simp
        with b2 obtain g where "h2 (hd ps) = Some g" "pag_modif g \<in> {0, 1}" unfolding bits_ok_def by blast
        with n1(3) n2(2) n3(2) \<open>hd ps \<in> set ps\<close> have False by (auto simp: cumple_def)
        then show ?thesis ..
      qed
    qed
  qed
qed

text \<open>The pointer of the process, or the global one, is inside the list of candidates.\<close>

definition puntero_listo :: "'s entorno \<Rightarrow> ptr list \<Rightarrow> 's memoria \<Rightarrow> bool" where
  "puntero_listo E ps s \<longleftrightarrow>
     (if es_fija E
      then \<forall>p\<in>set ps. \<exists>g c. heap s p = Some g \<and> get_carpincho s (pag_pid g) = Some c \<and>
             0 \<le> crp_stack_pointer c \<and> crp_stack_pointer c < list_size ps
      else 0 \<le> algoritm_stack_pointer s \<and> algoritm_stack_pointer s < list_size ps)"

lemma m_clock_bucle_desde:
  assumes "bits_ok h ps" "0 \<le> j" "j < list_size ps"
  shows "\<exists>h' k. m_clock_bucle [0, 1, 2, 3] 0 j (drop (nat j) ps) h = Some ((ps ! k, int k), h') \<and>
    solo_uso h h' \<and> nat j \<le> k \<and> k < length ps \<and>
    ((\<exists>p\<in>set (drop (nat j) ps). \<exists>g. h p = Some g \<and> cumple 0 g) \<longrightarrow>
       h' = h \<and> (\<exists>g. h (ps ! k) = Some g \<and> cumple 0 g))"
proof -
  let ?ps = "drop (nat j) ps"
  have "bits_ok h ?ps" using assms(1) by (auto simp: bits_ok_def dest: in_set_dropD)
  moreover have "?ps \<noteq> []" using assms(2,3) by (simp add: list_size_def)
  ultimately obtain h' k where k: "m_clock_bucle [0, 1, 2, 3] 0 j ?ps h = Some ((?ps ! k, j + int k), h')"
    "solo_uso h h'" "k < length ?ps"
    "(\<exists>p\<in>set ?ps. \<exists>g. h p = Some g \<and> cumple 0 g) \<longrightarrow> h' = h \<and> (\<exists>g. h (?ps ! k) = Some g \<and> cumple 0 g)"
    using m_clock_bucle_ok [of h ?ps j] by blast
  define m where "m = nat j + k"
  have m: "?ps ! k = ps ! m" "j + int k = int m" "nat j \<le> m" "m < length ps"
    using k(3) assms(2) by (simp_all add: m_def)
  show ?thesis
    using k(1,2,4) m(3,4) unfolding m(1,2) by (intro exI [of _ h'] exI [of _ m] conjI)
qed

lemma m_clock_elige:
  assumes srt: "ordena (list_sort_pagina E)" and b: "bits_ok (heap s) ps" and l: "puntero_listo E ps s"
    and ne: "ps \<noteq> []"
  shows "\<exists>v s'. get_proxima_a_swampear_by_m_clock E ps s = Some (v, s') \<and> v \<in> set ps \<and> solo_bits s s' \<and>
    (\<not> es_fija E \<longrightarrow> 0 \<le> algoritm_stack_pointer s' \<and> algoritm_stack_pointer s' < list_size ps)"
proof -
  define qs where "qs = list_sort_pagina E (\<lambda>p q. clave_marco s p < clave_marco s q) ps"
  have qs: "set qs = set ps" "length qs = length ps"
    using ordena_set [OF srt, of "clave_marco s" ps] ordena_length [OF srt, of "clave_marco s" ps]
    by (simp_all add: qs_def)
  have bq: "bits_ok (heap s) qs" using b qs(1) by (simp add: bits_ok_def)
  have "qs \<noteq> []" using ne qs(2) by auto
  then obtain a as where qa: "qs = a # as" by (meson neq_Nil_conv)
  have hq: "list_get qs 0 = Some (hd qs)" unfolding qa by simp
  have hs: "hd qs \<in> set ps" unfolding qs(1) [symmetric] qa by simp
  define oc where "oc = (if es_fija E
     then do { p \<leftarrow> list_get qs 0; g \<leftarrow> heap s p; c \<leftarrow> get_carpincho s (pag_pid g); Some (Some c) }
     else Some None)"
  obtain c j where oc: "oc = Some c" and j: "j = (case c of Some c \<Rightarrow> crp_stack_pointer c
        | None \<Rightarrow> algoritm_stack_pointer s)" "0 \<le> j" "j < list_size qs" "c = None \<longleftrightarrow> \<not> es_fija E"
  proof (cases "es_fija E")
    case True
    with l hs obtain g d where "heap s (hd qs) = Some g" "get_carpincho s (pag_pid g) = Some d"
      "0 \<le> crp_stack_pointer d" "crp_stack_pointer d < list_size ps"
      by (auto simp: puntero_listo_def)
    then show ?thesis using that [of "Some d" "crp_stack_pointer d"] True hq qs(2)
      by (simp add: oc_def list_size_def)
  next
    case False
    then show ?thesis using that [of None "algoritm_stack_pointer s"] l qs(2)
      by (simp add: oc_def puntero_listo_def list_size_def)
  qed
  obtain h' k where k: "m_clock_bucle [0, 1, 2, 3] 0 j (drop (nat j) qs) (heap s) = Some ((qs ! k, int k), h')"
    "solo_uso (heap s) h'" "k < length qs"
    using m_clock_bucle_desde [OF bq j(2,3)] by blast
  define pt where "pt = (if int k + 1 \<ge> list_size ps then 0 else int k + 1)"
  have pt: "0 \<le> pt" "pt < list_size ps" using ne by (auto simp: pt_def list_size_def)
  define s' where "s' = (case c of
      Some c \<Rightarrow> modifica_carpincho (crp_pid c) (\<lambda>c. c\<lparr>crp_stack_pointer := pt\<rparr>) (s\<lparr>heap := h'\<rparr>)
    | None \<Rightarrow> (s\<lparr>heap := h'\<rparr>)\<lparr>algoritm_stack_pointer := pt\<rparr>)"
  have "get_proxima_a_swampear_by_m_clock E ps s = Some (qs ! k, s')"
    unfolding get_proxima_a_swampear_by_m_clock_def Let_def qs_def [symmetric] oc_def [symmetric] oc
      Option.bind.simps j(1) [symmetric]
    by (simp only: j(2) k(1) exige_simps Option.bind.simps prod.case pt_def [symmetric] s'_def)
  moreover have "qs ! k \<in> set ps" using nth_mem [OF k(3)] qs(1) by simp
  moreover have "solo_bits s s'"
    using k(2) by (auto simp: s'_def solo_bits_def modifica_carpincho_def split: option.splits)
  moreover have "\<not> es_fija E \<longrightarrow> 0 \<le> algoritm_stack_pointer s' \<and> algoritm_stack_pointer s' < list_size ps"
    using pt j(4) by (auto simp: s'_def)
  ultimately show ?thesis by blast
qed

interpretation m_clock: reemplazo_pagina get_proxima_a_swampear_by_m_clock
  "\<lambda>E ps s. bits_ok (heap s) ps \<and> puntero_listo E ps s"
  by unfold_locales (metis m_clock_elige)

end
