(* ===== verification/Memoria_Fallo.thy ===== *)
theory Memoria_Fallo
  imports Memoria_Victima
begin

section \<open>Memoria: page faults\<close>

text \<open>
  Eviction of a page and the loading of another one into its frame, against the interface of the
  swap server (locale \<open>servidor_swap\<close>): a page that has been written is read back once, as
  \<open>recupera\<close> gives it.
\<close>

subsection \<open>Emptying a frame\<close>

lemma modifica_marco_lista:
  assumes "marcos_ok E s" "0 \<le> m" "m < list_size (marcos_list s)"
  shows "marcos_list (modifica_marco m f s) = (marcos_list s)[nat m := f (marcos_list s ! nat m)]"
proof (rule nth_equalityI)
  fix i assume "i < length (marcos_list (modifica_marco m f s))"
  then have "i < length (marcos_list s)" "mrc_marco (marcos_list s ! i) = int i"
    using assms(1) by (auto simp: modifica_marco_def marcos_ok_def)
  then show "marcos_list (modifica_marco m f s) ! i = (marcos_list s)[nat m := f (marcos_list s ! nat m)] ! i"
    using assms(2) by (auto simp: modifica_marco_def nth_list_update)
qed (simp add: modifica_marco_def)

lemma marcos_ok_update:
  assumes "marcos_ok E s" "marcos_list s' = (marcos_list s)[n := x]" "length (CACHE s') = length (CACHE s)"
    and x: "n < length (marcos_list s) \<Longrightarrow> mrc_marco x = int n"
  shows "marcos_ok E s'"
proof -
  have "mrc_marco ((marcos_list s)[n := x] ! i) = int i" if "i < length (marcos_list s)" for i
    using that assms(1) x by (cases "i = n") (auto simp: marcos_ok_def)
  then show ?thesis using assms(1-3) by (simp add: marcos_ok_def list_size_def)
qed

lemma tlb_ok_otro_marco:
  assumes "tlb_ok E s" and no: "\<And>t. t \<in> set (tlb_list s) \<Longrightarrow> tlb_marco t \<noteq> m"
    and s': "tlb_list s' = tlb_list s" "tlb_fifo_pointer s' = tlb_fifo_pointer s"
      "marcos_list s' = (marcos_list s)[nat m := x]" and m: "0 \<le> m"
  shows "tlb_ok E s'"
proof -
  have "item_ok (marcos_list s') t" if t: "t \<in> set (tlb_list s)" for t
  proof -
    have "item_ok (marcos_list s) t" using assms(1) t by (simp add: tlb_ok_def)
    moreover have "nat m \<noteq> nat (tlb_marco t)" if "0 \<le> tlb_marco t"
      using no [OF t] m that by auto
    ultimately show ?thesis
      by (auto simp: item_ok_def ocupa_def s' list_size_def)
  qed
  then show ?thesis using assms(1) by (simp add: tlb_ok_def s')
qed

lemma vaciar_marco_ok:
  assumes nd: "\<not> en_debug E" and ok: "marcos_ok E s" "tlb_ok E s"
    and m: "0 \<le> m" "m < list_size (marcos_list s)"
  obtains s' where "vaciar_marco_en_cache E m s = Some s'"
    "marcos_list s' = (marcos_list s)[nat m :=
       (marcos_list s ! nat m)\<lparr>mrc_isFree := True, mrc_pagina := 0, mrc_pid := 0\<rparr>]"
    "heap s' = heap s" "carpinchos_list s' = carpinchos_list s" "prox_ptr s' = prox_ptr s"
    "swamp s' = swamp s" "length (CACHE s') = length (CACHE s)"
    "cantidad_maxima_marcos s' = cantidad_maxima_marcos s"
    "contador_timestamp s' = contador_timestamp s"
    "tlb_ok E s'" "\<forall>t\<in>set (tlb_list s'). tlb_marco t \<noteq> m"
    "\<forall>j. 0 \<le> j \<and> j \<noteq> m \<longrightarrow> bytes_marco E s' j = bytes_marco E s j"
proof -
  let ?b = "replicate (nat (tam_pag E)) CHR ''_''"
  have t: "0 < tam_pag E" using ok(1) by (simp add: marcos_ok_def)
  have r: "(0::int) \<le> 0" "0 + tam_pag E \<le> tam_pag E" "list_size ?b = tam_pag E"
    using t by (simp_all add: list_size_def)
  from escribir_marco [OF ok(1) m r] obtain cache
    where "escribir_en_cache E m ?b (tam_pag E) 0 s = Some (0, s\<lparr>CACHE := cache\<rparr>)"
      and cache0: "copia_bytes (CACHE s) (get_marco_ptr E m + 0) ?b = Some cache"
      and len: "length cache = length (CACHE s)"
      and "bytes_marco E (s\<lparr>CACHE := cache\<rparr>) m =
        take (nat 0) (bytes_marco E s m) @ ?b @ drop (nat (0 + tam_pag E)) (bytes_marco E s m)"
      and otros: "\<forall>j. 0 \<le> j \<and> j \<noteq> m \<longrightarrow>
        bytes_marco E (s\<lparr>CACHE := cache\<rparr>) j = bytes_marco E s j" .
  from cache0 have cache: "copia_bytes (CACHE s) (get_marco_ptr E m) ?b = Some cache" by simp
  let ?s1 = "s\<lparr>CACHE := cache\<rparr>"
  have tok1: "tlb_ok E ?s1" using ok(2) by (simp add: tlb_ok_def)
  obtain s2 where s2: "(if \<exists>t\<in>set (tlb_list s). tlb_marco t = m
      then do { t \<leftarrow> get_tlb_item_by_marco_number ?s1 m; Some (vaciar_pagina_tlb (tlb_entrada t) ?s1) }
      else Some ?s1) = Some s2" "datos s2 = datos ?s1" "tlb_ok E s2"
    "\<And>t. t \<in> set (tlb_list s2) \<Longrightarrow> tlb_marco t \<noteq> m" "contador_timestamp s2 = contador_timestamp s"
    "carpinchos_list s2 = carpinchos_list s"
  proof (cases "\<exists>t\<in>set (tlb_list s). tlb_marco t = m")
    case True
    then obtain t where f: "list_find (\<lambda>t. tlb_marco t = m) (tlb_list s) = Some t"
      using list_find_None_iff [of "\<lambda>t. tlb_marco t = m" "tlb_list s"] by fastforce
    then have t: "get_tlb_item_by_marco_number ?s1 m = Some t" "t \<in> set (tlb_list s)" "tlb_marco t = m"
      using list_find_SomeD [OF f] by (simp_all add: get_tlb_item_by_marco_number_def filtro_cero)
    let ?s2 = "vaciar_pagina_tlb (tlb_entrada t) ?s1"
    have "tlb_marco u \<noteq> m" if u: "u \<in> set (tlb_list ?s2)" for u
    proof -
      obtain v where v: "v \<in> set (tlb_list s)"
        "u = (if tlb_entrada v = tlb_entrada t then v\<lparr>tlb_pid := 0, tlb_pagina := 0, tlb_marco := - 1\<rparr> else v)"
        using u by (auto simp: vaciar_pagina_tlb_def modifica_tlb_def)
      then show ?thesis using ok(2) t(2,3) m(1) by (auto simp: tlb_ok_def)
    qed
    moreover have "tlb_ok E ?s2" using vaciar_pagina_tlb_ok [OF tok1] t(2) by simp
    moreover have "contador_timestamp ?s2 = contador_timestamp s" "carpinchos_list ?s2 = carpinchos_list s"
      by (simp_all add: vaciar_pagina_tlb_def modifica_tlb_def)
    moreover have "datos ?s2 = datos ?s1" by (rule vaciar_pagina_tlb_datos)
    ultimately show ?thesis using that [of ?s2] True t(1) by simp
  next
    case False
    then show ?thesis using that [of ?s1] tok1 by auto
  qed
  have d2: "marcos_list s2 = marcos_list s" "heap s2 = heap s" "prox_ptr s2 = prox_ptr s"
    "swamp s2 = swamp s" "CACHE s2 = cache" "cantidad_maxima_marcos s2 = cantidad_maxima_marcos s"
    using datos_eqD [OF s2(2)] by simp_all
  have mok2: "marcos_ok E s2" using ok(1) d2(1,5) len by (simp add: marcos_ok_def list_size_def)
  have mm: "mrc_marco (marcos_list s ! nat m) = m"
    using ok(1) m by (auto simp: marcos_ok_def list_size_def)
  let ?f = "\<lambda>m. m\<lparr>mrc_isFree := True, mrc_pagina := 0, mrc_pid := 0\<rparr>"
  let ?s' = "modifica_marco m ?f s2"
  have ml: "marcos_list ?s' = (marcos_list s)[nat m := ?f (marcos_list s ! nat m)]"
    using modifica_marco_lista [OF mok2] m d2(1) by simp
  have v: "vaciar_marco_en_cache E m s = Some ?s'"
    using list_get_nat [of "nat m" "marcos_list s"] m cache nd s2(1) mm
    by (simp add: vaciar_marco_en_cache_def list_size_def)
  have "tlb_ok E ?s'"
    by (rule tlb_ok_otro_marco [OF s2(3,4)]) (use ml d2(1) m in \<open>simp_all add: modifica_marco_def\<close>)
  moreover have "bytes_marco E ?s' j = bytes_marco E ?s1 j" for j
    by (simp add: bytes_marco_def modifica_marco_def d2(5))
  ultimately show ?thesis
    using that [OF v ml] s2(4,5,6) d2 len otros by (simp add: modifica_marco_def)
qed

subsection \<open>Giving the frame to another page\<close>

text \<open>What \<open>desalojar\<close> leaves once the swap server has answered (\<open>w\<close>) or has not been asked.\<close>

definition desalojado ::
  "'s entorno \<Rightarrow> ptr \<Rightarrow> t_pagina \<Rightarrow> int \<Rightarrow> int \<Rightarrow> 's \<Rightarrow> 's memoria \<Rightarrow> 's memoria \<Rightarrow> bool" where
  "desalojado E v g carpincho pagina w s s' \<longleftrightarrow>
     marcos_list s' = (marcos_list s)[nat (pag_marco g) := (marcos_list s ! nat (pag_marco g))
       \<lparr>mrc_pagina := pagina, mrc_pid := carpincho, mrc_isFree := False\<rparr>] \<and>
     heap s' = (heap s)(v \<mapsto> g\<lparr>pag_presencia := 0, pag_marco := 0\<rparr>) \<and>
     carpinchos_list s' = carpinchos_list s \<and> prox_ptr s' = prox_ptr s \<and> swamp s' = w \<and>
     length (CACHE s') = length (CACHE s) \<and> tlb_ok E s' \<and>
     (\<forall>t\<in>set (tlb_list s'). tlb_marco t \<noteq> pag_marco g) \<and>
     (\<forall>j. 0 \<le> j \<and> j \<noteq> pag_marco g \<longrightarrow> bytes_marco E s' j = bytes_marco E s j)"

lemma desalojar_ok:
  assumes inv: "inv_mem E s" and v: "v \<in> paginas_de s" "heap s v = Some g" "pag_presencia g \<noteq> 0"
    and sw: "if es_m_clock E \<and> pag_modif g = 0 then w = swamp s
      else \<exists>stream r. serializar_escritura_swap E (bytes_marco E s (pag_marco g)) = Some stream \<and>
             srv_escribir E (pag_pid g) (pag_pagina g) stream (swamp s) = Some (r, w)"
  obtains s' where "desalojar E v carpincho pagina s = Some (pag_marco g, s')"
    "desalojado E v g carpincho pagina w s s'"
proof -
  have ok: "\<not> en_debug E" "marcos_ok E s" "tlb_ok E s" "presencia_ok s" using inv by (auto simp: inv_mem_def)
  let ?m = "pag_marco g"
  have oc: "ocupa (marcos_list s) ?m (pag_pid g) (pag_pagina g)" using presente_ocupa [OF ok(4) v] .
  have m: "0 \<le> ?m" "?m < list_size (marcos_list s)" using oc by (auto simp: ocupa_def)
  have t: "0 \<le> tam_pag E" using ok(2) by (simp add: marcos_ok_def)
  have "retornar_contenido E s ?m 0 (tam_pag E) = Some (Some (bytes_marco E s ?m))"
    using leer_marco [OF ok(2) m, of 0 "tam_pag E"] t by (simp add: bytes_marco_def)
  then have s1: "(if es_m_clock E \<and> pag_modif g = 0 then Some s
      else do { r \<leftarrow> retornar_contenido E s ?m 0 (tam_pag E); contenido \<leftarrow> r;
                (_, s1) \<leftarrow> enviar_escritura_swap E (pag_pid g) (pag_pagina g) contenido s;
                Some s1 }) = Some (s\<lparr>swamp := w\<rparr>)"
    using sw by (cases "es_m_clock E \<and> pag_modif g = 0") (auto simp: enviar_escritura_swap_def)
  let ?s1 = "s\<lparr>swamp := w\<rparr>"
  have ok1: "marcos_ok E ?s1" "tlb_ok E ?s1" "?m < list_size (marcos_list ?s1)"
    using ok m by (simp_all add: marcos_ok_def tlb_ok_def)
  from vaciar_marco_ok [OF ok(1) ok1(1,2) m(1) ok1(3)] obtain s2 where s2:
    "vaciar_marco_en_cache E ?m ?s1 = Some s2"
    "marcos_list s2 = (marcos_list ?s1)[nat ?m :=
       (marcos_list ?s1 ! nat ?m)\<lparr>mrc_isFree := True, mrc_pagina := 0, mrc_pid := 0\<rparr>]"
    "heap s2 = heap ?s1" "carpinchos_list s2 = carpinchos_list ?s1" "prox_ptr s2 = prox_ptr ?s1"
    "swamp s2 = swamp ?s1" "length (CACHE s2) = length (CACHE ?s1)"
    "cantidad_maxima_marcos s2 = cantidad_maxima_marcos ?s1"
    "contador_timestamp s2 = contador_timestamp ?s1"
    "tlb_ok E s2" "\<forall>t\<in>set (tlb_list s2). tlb_marco t \<noteq> ?m"
    "\<forall>j. 0 \<le> j \<and> j \<noteq> ?m \<longrightarrow> bytes_marco E s2 j = bytes_marco E ?s1 j" .
  have numero: "mrc_marco (marcos_list s ! nat ?m) = ?m"
    using ok(2) m by (auto simp: marcos_ok_def list_size_def)
  have m2: "?m < list_size (marcos_list s2)" using m s2(2) by (simp add: list_size_def)
  have mok2: "marcos_ok E s2"
    by (rule marcos_ok_update [OF ok1(1) s2(2,7)]) (use numero m(1) in simp)
  let ?f = "\<lambda>m. m\<lparr>mrc_pagina := pagina, mrc_pid := carpincho, mrc_isFree := False\<rparr>"
  let ?s3 = "modifica_marco ?m ?f s2"
  let ?s' = "?s3\<lparr>heap := (heap ?s3)(v \<mapsto> g\<lparr>pag_presencia := 0, pag_marco := 0\<rparr>)\<rparr>"
  have i: "nat ?m < length (marcos_list s)" using m by (simp add: list_size_def)
  have l3: "marcos_list ?s3 = (marcos_list s)[nat ?m := ?f (marcos_list s ! nat ?m)]"
    using modifica_marco_lista [OF mok2 m(1) m2, of ?f] i by (simp add: s2(2))
  have g2: "get_marco_by_marco_number s2 ?m = Some (marcos_list s2 ! nat ?m)"
    using marco_por_numero [OF mok2 m(1) m2] .
  have n2: "mrc_marco (marcos_list s2 ! nat ?m) = ?m" using i numero by (simp add: s2(2))
  have "desalojar E v carpincho pagina s = Some (?m, ?s')"
    unfolding desalojar_def using v(2) s1 s2(1) g2 n2 by (simp add: Let_def)
  moreover have "tlb_ok E ?s'"
    by (rule tlb_ok_otro_marco [OF s2(10), of ?m]) (use s2(2,11) l3 m(1) i in \<open>auto simp: modifica_marco_def\<close>)
  ultimately show ?thesis
    using that [of ?s'] s2(3-7,11,12) l3
    by (simp add: desalojado_def modifica_marco_def bytes_marco_def)
qed

subsection \<open>The invariant with one frame in transit\<close>

text \<open>\<open>presencia_vista\<close> for every frame but \<open>m\<close>, which no present page names.\<close>

definition presencia_salvo ::
  "ptr set \<Rightarrow> t_marco list \<Rightarrow> (ptr \<Rightarrow> (int \<times> int \<times> int \<times> int) option) \<Rightarrow> int \<Rightarrow> bool" where
  "presencia_salvo P ms V m \<longleftrightarrow>
     (\<forall>p\<in>P. \<forall>a b c d. V p = Some (a, b, c, d) \<longrightarrow> c \<noteq> 0 \<longrightarrow> d \<noteq> m \<and> ocupa ms d a b) \<and>
     (\<forall>i<length ms. int i \<noteq> m \<longrightarrow>
        (if mrc_isFree (ms ! i) then mrc_pid (ms ! i) = 0 \<and> mrc_pagina (ms ! i) = 0
         else \<exists>p\<in>P. \<exists>c. c \<noteq> 0 \<and> V p = Some (mrc_pid (ms ! i), mrc_pagina (ms ! i), c, int i)))"

lemma ocupa_update:
  "0 \<le> d \<Longrightarrow> d \<noteq> m \<Longrightarrow> 0 \<le> m \<Longrightarrow> ocupa (ms[nat m := x]) d a b = ocupa ms d a b"
  by (auto simp: ocupa_def list_size_def)

lemma ocupa_unico: "ocupa ms d a b \<Longrightarrow> ocupa ms d a' b' \<Longrightarrow> a = a' \<and> b = b'"
  by (auto simp: ocupa_def)

lemma presencia_desocupar:
  assumes V: "presencia_vista P ms V" "v \<in> P" "V v = Some (a, b, c, m)" "c \<noteq> 0"
    and uni: "\<And>q c' d. q \<in> P \<Longrightarrow> V q = Some (a, b, c', d) \<Longrightarrow> q = v"
  shows "presencia_salvo P ms (V(v \<mapsto> (a, b, 0, e))) m"
  unfolding presencia_salvo_def
proof (intro conjI ballI allI impI)
  have vm: "ocupa ms m a b" using V unfolding presencia_vista_def by blast
  fix q a' b' c' d
  assume q: "q \<in> P" "(V(v \<mapsto> (a, b, 0, e))) q = Some (a', b', c', d)" "c' \<noteq> 0"
  then have Vq: "V q = Some (a', b', c', d)" "q \<noteq> v" by (auto split: if_splits)
  then show oc: "ocupa ms d a' b'" using V(1) q unfolding presencia_vista_def by blast
  show "d \<noteq> m" using ocupa_unico [OF vm] oc uni [OF q(1)] Vq by blast
next
  fix i assume i: "i < length ms" "int i \<noteq> m"
  then have "if mrc_isFree (ms ! i) then mrc_pid (ms ! i) = 0 \<and> mrc_pagina (ms ! i) = 0
     else \<exists>p\<in>P. \<exists>c. c \<noteq> 0 \<and> V p = Some (mrc_pid (ms ! i), mrc_pagina (ms ! i), c, int i)"
    using V(1) unfolding presencia_vista_def by blast
  moreover have "p \<noteq> v" if "V p = Some (x, y, z, int i)" for p x y z
    using that V(3) i(2) by auto
  ultimately show "if mrc_isFree (ms ! i) then mrc_pid (ms ! i) = 0 \<and> mrc_pagina (ms ! i) = 0
     else \<exists>p\<in>P. \<exists>c. c \<noteq> 0 \<and>
       (V(v \<mapsto> (a, b, 0, e))) p = Some (mrc_pid (ms ! i), mrc_pagina (ms ! i), c, int i)"
    by (smt (verit) fun_upd_other)
qed

lemma presencia_libre:
  assumes "presencia_vista P ms V" "0 \<le> m" "m < list_size ms" "mrc_isFree (ms ! nat m)"
  shows "presencia_salvo P ms V m"
  using assms unfolding presencia_salvo_def presencia_vista_def
  by (smt (verit) ocupa_def)

lemma presencia_ocupar:
  assumes V: "presencia_salvo P ms V m" and m: "0 \<le> m" "m < list_size ms"
    and x: "\<not> mrc_isFree x" "mrc_pid x = a" "mrc_pagina x = b"
    and p: "p \<in> P \<Longrightarrow> \<exists>a b d. V p = Some (a, b, 0, d)"
  shows "presencia_vista (insert p P) (ms[nat m := x]) (V(p \<mapsto> (a, b, 1, m)))"
  unfolding presencia_vista_def
proof (intro conjI ballI allI impI)
  have new: "ocupa (ms[nat m := x]) m a b" using m x by (simp add: ocupa_def list_size_def)
  fix q a' b' c' d
  assume q: "q \<in> insert p P" "(V(p \<mapsto> (a, b, 1, m))) q = Some (a', b', c', d)" "c' \<noteq> 0"
  show "ocupa (ms[nat m := x]) d a' b'"
  proof (cases "q = p")
    case True
    then show ?thesis using q(2) new by auto
  next
    case False
    then have "d \<noteq> m" "ocupa ms d a' b'" using q V unfolding presencia_salvo_def by auto
    moreover from this(2) have "0 \<le> d" by (simp add: ocupa_def)
    ultimately show ?thesis using ocupa_update m(1) by blast
  qed
next
  fix i assume i: "i < length (ms[nat m := x])"
  show "if mrc_isFree (ms[nat m := x] ! i) then mrc_pid (ms[nat m := x] ! i) = 0 \<and> mrc_pagina (ms[nat m := x] ! i) = 0
     else \<exists>q\<in>insert p P. \<exists>c. c \<noteq> 0 \<and> (V(p \<mapsto> (a, b, 1, m))) q =
       Some (mrc_pid (ms[nat m := x] ! i), mrc_pagina (ms[nat m := x] ! i), c, int i)"
  proof (cases "i = nat m")
    case True
    then show ?thesis using i m(1) x by (auto intro!: bexI [of _ p])
  next
    case False
    then have im: "int i \<noteq> m" by auto
    show ?thesis
    proof (cases "mrc_isFree (ms ! i)")
      case True
      then show ?thesis using False V i im unfolding presencia_salvo_def by auto
    next
      case nf: False
      then obtain q c where q: "q \<in> P" "c \<noteq> 0" "V q = Some (mrc_pid (ms ! i), mrc_pagina (ms ! i), c, int i)"
        using V i im unfolding presencia_salvo_def by (metis length_list_update)
      then have "q \<noteq> p" using p by auto
      then show ?thesis using q nf False by (auto intro!: bexI [of _ q])
    qed
  qed
qed

lemma procesos_vista_upd:
  assumes "procesos_vista cs n V" "V p = Some (a, b, c, d)" "c' \<in> {0, 1}"
  shows "procesos_vista cs n (V(p \<mapsto> (a, b, c', d')))"
proof -
  let ?en = "\<lambda>W q pid k. \<exists>c\<in>{0, 1}. \<exists>d. W q = Some (pid, k, c, d)"
  have up: "?en (V(p \<mapsto> (a, b, c', d'))) q pid k" if "?en V q pid k" for q pid k
    using that assms(2,3) by (cases "q = p") auto
  show ?thesis
    unfolding procesos_vista_def
  proof (intro conjI ballI)
    show "distinct (map fst cs)" using assms(1) by (simp add: procesos_vista_def)
    fix x assume "x \<in> set cs"
    obtain pid ps where x: "x = (pid, ps)" by (cases x)
    with assms(1) \<open>x \<in> set cs\<close> have *: "pid \<noteq> 0 \<and> (\<forall>p\<in>set ps. p < n) \<and>
        (\<forall>k<length ps. ?en V (ps ! k) pid (int k + 1))"
      unfolding procesos_vista_def by auto
    then have "\<forall>k<length ps. ?en (V(p \<mapsto> (a, b, c', d'))) (ps ! k) pid (int k + 1)"
      using up by simp
    with * x show "case x of (pid, ps) \<Rightarrow> pid \<noteq> 0 \<and> (\<forall>p\<in>set ps. p < n) \<and>
        (\<forall>k<length ps. ?en (V(p \<mapsto> (a, b, c', d'))) (ps ! k) pid (int k + 1))"
      by simp
  qed
qed

lemma vista_upd:
  "heap s' = (heap s)(p \<mapsto> g) \<Longrightarrow> vista s' = (vista s)(p \<mapsto> clave_pag g)"
  by (simp add: vista_def fun_eq_iff)

lemma vista_presentar:
  assumes "heap s p = Some g"
  shows "vista (presentar p m s) = (vista s)(p \<mapsto> (pag_pid g, pag_pagina g, 1, m))"
  using assms by (simp add: presentar_def vista_def fun_eq_iff clave_pag_def)

lemma presentar_simps [simp]:
  "marcos_list (presentar p m s) = marcos_list s" "carpinchos_list (presentar p m s) = carpinchos_list s"
  "prox_ptr (presentar p m s) = prox_ptr s" "CACHE (presentar p m s) = CACHE s"
  "tlb_list (presentar p m s) = tlb_list s" "tlb_fifo_pointer (presentar p m s) = tlb_fifo_pointer s"
  "swamp (presentar p m s) = swamp s"
  by (simp_all add: presentar_def)

text \<open>After an eviction the page that takes the frame completes the invariant.\<close>

lemma inv_tras_fallo:
  assumes inv: "inv_mem E s"
    and v: "v \<in> paginas_de s" "heap s v = Some g" "pag_presencia g \<noteq> 0"
    and p: "p \<in> paginas_de s" "heap s p = Some gp" "pag_presencia gp = 0"
    and d: "desalojado E v g (pag_pid gp) (pag_pagina gp) w s s2"
    and s4: "marcos_list s4 = marcos_list s2" "heap s4 = heap s2" "pids_paginas s4 = pids_paginas s2"
      "prox_ptr s4 = prox_ptr s2" "length (CACHE s4) = length (CACHE s2)" "tlb_ok E s4"
  shows "inv_mem E (presentar p (pag_marco g) s4)"
proof -
  have ok: "\<not> en_debug E" "marcos_ok E s" "procesos_ok s" "presencia_ok s" using inv by (auto simp: inv_mem_def)
  let ?m = "pag_marco g"
  have pv: "p \<noteq> v" using p v by auto
  have oc: "ocupa (marcos_list s) ?m (pag_pid g) (pag_pagina g)" using presente_ocupa [OF ok(4) v] .
  then have m: "0 \<le> ?m" "?m < list_size (marcos_list s)" by (auto simp: ocupa_def)
  have numero: "mrc_marco (marcos_list s ! nat ?m) = ?m"
    using ok(2) m by (auto simp: marcos_ok_def list_size_def)
  let ?x = "(marcos_list s ! nat ?m)\<lparr>mrc_pagina := pag_pagina gp, mrc_pid := pag_pid gp, mrc_isFree := False\<rparr>"
  have ml: "marcos_list s4 = (marcos_list s)[nat ?m := ?x]"
    using d s4(1) by (simp add: desalojado_def)
  have h4: "heap s4 = (heap s)(v \<mapsto> g\<lparr>pag_presencia := 0, pag_marco := 0\<rparr>)"
    using d s4(2) by (simp add: desalojado_def)
  let ?V1 = "(vista s)(v \<mapsto> (pag_pid g, pag_pagina g, 0, 0))"
  have vs: "vista (presentar p ?m s4) = ?V1(p \<mapsto> (pag_pid gp, pag_pagina gp, 1, ?m))"
    using vista_presentar [of s4 p gp ?m] h4 p(2) pv vista_upd [of s4 s v]
    by (simp add: clave_pag_def)
  have Vv: "vista s v = Some (pag_pid g, pag_pagina g, pag_presencia g, ?m)"
    and Vp: "vista s p = Some (pag_pid gp, pag_pagina gp, 0, pag_marco gp)"
    using v(2) p(2,3) by (simp_all add: vista_def clave_pag_def)
  have P: "paginas_de (presentar p ?m s4) = paginas_de s"
    using d s4(3) by (simp add: paginas_de_pids desalojado_def)
  have uni: "q = v" if "q \<in> paginas_de s" "vista s q = Some (pag_pid g, pag_pagina g, c', d')" for q c' d'
    using that pagina_unica [OF ok(3) _ v(1) _ v(2)] by (auto simp: vista_Some)
  have "presencia_salvo (paginas_de s) (marcos_list s) ?V1 ?m"
  proof (rule presencia_desocupar)
    show "presencia_vista (paginas_de s) (marcos_list s) (vista s)"
      using ok(4) by (simp add: presencia_ok_vista)
    show "v \<in> paginas_de s" "vista s v = Some (pag_pid g, pag_pagina g, pag_presencia g, ?m)"
      "pag_presencia g \<noteq> 0" by (fact v(1) Vv v(3))+
    show "q = v" if "q \<in> paginas_de s" "vista s q = Some (pag_pid g, pag_pagina g, c', d')" for q c' d'
      using uni that .
  qed
  then have "presencia_vista (insert p (paginas_de s)) ((marcos_list s)[nat ?m := ?x])
      (?V1(p \<mapsto> (pag_pid gp, pag_pagina gp, 1, ?m)))"
    by (rule presencia_ocupar [OF _ m]) (use Vp pv in auto)
  then have "presencia_ok (presentar p ?m s4)"
    unfolding presencia_ok_vista vs P using p(1) ml by (simp add: insert_absorb)
  moreover have "procesos_ok (presentar p ?m s4)"
  proof -
    have "procesos_vista (pids_paginas s) (prox_ptr s) ?V1"
      by (rule procesos_vista_upd [where V = "vista s" and p = v, OF _ Vv]) (use ok(3) in \<open>simp_all add: procesos_ok_vista\<close>)
    moreover have "?V1 p = Some (pag_pid gp, pag_pagina gp, 0, pag_marco gp)" using Vp pv by simp
    ultimately have "procesos_vista (pids_paginas s) (prox_ptr s)
        (?V1(p \<mapsto> (pag_pid gp, pag_pagina gp, 1, ?m)))"
      by (rule procesos_vista_upd) simp
    then show ?thesis using s4(3,4) d unfolding procesos_ok_vista vs by (simp add: desalojado_def)
  qed
  moreover have "marcos_ok E (presentar p ?m s4)"
    by (rule marcos_ok_update [OF ok(2), of _ "nat ?m" ?x]) (use ml s4(5) d numero m in \<open>simp_all add: desalojado_def\<close>)
  moreover have "tlb_ok E (presentar p ?m s4)" using s4(6) by (simp add: tlb_ok_def)
  ultimately show ?thesis using ok(1) by (simp add: inv_mem_def)
qed

end
