(* ===== verification/Memoria_Virtual.thy ===== *)
theory Memoria_Virtual
  imports Memoria_Fallo
begin

section \<open>Memoria: virtual memory over a swap server\<close>

text \<open>
  The abstract view of paging: every page of a process has contents, in its frame while it is
  present and in the swap server otherwise. The interface of the server is the locale
  \<open>servidor_swap\<close>; an access returns or changes the contents of its page, and the only other
  page it may change is the victim, which keeps what the server gives back (\<open>recupera\<close>).
\<close>

subsection \<open>The abstract view\<close>

definition clave_ok :: "int \<Rightarrow> int \<Rightarrow> bool" where
  "clave_ok pid pagina \<longleftrightarrow> i32 pid = pid \<and> pid \<noteq> - 1 \<and> i32 pagina = pagina \<and> pagina \<noteq> - 1"

type_synonym 's guarda = "'s \<Rightarrow> int \<times> int \<Rightarrow> char list option"

definition contenido :: "'s guarda \<Rightarrow> 's entorno \<Rightarrow> 's memoria \<Rightarrow> ptr \<Rightarrow> char list" where
  "contenido G E s p =
     (case heap s p of
        None \<Rightarrow> []
      | Some g \<Rightarrow> if pag_presencia g \<noteq> 0 then bytes_marco E s (pag_marco g)
                  else (case G (swamp s) (pag_pid g, pag_pagina g) of Some c \<Rightarrow> c | None \<Rightarrow> []))"

text \<open>A present page is not in the swap; an absent one is; and nothing else is in the swap.\<close>

definition solo_ausentes :: "'s guarda \<Rightarrow> 's memoria \<Rightarrow> bool" where
  "solo_ausentes G s \<longleftrightarrow>
     (\<forall>k. G (swamp s) k \<noteq> None \<longrightarrow> (\<exists>p\<in>paginas_de s. \<exists>g. heap s p = Some g \<and> pag_presencia g = 0 \<and>
        k = (pag_pid g, pag_pagina g)))"

definition inv_virtual :: "'s guarda \<Rightarrow> ('s \<Rightarrow> bool) \<Rightarrow> 's entorno \<Rightarrow> 's memoria \<Rightarrow> bool" where
  "inv_virtual G V E s \<longleftrightarrow>
     inv_mem E s \<and> V (swamp s) \<and> solo_ausentes G s \<and>
     (\<forall>p\<in>paginas_de s. \<forall>g. heap s p = Some g \<longrightarrow> clave_ok (pag_pid g) (pag_pagina g) \<and>
        (if pag_presencia g \<noteq> 0 then G (swamp s) (pag_pid g, pag_pagina g) = None
         else \<exists>c. G (swamp s) (pag_pid g, pag_pagina g) = Some c \<and> list_size c = tam_pag E))"

lemma inv_virtualD:
  assumes "inv_virtual G V E s" "p \<in> paginas_de s" "heap s p = Some g"
  shows "clave_ok (pag_pid g) (pag_pagina g)"
    "pag_presencia g \<noteq> 0 \<Longrightarrow> G (swamp s) (pag_pid g, pag_pagina g) = None"
    "pag_presencia g = 0 \<Longrightarrow> \<exists>c. G (swamp s) (pag_pid g, pag_pagina g) = Some c \<and> list_size c = tam_pag E"
  using assms unfolding inv_virtual_def by (metis (full_types))+

lemma inv_virtual_ausente:
  assumes "inv_virtual G V E s" "G (swamp s) k \<noteq> None"
  obtains p g where "p \<in> paginas_de s" "heap s p = Some g" "pag_presencia g = 0" "k = (pag_pid g, pag_pagina g)"
proof -
  have "solo_ausentes G s" using assms(1) by (simp add: inv_virtual_def)
  then show ?thesis using assms(2) that unfolding solo_ausentes_def by blast
qed

text \<open>What is left of the bytes of a page that goes through the swap.\<close>

definition degradada :: "(char list \<Rightarrow> char list) \<Rightarrow> 's entorno \<Rightarrow> char list \<Rightarrow> char list" where
  "degradada R E b = (case serializar_escritura_swap E b of Some m \<Rightarrow> R m | None \<Rightarrow> b)"

definition mensajes_ok ::
  "(char list \<Rightarrow> bool) \<Rightarrow> (char list \<Rightarrow> char list) \<Rightarrow> 's entorno \<Rightarrow> bool" where
  "mensajes_ok M R E \<longleftrightarrow>
     (\<forall>b. list_size b = tam_pag E \<longrightarrow>
        (\<exists>m. serializar_escritura_swap E b = Some m \<and> M m \<and> list_size (R m) = tam_pag E))"

text \<open>The effect of an access to \<open>p\<close> on the contents of the others: a victim \<open>v\<close>, if there is one,
  went through the swap.\<close>

definition otras_paginas ::
  "'s guarda \<Rightarrow> (char list \<Rightarrow> char list) \<Rightarrow> 's entorno \<Rightarrow> ptr \<Rightarrow> ptr option \<Rightarrow> 's memoria \<Rightarrow> 's memoria \<Rightarrow> bool"
where
  "otras_paginas G R E p v s s' \<longleftrightarrow>
     (\<forall>q\<in>paginas_de s. q \<noteq> p \<longrightarrow> contenido G E s' q =
        (if v = Some q then degradada R E (contenido G E s q) else contenido G E s q))"

text \<open>The number of a page follows from its place in the lists of the processes.\<close>

lemma misma_clave:
  assumes "procesos_ok s" "procesos_ok t" "pids_paginas t = pids_paginas s" "p \<in> paginas_de s"
    "heap s p = Some g" "heap t p = Some h"
  shows "pag_pid h = pag_pid g \<and> pag_pagina h = pag_pagina g"
proof -
  obtain pid ps k where k: "(pid, ps) \<in> set (pids_paginas s)" "k < length ps" "ps ! k = p"
    using assms(4) by (auto simp: paginas_de_def in_set_conv_nth)
  then have "\<exists>c d. vista s p = Some (pid, int k + 1, c, d)" "\<exists>c d. vista t p = Some (pid, int k + 1, c, d)"
    using assms(1-3) unfolding procesos_ok_vista procesos_vista_def by fastforce+
  then show ?thesis using assms(5,6) by (auto simp: vista_Some)
qed

text \<open>The page to evict: the least recently used of the candidates.\<close>

definition victima_lru :: "'s entorno \<Rightarrow> 's memoria \<Rightarrow> int \<Rightarrow> ptr \<Rightarrow> bool" where
  "victima_lru E s pid v \<longleftrightarrow>
     candidata E s pid v \<and> (\<forall>q. candidata E s pid q \<longrightarrow> clave_timestamp s v \<le> clave_timestamp s q)"

definition ordenes_ok :: "'s entorno \<Rightarrow> bool" where
  "ordenes_ok E \<longleftrightarrow>
     ordena (list_sort_pagina E) \<and> ordena (list_sort_tlb E) \<and> ordena (list_sort_marco E)"

subsection \<open>Choosing the victim by LRU\<close>

lemma candidata_datos: "datos s' = datos s \<Longrightarrow> candidata E s' pid q = candidata E s pid q"
  using datos_paginas_de [of s' s] datos_eqD(3) [of s' s] by (simp add: candidata_def)

lemma elegir_lru_ok:
  assumes inv: "inv_mem E s" and c: "get_carpincho s pid = Some c" and srt: "ordena (list_sort_pagina E)"
    and q: "candidata E s pid q" and lru: "\<not> es_m_clock E"
  obtains ps v where "candidatas E pid s = Some ps" "elegir_victima E ps s = Some (v, s)"
    "victima_lru E s pid v"
proof -
  obtain ps where ps: "candidatas E pid s = Some ps" "set ps = {p. candidata E s pid p}"
    using candidatas_ok [OF inv c] by blast
  then have "ps \<noteq> []" using q by auto
  then obtain v where v: "get_proxima_a_swampear_by_lru E ps s = Some v" "v \<in> set ps"
    "\<And>q. q \<in> set ps \<Longrightarrow> clave_timestamp s v \<le> clave_timestamp s q"
    using lru_minimo [OF srt] by blast
  then have "elegir_victima E ps s = Some (v, s)" using lru by (simp add: elegir_victima_def)
  then show ?thesis using that ps v by (simp add: victima_lru_def)
qed

subsection \<open>Contents under changes of the state\<close>

lemma contenido_datos: "datos s' = datos s \<Longrightarrow> contenido G E s' q = contenido G E s q"
  using datos_eqD(1,3,5) [of s' s] by (simp add: contenido_def bytes_marco_def split: option.split)

lemma contenido_presente:
  "heap s q = Some g \<Longrightarrow> pag_presencia g \<noteq> 0 \<Longrightarrow> contenido G E s q = bytes_marco E s (pag_marco g)"
  by (simp add: contenido_def)

lemma contenido_ausente:
  "heap s q = Some g \<Longrightarrow> pag_presencia g = 0 \<Longrightarrow> G (swamp s) (pag_pid g, pag_pagina g) = Some c \<Longrightarrow>
   contenido G E s q = c"
  by (simp add: contenido_def)

lemma inv_virtual_datos:
  assumes "inv_virtual G V E s" "datos s' = datos s" "tlb_ok E s'"
  shows "inv_virtual G V E s'"
  using assms inv_mem_datos [OF _ assms(2,3)] datos_eqD(3,5) [OF assms(2)] datos_paginas_de [OF assms(2)]
  by (simp add: inv_virtual_def solo_ausentes_def)

text \<open>Two present pages never share a frame.\<close>

lemma marcos_distintos:
  assumes inv: "inv_mem E s" and "p \<in> paginas_de s" "q \<in> paginas_de s" "p \<noteq> q"
    and "heap s p = Some g" "heap s q = Some f" "pag_presencia g \<noteq> 0" "pag_presencia f \<noteq> 0"
  shows "pag_marco g \<noteq> pag_marco f"
proof
  assume e: "pag_marco g = pag_marco f"
  have ok: "procesos_ok s" "presencia_ok s" using inv by (auto simp: inv_mem_def)
  have "pag_pid g = pag_pid f \<and> pag_pagina g = pag_pagina f"
    using presente_ocupa [OF ok(2)] assms e ocupa_unico by metis
  then show False using pagina_unica [OF ok(1)] assms by metis
qed

text \<open>The contents after the page fault of \<open>p\<close> that evicts \<open>v\<close> from frame \<open>pag_marco g\<close>.\<close>

definition traspaso ::
  "'s guarda \<Rightarrow> (char list \<Rightarrow> char list) \<Rightarrow> 's entorno \<Rightarrow> ptr \<Rightarrow> t_pagina \<Rightarrow> ptr \<Rightarrow> t_pagina \<Rightarrow>
   's memoria \<Rightarrow> 's memoria \<Rightarrow> bool"
where
  "traspaso G R E v g p gp s t \<longleftrightarrow>
     heap t = (heap s)(v \<mapsto> g\<lparr>pag_presencia := 0, pag_marco := 0\<rparr>,
       p \<mapsto> gp\<lparr>pag_marco := pag_marco g, pag_presencia := 1\<rparr>) \<and>
     G (swamp t) = (G (swamp s))((pag_pid g, pag_pagina g) \<mapsto>
       degradada R E (bytes_marco E s (pag_marco g)), (pag_pid gp, pag_pagina gp) := None) \<and>
     bytes_marco E t (pag_marco g) = contenido G E s p \<and>
     (\<forall>j. 0 \<le> j \<and> j \<noteq> pag_marco g \<longrightarrow> bytes_marco E t j = bytes_marco E s j)"

lemma otra_pagina:
  assumes inv: "inv_mem E s"
    and v: "v \<in> paginas_de s" "heap s v = Some g" "pag_presencia g \<noteq> 0"
    and p: "p \<in> paginas_de s" "heap s p = Some gp" "pag_presencia gp = 0"
    and q: "q \<in> paginas_de s" "heap s q = Some f" "q \<noteq> p"
  shows "(pag_pid f, pag_pagina f) \<noteq> (pag_pid gp, pag_pagina gp)"
    "q \<noteq> v \<Longrightarrow> (pag_pid f, pag_pagina f) \<noteq> (pag_pid g, pag_pagina g)"
    "q \<noteq> v \<Longrightarrow> pag_presencia f \<noteq> 0 \<Longrightarrow> 0 \<le> pag_marco f \<and> pag_marco f \<noteq> pag_marco g"
proof -
  have ok: "procesos_ok s" "presencia_ok s" using inv by (auto simp: inv_mem_def)
  show "(pag_pid f, pag_pagina f) \<noteq> (pag_pid gp, pag_pagina gp)"
    using pagina_unica [OF ok(1) q(1) p(1) q(2) p(2)] q(3) by auto
  show "(pag_pid f, pag_pagina f) \<noteq> (pag_pid g, pag_pagina g)" if "q \<noteq> v"
    using pagina_unica [OF ok(1) q(1) v(1) q(2) v(2)] that by auto
  show "0 \<le> pag_marco f \<and> pag_marco f \<noteq> pag_marco g" if "q \<noteq> v" "pag_presencia f \<noteq> 0"
    using presente_ocupa [OF ok(2) q(1,2) that(2)]
      marcos_distintos [OF inv q(1) v(1) that(1) q(2) v(2) that(2) v(3)] by (simp add: ocupa_def)
qed

lemma traspaso_guarda:
  assumes tr: "traspaso G R E v g p gp s t" and inv: "inv_mem E s"
    and v: "v \<in> paginas_de s" "heap s v = Some g" "pag_presencia g \<noteq> 0"
    and p: "p \<in> paginas_de s" "heap s p = Some gp" "pag_presencia gp = 0"
  shows "G (swamp t) (pag_pid g, pag_pagina g) = Some (degradada R E (bytes_marco E s (pag_marco g)))"
    "q \<in> paginas_de s \<Longrightarrow> heap s q = Some f \<Longrightarrow> q \<noteq> p \<Longrightarrow> q \<noteq> v \<Longrightarrow>
     G (swamp t) (pag_pid f, pag_pagina f) = G (swamp s) (pag_pid f, pag_pagina f)"
proof -
  have vp: "v \<noteq> p" using v p by auto
  show "G (swamp t) (pag_pid g, pag_pagina g) = Some (degradada R E (bytes_marco E s (pag_marco g)))"
    using tr otra_pagina(1) [OF inv v p v(1,2) vp] by (simp add: traspaso_def)
  assume q: "q \<in> paginas_de s" "heap s q = Some f" "q \<noteq> p" "q \<noteq> v"
  have "(pag_pid f, pag_pagina f) \<noteq> (pag_pid gp, pag_pagina gp)"
    "(pag_pid f, pag_pagina f) \<noteq> (pag_pid g, pag_pagina g)"
    using otra_pagina(1,2) [OF inv v p q(1-3)] q(4) by blast+
  then show "G (swamp t) (pag_pid f, pag_pagina f) = G (swamp s) (pag_pid f, pag_pagina f)"
    using tr unfolding traspaso_def by (simp only: fun_upd_apply if_False)
qed

lemma traspaso_otras:
  assumes tr: "traspaso G R E v g p gp s t" and inv: "inv_mem E s"
    and v: "v \<in> paginas_de s" "heap s v = Some g" "pag_presencia g \<noteq> 0"
    and p: "p \<in> paginas_de s" "heap s p = Some gp" "pag_presencia gp = 0"
  shows "otras_paginas G R E p (Some v) s t"
  unfolding otras_paginas_def
proof (intro ballI impI)
  fix q assume q: "q \<in> paginas_de s" "q \<noteq> p"
  have "procesos_ok s" using inv by (simp add: inv_mem_def)
  then obtain f where f: "heap s q = Some f" using pagina_viva q(1) by metis
  show "contenido G E t q =
      (if Some v = Some q then degradada R E (contenido G E s q) else contenido G E s q)"
  proof (cases "q = v")
    case True
    have "heap t v = Some (g\<lparr>pag_presencia := 0, pag_marco := 0\<rparr>)"
      using tr q(2) True by (simp add: traspaso_def)
    then show ?thesis
      using traspaso_guarda(1) [OF tr inv v p] contenido_presente [OF v(2,3), of G E] True
      by (simp add: contenido_def)
  next
    case False
    have "heap t q = Some f" using tr q(2) False f by (simp add: traspaso_def)
    then show ?thesis
      using f False traspaso_guarda(2) [OF tr inv v p q(1) f q(2) False]
        otra_pagina(3) [OF inv v p q(1) f q(2) False] tr
      by (simp add: contenido_def traspaso_def)
  qed
qed

lemma longitud_degradada:
  assumes "mensajes_ok M R E" "list_size b = tam_pag E"
  shows "list_size (degradada R E b) = tam_pag E"
  using assms unfolding mensajes_ok_def degradada_def by fastforce

lemma traspaso_inv:
  assumes tr: "traspaso G R E v g p gp s t" and inv: "inv_virtual G V E s"
    and v: "v \<in> paginas_de s" "heap s v = Some g" "pag_presencia g \<noteq> 0"
    and p: "p \<in> paginas_de s" "heap s p = Some gp" "pag_presencia gp = 0"
    and men: "mensajes_ok M R E"
    and t: "inv_mem E t" "V (swamp t)" "paginas_de t = paginas_de s"
  shows "inv_virtual G V E t"
  unfolding inv_virtual_def
proof (intro conjI ballI allI impI)
  show "inv_mem E t" "V (swamp t)" by (fact t)+
  have im: "inv_mem E s" using inv by (simp add: inv_virtual_def)
  have h: "heap t = (heap s)(v \<mapsto> g\<lparr>pag_presencia := 0, pag_marco := 0\<rparr>,
       p \<mapsto> gp\<lparr>pag_marco := pag_marco g, pag_presencia := 1\<rparr>)"
    using tr by (simp add: traspaso_def)
  show "solo_ausentes G t"
    unfolding solo_ausentes_def
  proof (intro allI impI)
    fix k assume k: "G (swamp t) k \<noteq> None"
    have vp: "v \<noteq> p" using v p by auto
    show "\<exists>q\<in>paginas_de t. \<exists>f. heap t q = Some f \<and> pag_presencia f = 0 \<and> k = (pag_pid f, pag_pagina f)"
    proof (cases "k = (pag_pid g, pag_pagina g)")
      case True
      then show ?thesis using h vp v(1) t(3) by (intro bexI [of _ v]) auto
    next
      case False
      then have kp: "k \<noteq> (pag_pid gp, pag_pagina gp)" and ks: "G (swamp s) k \<noteq> None"
        using k tr by (auto simp: traspaso_def split: if_splits)
      obtain q f where q: "q \<in> paginas_de s" "heap s q = Some f" "pag_presencia f = 0"
        "k = (pag_pid f, pag_pagina f)"
        using inv_virtual_ausente [OF inv ks] .
      have "q \<noteq> v" "q \<noteq> p" using q v(2,3) p(2) kp by auto
      then show ?thesis using q h t(3) by (intro bexI [of _ q]) auto
    qed
  qed
  fix q f assume q: "q \<in> paginas_de t" "heap t q = Some f"
  have qs: "q \<in> paginas_de s" using q(1) t(3) by simp
  consider "q = p" | "q \<noteq> p" "q = v" | "q \<noteq> p" "q \<noteq> v" by blast
  then have "clave_ok (pag_pid f) (pag_pagina f) \<and>
     (if pag_presencia f \<noteq> 0 then G (swamp t) (pag_pid f, pag_pagina f) = None
      else \<exists>c. G (swamp t) (pag_pid f, pag_pagina f) = Some c \<and> list_size c = tam_pag E)"
  proof cases
    case 1
    then have "f = gp\<lparr>pag_marco := pag_marco g, pag_presencia := 1\<rparr>" using q(2) h by simp
    then show ?thesis using tr inv_virtualD(1) [OF inv p(1,2)] by (simp add: traspaso_def)
  next
    case 2
    then have f: "f = g\<lparr>pag_presencia := 0, pag_marco := 0\<rparr>" using q(2) h by simp
    have "marcos_ok E s" "ocupa (marcos_list s) (pag_marco g) (pag_pid g) (pag_pagina g)"
      using im presente_ocupa v by (auto simp: inv_mem_def)
    then have "list_size (bytes_marco E s (pag_marco g)) = tam_pag E"
      using length_bytes_marco [of E s "pag_marco g"] by (simp add: ocupa_def)
    then show ?thesis
      using f inv_virtualD(1) [OF inv v(1,2)] traspaso_guarda(1) [OF tr im v p] longitud_degradada [OF men]
      by simp
  next
    case 3
    then have f: "heap s q = Some f" using q(2) h by simp
    then show ?thesis
      using inv_virtualD [OF inv qs f] traspaso_guarda(2) [OF tr im v p qs f 3] by simp
  qed
  then show "clave_ok (pag_pid f) (pag_pagina f)"
    "if pag_presencia f \<noteq> 0 then G (swamp t) (pag_pid f, pag_pagina f) = None
     else \<exists>c. G (swamp t) (pag_pid f, pag_pagina f) = Some c \<and> list_size c = tam_pag E"
    by simp_all
qed

text \<open>The reading or the writing of the bytes, after the lookup.\<close>

lemma tras_virtual:
  assumes inv: "inv_virtual G V E (presentar p m s)" and p: "p \<in> paginas_de s" and m: "0 \<le> m"
    and t: "tras_acceso E p m s t" and b: "\<forall>j. 0 \<le> j \<and> j \<noteq> m \<longrightarrow> bytes_marco E t j = bytes_marco E s j"
  shows "inv_virtual G V E t" "contenido G E t p = bytes_marco E t m" "paginas_de t = paginas_de s"
    "pids_paginas t = pids_paginas s" "swamp t = swamp s"
    "q \<in> paginas_de s \<Longrightarrow> q \<noteq> p \<Longrightarrow> contenido G E t q = contenido G E (presentar p m s) q"
proof -
  let ?s = "presentar p m s"
  obtain g g' where g: "heap s p = Some g" "heap t p = Some g'" "pag_pid g' = pag_pid g"
    "pag_pagina g' = pag_pagina g" "pag_presencia g' = 1" "pag_marco g' = m"
    and h: "\<And>q. q \<noteq> p \<Longrightarrow> heap t q = heap s q"
    and e: "inv_mem E t" "swamp t = swamp s" "carpinchos_list t = carpinchos_list s"
    using t unfolding tras_acceso_def by blast
  have hp: "heap ?s p = Some (g\<lparr>pag_marco := m, pag_presencia := 1\<rparr>)" and hq: "\<And>q. q \<noteq> p \<Longrightarrow> heap ?s q = heap s q"
    using g(1) by (simp_all add: presentar_def)
  have P: "paginas_de ?s = paginas_de s" "paginas_de t = paginas_de s"
    using paginas_de_cong [of ?s s] paginas_de_cong [of t s] e(3) by simp_all
  show "paginas_de t = paginas_de s" "pids_paginas t = pids_paginas s" "swamp t = swamp s"
    using P e by simp_all
  show "contenido G E t p = bytes_marco E t m" using g(2,5,6) by (simp add: contenido_def)
  have "clave_ok (pag_pid f) (pag_pagina f) \<and>
     (if pag_presencia f \<noteq> 0 then G (swamp t) (pag_pid f, pag_pagina f) = None
      else \<exists>c. G (swamp t) (pag_pid f, pag_pagina f) = Some c \<and> list_size c = tam_pag E)"
    if q: "q \<in> paginas_de t" "heap t q = Some f" for q f
  proof (cases "q = p")
    case True
    then show ?thesis using q g inv_virtualD(1,2) [OF inv _ hp] P p e(2) by simp
  next
    case False
    then show ?thesis using q inv_virtualD [OF inv, of q f] P h hq e(2) by simp
  qed
  moreover have "V (swamp t)" using inv e(2) by (simp add: inv_virtual_def)
  moreover have "solo_ausentes G t"
    unfolding solo_ausentes_def
  proof (intro allI impI)
    fix k assume "G (swamp t) k \<noteq> None"
    then have k: "G (swamp ?s) k \<noteq> None" using e(2) by simp
    obtain q f where q: "q \<in> paginas_de ?s" "heap ?s q = Some f" "pag_presencia f = 0"
      "k = (pag_pid f, pag_pagina f)"
      using inv_virtual_ausente [OF inv k] .
    have "q \<noteq> p" using q(2,3) hp by auto
    then show "\<exists>q\<in>paginas_de t. \<exists>f. heap t q = Some f \<and> pag_presencia f = 0 \<and> k = (pag_pid f, pag_pagina f)"
      using q P h hq by (intro bexI [of _ q]) auto
  qed
  ultimately show "inv_virtual G V E t" unfolding inv_virtual_def using e(1) by blast
  assume q: "q \<in> paginas_de s" "q \<noteq> p"
  have im: "inv_mem E ?s" using inv by (simp add: inv_virtual_def)
  then have "presencia_ok ?s" "procesos_ok ?s" by (auto simp: inv_mem_def)
  then obtain f where f: "heap ?s q = Some f" using pagina_viva q(1) P(1) by metis
  have oc: "0 \<le> pag_marco f" if "pag_presencia f \<noteq> 0"
    using presente_ocupa [OF \<open>presencia_ok ?s\<close> _ f that] q(1) P(1) by (simp add: ocupa_def)
  have "pag_marco f \<noteq> m" if "pag_presencia f \<noteq> 0"
    using marcos_distintos [OF im, of q p f] q p P(1) f hp that by auto
  then show "contenido G E t q = contenido G E ?s q"
    using f h [OF q(2)] hq [OF q(2)] oc b e(2) by (simp add: contenido_def bytes_marco_def)
qed

text \<open>A lookup can be served: the page is present, or a victim and a free page of swap exist.\<close>

definition servible :: "('s \<Rightarrow> nat) \<Rightarrow> 's entorno \<Rightarrow> 's memoria \<Rightarrow> ptr \<Rightarrow> t_pagina \<Rightarrow> bool" where
  "servible libres E s p g \<longleftrightarrow> p \<in> paginas_de s \<and> heap s p = Some g \<and>
     (pag_presencia g = 0 \<longrightarrow> 0 < libres (swamp s) \<and> (\<exists>q. candidata E s (pag_pid g) q))"

definition expulsa :: "'s entorno \<Rightarrow> 's memoria \<Rightarrow> t_pagina \<Rightarrow> ptr option \<Rightarrow> bool" where
  "expulsa E s g v \<longleftrightarrow> (if pag_presencia g \<noteq> 0 then v = None else \<exists>q. v = Some q \<and> victima_lru E s (pag_pid g) q)"

text \<open>The state \<open>t\<close> after an access to \<open>p\<close> in \<open>s\<close> that leaves it with the contents \<open>c\<close>.\<close>

definition accedida ::
  "'s guarda \<Rightarrow> ('s \<Rightarrow> bool) \<Rightarrow> (char list \<Rightarrow> char list) \<Rightarrow> ('s \<Rightarrow> nat) \<Rightarrow> 's entorno \<Rightarrow> ptr \<Rightarrow> t_pagina \<Rightarrow>
   char list \<Rightarrow> 's memoria \<Rightarrow> 's memoria \<Rightarrow> bool"
where
  "accedida G V R libres E p g c s t \<longleftrightarrow>
     inv_virtual G V E t \<and> contenido G E t p = c \<and>
     (\<exists>g'. heap t p = Some g' \<and> pag_presencia g' = 1 \<and> pag_pid g' = pag_pid g \<and>
        pag_pagina g' = pag_pagina g) \<and>
     (\<exists>v. expulsa E s g v \<and> otras_paginas G R E p v s t) \<and>
     libres (swamp t) = libres (swamp s) \<and> pids_paginas t = pids_paginas s"

definition hay_lugar :: "('s \<Rightarrow> nat) \<Rightarrow> 's entorno \<Rightarrow> 's memoria \<Rightarrow> bool" where
  "hay_lugar libres E s \<longleftrightarrow> \<not> es_fija E \<and> 0 < libres (swamp s) \<and> (\<exists>q. candidata E s 0 q)"

text \<open>The memory process is connected to the operations of this server and replaces pages by LRU.\<close>

definition conexion where
  "conexion escribir leer M R E \<longleftrightarrow> srv_escribir E = escribir \<and> srv_leer E = leer \<and> \<not> es_m_clock E \<and>
     ordenes_ok E \<and> mensajes_ok M R E"

subsection \<open>The interface of the swap server\<close>

locale servidor_swap =
  fixes escribir :: "int \<Rightarrow> int \<Rightarrow> char list \<Rightarrow> 's \<Rightarrow> (int \<times> 's) option"
    and leer :: "int \<Rightarrow> int \<Rightarrow> 's \<Rightarrow> (char list option \<times> 's) option"
    and G :: "'s guarda" and V :: "'s \<Rightarrow> bool" and libres :: "'s \<Rightarrow> nat"
    and M :: "char list \<Rightarrow> bool" and R :: "char list \<Rightarrow> char list"
  assumes escribir: "V w \<Longrightarrow> 0 < libres w \<Longrightarrow> clave_ok pid pagina \<Longrightarrow> M msg \<Longrightarrow>
      G w (pid, pagina) = None \<Longrightarrow>
      \<exists>w'. escribir pid pagina msg w = Some (0, w') \<and> V w' \<and>
        G w' = (G w)((pid, pagina) \<mapsto> R msg) \<and> Suc (libres w') = libres w"
    and leer: "V w \<Longrightarrow> clave_ok pid pagina \<Longrightarrow> G w (pid, pagina) = Some c \<Longrightarrow>
      \<exists>w'. leer pid pagina w = Some (Some c, w') \<and> V w' \<and>
        G w' = (G w)((pid, pagina) := None) \<and> libres w' = Suc (libres w)"
begin

text \<open>One eviction: the least recently used candidate goes to the server.\<close>

lemma expulsar:
  assumes con: "srv_escribir E = escribir" "\<not> es_m_clock E" "ordenes_ok E" "mensajes_ok M R E"
    and inv: "inv_virtual G V E s" and li: "0 < libres (swamp s)"
    and c: "get_carpincho s pid = Some c" and q: "candidata E s pid q"
  obtains ps v g w t where "candidatas E pid s = Some ps" "elegir_victima E ps s = Some (v, s)"
    "victima_lru E s pid v" "v \<in> paginas_de s" "heap s v = Some g" "pag_presencia g \<noteq> 0"
    "desalojar E v pid n s = Some (pag_marco g, t)" "desalojado E v g pid n w s t" "V w"
    "G w = (G (swamp s))((pag_pid g, pag_pagina g) \<mapsto> degradada R E (bytes_marco E s (pag_marco g)))"
    "list_size (degradada R E (bytes_marco E s (pag_marco g))) = tam_pag E" "Suc (libres w) = libres (swamp s)"
proof -
  have im: "inv_mem E s" and Vs: "V (swamp s)" using inv by (auto simp: inv_virtual_def)
  have ok: "marcos_ok E s" "presencia_ok s" using im by (auto simp: inv_mem_def)
  have srt: "ordena (list_sort_pagina E)" using con(3) by (simp add: ordenes_ok_def)
  obtain ps v where ps: "candidatas E pid s = Some ps" "elegir_victima E ps s = Some (v, s)"
    and vic: "victima_lru E s pid v"
    using elegir_lru_ok [OF im c srt q con(2)] .
  then obtain g where v: "v \<in> paginas_de s" "heap s v = Some g" "pag_presencia g \<noteq> 0"
    by (auto simp: victima_lru_def candidata_def)
  have m: "0 \<le> pag_marco g" "pag_marco g < list_size (marcos_list s)"
    using presente_ocupa [OF ok(2) v] by (auto simp: ocupa_def)
  obtain msg where msg: "serializar_escritura_swap E (bytes_marco E s (pag_marco g)) = Some msg" "M msg"
    "list_size (R msg) = tam_pag E"
    using con(4) length_bytes_marco [OF ok(1) m] unfolding mensajes_ok_def by blast
  have kv: "clave_ok (pag_pid g) (pag_pagina g)" "G (swamp s) (pag_pid g, pag_pagina g) = None"
    using inv_virtualD(1,2) [OF inv v(1,2)] v(3) by simp_all
  obtain w where w: "escribir (pag_pid g) (pag_pagina g) msg (swamp s) = Some (0, w)" "V w"
    "G w = (G (swamp s))((pag_pid g, pag_pagina g) \<mapsto> R msg)" "Suc (libres w) = libres (swamp s)"
    using escribir [OF Vs li kv(1) msg(2) kv(2)] by auto
  have "if es_m_clock E \<and> pag_modif g = 0 then w = swamp s
      else \<exists>stream r. serializar_escritura_swap E (bytes_marco E s (pag_marco g)) = Some stream \<and>
             srv_escribir E (pag_pid g) (pag_pagina g) stream (swamp s) = Some (r, w)"
    using con(1,2) msg(1) w(1) by simp
  then obtain t where "desalojar E v pid n s = Some (pag_marco g, t)" "desalojado E v g pid n w s t"
    using desalojar_ok [OF im v] by blast
  moreover have "degradada R E (bytes_marco E s (pag_marco g)) = R msg" using msg(1) by (simp add: degradada_def)
  ultimately show ?thesis using that ps vic v w msg(3) by simp
qed

text \<open>One eviction and one load: the state after \<open>swampear_pagina\<close>.\<close>

lemma swampear:
  assumes con: "srv_escribir E = escribir" "srv_leer E = leer" "\<not> es_m_clock E" "ordenes_ok E"
      "mensajes_ok M R E"
    and inv: "inv_virtual G V E s" and li: "0 < libres (swamp s)"
    and p: "p \<in> paginas_de s" "heap s p = Some gp" "pag_presencia gp = 0"
    and q: "candidata E s (pag_pid gp) q"
  obtains v g w1 w2 s2 s3 where "swampear_pagina E (pag_pid gp) (pag_pagina gp) s = Some (pag_marco g, s3)"
    "victima_lru E s (pag_pid gp) v" "v \<noteq> p" "heap s v = Some g"
    "desalojado E v g (pag_pid gp) (pag_pagina gp) w1 s s2"
    "G w1 = (G (swamp s))((pag_pid g, pag_pagina g) \<mapsto> degradada R E (bytes_marco E s (pag_marco g)))"
    "V w2" "G w2 = (G w1)((pag_pid gp, pag_pagina gp) := None)" "libres w2 = libres (swamp s)"
    "swamp s3 = w2" "marcos_list s3 = marcos_list s2" "heap s3 = heap s2"
    "carpinchos_list s3 = carpinchos_list s2" "prox_ptr s3 = prox_ptr s2"
    "tlb_list s3 = tlb_list s2" "tlb_fifo_pointer s3 = tlb_fifo_pointer s2"
    "length (CACHE s3) = length (CACHE s2)" "bytes_marco E s3 (pag_marco g) = contenido G E s p"
    "\<forall>j. 0 \<le> j \<and> j \<noteq> pag_marco g \<longrightarrow> bytes_marco E s3 j = bytes_marco E s2 j"
proof -
  have ok: "marcos_ok E s" "procesos_ok s" "presencia_ok s" and im: "inv_mem E s"
    using inv by (auto simp: inv_virtual_def inv_mem_def)
  obtain c where c: "get_carpincho s (pag_pid gp) = Some c"
    using pagina_viva_de(5) [OF ok(2) p(1,2)] by blast
  obtain ps v g w1 s2 where ps: "candidatas E (pag_pid gp) s = Some ps" "elegir_victima E ps s = Some (v, s)"
    and vic: "victima_lru E s (pag_pid gp) v" and v: "v \<in> paginas_de s" "heap s v = Some g" "pag_presencia g \<noteq> 0"
    and s2: "desalojar E v (pag_pid gp) (pag_pagina gp) s = Some (pag_marco g, s2)"
      "desalojado E v g (pag_pid gp) (pag_pagina gp) w1 s s2"
    and w1: "V w1" "G w1 = (G (swamp s))((pag_pid g, pag_pagina g) \<mapsto> degradada R E (bytes_marco E s (pag_marco g)))"
      "list_size (degradada R E (bytes_marco E s (pag_marco g))) = tam_pag E" "Suc (libres w1) = libres (swamp s)"
    using expulsar [OF con(1,3-5) inv li c q] .
  have vp: "v \<noteq> p" using v p by auto
  let ?m = "pag_marco g" and ?kv = "(pag_pid g, pag_pagina g)" and ?kp = "(pag_pid gp, pag_pagina gp)"
  have m: "0 \<le> ?m" "?m < list_size (marcos_list s)" using presente_ocupa [OF ok(3) v] by (auto simp: ocupa_def)
  have kk: "?kv \<noteq> ?kp" using pagina_unica [OF ok(2) v(1) p(1) v(2) p(2)] vp by auto
  have sw2: "swamp s2 = w1" using s2(2) by (simp add: desalojado_def)
  obtain cp where cp: "G (swamp s) ?kp = Some cp" "list_size cp = tam_pag E"
    "clave_ok (pag_pid gp) (pag_pagina gp)"
    using inv_virtualD(1,3) [OF inv p(1,2)] p(3) by blast
  have "G w1 ?kp = G (swamp s) ?kp" unfolding w1(2) by (rule fun_upd_other [OF kk [symmetric]])
  then have "G w1 ?kp = Some cp" using cp(1) by (rule trans)
  from leer [OF w1(1) cp(3) this] obtain w2 where w2: "leer (pag_pid gp) (pag_pagina gp) w1 = Some (Some cp, w2)"
    "V w2" "G w2 = (G w1)(?kp := None)" "libres w2 = Suc (libres w1)" by auto
  let ?s2 = "s2\<lparr>swamp := w2\<rparr>"
  have mok2: "marcos_ok E ?s2"
    by (rule marcos_ok_update [OF ok(1)]) (use s2(2) ok(1) m in
        \<open>auto simp: desalojado_def marcos_ok_def list_size_def\<close>)
  have ml2: "?m < list_size (marcos_list ?s2)" using s2(2) m by (simp add: desalojado_def list_size_def)
  have r: "(0::int) \<le> 0" "0 + tam_pag E \<le> tam_pag E" by simp_all
  from escribir_marco [OF mok2 m(1) ml2 r cp(2)] obtain cache where cache:
    "escribir_en_cache E ?m cp (tam_pag E) 0 ?s2 = Some (0, ?s2\<lparr>CACHE := cache\<rparr>)"
    "copia_bytes (CACHE ?s2) (get_marco_ptr E ?m + 0) cp = Some cache"
    "length cache = length (CACHE ?s2)"
    "bytes_marco E (?s2\<lparr>CACHE := cache\<rparr>) ?m =
       take (nat 0) (bytes_marco E ?s2 ?m) @ cp @ drop (nat (0 + tam_pag E)) (bytes_marco E ?s2 ?m)"
    "\<forall>j. 0 \<le> j \<and> j \<noteq> ?m \<longrightarrow> bytes_marco E (?s2\<lparr>CACHE := cache\<rparr>) j = bytes_marco E ?s2 j" .
  let ?s3 = "?s2\<lparr>CACHE := cache\<rparr>"
  have lec: "lectura_swamp E (pag_pid gp) (pag_pagina gp) ?m s2 = Some (0, ?s3)"
    using w2(1) cache(1) sw2 con(2) by (simp add: lectura_swamp_def)
  have "swampear_pagina E (pag_pid gp) (pag_pagina gp) s = Some (?m, ?s3)"
    using ps v(2) presencia_cache [OF im v(1,2)] v(3) s2(1) lec by (simp add: swampear_pagina_def)
  moreover have "bytes_marco E ?s3 ?m = contenido G E s p"
    using cache(4) contenido_ausente [OF p(2,3), of G cp E] cp(1) by (simp add: bytes_marco_def)
  moreover have "\<forall>j. 0 \<le> j \<and> j \<noteq> ?m \<longrightarrow> bytes_marco E ?s3 j = bytes_marco E s2 j"
    using cache(5) by (simp add: bytes_marco_def)
  ultimately show ?thesis
    using that [of g ?s3 v w1 s2 w2] vic vp v(2) s2(2) w1(2,4) w2(2-4) cache(3) by simp
qed

text \<open>The lookup of a page that is not present.\<close>

lemma fallo:
  assumes con: "srv_escribir E = escribir" "srv_leer E = leer" "\<not> es_m_clock E" "ordenes_ok E"
      "mensajes_ok M R E"
    and inv: "inv_virtual G V E s" and li: "0 < libres (swamp s)"
    and p: "p \<in> paginas_de s" "heap s p = Some gp" "pag_presencia gp = 0"
    and q: "candidata E s (pag_pid gp) q"
  obtains m s' v where "obtener_marco_para_pagina E p s = Some (m, s')" "acceso_ok E p m s'"
    "inv_virtual G V E (presentar p m s')" "bytes_marco E s' m = contenido G E s p"
    "victima_lru E s (pag_pid gp) v" "otras_paginas G R E p (Some v) s (presentar p m s')"
    "libres (swamp s') = libres (swamp s)" "pids_paginas s' = pids_paginas s"
proof -
  have im: "inv_mem E s" using inv by (auto simp: inv_virtual_def)
  have ok: "\<not> en_debug E" "procesos_ok s" "presencia_ok s" "tlb_ok E s" using im by (auto simp: inv_mem_def)
  obtain c where c: "get_carpincho s (pag_pid gp) = Some c" and pid: "pag_pid gp \<noteq> 0"
    using pagina_viva_de(1,5) [OF ok(2) p(1,2)] by blast
  obtain s0 where s0: "tlb_hit gp s = Some s0" and mt: "misma_tlb s s0" using tlb_hit_misma [OF c] .
  have d0: "datos s0 = datos s" using mt by (simp add: misma_tlb_def)
  have inv0: "inv_virtual G V E s0" using inv_virtual_datos [OF inv d0 misma_tlb_ok [OF mt ok(4)]] .
  have p0: "p \<in> paginas_de s0" "heap s0 p = Some gp" "0 < libres (swamp s0)" "candidata E s0 (pag_pid gp) q"
    using datos_paginas_de [OF d0] datos_eqD(3,5) [OF d0] p li q candidata_datos [OF d0] by simp_all
  from swampear [OF con inv0 p0(3) p0(1,2) p(3) p0(4)] obtain v g w1 w2 s2 s3 where
    sw: "swampear_pagina E (pag_pid gp) (pag_pagina gp) s0 = Some (pag_marco g, s3)"
    and vic: "victima_lru E s0 (pag_pid gp) v" "v \<noteq> p" "heap s0 v = Some g"
    and des: "desalojado E v g (pag_pid gp) (pag_pagina gp) w1 s0 s2"
    and G1: "G w1 = (G (swamp s0))((pag_pid g, pag_pagina g) \<mapsto> degradada R E (bytes_marco E s0 (pag_marco g)))"
    and w2: "V w2" "G w2 = (G w1)((pag_pid gp, pag_pagina gp) := None)" "libres w2 = libres (swamp s0)"
    and s3: "swamp s3 = w2" "marcos_list s3 = marcos_list s2" "heap s3 = heap s2"
      "carpinchos_list s3 = carpinchos_list s2" "prox_ptr s3 = prox_ptr s2"
      "tlb_list s3 = tlb_list s2" "tlb_fifo_pointer s3 = tlb_fifo_pointer s2"
      "length (CACHE s3) = length (CACHE s2)" "bytes_marco E s3 (pag_marco g) = contenido G E s0 p"
      "\<forall>j. 0 \<le> j \<and> j \<noteq> pag_marco g \<longrightarrow> bytes_marco E s3 j = bytes_marco E s2 j" .
  let ?m = "pag_marco g"
  have im0: "inv_mem E s0" using inv0 by (simp add: inv_virtual_def)
  have ok0: "procesos_ok s0" "presencia_ok s0" using im0 by (auto simp: inv_mem_def)
  have v: "v \<in> paginas_de s0" "pag_presencia g \<noteq> 0"
    using vic(1,3) by (auto simp: victima_lru_def candidata_def)
  have m: "0 \<le> ?m" "?m < list_size (marcos_list s0)"
    using presente_ocupa [OF ok0(2) v(1) vic(3) v(2)] by (auto simp: ocupa_def)
  have h3: "heap s3 = (heap s0)(v \<mapsto> g\<lparr>pag_presencia := 0, pag_marco := 0\<rparr>)"
    using des s3(3) by (simp add: desalojado_def)
  have h3p: "heap s3 p = Some gp" using h3 vic(2) p0(2) by simp
  have oc3: "ocupa (marcos_list s3) ?m (pag_pid gp) (pag_pagina gp)"
    using des s3(2) m by (simp add: desalojado_def ocupa_def list_size_def)
  have "tlb_ok E s2" using des by (simp add: desalojado_def)
  with s3(2,6,7) have tok3: "tlb_ok E s3" by (simp add: tlb_ok_def)
  have no3: "tlb_marco t \<noteq> ?m" if "t \<in> set (tlb_list s3)" for t
    using that des s3(6) by (simp add: desalojado_def)
  have srt: "ordena (list_sort_tlb E)" using con(4) by (simp add: ordenes_ok_def)
  obtain s4 where s4: "actualizar_tlb E gp ?m s3 = Some s4" "datos s4 = datos s3" "tlb_ok E s4"
    "pagina_is_in_tlb s4 gp"
    using actualizar_tlb_ok [OF ok(1) tok3 srt oc3 pid no3] .
  note d4 = datos_eqD [OF s4(2)]
  have pp4: "pids_paginas s4 = pids_paginas s3" using datos_proyeccion(4) [OF d4(7)] .
  have res: "obtener_marco_para_pagina E p s = Some (?m, s4)"
    using obtener_marco_ausente [OF p(2) ausente_no_tlb [OF im p] _ s0, of E] presencia_cache [OF im p(1,2)]
      p(3) sw h3p s4(1) by simp
  have inv4: "inv_mem E (presentar p ?m s4)"
  proof (rule inv_tras_fallo [OF im0 v(1) vic(3) v(2) p0(1,2) p(3) des])
    show "pids_paginas s4 = pids_paginas s2" using pp4 s3(4) by simp
    show "length (CACHE s4) = length (CACHE s2)" using d4(1) s3(8) by simp
  qed (use d4 s3 s4(3) in simp_all)
  let ?t = "presentar p ?m s4"
  have P4: "paginas_de ?t = paginas_de s0"
    using pp4 s3(4) des by (simp add: paginas_de_pids desalojado_def)
  have "bytes_marco E ?t j = bytes_marco E s3 j" for j
    by (simp add: bytes_marco_def d4(1))
  then have tr: "traspaso G R E v g p gp s0 ?t"
    using d4(3,5) h3 vic(2) p0(2) s3(1,9,10) des
    by (simp add: traspaso_def presentar_def desalojado_def w2(2) G1)
  note args = v(1) vic(3) v(2) p0(1,2) p(3)
  show ?thesis
  proof (rule that [OF res])
    show "acceso_ok E p ?m s4"
      using inv4 p0(1) P4 s4(4) d4(2,3) h3p oc3 paginas_de_cong [of ?t s4]
      by (simp add: acceso_ok_def)
    show "bytes_marco E s4 ?m = contenido G E s p"
      using s3(9) contenido_datos [OF d0] d4(1) by (simp add: bytes_marco_def)
    show "victima_lru E s (pag_pid gp) v"
      using vic(1) candidata_datos [OF d0] datos_eqD(3) [OF d0]
      by (simp add: victima_lru_def clave_timestamp_def)
    show "libres (swamp s4) = libres (swamp s)" using d4(5) s3(1) w2(3) datos_eqD(5) [OF d0] by simp
    show "pids_paginas s4 = pids_paginas s"
      using pp4 s3(4) des datos_proyeccion(4) [OF datos_eqD(7) [OF d0]] by (simp add: desalojado_def)
    show "otras_paginas G R E p (Some v) s ?t"
      using traspaso_otras [OF tr im0 args] contenido_datos [OF d0] datos_paginas_de [OF d0]
      by (simp add: otras_paginas_def)
    show "inv_virtual G V E ?t"
      by (rule traspaso_inv [OF tr inv0 args con(5) inv4 _ P4]) (use d4(5) s3(1) w2(1) in simp)
  qed
qed

lemma buscar:
  assumes con: "conexion escribir leer M R E" and inv: "inv_virtual G V E s" and p: "servible libres E s p g"
  obtains m t v where "obtener_marco_para_pagina E p s = Some (m, t)" "acceso_ok E p m t"
    "inv_virtual G V E (presentar p m t)" "bytes_marco E t m = contenido G E s p"
    "expulsa E s g v" "otras_paginas G R E p v s (presentar p m t)"
    "libres (swamp t) = libres (swamp s)" "pids_paginas t = pids_paginas s"
proof (cases "pag_presencia g = 0")
  case True
  obtain q where q: "p \<in> paginas_de s" "heap s p = Some g" "0 < libres (swamp s)" "candidata E s (pag_pid g) q"
    using p True unfolding servible_def by blast
  have c: "srv_escribir E = escribir" "srv_leer E = leer" "\<not> es_m_clock E" "ordenes_ok E"
    "mensajes_ok M R E" using con unfolding conexion_def by blast+
  from fallo [OF c inv q(3,1,2) True q(4)] obtain m t v where
    "obtener_marco_para_pagina E p s = Some (m, t)" "acceso_ok E p m t"
    "inv_virtual G V E (presentar p m t)" "bytes_marco E t m = contenido G E s p"
    "victima_lru E s (pag_pid g) v" "otras_paginas G R E p (Some v) s (presentar p m t)"
    "libres (swamp t) = libres (swamp s)" "pids_paginas t = pids_paginas s" .
  with True show ?thesis using that [of m t "Some v"] by (simp add: expulsa_def)
next
  case False
  have q: "p \<in> paginas_de s" "heap s p = Some g" using p by (auto simp: servible_def)
  have im: "inv_mem E s" and srt: "ordena (list_sort_tlb E)"
    using inv con by (auto simp: inv_virtual_def conexion_def ordenes_ok_def)
  obtain t where t: "obtener_marco_para_pagina E p s = Some (pag_marco g, t)" "datos t = datos s"
    "inv_mem E t" "pagina_is_in_tlb t g"
    using obtener_marco_presente [OF im srt q False] .
  have qt: "p \<in> paginas_de t" "heap t p = Some g"
    using q datos_paginas_de [OF t(2)] datos_eqD(3) [OF t(2)] by simp_all
  note a = acceso_presente [OF t(3) qt False t(4)]
  have "tlb_ok E t" using t(3) by (simp add: inv_mem_def)
  then have "inv_virtual G V E (presentar p (pag_marco g) t)"
    using inv_virtual_datos [OF inv t(2)] a(2) by simp
  moreover have "otras_paginas G R E p None s (presentar p (pag_marco g) t)"
    using contenido_datos [OF t(2)] a(2) by (simp add: otras_paginas_def)
  moreover have "bytes_marco E t (pag_marco g) = contenido G E s p"
    using contenido_presente [OF qt(2) False, of G E] contenido_datos [OF t(2), of G E p] by simp
  ultimately show ?thesis
    using that [OF t(1) a(1)] False datos_eqD(5) [OF t(2)] datos_proyeccion(4) [OF datos_eqD(7) [OF t(2)]]
    by (simp add: expulsa_def)
qed

text \<open>The parts that \<open>leer_en_pagina\<close> and \<open>escribir_en_pagina\<close> share.\<close>

lemma abrir:
  assumes con: "conexion escribir leer M R E" and inv: "inv_virtual G V E s" and p: "servible libres E s p g"
  obtains s1 m t v where "tocar_tlb_lru E g s = Some s1" "obtener_marco_para_pagina E p s1 = Some (m, t)"
    "acceso_ok E p m t" "inv_virtual G V E (presentar p m t)" "bytes_marco E t m = contenido G E s p"
    "0 \<le> m" "expulsa E s g v" "otras_paginas G R E p v s (presentar p m t)"
    "libres (swamp t) = libres (swamp s)" "pids_paginas t = pids_paginas s"
proof -
  have im: "inv_mem E s" using inv by (simp add: inv_virtual_def)
  obtain s1 where s1: "tocar_tlb_lru E g s = Some s1" "datos s1 = datos s" "inv_mem E s1"
    using tocar_tlb_lru_ok [OF im] .
  have "tlb_ok E s1" using s1(3) by (simp add: inv_mem_def)
  then have inv1: "inv_virtual G V E s1" using inv_virtual_datos [OF inv s1(2)] by blast
  have d: "paginas_de s1 = paginas_de s" "heap s1 = heap s" "swamp s1 = swamp s"
    "candidata E s1 pid = candidata E s pid" "pids_paginas s1 = pids_paginas s" for pid
    using datos_paginas_de [OF s1(2)] datos_eqD(3,5) [OF s1(2)] candidata_datos [OF s1(2)]
      datos_proyeccion(4) [OF datos_eqD(7) [OF s1(2)]] by (simp_all add: fun_eq_iff)
  have p1: "servible libres E s1 p g" using p by (simp add: servible_def d)
  from buscar [OF con inv1 p1] obtain m t v where b: "obtener_marco_para_pagina E p s1 = Some (m, t)"
    "acceso_ok E p m t" "inv_virtual G V E (presentar p m t)" "bytes_marco E t m = contenido G E s1 p"
    "expulsa E s1 g v" "otras_paginas G R E p v s1 (presentar p m t)"
    "libres (swamp t) = libres (swamp s1)" "pids_paginas t = pids_paginas s1" .
  have "contenido G E s1 q = contenido G E s q" for q using contenido_datos [OF s1(2)] .
  then have "bytes_marco E t m = contenido G E s p" "otras_paginas G R E p v s (presentar p m t)"
    using b(4,6) by (simp_all add: otras_paginas_def d)
  moreover have "victima_lru E s1 = victima_lru E s"
    by (simp add: victima_lru_def clave_timestamp_def d fun_eq_iff)
  then have "expulsa E s1 = expulsa E s" unfolding expulsa_def by (simp only:)
  then have "expulsa E s g v" using b(5) by simp
  moreover have "0 \<le> m" using b(2) by (auto simp: acceso_ok_def ocupa_def)
  moreover have "libres (swamp t) = libres (swamp s)" "pids_paginas t = pids_paginas s"
    using b(7,8) d(3,5) by simp_all
  ultimately show ?thesis using that [OF s1(1) b(1,2,3)] by blast
qed

lemma cerrar:
  assumes inv: "inv_virtual G V E (presentar p m t)" and ac: "acceso_ok E p m t" and m: "0 \<le> m"
    and ot: "expulsa E s g v" "otras_paginas G R E p v s (presentar p m t)"
    and ll: "libres (swamp t) = libres (swamp s)" "pids_paginas t = pids_paginas s"
    and u: "tras_acceso E p m t u" "\<forall>j. 0 \<le> j \<and> j \<noteq> m \<longrightarrow> bytes_marco E u j = bytes_marco E t j"
    and h: "heap s p = Some g" "inv_mem E s"
  shows "accedida G V R libres E p g (bytes_marco E u m) s u"
proof -
  have p: "p \<in> paginas_de t" using ac by (simp add: acceso_ok_def)
  note tv = tras_virtual [OF inv p m u]
  have "paginas_de t = paginas_de s" using ll(2) by (simp add: paginas_de_pids)
  then have "otras_paginas G R E p v s u"
    using ot(2) tv(6) by (simp add: otras_paginas_def)
  moreover obtain gu where gu: "heap u p = Some gu" "pag_presencia gu = 1"
    using u(1) by (auto simp: tras_acceso_def)
  have "inv_mem E u" using u(1) by (simp add: tras_acceso_def)
  then have "procesos_ok s" "procesos_ok u" using h(2) by (auto simp: inv_mem_def)
  then have "pag_pid gu = pag_pid g \<and> pag_pagina gu = pag_pagina g"
    using misma_clave [of s u p g gu] h(1) gu(1) p tv(3,4) ll(2) by (simp add: paginas_de_pids)
  ultimately show ?thesis using tv(1,2,4,5) ot(1) ll gu by (auto simp: accedida_def)
qed

lemma leer_pagina:
  assumes con: "conexion escribir leer M R E" and inv: "inv_virtual G V E s" and p: "servible libres E s p g"
    and r: "0 \<le> off" "0 \<le> n" "off + n \<le> tam_pag E"
  shows "\<exists>t. leer_en_pagina E p n off s = Some (Some (take (nat n) (drop (nat off) (contenido G E s p))), t) \<and>
    accedida G V R libres E p g (contenido G E s p) s t"
proof -
  have h: "heap s p = Some g" using p by (simp add: servible_def)
  have im: "inv_mem E s" using inv by (simp add: inv_virtual_def)
  from abrir [OF con inv p] obtain s1 m t v where a: "tocar_tlb_lru E g s = Some s1"
    "obtener_marco_para_pagina E p s1 = Some (m, t)" "acceso_ok E p m t"
    "inv_virtual G V E (presentar p m t)" "bytes_marco E t m = contenido G E s p"
    "0 \<le> m" "expulsa E s g v" "otras_paginas G R E p v s (presentar p m t)"
    "libres (swamp t) = libres (swamp s)" "pids_paginas t = pids_paginas s" .
  from leer_en_pagina_tras [OF h a(1-3) r] obtain u where u:
    "leer_en_pagina E p n off s = Some (Some (take (nat n) (drop (nat off) (bytes_marco E t m))), u)"
    "tras_acceso E p m t u" "CACHE u = CACHE t" .
  have b: "bytes_marco E u j = bytes_marco E t j" for j using u(3) by (simp add: bytes_marco_def)
  then have "accedida G V R libres E p g (bytes_marco E t m) s u"
    using cerrar [OF a(4,3,6-10) u(2) _ h im] by simp
  with u(1) a(5) show ?thesis by auto
qed

lemma escribir_pagina:
  assumes con: "conexion escribir leer M R E" and inv: "inv_virtual G V E s" and p: "servible libres E s p g"
    and r: "0 \<le> off" "off + n \<le> tam_pag E" "list_size buffer = n"
  shows "\<exists>t. escribir_en_pagina E p buffer n off s = Some (0, t) \<and>
    accedida G V R libres E p g (take (nat off) (contenido G E s p) @ buffer @
      drop (nat (off + n)) (contenido G E s p)) s t"
proof -
  have h: "heap s p = Some g" using p by (simp add: servible_def)
  have im: "inv_mem E s" using inv by (simp add: inv_virtual_def)
  from abrir [OF con inv p] obtain s1 m t v where a: "tocar_tlb_lru E g s = Some s1"
    "obtener_marco_para_pagina E p s1 = Some (m, t)" "acceso_ok E p m t"
    "inv_virtual G V E (presentar p m t)" "bytes_marco E t m = contenido G E s p"
    "0 \<le> m" "expulsa E s g v" "otras_paginas G R E p v s (presentar p m t)"
    "libres (swamp t) = libres (swamp s)" "pids_paginas t = pids_paginas s" .
  from escribir_en_pagina_tras [OF h a(1-3) r] obtain u where u:
    "escribir_en_pagina E p buffer n off s = Some (0, u)" "tras_acceso E p m t u"
    "bytes_marco E u m = take (nat off) (bytes_marco E t m) @ buffer @
       drop (nat (off + n)) (bytes_marco E t m)"
    "\<forall>j. 0 \<le> j \<and> j \<noteq> m \<longrightarrow> bytes_marco E u j = bytes_marco E t j" .
  have "accedida G V R libres E p g (bytes_marco E u m) s u"
    using cerrar [OF a(4,3,6-10) u(2,4) h im] .
  with u(1,3) a(5) show ?thesis by auto
qed

text \<open>With the dynamic scheme every page can be served as long as one is present and the swap has room.\<close>

lemma servible_todas:
  assumes "hay_lugar libres E s" "inv_virtual G V E s" "p \<in> paginas_de s"
  obtains g where "heap s p = Some g" "servible libres E s p g"
proof -
  have "procesos_ok s" using assms(2) by (simp add: inv_virtual_def inv_mem_def)
  then obtain g where g: "heap s p = Some g" using pagina_viva assms(3) by metis
  moreover have "candidata E s pid q" if "candidata E s 0 q" for pid q
    using that assms(1) by (auto simp: candidata_def hay_lugar_def)
  ultimately show ?thesis using that assms(1,3) by (auto simp: servible_def hay_lugar_def)
qed

lemma accedida_lugar:
  assumes "hay_lugar libres E s" "p \<in> paginas_de s" "accedida G V R libres E p g c s t"
  shows "hay_lugar libres E t" "inv_virtual G V E t" "paginas_de t = paginas_de s"
proof -
  show P: "paginas_de t = paginas_de s" using assms(3) by (simp add: accedida_def paginas_de_pids)
  show "inv_virtual G V E t" using assms(3) by (simp add: accedida_def)
  show "hay_lugar libres E t"
    using assms P by (fastforce simp: accedida_def hay_lugar_def candidata_def)
qed

end

end
