(* ===== verification/Memoria_Allocs.thy ===== *)
theory Memoria_Allocs
  imports Memoria_Paginas
begin

section \<open>Memoria: the allocator of a process\<close>

text \<open>
  The allocation list of a process (\<open>crp_allocs\<close>), the search for a strategy
  (\<open>check_alloc\<close>), the three ways of placing a block, and the metadata of 9 bytes
  (\<open>t_heap_metadata\<close>, packed) written before every block. A \<open>t_alloc*\<close> is the position of the
  block in the list.
\<close>

subsection \<open>Sizes\<close>

definition calcular_cantidad_paginas_necesaria :: "'s entorno \<Rightarrow> int \<Rightarrow> int \<Rightarrow> int" where
  "calcular_cantidad_paginas_necesaria E espacioLibreActual tamanioDato =
     (let espacioNecesario = (tamanioDato + 9) - espacioLibreActual
      in if mod_u32 espacioNecesario (tam_pag E) = 0
         then i32 (div_u32 espacioNecesario (tam_pag E))
         else i32 (u32 (div_u32 espacioNecesario (tam_pag E) + 1)))"

definition crear_alloc :: "int \<Rightarrow> int \<Rightarrow> bool \<Rightarrow> t_alloc" where
  "crear_alloc dir data_size isFree =
     \<lparr>al_direccion = dir, al_isFree = isFree, al_tamanio_data = data_size\<rparr>"

text \<open>
  The parameter is shadowed by the loop's variable, which is compared with itself: the first
  block always matches.
\<close>

definition list_get_index_alloc :: "t_alloc list \<Rightarrow> t_alloc \<Rightarrow> int" where
  "list_get_index_alloc allocs a =
     (case list_get allocs 0 of
        Some alloc \<Rightarrow> (if al_direccion alloc = al_direccion alloc then 0 else - 1)
      | None \<Rightarrow> - 1)"

text \<open>The answer of the swap server, converted from \<open>int\<close> to \<open>bool\<close>.\<close>

definition check_size_swamp ::
  "'s entorno \<Rightarrow> int \<Rightarrow> int \<Rightarrow> 's memoria \<Rightarrow> (bool \<times> 's memoria) option" where
  "check_size_swamp E carpinchoID cantPag s =
     do { (resultado, s1) \<leftarrow> enviar_consulta_puede_escribir_en_swap E carpinchoID cantPag s;
          Some (resultado \<noteq> 0, s1) }"

subsection \<open>Choosing the strategy\<close>

text \<open>The loop of \<open>check_alloc\<close>: \<open>None\<close> when a free block is large enough, otherwise the space
  taken by all blocks and their metadata.\<close>

fun recorre_allocs :: "int \<Rightarrow> t_alloc list \<Rightarrow> int \<Rightarrow> int option" where
  "recorre_allocs n [] espacioOcupado = Some espacioOcupado"
| "recorre_allocs n (a # as) espacioOcupado =
     (if al_isFree a \<and> al_tamanio_data a \<ge> n then None
      else recorre_allocs n as (espacioOcupado + al_tamanio_data a + 9))"

definition espacio_total :: "'s entorno \<Rightarrow> t_carpincho \<Rightarrow> int" where
  "espacio_total E c = i32 (u32 (list_size (crp_paginas c) * tam_pag E))"

definition check_alloc ::
  "'s entorno \<Rightarrow> t_carpincho \<Rightarrow> int \<Rightarrow> 's memoria \<Rightarrow> (check_alloc_respuesta \<times> 's memoria) option"
where
  "check_alloc E c n s =
     (case recorre_allocs n (crp_allocs c) 0 of
        None \<Rightarrow> Some (ALLOC_HEAP, s)
      | Some espacioOcupado \<Rightarrow>
          let espacioLibreActual = espacio_total E c - espacioOcupado;
              cantPag = calcular_cantidad_paginas_necesaria E espacioLibreActual n
          in if espacioLibreActual \<ge> n + 9 then Some (ALLOC_PAGINA, s)
             else if es_fija E
             then let espacio_teorico_solicitar =
                        i32 (u32 ((marcos_por_carpincho (datosConfigMemoria E)
                                   - list_size (crp_paginas c)) * tam_pag E))
                  in if espacio_teorico_solicitar + espacioLibreActual \<ge> n + 9
                     then do { (hay, s1) \<leftarrow> check_size_swamp E (crp_pid c) cantPag s;
                               Some (if hay then ALLOC_SOLICITAR_PAGINA else ALLOC_SIN_ESPACIO, s1) }
                     else Some (ALLOC_SIN_ESPACIO, s)
             else do { (hay, s1) \<leftarrow> check_size_swamp E (crp_pid c) cantPag s;
                       Some (if hay then ALLOC_SOLICITAR_PAGINA else ALLOC_SIN_ESPACIO, s1) })"

subsection \<open>Finding blocks\<close>

definition en_rango :: "int \<Rightarrow> t_alloc \<Rightarrow> bool" where
  "en_rango dir_abs a \<longleftrightarrow>
     (let inicio = u32 (al_direccion a + 9); fin = u32 (inicio + al_tamanio_data a - 1)
      in inicio \<le> dir_abs \<and> dir_abs \<le> fin)"

definition obtener_alloc_de_un_carpincho :: "t_carpincho \<Rightarrow> int \<Rightarrow> int option" where
  "obtener_alloc_de_un_carpincho c dir_abs = posicion (en_rango dir_abs) (crp_allocs c) 0"

definition obtener_alloc_con_inicio_de_direccion_de_dato_de_un_carpincho ::
  "t_carpincho \<Rightarrow> int \<Rightarrow> int option" where
  "obtener_alloc_con_inicio_de_direccion_de_dato_de_un_carpincho c dir_abs =
     posicion (\<lambda>a. dir_abs = u32 (al_direccion a + 9)) (crp_allocs c) 0"

text \<open>The loop runs one index too far: a block that is not there is a NULL dereference.\<close>

definition obtener_indice_de_alloc :: "t_alloc list \<Rightarrow> t_alloc \<Rightarrow> int option" where
  "obtener_indice_de_alloc allocs a =
     posicion (\<lambda>x. al_direccion x = al_direccion a) allocs 0"

subsection \<open>Grouping the bytes of a range by page\<close>

text \<open>A \<open>t_pagina_accion\<close>: a page index and the offsets accessed in it, in order.\<close>

type_synonym t_pagina_accion = "int \<times> int list"

definition obtener_pagina_accion_by_indice ::
  "t_pagina_accion list \<Rightarrow> int \<Rightarrow> t_pagina_accion option" where
  "obtener_pagina_accion_by_indice lista indice_pag = list_find (\<lambda>n. fst n = indice_pag) lista"

fun agregar_direccion :: "int \<Rightarrow> int \<Rightarrow> t_pagina_accion list \<Rightarrow> t_pagina_accion list" where
  "agregar_direccion pag offset [] = []"
| "agregar_direccion pag offset (n # ns) =
     (if fst n = pag then (fst n, snd n @ [offset]) # ns else n # agregar_direccion pag offset ns)"

fun armar_acciones ::
  "'s entorno \<Rightarrow> int \<Rightarrow> nat list \<Rightarrow> t_pagina_accion list \<Rightarrow> t_pagina_accion list" where
  "armar_acciones E pos [] acciones = acciones"
| "armar_acciones E pos (i # is) acciones =
     (let pag = div_u32 (pos + int i) (tam_pag E);
          offset = mod_u32 (pos + int i) (tam_pag E);
          acciones1 = (case obtener_pagina_accion_by_indice acciones pag of
                         None \<Rightarrow> acciones @ [(pag, [])] | Some _ \<Rightarrow> acciones)
      in armar_acciones E pos is (agregar_direccion pag offset acciones1))"

subsection \<open>Metadata of a block\<close>

text \<open>
  One write per page touched. \<open>sizeAnterior\<close> is set to the size of the last piece, not increased
  by it.
\<close>

fun escribir_acciones_heap ::
  "'s entorno \<Rightarrow> int \<Rightarrow> t_pagina_accion list \<Rightarrow> char list \<Rightarrow> int \<Rightarrow> 's memoria \<Rightarrow> 's memoria option"
where
  "escribir_acciones_heap E pid [] valor sizeAnterior s = Some s"
| "escribir_acciones_heap E pid (a # as) valor sizeAnterior s =
     do { let n = list_size (snd a);
          valorAcotado \<leftarrow> lee_bytes valor sizeAnterior n;
          c \<leftarrow> get_carpincho s pid;
          r \<leftarrow> get_page s c (i32 (fst a + 1));
          page \<leftarrow> r;
          offset \<leftarrow> list_get (snd a) 0;
          (_, s1) \<leftarrow> escribir_en_pagina E page valorAcotado n offset s;
          escribir_acciones_heap E pid as valor n s1 }"

definition bytes_heap_metadata :: "int \<Rightarrow> int \<Rightarrow> bool \<Rightarrow> char list" where
  "bytes_heap_metadata prevAlloc nextAlloc isFree =
     le32 prevAlloc @ le32 nextAlloc @ [if isFree then CHR 0x01 else CHR 0x00]"

definition escribir_heap_memoria_fisica ::
  "'s entorno \<Rightarrow> char list \<Rightarrow> int \<Rightarrow> int \<Rightarrow> 's memoria \<Rightarrow> 's memoria option" where
  "escribir_heap_memoria_fisica E heap_bytes pos_log_abs pid s =
     escribir_acciones_heap E pid (armar_acciones E pos_log_abs [0..<9] []) heap_bytes 0 s"

definition persistir_metadata_heap ::
  "'s entorno \<Rightarrow> int \<Rightarrow> t_alloc \<Rightarrow> 's memoria \<Rightarrow> 's memoria option" where
  "persistir_metadata_heap E pid a s =
     do { c \<leftarrow> get_carpincho s pid;
          indiceAlloc \<leftarrow> obtener_indice_de_alloc (crp_allocs c) a;
          dirPrev \<leftarrow> (if indiceAlloc - 1 \<ge> 0
                     then do { p \<leftarrow> list_get (crp_allocs c) (indiceAlloc - 1); Some (al_direccion p) }
                     else Some 0);
          dirNext \<leftarrow> (if indiceAlloc + 1 \<le> list_size (crp_allocs c) - 1
                     then do { p \<leftarrow> list_get (crp_allocs c) (indiceAlloc + 1); Some (al_direccion p) }
                     else Some 0);
          escribir_heap_memoria_fisica E (bytes_heap_metadata dirPrev dirNext (al_isFree a))
            (al_direccion a) pid s }"

subsection \<open>Placing a block\<close>

definition fija_allocs :: "int \<Rightarrow> t_alloc list \<Rightarrow> 's memoria \<Rightarrow> 's memoria" where
  "fija_allocs pid allocs s = modifica_carpincho pid (\<lambda>c. c\<lparr>crp_allocs := allocs\<rparr>) s"

text \<open>
  What \<open>memalloc_asignar_en_heap_libre\<close> does to the list of blocks: the address it returns, the
  new list, and the free remainder when it splits the block. The comparisons are unsigned.
\<close>

definition partir_alloc ::
  "t_alloc list \<Rightarrow> int \<Rightarrow> (int \<times> t_alloc list \<times> t_alloc option) option" where
  "partir_alloc allocs alloc_size =
     do { k \<leftarrow> posicion (\<lambda>a. al_isFree a \<and> u32 (al_tamanio_data a) \<ge> alloc_size) allocs 0;
          let a = allocs ! nat k;
          if u32 (al_tamanio_data a) > alloc_size \<and> \<not> u32 (al_tamanio_data a - alloc_size) \<le> 9
          then let nuevo = crear_alloc (u32 (al_direccion a + alloc_size + 9))
                             (i32 (u32 (al_tamanio_data a - alloc_size - 9))) True;
                   a1 = a\<lparr>al_tamanio_data := i32 alloc_size, al_isFree := False\<rparr>
               in Some (u32 (al_direccion a + 9),
                        list_add_in_index (allocs[nat k := a1]) (list_get_index_alloc allocs a + 1) nuevo,
                        Some nuevo)
          else Some (u32 (al_direccion a + 9), allocs[nat k := a\<lparr>al_isFree := False\<rparr>], None) }"

definition memalloc_asignar_en_heap_libre ::
  "'s entorno \<Rightarrow> int \<Rightarrow> int \<Rightarrow> 's memoria \<Rightarrow> (int \<times> 's memoria) option" where
  "memalloc_asignar_en_heap_libre E pid alloc_size s =
     do { c \<leftarrow> get_carpincho s pid;
          (dir, allocs, nuevo) \<leftarrow> partir_alloc (crp_allocs c) alloc_size;
          let s1 = fija_allocs pid allocs s;
          s2 \<leftarrow> (case nuevo of Some n \<Rightarrow> persistir_metadata_heap E pid n s1 | None \<Rightarrow> Some s1);
          Some (dir, s2) }"

definition agregar_alloc_al_final :: "t_alloc list \<Rightarrow> int \<Rightarrow> int \<times> t_alloc list" where
  "agregar_alloc_al_final allocs alloc_size =
     (let dirLogica_inicio_dato =
            (if list_size allocs > 0
             then u32 (u32 (al_direccion (last allocs) + 9) + al_tamanio_data (last allocs) + 9)
             else 9)
      in (dirLogica_inicio_dato,
          allocs @ [crear_alloc (u32 (dirLogica_inicio_dato - 9)) (i32 alloc_size) False]))"

definition memalloc_asignar_en_pagina_con_espacio ::
  "int \<Rightarrow> int \<Rightarrow> 's memoria \<Rightarrow> (int \<times> 's memoria) option" where
  "memalloc_asignar_en_pagina_con_espacio pid alloc_size s =
     do { c \<leftarrow> get_carpincho s pid;
          let (dir, allocs) = agregar_alloc_al_final (crp_allocs c) alloc_size;
          Some (dir, fija_allocs pid allocs s) }"

definition espacio_ocupado :: "t_alloc list \<Rightarrow> int" where
  "espacio_ocupado allocs = sum_list (map (\<lambda>a. al_tamanio_data a + 9) allocs)"

definition memalloc_asignar_en_paginas_nuevas ::
  "'s entorno \<Rightarrow> int \<Rightarrow> int \<Rightarrow> 's memoria \<Rightarrow> (int \<times> 's memoria) option" where
  "memalloc_asignar_en_paginas_nuevas E pid alloc_size s =
     do { c \<leftarrow> get_carpincho s pid;
          let espacioLibre = espacio_total E c - espacio_ocupado (crp_allocs c);
          let cantPag = calcular_cantidad_paginas_necesaria E espacioLibre (i32 alloc_size);
          s1 \<leftarrow> asignar_paginas_carpincho E pid (nat cantPag) s;
          memalloc_asignar_en_pagina_con_espacio pid alloc_size s1 }"

end
