(* ===== verification/Memoria_Mensajes.thy ===== *)
theory Memoria_Mensajes
  imports Memoria_Allocs
begin

section \<open>Memoria: the five messages of a process\<close>

text \<open>
  Validation of logical addresses, and the entry points of \<^verbatim>\<open>memory.c\<close> that the message
  server calls: \<open>memory_memalloc\<close>, \<open>memory_memwrite\<close>, \<open>memory_memread\<close>,
  \<open>memory_memfree\<close> (with coalescing and compaction) and \<open>memory_memfree_all\<close>.
\<close>

subsection \<open>Logical addresses\<close>

text \<open>
  The page number is compared without sign with \<open>list_size(paginas) - 1\<close>, which is the largest
  \<open>uint32_t\<close> when there is no page.
\<close>

definition validar_direccion_logica :: "'s entorno \<Rightarrow> t_carpincho \<Rightarrow> int \<Rightarrow> bool" where
  "validar_direccion_logica E c dir_abs =
     (let numPag = div_u32 dir_abs (tam_pag E); offset = mod_u32 dir_abs (tam_pag E)
      in if numPag > u32 (list_size (crp_paginas c) - 1) then False
         else if offset > u32 (tam_pag E - 1) then False
         else True)"

definition validar_direccion_logica_con_size :: "'s entorno \<Rightarrow> t_carpincho \<Rightarrow> int \<Rightarrow> int \<Rightarrow> bool" where
  "validar_direccion_logica_con_size E c dir_abs n =
     list_all (\<lambda>i. validar_direccion_logica E c (u32 (dir_abs + int i))) [0..<nat (u32 n)]"

definition validar_direccion_logica_escritura :: "'s entorno \<Rightarrow> t_carpincho \<Rightarrow> int \<Rightarrow> bool" where
  "validar_direccion_logica_escritura E c dir_abs =
     (if \<not> validar_direccion_logica E c dir_abs then False
      else list_ex (en_rango dir_abs) (crp_allocs c))"

definition validar_direccion_logica_escritura_con_size ::
  "'s entorno \<Rightarrow> t_carpincho \<Rightarrow> int \<Rightarrow> int \<Rightarrow> bool" where
  "validar_direccion_logica_escritura_con_size E c dir_abs n =
     list_all (\<lambda>i. validar_direccion_logica_escritura E c (u32 (dir_abs + int i))) [0..<nat (u32 n)]"

subsection \<open>memalloc\<close>

text \<open>
  The allocation proper: the status, the address (unchanged when there is no space) and the state.
\<close>

definition asignar_segun ::
  "'s entorno \<Rightarrow> check_alloc_respuesta \<Rightarrow> int \<Rightarrow> int \<Rightarrow> int \<Rightarrow> 's memoria \<Rightarrow>
   (status_memory_op \<times> int \<times> 's memoria) option" where
  "asignar_segun E check_status pid alloc_size dir0 s =
     (case check_status of
        ALLOC_SIN_ESPACIO \<Rightarrow> Some (SIN_ESPACIO, dir0, s)
      | ALLOC_HEAP \<Rightarrow>
          do { (dir, s1) \<leftarrow> memalloc_asignar_en_heap_libre E pid alloc_size s; Some (EXITO, dir, s1) }
      | ALLOC_PAGINA \<Rightarrow>
          do { (dir, s1) \<leftarrow> memalloc_asignar_en_pagina_con_espacio pid alloc_size s;
               Some (EXITO, dir, s1) }
      | ALLOC_SOLICITAR_PAGINA \<Rightarrow>
          do { (dir, s1) \<leftarrow> memalloc_asignar_en_paginas_nuevas E pid alloc_size s;
               Some (EXITO, dir, s1) })"

definition elegir_estrategia ::
  "'s entorno \<Rightarrow> int \<Rightarrow> int \<Rightarrow> 's memoria \<Rightarrow> (check_alloc_respuesta \<times> 's memoria) option" where
  "elegir_estrategia E carpinchoId alloc_size s =
     (case get_carpincho s carpinchoId of
        None \<Rightarrow>
          do { (hay, s1) \<leftarrow> check_size_swamp E carpinchoId
                 (calcular_cantidad_paginas_necesaria E 0 (i32 alloc_size)) s;
               Some (if hay then (ALLOC_SOLICITAR_PAGINA, create_carpincho carpinchoId s1)
                     else (ALLOC_SIN_ESPACIO, s1)) }
      | Some c \<Rightarrow> check_alloc E c (i32 alloc_size) s)"

definition memory_memalloc ::
  "'s entorno \<Rightarrow> int \<Rightarrow> int \<Rightarrow> int \<Rightarrow> 's memoria \<Rightarrow> (status_memory_op \<times> int \<times> 's memoria) option" where
  "memory_memalloc E carpinchoId alloc_size dir0 s =
     do { (check_status, s1) \<leftarrow> elegir_estrategia E carpinchoId alloc_size s;
          (result, dir, s2) \<leftarrow> asignar_segun E check_status carpinchoId alloc_size dir0 s1;
          if result = EXITO
          then do { c \<leftarrow> get_carpincho s2 carpinchoId;
                    k \<leftarrow> obtener_alloc_de_un_carpincho c dir;
                    a \<leftarrow> list_get (crp_allocs c) k;
                    s3 \<leftarrow> persistir_metadata_heap E carpinchoId a s2;
                    Some (result, dir, s3) }
          else Some (result, dir, s2) }"

subsection \<open>memwrite and memread\<close>

text \<open>One access per page touched; \<open>sizeAnterior\<close> is the size of the last piece only.\<close>

fun escribir_acciones ::
  "'s entorno \<Rightarrow> int \<Rightarrow> t_pagina_accion list \<Rightarrow> char list \<Rightarrow> int \<Rightarrow> 's memoria \<Rightarrow> 's memoria option"
where
  "escribir_acciones E pid [] valor sizeAnterior s = Some s"
| "escribir_acciones E pid (a # as) valor sizeAnterior s =
     do { let n = list_size (snd a);
          valorAcotado \<leftarrow> lee_bytes valor sizeAnterior n;
          c \<leftarrow> get_carpincho s pid;
          p \<leftarrow> list_get (crp_paginas c) (i32 (fst a));
          offset \<leftarrow> list_get (snd a) 0;
          (_, s1) \<leftarrow> escribir_en_pagina E p valorAcotado n offset s;
          escribir_acciones E pid as valor n s1 }"

fun leer_acciones ::
  "'s entorno \<Rightarrow> int \<Rightarrow> t_pagina_accion list \<Rightarrow> char list \<Rightarrow> int \<Rightarrow> 's memoria \<Rightarrow>
   (char list \<times> 's memoria) option" where
  "leer_acciones E pid [] buffer sizeAnterior s = Some (buffer, s)"
| "leer_acciones E pid (a # as) buffer sizeAnterior s =
     do { let n = list_size (snd a);
          c \<leftarrow> get_carpincho s pid;
          p \<leftarrow> list_get (crp_paginas c) (i32 (fst a));
          offset \<leftarrow> list_get (snd a) 0;
          (r, s1) \<leftarrow> leer_en_pagina E p n offset s;
          resultadoParcial \<leftarrow> r;
          buffer1 \<leftarrow> copia_bytes buffer sizeAnterior resultadoParcial;
          leer_acciones E pid as buffer1 n s1 }"

definition memory_memwrite ::
  "'s entorno \<Rightarrow> int \<Rightarrow> int \<Rightarrow> int \<Rightarrow> char list \<Rightarrow> 's memoria \<Rightarrow>
   (status_memory_op \<times> 's memoria) option" where
  "memory_memwrite E carpinchoId pos_log_abs n valor s =
     (case get_carpincho s carpinchoId of
        None \<Rightarrow> Some (DIRECCION_INVALIDA, s)
      | Some c \<Rightarrow>
          if \<not> validar_direccion_logica_escritura_con_size E c pos_log_abs (i32 n)
          then Some (DIRECCION_INVALIDA, s)
          else do {
            k \<leftarrow> obtener_alloc_de_un_carpincho c pos_log_abs;
            a \<leftarrow> list_get (crp_allocs c) k;
            let dir_fin_alloc = u32 (al_direccion a + 9 + al_tamanio_data a - 1);
            if u32 (dir_fin_alloc - pos_log_abs + 1) < n then Some (DIRECCION_INVALIDA, s)
            else do {
              s1 \<leftarrow> escribir_acciones E carpinchoId
                      (armar_acciones E pos_log_abs [0..<nat n] []) valor 0 s;
              Some (EXITO, s1) } })"

definition memory_memread ::
  "'s entorno \<Rightarrow> int \<Rightarrow> int \<Rightarrow> int \<Rightarrow> char list \<Rightarrow> 's memoria \<Rightarrow>
   (status_memory_op \<times> char list \<times> 's memoria) option" where
  "memory_memread E carpinchoId pos n buffer s =
     (case get_carpincho s carpinchoId of
        None \<Rightarrow> Some (DIRECCION_INVALIDA, buffer, s)
      | Some c \<Rightarrow>
          if \<not> validar_direccion_logica_escritura_con_size E c pos (i32 n)
          then Some (DIRECCION_INVALIDA, buffer, s)
          else do {
            (buffer1, s1) \<leftarrow> leer_acciones E carpinchoId
                              (armar_acciones E pos [0..<nat n] []) buffer 0 s;
            Some (EXITO, buffer1, s1) })"

subsection \<open>Compaction\<close>

text \<open>The bound of the loop is an address, not a length.\<close>

definition alloc_esta_en_pagina :: "'s entorno \<Rightarrow> t_alloc \<Rightarrow> int \<Rightarrow> bool" where
  "alloc_esta_en_pagina E a num_pag =
     list_ex (\<lambda>i. i32 (div_u32 (u32 (al_direccion a + int i)) (tam_pag E)) = num_pag)
       [0..<Suc (nat (u32 (al_direccion a + 9 + al_tamanio_data a - 1)))]"

definition obtener_todos_los_allocs_de_carpincho_de_una_pagina ::
  "'s entorno \<Rightarrow> t_carpincho \<Rightarrow> int \<Rightarrow> t_alloc list" where
  "obtener_todos_los_allocs_de_carpincho_de_una_pagina E c indexPag =
     filter (\<lambda>a. alloc_esta_en_pagina E a indexPag) (crp_allocs c)"

definition todos_los_allocs_estan_libres :: "t_alloc list \<Rightarrow> bool" where
  "todos_los_allocs_estan_libres allocs =
     (if list_size allocs = 0 then False else list_all al_isFree allocs)"

text \<open>
  The blocks of the page are removed by the position of their address and then freed. The last
  size replaces the accumulated one. Two blocks with one address would leave a freed block in the
  list.
\<close>

fun borrar_allocs :: "t_alloc list \<Rightarrow> int \<Rightarrow> t_alloc list \<Rightarrow> (int \<times> t_alloc list) option" where
  "borrar_allocs [] acum allocs = Some (acum, allocs)"
| "borrar_allocs (b # bs) acum allocs =
     do { k \<leftarrow> obtener_indice_de_alloc allocs b;
          let allocs1 = list_remove allocs k;
          _ \<leftarrow> exige (al_direccion b \<notin> set (map al_direccion allocs1));
          borrar_allocs bs (al_tamanio_data b + 9) allocs1 }"

definition bajar_direcciones :: "int \<Rightarrow> int \<Rightarrow> t_alloc list \<Rightarrow> t_alloc list" where
  "bajar_direcciones desde acum allocs =
     take (nat desde) allocs @
     map (\<lambda>a. a\<lparr>al_direccion := u32 (al_direccion a - acum)\<rparr>) (drop (nat desde) allocs)"

definition libera :: "ptr option \<Rightarrow> (ptr \<Rightarrow> t_pagina option) \<Rightarrow> (ptr \<Rightarrow> t_pagina option) option" where
  "libera q h = (case q of None \<Rightarrow> Some h | Some p \<Rightarrow> do { _ \<leftarrow> h p; Some (h(p := None)) })"

text \<open>
  The page is taken out of the list first, and what is freed then is the page that has moved
  into its place.
\<close>

definition compactar_pagina ::
  "t_carpincho \<Rightarrow> ptr \<Rightarrow> t_alloc list \<Rightarrow> 's memoria \<Rightarrow> 's memoria option" where
  "compactar_pagina c pag allocs_de_una_pagina s =
     do { g \<leftarrow> heap s pag;
          let indicePag = pag_pagina g - 1;
          (acumEspacioLiberado, allocs) \<leftarrow> borrar_allocs allocs_de_una_pagina 0 (crp_allocs c);
          let paginas = list_remove (crp_paginas c) indicePag;
          h \<leftarrow> libera (list_get paginas indicePag) (heap s);
          let allocs1 = (if acumEspacioLiberado > 0
                then bajar_direcciones (list_size allocs_de_una_pagina - 1) acumEspacioLiberado allocs
                else allocs);
          Some (modifica_carpincho (crp_pid c)
                  (\<lambda>c. c\<lparr>crp_allocs := allocs1, crp_paginas := paginas\<rparr>) (s\<lparr>heap := h\<rparr>)) }"

text \<open>
  The loop returns in its first turn, so only the first page is looked at; a process without pages
  falls off the end.
\<close>

definition compactar :: "'s entorno \<Rightarrow> int \<Rightarrow> 's memoria \<Rightarrow> (int \<times> 's memoria) option" where
  "compactar E pid s =
     do { c \<leftarrow> get_carpincho s pid;
          pag \<leftarrow> list_get (crp_paginas c) 0;
          let allocs = obtener_todos_los_allocs_de_carpincho_de_una_pagina E c 0;
          if todos_los_allocs_estan_libres allocs
          then do { s1 \<leftarrow> compactar_pagina c pag allocs s; Some (1, s1) }
          else Some (0, s) }"

partial_function (option) compactar_todo :: "'s entorno \<Rightarrow> int \<Rightarrow> 's memoria \<Rightarrow> 's memoria option" where
  "compactar_todo E pid s =
     do { (r, s1) \<leftarrow> compactar E pid s;
          if r = 1 then compactar_todo E pid s1 else Some s1 }"

subsection \<open>memfree\<close>

text \<open>
  The block at position \<open>k\<close> joined with its free neighbours: its new position and the new list.
\<close>

definition unificar_izq :: "t_alloc list \<Rightarrow> int \<Rightarrow> int \<Rightarrow> (int \<times> int \<times> t_alloc list) option" where
  "unificar_izq allocs k indiceAlloc =
     (if indiceAlloc - 1 \<ge> 0
      then do { allocPrev \<leftarrow> list_get allocs (indiceAlloc - 1);
                a \<leftarrow> list_get allocs k;
                if al_isFree allocPrev
                then let a1 = a\<lparr>al_direccion := al_direccion allocPrev,
                               al_tamanio_data := al_tamanio_data allocPrev + al_tamanio_data a + 9\<rparr>
                     in Some (k - 1, indiceAlloc - 1,
                              list_remove (allocs[nat k := a1]) (indiceAlloc - 1))
                else Some (k, indiceAlloc, allocs) }
      else Some (k, indiceAlloc, allocs))"

definition unificar_der :: "t_alloc list \<Rightarrow> int \<Rightarrow> int \<Rightarrow> t_alloc list option" where
  "unificar_der allocs k indiceAlloc =
     (if indiceAlloc + 1 \<le> list_size allocs - 1
      then do { allocNext \<leftarrow> list_get allocs (indiceAlloc + 1);
                a \<leftarrow> list_get allocs k;
                if al_isFree allocNext
                then let a1 = a\<lparr>al_tamanio_data := al_tamanio_data allocNext + al_tamanio_data a + 9\<rparr>
                     in Some (list_remove (allocs[nat k := a1]) (indiceAlloc + 1))
                else Some allocs }
      else Some allocs)"

definition liberar_alloc :: "t_alloc list \<Rightarrow> int \<Rightarrow> (int \<times> t_alloc list) option" where
  "liberar_alloc allocs k =
     do { a \<leftarrow> list_get allocs k;
          let allocs1 = allocs[nat k := a\<lparr>al_isFree := True\<rparr>];
          indiceAlloc \<leftarrow> obtener_indice_de_alloc allocs1 a;
          (k1, indice1, allocs2) \<leftarrow> unificar_izq allocs1 k indiceAlloc;
          allocs3 \<leftarrow> unificar_der allocs2 k1 indice1;
          Some (k1, allocs3) }"

definition memory_memfree ::
  "'s entorno \<Rightarrow> int \<Rightarrow> int \<Rightarrow> 's memoria \<Rightarrow> (status_memory_op \<times> 's memoria) option" where
  "memory_memfree E carpinchoId pos s =
     (case get_carpincho s carpinchoId of
        None \<Rightarrow> Some (DIRECCION_INVALIDA, s)
      | Some c \<Rightarrow>
          if \<not> validar_direccion_logica E c pos then Some (DIRECCION_INVALIDA, s)
          else (case obtener_alloc_con_inicio_de_direccion_de_dato_de_un_carpincho c pos of
              None \<Rightarrow> Some (DIRECCION_INVALIDA, s)
            | Some k \<Rightarrow>
                do { a \<leftarrow> list_get (crp_allocs c) k;
                     if al_isFree a then Some (DIRECCION_INVALIDA, s)
                     else do {
                       (k1, allocs) \<leftarrow> liberar_alloc (crp_allocs c) k;
                       a1 \<leftarrow> list_get allocs k1;
                       s1 \<leftarrow> persistir_metadata_heap E carpinchoId a1
                               (fija_allocs carpinchoId allocs s);
                       s2 \<leftarrow> compactar_todo E carpinchoId s1;
                       Some (EXITO, s2) } }))"

subsection \<open>End of a process\<close>

fun indice_carpincho :: "int \<Rightarrow> t_carpincho list \<Rightarrow> int \<Rightarrow> int \<Rightarrow> int" where
  "indice_carpincho pid [] i index = index"
| "indice_carpincho pid (c # cs) i index =
     indice_carpincho pid cs (i + 1) (if crp_pid c = pid then i else index)"

fun free_pages_by_carpincho ::
  "ptr list \<Rightarrow> (ptr \<Rightarrow> t_pagina option) \<Rightarrow> (ptr \<Rightarrow> t_pagina option) option" where
  "free_pages_by_carpincho [] h = Some h"
| "free_pages_by_carpincho (p # ps) h =
     do { h1 \<leftarrow> libera (Some p) h; free_pages_by_carpincho ps h1 }"

definition memory_memfree_all ::
  "'s entorno \<Rightarrow> int \<Rightarrow> 's memoria \<Rightarrow> (status_memory_op \<times> 's memoria) option" where
  "memory_memfree_all E carpinchoId s =
     (case get_carpincho s carpinchoId of
        None \<Rightarrow> Some (DIRECCION_INVALIDA, s)
      | Some c \<Rightarrow>
          do { let index = indice_carpincho carpinchoId (carpinchos_list s) 0 (- 1);
               h \<leftarrow> free_pages_by_carpincho (crp_paginas c) (heap s);
               Some (EXITO, s\<lparr>carpinchos_list := list_remove (carpinchos_list s) index,
                              heap := h\<rparr>) })"

end
