(* ===== verification/Protocolo.thy ===== *)
theory Protocolo
  imports Prelude
begin

section \<open>The instance protocol and the client library\<close>

text \<open>
  Library, kernel and memory exchange one message, a flattened \<open>mate_instance\<close>
  (\<open>serializar_instancia\<close> in \<^verbatim>\<open>matelib.c\<close> and \<^verbatim>\<open>kernel.c\<close>,
  \<open>deserializar_instancia\<close> in \<^verbatim>\<open>kernel.c\<close> and in the \<^verbatim>\<open>server.c\<close> of the
  memory process). A socket is the list of bytes still to be read; waiting for bytes that never
  come is \<open>None\<close>. The second half are the calls of the client library.
\<close>

subsection \<open>The instance\<close>

text \<open>Enumerations travel as the four bytes of an \<open>int\<close> and are kept as integers.\<close>

abbreviation (input) MEMORIA :: int where "MEMORIA \<equiv> 0"
abbreviation (input) IO :: int where "IO \<equiv> 1"
abbreviation (input) SEMAFORO :: int where "SEMAFORO \<equiv> 2"
abbreviation (input) INICIALIZACION :: int where "INICIALIZACION \<equiv> 3"
abbreviation (input) FINALIZACION :: int where "FINALIZACION \<equiv> 4"

abbreviation (input) INIT :: int where "INIT \<equiv> 0"
abbreviation (input) WAIT :: int where "WAIT \<equiv> 1"
abbreviation (input) POST :: int where "POST \<equiv> 2"
abbreviation (input) DESTROY :: int where "DESTROY \<equiv> 3"

abbreviation (input) MEMALLOC :: int where "MEMALLOC \<equiv> 0"
abbreviation (input) MEMFREE :: int where "MEMFREE \<equiv> 1"
abbreviation (input) MEMREAD :: int where "MEMREAD \<equiv> 2"
abbreviation (input) MEMWRITE :: int where "MEMWRITE \<equiv> 3"
abbreviation (input) PROCESS_ENDED :: int where "PROCESS_ENDED \<equiv> 4"

abbreviation (input) PROCESS :: int where "PROCESS \<equiv> 1"

record mate_instance =
  mi_tipo :: int
  sem_operacion :: int
  sem_longitud :: int
  sem_valor :: int
  sem_nombre :: "char list"
  mi_PID :: int
  mi_estado :: int
  mem_size :: int
  mem_valor :: "char list"
  mem_addr :: int
  mem_tipoOp :: int
  io_longitud :: int
  io_nombre :: "char list"

subsection \<open>Sockets\<close>

definition recibir_bytes :: "int \<Rightarrow> char list \<Rightarrow> (char list \<times> char list) option" where
  "recibir_bytes n entrada =
     (if 0 \<le> n \<and> n \<le> list_size entrada
      then Some (take (nat n) entrada, drop (nat n) entrada) else None)"

definition recibir_int :: "char list \<Rightarrow> (int \<times> char list) option" where
  "recibir_int entrada =
     do { (bs, resto) \<leftarrow> recibir_bytes 4 entrada; Some (i32 (de_le32 bs), resto) }"

subsection \<open>Sending an instance\<close>

text \<open>
  The three variable parts are copied with the lengths of the instance, whatever the size of the
  buffers: \<open>sigue\<close> is what lies behind a buffer in memory.
\<close>

definition serializar_mensaje ::
  "(char list \<Rightarrow> char list) \<Rightarrow> mate_instance \<Rightarrow> char list option" where
  "serializar_mensaje sigue c =
     do { nombre_sem \<leftarrow> lee_bytes (sem_nombre c @ sigue (sem_nombre c)) 0 (sem_longitud c);
          valor \<leftarrow> lee_bytes (mem_valor c @ sigue (mem_valor c)) 0 (mem_size c);
          nombre_io \<leftarrow> lee_bytes (io_nombre c @ sigue (io_nombre c)) 0 (io_longitud c);
          Some (le32 PROCESS @ le32 (mi_tipo c) @ le32 (sem_operacion c) @ le32 (sem_longitud c) @
                le32 (sem_valor c) @ nombre_sem @ le32 (mi_PID c) @ le32 (mi_estado c) @
                le32 (mem_size c) @ valor @ le32 (mem_addr c) @ le32 (mem_tipoOp c) @
                le32 (io_longitud c) @ nombre_io) }"

text \<open>The size of the buffer that \<open>serializar_instancia\<close> allocates.\<close>

definition tamanio_mensaje :: "mate_instance \<Rightarrow> int" where
  "tamanio_mensaje c = io_longitud c + mem_size c + 4 + 6 * 4 + 4 + 4 + 4 + 4 + 4 + 4 + sem_longitud c"

subsection \<open>Receiving an instance\<close>

definition deserializar_instancia :: "char list \<Rightarrow> (mate_instance \<times> char list) option" where
  "deserializar_instancia e0 =
     do { (tipo, e1) \<leftarrow> recibir_int e0;
          (operacion, e2) \<leftarrow> recibir_int e1;
          (longitud, e3) \<leftarrow> recibir_int e2;
          (valor_sem, e4) \<leftarrow> recibir_int e3;
          (nombre_sem, e5) \<leftarrow> recibir_bytes longitud e4;
          (pid, e6) \<leftarrow> recibir_int e5;
          (estado, e7) \<leftarrow> recibir_int e6;
          (n, e8) \<leftarrow> recibir_int e7;
          (valor, e9) \<leftarrow> recibir_bytes n e8;
          (addr, e10) \<leftarrow> recibir_int e9;
          (tipoOp, e11) \<leftarrow> recibir_int e10;
          (longitud_io, e12) \<leftarrow> recibir_int e11;
          (nombre_io, e13) \<leftarrow> recibir_bytes longitud_io e12;
          Some (\<lparr>mi_tipo = tipo, sem_operacion = operacion, sem_longitud = longitud,
                 sem_valor = valor_sem, sem_nombre = nombre_sem, mi_PID = pid, mi_estado = estado,
                 mem_size = n, mem_valor = valor, mem_addr = addr, mem_tipoOp = tipoOp,
                 io_longitud = longitud_io, io_nombre = nombre_io\<rparr>, e13) }"

text \<open>The kernel also answers an initialisation: the bytes it sends.\<close>

definition deserializar_instancia_kernel ::
  "char list \<Rightarrow> (mate_instance \<times> char list \<times> char list) option" where
  "deserializar_instancia_kernel entrada =
     do { (c, resto) \<leftarrow> deserializar_instancia entrada;
          Some (c, resto, if mi_tipo c = INICIALIZACION then le32 0 else []) }"

definition recibir_operacion :: "char list \<Rightarrow> (int \<times> char list) option" where
  "recibir_operacion entrada = recibir_int entrada"

subsection \<open>The client library\<close>

text \<open>
  What \<open>serializar_instancia\<close> of the library returns: a pointer to a fresh buffer, or an
  integer cast to a pointer. \<open>entrada\<close> are the bytes the kernel sends; the bytes sent come first.
\<close>

datatype resultado_lib = Puntero "char list" | Entero int

definition respuesta_memoria :: "int \<Rightarrow> char list \<Rightarrow> (resultado_lib \<times> char list) option" where
  "respuesta_memoria tipoOp entrada =
     (if tipoOp = MEMREAD
      then do { (unTamanio, e1) \<leftarrow> recibir_int entrada;
                (bs, e2) \<leftarrow> recibir_bytes unTamanio e1;
                Some (Puntero (le32 unTamanio @ bs), e2) }
      else do { (bs, e1) \<leftarrow> recibir_bytes 4 entrada; Some (Puntero bs, e1) })"

definition serializar_instancia ::
  "(char list \<Rightarrow> char list) \<Rightarrow> mate_instance \<Rightarrow> char list \<Rightarrow>
   (char list \<times> resultado_lib \<times> char list) option" where
  "serializar_instancia sigue c entrada =
     do { magic \<leftarrow> serializar_mensaje sigue c;
          (r, e) \<leftarrow> (if mi_tipo c = MEMORIA then respuesta_memoria (mem_tipoOp c) entrada
                     else do { (resultado, e) \<leftarrow> recibir_int entrada; Some (Entero resultado, e) });
          Some (magic, r, e) }"

text \<open>A result read as an \<open>int\<close>: a pointer is truncated, \<open>dir\<close> is the address of the buffer.\<close>

definition como_int :: "int \<Rightarrow> resultado_lib \<Rightarrow> int" where
  "como_int dir r = (case r of Entero n \<Rightarrow> n | Puntero _ \<Rightarrow> i32 dir)"

text \<open>
  A call of the library: the new contents of the instance, the bytes sent, the value returned to
  the program and the bytes left. \<open>C\<close> strings are given without their NUL.
\<close>

type_synonym llamada = "mate_instance \<times> char list \<times> int \<times> char list"

definition llamar ::
  "(char list \<Rightarrow> char list) \<Rightarrow> int \<Rightarrow> mate_instance \<Rightarrow> char list \<Rightarrow> llamada option" where
  "llamar sigue dir c entrada =
     do { (magic, r, e) \<leftarrow> serializar_instancia sigue c entrada;
          Some (c, magic, como_int dir r, e) }"

definition mate_init ::
  "(char list \<Rightarrow> char list) \<Rightarrow> int \<Rightarrow> mate_instance \<Rightarrow> int \<Rightarrow> char list \<Rightarrow> llamada option" where
  "mate_init sigue dir basura tid entrada =
     llamar sigue dir
       (basura\<lparr>mi_tipo := INICIALIZACION, mi_estado := 0, mi_PID := tid, sem_longitud := 1,
               io_longitud := 1, mem_size := 1\<rparr>) entrada"

definition mate_close ::
  "(char list \<Rightarrow> char list) \<Rightarrow> int \<Rightarrow> mate_instance \<Rightarrow> char list \<Rightarrow> llamada option" where
  "mate_close sigue dir c entrada = llamar sigue dir (c\<lparr>mi_tipo := FINALIZACION\<rparr>) entrada"

definition con_semaforo :: "int \<Rightarrow> string \<Rightarrow> mate_instance \<Rightarrow> mate_instance" where
  "con_semaforo operacion sem c =
     c\<lparr>mi_tipo := SEMAFORO, sem_operacion := operacion, sem_nombre := sem @ [CHR 0x00],
       sem_longitud := list_size sem + 1\<rparr>"

definition mate_sem_init ::
  "(char list \<Rightarrow> char list) \<Rightarrow> int \<Rightarrow> mate_instance \<Rightarrow> string \<Rightarrow> int \<Rightarrow> char list \<Rightarrow> llamada option"
where
  "mate_sem_init sigue dir c sem value entrada =
     llamar sigue dir ((con_semaforo INIT sem c)\<lparr>sem_valor := i32 value\<rparr>) entrada"

definition mate_sem_wait ::
  "(char list \<Rightarrow> char list) \<Rightarrow> int \<Rightarrow> mate_instance \<Rightarrow> string \<Rightarrow> char list \<Rightarrow> llamada option" where
  "mate_sem_wait sigue dir c sem entrada = llamar sigue dir (con_semaforo WAIT sem c) entrada"

definition mate_sem_post ::
  "(char list \<Rightarrow> char list) \<Rightarrow> int \<Rightarrow> mate_instance \<Rightarrow> string \<Rightarrow> char list \<Rightarrow> llamada option" where
  "mate_sem_post sigue dir c sem entrada = llamar sigue dir (con_semaforo POST sem c) entrada"

definition mate_sem_destroy ::
  "(char list \<Rightarrow> char list) \<Rightarrow> int \<Rightarrow> mate_instance \<Rightarrow> string \<Rightarrow> char list \<Rightarrow> llamada option" where
  "mate_sem_destroy sigue dir c sem entrada = llamar sigue dir (con_semaforo DESTROY sem c) entrada"

definition mate_call_io ::
  "(char list \<Rightarrow> char list) \<Rightarrow> int \<Rightarrow> mate_instance \<Rightarrow> string \<Rightarrow> char list \<Rightarrow> llamada option" where
  "mate_call_io sigue dir c io entrada =
     llamar sigue dir (c\<lparr>mi_tipo := IO, io_nombre := io @ [CHR 0x00],
                        io_longitud := list_size io + 1\<rparr>) entrada"

definition mate_memalloc ::
  "(char list \<Rightarrow> char list) \<Rightarrow> mate_instance \<Rightarrow> int \<Rightarrow> char list \<Rightarrow> llamada option" where
  "mate_memalloc sigue c n entrada =
     do { let c1 = c\<lparr>mi_tipo := MEMORIA, mem_size := n, mem_tipoOp := MEMALLOC\<rparr>;
          (magic, r, e) \<leftarrow> serializar_instancia sigue c1 entrada;
          (case r of Puntero bs \<Rightarrow> Some (c1, magic, i32 (de_le32 bs), e) | Entero _ \<Rightarrow> None) }"

definition mate_memfree ::
  "(char list \<Rightarrow> char list) \<Rightarrow> int \<Rightarrow> mate_instance \<Rightarrow> int \<Rightarrow> char list \<Rightarrow> llamada option" where
  "mate_memfree sigue dir c addr entrada =
     llamar sigue dir (c\<lparr>mi_tipo := MEMORIA, mem_addr := addr, mem_tipoOp := MEMFREE\<rparr>) entrada"

text \<open>
  The destination of a read is overwritten with a fresh buffer which is freed before the return:
  the bytes read reach nobody.
\<close>

definition mate_memread ::
  "(char list \<Rightarrow> char list) \<Rightarrow> mate_instance \<Rightarrow> int \<Rightarrow> int \<Rightarrow> char list \<Rightarrow> llamada option" where
  "mate_memread sigue c origin n entrada =
     do { let c1 = c\<lparr>mi_tipo := MEMORIA, mem_addr := origin, mem_size := n, mem_tipoOp := MEMREAD\<rparr>;
          (magic, r, e) \<leftarrow> serializar_instancia sigue c1 entrada;
          (case r of
             Puntero bs \<Rightarrow>
               do { cabecera \<leftarrow> lee_bytes bs 0 4;
                    let tamanio = i32 (de_le32 cabecera);
                    Some (c1, magic, if tamanio > 0 then 0 else - 1, e) }
           | Entero _ \<Rightarrow> None) }"

definition mate_memwrite ::
  "(char list \<Rightarrow> char list) \<Rightarrow> mate_instance \<Rightarrow> char list \<Rightarrow> int \<Rightarrow> int \<Rightarrow> char list \<Rightarrow>
   llamada option" where
  "mate_memwrite sigue c origin dest n entrada =
     do { valor \<leftarrow> lee_bytes (origin @ sigue origin) 0 n;
          let c1 = c\<lparr>mi_tipo := MEMORIA, mem_addr := dest, mem_size := n, mem_tipoOp := MEMWRITE,
                     mem_valor := valor\<rparr>;
          (magic, r, e) \<leftarrow> serializar_instancia sigue c1 entrada;
          (case r of
             Puntero bs \<Rightarrow> Some (c1, magic, if i32 (de_le32 bs) \<noteq> 0 then 0 else - 1, e)
           | Entero _ \<Rightarrow> None) }"

subsection \<open>Laws of the protocol\<close>

lemma recibir_bytes_append [bytes]:
  "n = list_size bs \<Longrightarrow> recibir_bytes n (bs @ resto) = Some (bs, resto)"
  by (simp add: recibir_bytes_def list_size_def)

lemma i32_u32 [simp]: "i32 (u32 x) = i32 x"
  by (simp add: i32_def u32_def mod_simps)

lemma u32_i32 [simp]: "u32 (i32 x) = u32 x"
  by (simp add: i32_def u32_def mod_simps)

lemma i32_idem [simp]: "i32 (i32 x) = i32 x"
  by (metis i32_u32 u32_i32)

lemma recibir_int_append [simp]: "recibir_int (le32 x @ resto) = Some (i32 x, resto)"
  by (simp add: recibir_int_def bytes list_size_def)

lemma recibir_int_solo [simp]: "recibir_int (le32 x) = Some (i32 x, [])"
  using recibir_int_append [of x "[]"] by simp

lemma recibir_bytes_4_le32 [simp]: "recibir_bytes 4 (le32 x @ resto) = Some (le32 x, resto)"
  by (rule recibir_bytes_append) (simp add: list_size_def)

text \<open>An instance whose fields are the \<open>int\<close>s they stand for and whose buffers have the lengths
  it declares.\<close>

definition enteros_int :: "mate_instance \<Rightarrow> bool" where
  "enteros_int c \<longleftrightarrow>
     i32 (mi_tipo c) = mi_tipo c \<and> i32 (sem_operacion c) = sem_operacion c \<and>
     i32 (sem_longitud c) = sem_longitud c \<and> i32 (sem_valor c) = sem_valor c \<and>
     i32 (mi_PID c) = mi_PID c \<and> i32 (mi_estado c) = mi_estado c \<and>
     i32 (mem_size c) = mem_size c \<and> i32 (mem_addr c) = mem_addr c \<and>
     i32 (mem_tipoOp c) = mem_tipoOp c \<and> i32 (io_longitud c) = io_longitud c"

definition bien_formada :: "mate_instance \<Rightarrow> bool" where
  "bien_formada c \<longleftrightarrow>
     enteros_int c \<and> sem_longitud c = list_size (sem_nombre c) \<and>
     mem_size c = list_size (mem_valor c) \<and> io_longitud c = list_size (io_nombre c)"

lemma lee_bytes_todo: "lee_bytes (bs @ resto) 0 (list_size bs) = Some bs"
  by (simp add: lee_bytes_def list_size_def)

lemma recibir_bytes_lee: "recibir_bytes (list_size bs) (bs @ resto) = Some (bs, resto)"
  by (rule recibir_bytes_append) (rule refl)

lemma list_size_le32 [simp]: "list_size (le32 x) = 4"
  by (simp add: le32_def list_size_def)

lemma serializar_bien_formada:
  assumes "bien_formada c"
  shows "serializar_mensaje sigue c =
    Some (le32 PROCESS @ le32 (mi_tipo c) @ le32 (sem_operacion c) @ le32 (sem_longitud c) @
          le32 (sem_valor c) @ sem_nombre c @ le32 (mi_PID c) @ le32 (mi_estado c) @
          le32 (mem_size c) @ mem_valor c @ le32 (mem_addr c) @ le32 (mem_tipoOp c) @
          le32 (io_longitud c) @ io_nombre c)"
  using assms by (simp add: serializar_mensaje_def bien_formada_def lee_bytes_todo)

lemma deserializar_bien_formada:
  assumes "bien_formada c"
  shows "deserializar_instancia
     (le32 (mi_tipo c) @ le32 (sem_operacion c) @ le32 (sem_longitud c) @
      le32 (sem_valor c) @ sem_nombre c @ le32 (mi_PID c) @ le32 (mi_estado c) @
      le32 (mem_size c) @ mem_valor c @ le32 (mem_addr c) @ le32 (mem_tipoOp c) @
      le32 (io_longitud c) @ io_nombre c @ resto) = Some (c, resto)"
proof -
  have l: "sem_longitud c = list_size (sem_nombre c)" "mem_size c = list_size (mem_valor c)"
    "io_longitud c = list_size (io_nombre c)" and e: "enteros_int c"
    using assms by (auto simp: bien_formada_def)
  have r: "recibir_bytes (sem_longitud c) (sem_nombre c @ x) = Some (sem_nombre c, x)"
    "recibir_bytes (mem_size c) (mem_valor c @ x) = Some (mem_valor c, x)"
    "recibir_bytes (io_longitud c) (io_nombre c @ x) = Some (io_nombre c, x)" for x
    unfolding l by (rule recibir_bytes_lee)+
  show ?thesis using e by (simp add: deserializar_instancia_def enteros_int_def r)
qed

definition cuerpo_de :: "mate_instance \<Rightarrow> char list" where
  "cuerpo_de c =
     le32 (mi_tipo c) @ le32 (sem_operacion c) @ le32 (sem_longitud c) @ le32 (sem_valor c) @ sem_nombre c @
     le32 (mi_PID c) @ le32 (mi_estado c) @ le32 (mem_size c) @ mem_valor c @ le32 (mem_addr c) @
     le32 (mem_tipoOp c) @ le32 (io_longitud c) @ io_nombre c"

lemma mensaje_bien_formado:
  assumes "bien_formada c"
  shows "serializar_mensaje sigue c = Some (le32 PROCESS @ cuerpo_de c)"
    and "deserializar_instancia (cuerpo_de c @ resto) = Some (c, resto)"
  using serializar_bien_formada [OF assms, of sigue] deserializar_bien_formada [OF assms, of resto]
  by (simp_all add: cuerpo_de_def)

lemma longitud_leida: "lee_bytes b 0 n = Some bs \<Longrightarrow> list_size bs = n"
  by (rule lee_bytes_length)

subsection \<open>Properties\<close>

text \<open>C27. Round trip of the instance protocol: for every instance whose buffers have the lengths it
  declares, what the library and the kernel put on the wire is read back by the receiver as the
  operation code of a process and the same instance, and not one byte behind it is consumed.\<close>

theorem instancia_ida_y_vuelta:
  assumes "bien_formada c"
  shows "\<exists>m cuerpo. serializar_mensaje sigue c = Some m \<and>
    recibir_operacion (m @ resto) = Some (PROCESS, cuerpo) \<and>
    deserializar_instancia cuerpo = Some (c, resto)"
  using serializar_bien_formada [OF assms, of sigue] deserializar_bien_formada [OF assms, of resto]
  by (simp add: recibir_operacion_def)

definition instancia_ejemplo :: mate_instance where
  "instancia_ejemplo =
     \<lparr>mi_tipo = MEMORIA, sem_operacion = 0, sem_longitud = 1, sem_valor = 0, sem_nombre = ''s'',
      mi_PID = 7, mi_estado = - 1, mem_size = 4, mem_valor = ''hola'', mem_addr = 9,
      mem_tipoOp = MEMWRITE, io_longitud = 0, io_nombre = []\<rparr>"

lemma bien_formada_ejemplo: "bien_formada instancia_ejemplo"
  by (simp add: bien_formada_def enteros_int_def instancia_ejemplo_def i32_def)

theorem instancia_ida_y_vuelta_witness:
  "\<exists>m cuerpo. serializar_mensaje (\<lambda>_. []) instancia_ejemplo = Some m \<and>
    recibir_operacion (m @ ''xyz'') = Some (PROCESS, cuerpo) \<and>
    deserializar_instancia cuerpo = Some (instancia_ejemplo, ''xyz'')"
  by (rule instancia_ida_y_vuelta [OF bien_formada_ejemplo])



text \<open>\<open>mate_memalloc\<close> declares the size it asks for as the size of the buffer of the last write,
  which it does not resize: the message carries the bytes that lie behind that buffer.\<close>

lemma memalloc_envia_memoria_ajena:
  assumes "mate_memalloc sigue c n entrada = Some (c', magic, r, resto)"
    and "list_size (mem_valor c) < n"
  shows "\<exists>antes despues. magic = antes @ le32 n @ mem_valor c @
    take (nat (n - list_size (mem_valor c))) (sigue (mem_valor c)) @ despues"
proof -
  let ?c = "c\<lparr>mi_tipo := MEMORIA, mem_size := n, mem_tipoOp := MEMALLOC\<rparr>"
  obtain a q e where s: "serializar_instancia sigue ?c entrada = Some (a, q, e)"
    using assms(1) by (auto simp: mate_memalloc_def Let_def bind_eq_Some_conv)
  then have "a = magic" using assms(1) by (cases q) (simp_all add: mate_memalloc_def Let_def)
  with s obtain x where x: "serializar_instancia sigue ?c entrada = Some (magic, x)" by blast
  then have "serializar_mensaje sigue ?c = Some magic"
    unfolding serializar_instancia_def by (auto simp only: bind_eq_Some_conv option.inject prod.inject split: prod.splits)
  then obtain a b d where b: "lee_bytes (mem_valor c @ sigue (mem_valor c)) 0 n = Some b"
    and m: "magic = (le32 PROCESS @ le32 (mi_tipo ?c) @ le32 (sem_operacion c) @ le32 (sem_longitud c) @
                le32 (sem_valor c) @ a @ le32 (mi_PID c) @ le32 (mi_estado c)) @
                le32 n @ b @ le32 (mem_addr c) @ le32 (mem_tipoOp ?c) @
                le32 (io_longitud c) @ d"
    by (auto simp: serializar_mensaje_def bind_eq_Some_conv)
  have "b = mem_valor c @ take (nat (n - list_size (mem_valor c))) (sigue (mem_valor c))"
    using b assms(2) by (auto simp: lee_bytes_def list_size_def nat_diff_distrib split: if_splits)
  then show ?thesis unfolding m by (metis append_assoc)
qed

text \<open>A write that the memory process refuses (\<open>MATE_WRITE_FAULT\<close>, -7) is reported to the
  program as done, exactly like one that was done (\<open>MATE_WRITE_OK\<close>, 7): \<open>mate_memwrite\<close> only looks
  for a reply that is zero.\<close>

lemma memwrite_oculta_fallo:
  assumes "0 \<le> n" "n \<le> list_size origin" "serializar_mensaje sigue
      (c\<lparr>mi_tipo := MEMORIA, mem_addr := dest, mem_size := n, mem_tipoOp := MEMWRITE,
         mem_valor := take (nat n) origin\<rparr>) = Some magic"
  shows "\<exists>c'. mate_memwrite sigue c origin dest n (le32 respuesta @ resto) =
    Some (c', magic, if i32 respuesta = 0 then - 1 else 0, resto)"
proof -
  have "lee_bytes (origin @ sigue origin) 0 n = Some (take (nat n) origin)"
    using assms(1,2) by (auto simp: lee_bytes_def list_size_def)
  moreover have "i32 (de_le32 (le32 respuesta)) = i32 respuesta" by simp
  ultimately show ?thesis using assms(3)
    by (simp add: mate_memwrite_def serializar_instancia_def respuesta_memoria_def Let_def)
qed

text \<open>\<open>mate_memread\<close> reads a refusal (\<open>MATE_READ_FAULT\<close>) as the length of the data and asks for
  a buffer of that length: no reply with a negative length has a defined outcome. A reply with data
  gives 0, and the bytes of the reply are consumed without reaching the caller.\<close>

lemma memread_respuestas:
  assumes m: "serializar_mensaje sigue
      (c\<lparr>mi_tipo := MEMORIA, mem_addr := origin, mem_size := n, mem_tipoOp := MEMREAD\<rparr>) = Some magic"
  shows "(i32 k < 0 \<longrightarrow> mate_memread sigue c origin n (le32 k @ resto) = None) \<and>
    (0 < list_size datos \<and> list_size datos < 2147483648 \<longrightarrow>
     mate_memread sigue c origin n (le32 (list_size datos) @ datos @ resto) =
       Some (c\<lparr>mi_tipo := MEMORIA, mem_addr := origin, mem_size := n, mem_tipoOp := MEMREAD\<rparr>,
             magic, 0, resto))"
proof (intro conjI impI)
  show "mate_memread sigue c origin n (le32 k @ resto) = None" if "i32 k < 0"
    using that m by (simp add: mate_memread_def serializar_instancia_def respuesta_memoria_def
        recibir_bytes_def Let_def)
  assume d: "0 < list_size datos \<and> list_size datos < 2147483648"
  have i: "i32 (list_size datos) = list_size datos" using d by (intro i32_id) linarith+
  have l: "lee_bytes (le32 x @ datos) 0 4 = Some (le32 x)" for x
    by (simp add: lee_bytes_def)
  show "mate_memread sigue c origin n (le32 (list_size datos) @ datos @ resto) =
       Some (c\<lparr>mi_tipo := MEMORIA, mem_addr := origin, mem_size := n, mem_tipoOp := MEMREAD\<rparr>,
             magic, 0, resto)"
    using m d by (simp add: mate_memread_def serializar_instancia_def respuesta_memoria_def
        recibir_bytes_lee i l Let_def)
qed

end
