(* ===== verification/Memoria_Servidor.thy ===== *)
theory Memoria_Servidor
  imports Memoria_Mensajes Protocolo
begin

section \<open>Memoria: the message server\<close>

text \<open>
  \<^verbatim>\<open>memoria/src/server.c\<close>: one instance is read from the kernel's connection, the operation
  is carried out and its result is sent back. The handler of SIGUSR2 (\<^verbatim>\<open>signals.c\<close>) is here too.
\<close>

abbreviation (input) MATE_FREE_FAULT :: int where "MATE_FREE_FAULT \<equiv> - 5"
abbreviation (input) MATE_READ_FAULT :: int where "MATE_READ_FAULT \<equiv> - 6"
abbreviation (input) MATE_WRITE_FAULT :: int where "MATE_WRITE_FAULT \<equiv> - 7"
abbreviation (input) MATE_WRITE_OK :: int where "MATE_WRITE_OK \<equiv> 7"
abbreviation (input) MATE_FREE_OK :: int where "MATE_FREE_OK \<equiv> 5"
abbreviation (input) MATE_ALLOC_FAULT :: int where "MATE_ALLOC_FAULT \<equiv> - 4"
abbreviation (input) MATE_END_OK :: int where "MATE_END_OK \<equiv> 9"
abbreviation (input) MATE_END_FAULT :: int where "MATE_END_FAULT \<equiv> - 9"

subsection \<open>The operations\<close>

text \<open>Each case of the switch: the new state and the bytes sent. \<open>basura i\<close> is byte \<open>i\<close> of a
  freshly allocated buffer.\<close>

definition atender_memalloc ::
  "'s entorno \<Rightarrow> mate_instance \<Rightarrow> 's memoria \<Rightarrow> ('s memoria \<times> char list) option" where
  "atender_memalloc E c s =
     do { (resultado, direccion, s1) \<leftarrow> memory_memalloc E (mi_PID c) (u32 (mem_size c)) 0 s;
          s2 \<leftarrow> imprimir_marcos E s1;
          Some (s2, if resultado = EXITO then le32 direccion else le32 MATE_ALLOC_FAULT) }"

definition atender_memfree ::
  "'s entorno \<Rightarrow> mate_instance \<Rightarrow> 's memoria \<Rightarrow> ('s memoria \<times> char list) option" where
  "atender_memfree E c s =
     do { (resultado, s1) \<leftarrow> memory_memfree E (mi_PID c) (u32 (mem_addr c)) s;
          s2 \<leftarrow> imprimir_marcos E s1;
          Some (s2, le32 (if resultado = EXITO then MATE_FREE_OK else MATE_FREE_FAULT)) }"

definition atender_memread ::
  "'s entorno \<Rightarrow> (nat \<Rightarrow> char) \<Rightarrow> mate_instance \<Rightarrow> 's memoria \<Rightarrow> ('s memoria \<times> char list) option" where
  "atender_memread E basura c s =
     do { let n = u32 (mem_size c);
          (resultado, buffer, s1) \<leftarrow> memory_memread E (mi_PID c) (u32 (mem_addr c)) n
                                       (map basura [0..<nat n]) s;
          s2 \<leftarrow> imprimir_marcos E s1;
          Some (s2, if resultado = EXITO then le32 n @ buffer else le32 MATE_READ_FAULT) }"

definition atender_memwrite ::
  "'s entorno \<Rightarrow> mate_instance \<Rightarrow> 's memoria \<Rightarrow> ('s memoria \<times> char list) option" where
  "atender_memwrite E c s =
     do { (resultado, s1) \<leftarrow> memory_memwrite E (mi_PID c) (u32 (mem_addr c)) (u32 (mem_size c))
                               (mem_valor c) s;
          s2 \<leftarrow> imprimir_marcos E s1;
          Some (s2, le32 (if resultado = EXITO then MATE_WRITE_OK else MATE_WRITE_FAULT)) }"

definition atender_finalizacion ::
  "'s entorno \<Rightarrow> mate_instance \<Rightarrow> 's memoria \<Rightarrow> ('s memoria \<times> char list) option" where
  "atender_finalizacion E c s =
     do { (resultado, s1) \<leftarrow> memory_memfree_all E (mi_PID c) s;
          s2 \<leftarrow> imprimir_marcos E s1;
          Some (s2, le32 (if resultado = EXITO then MATE_END_OK else MATE_END_FAULT)) }"

definition atender ::
  "'s entorno \<Rightarrow> (nat \<Rightarrow> char) \<Rightarrow> mate_instance \<Rightarrow> 's memoria \<Rightarrow> ('s memoria \<times> char list) option" where
  "atender E basura c s =
     (if mi_tipo c = MEMORIA
      then if mem_tipoOp c = MEMALLOC then atender_memalloc E c s
           else if mem_tipoOp c = MEMFREE then atender_memfree E c s
           else if mem_tipoOp c = MEMREAD then atender_memread E basura c s
           else if mem_tipoOp c = MEMWRITE then atender_memwrite E c s
           else if mem_tipoOp c = FINALIZACION then atender_finalizacion E c s
           else Some (s, [])
      else Some (s, le32 (- 10)))"

text \<open>\<open>server_procesar_mensaje\<close>: the new state, the bytes sent and the bytes left to read.\<close>

definition server_procesar_mensaje ::
  "'s entorno \<Rightarrow> (nat \<Rightarrow> char) \<Rightarrow> char list \<Rightarrow> 's memoria \<Rightarrow>
   ('s memoria \<times> char list \<times> char list) option" where
  "server_procesar_mensaje E basura entrada s =
     do { (c, resto) \<leftarrow> deserializar_instancia entrada;
          (s1, enviado) \<leftarrow> atender E basura c s;
          Some (s1, enviado, resto) }"

text \<open>One turn of the loop of a client thread.\<close>

definition recibirOperaciones ::
  "'s entorno \<Rightarrow> (nat \<Rightarrow> char) \<Rightarrow> char list \<Rightarrow> 's memoria \<Rightarrow>
   ('s memoria \<times> char list \<times> char list) option" where
  "recibirOperaciones E basura entrada s =
     do { (cod_op, resto) \<leftarrow> recibir_operacion entrada;
          if cod_op = PROCESS then server_procesar_mensaje E basura resto s
          else Some (s, [], resto) }"

subsection \<open>Signals\<close>

definition sig_handler_sig2 :: "'s memoria \<Rightarrow> 's memoria" where
  "sig_handler_sig2 s = clear_mensajes_dump s"

definition increment_hit :: "int \<Rightarrow> 's memoria \<Rightarrow> 's memoria" where
  "increment_hit pid s =
     modifica_carpincho pid (\<lambda>c. c\<lparr>crp_tlb_hits := crp_tlb_hits c + 1\<rparr>)
       (s\<lparr>tlb_hits_totales := tlb_hits_totales s + 1\<rparr>)"

definition increment_miss :: "int \<Rightarrow> 's memoria \<Rightarrow> 's memoria" where
  "increment_miss pid s =
     modifica_carpincho pid (\<lambda>c. c\<lparr>crp_tlb_miss := crp_tlb_miss c + 1\<rparr>)
       (s\<lparr>tlb_miss_totales := tlb_miss_totales s + 1\<rparr>)"

end
