(* ===== verification/Swamp.thy ===== *)
theory Swamp
  imports Protocolo
begin

section \<open>Swamp: the swap server\<close>

text \<open>
  \<^verbatim>\<open>swamp-v2/src/swamp.c\<close>: swap files divided into frames (\<open>marcos\<close>), the processes
  known to the server, and the four requests. A file is a list of bytes under its name; a
  \<open>char*\<close> to a name is an optional string. Retries of the console and the log are left out.
\<close>

subsection \<open>Data\<close>

datatype estado = LEER | ESCRIBIR | PUEDE_ESCRIBIR | CASO_ASIGNACION

record carpincho_swamp =
  cs_PID :: int
  cs_archivo :: string
  cs_cantMarcos :: int

record marco_swamp =
  ms_archivo :: string
  ms_marco :: int
  ms_indice :: int
  ms_PID :: int

record t_config_swamp =
  tamanio_swamp :: int
  tamanio_pagina_swamp :: int
  archivos_swamp :: "string list"
  cant_archivos_swamp :: string
  marcos_maximos :: int

text \<open>The configuration, and what uninitialised memory holds wherever the code reads it.\<close>

record entorno_swamp =
  datosConfigSwamp :: t_config_swamp
  basura_config :: "char list"
  basura_PID :: "int \<Rightarrow> int"
  basura_bytes :: "nat \<Rightarrow> char"
  sigue_buffer :: "char list \<Rightarrow> char list"

record swamp_estado =
  sw_archivos :: "string \<Rightarrow> char list"
  sw_marcos :: "marco_swamp list"
  sw_carpinchos :: "carpincho_swamp list"
  sw_casoAsignacion :: int

abbreviation tam_sw :: "entorno_swamp \<Rightarrow> int" where
  "tam_sw C \<equiv> tamanio_swamp (datosConfigSwamp C)"

abbreviation pag_sw :: "entorno_swamp \<Rightarrow> int" where
  "pag_sw C \<equiv> tamanio_pagina_swamp (datosConfigSwamp C)"

subsection \<open>Number of files\<close>

text \<open>\<open>strtok\<close>: the number of non-empty pieces between separators.\<close>

fun contar_tokens :: "char \<Rightarrow> bool \<Rightarrow> char list \<Rightarrow> int" where
  "contar_tokens sep dentro [] = 0"
| "contar_tokens sep dentro (c # cs) =
     (if c = sep then contar_tokens sep False cs
      else (if dentro then 0 else 1) + contar_tokens sep True cs)"

text \<open>The text is copied without its NUL into a fresh buffer.\<close>

definition obtenerCantArchivos :: "entorno_swamp \<Rightarrow> int" where
  "obtenerCantArchivos C =
     contar_tokens (CHR '','') False
       (takeWhile (\<lambda>c. c \<noteq> CHR 0x00) (cant_archivos_swamp (datosConfigSwamp C) @ basura_config C))"

definition cantMarcos :: "entorno_swamp \<Rightarrow> int" where
  "cantMarcos C = tam_sw C div pag_sw C"

text \<open>\<open>archivos_swamp[i]\<close>.\<close>

definition nombre_archivo :: "entorno_swamp \<Rightarrow> int \<Rightarrow> string option" where
  "nombre_archivo C i = list_get (archivos_swamp (datosConfigSwamp C)) i"

subsection \<open>Start\<close>

fun crear_archivos_desde :: "entorno_swamp \<Rightarrow> nat list \<Rightarrow> (string \<Rightarrow> char list) \<Rightarrow>
  (string \<Rightarrow> char list) option" where
  "crear_archivos_desde C [] fs = Some fs"
| "crear_archivos_desde C (i # is) fs =
     do { f \<leftarrow> nombre_archivo C (int i);
          crear_archivos_desde C is (fs(f := replicate (nat (tam_sw C)) CHR 0x00)) }"

definition crear_archivos :: "entorno_swamp \<Rightarrow> swamp_estado \<Rightarrow> swamp_estado option" where
  "crear_archivos C w =
     do { fs \<leftarrow> crear_archivos_desde C [0..<nat (obtenerCantArchivos C)] (sw_archivos w);
          Some (w\<lparr>sw_archivos := fs\<rparr>) }"

text \<open>The PID of a new frame is not initialised.\<close>

fun iniciar_marcos_desde :: "entorno_swamp \<Rightarrow> nat list \<Rightarrow> marco_swamp list option" where
  "iniciar_marcos_desde C [] = Some []"
| "iniciar_marcos_desde C (c # cs) =
     do { f \<leftarrow> nombre_archivo C (int c);
          resto \<leftarrow> iniciar_marcos_desde C cs;
          Some (map (\<lambda>i. \<lparr>ms_archivo = f, ms_marco = int i, ms_indice = - 1,
                          ms_PID = basura_PID C (int c * cantMarcos C + int i)\<rparr>)
                  [0..<nat (cantMarcos C)] @ resto) }"

definition iniciar_marcos :: "entorno_swamp \<Rightarrow> swamp_estado \<Rightarrow> swamp_estado option" where
  "iniciar_marcos C w =
     do { ms \<leftarrow> iniciar_marcos_desde C [0..<nat (obtenerCantArchivos C)];
          Some (w\<lparr>sw_marcos := ms\<rparr>) }"

definition iniciar_carpinchos :: "swamp_estado \<Rightarrow> swamp_estado" where
  "iniciar_carpinchos w = w\<lparr>sw_carpinchos := []\<rparr>"

definition iniciar_servidor :: "entorno_swamp \<Rightarrow> swamp_estado option" where
  "iniciar_servidor C =
     do { w1 \<leftarrow> crear_archivos C \<lparr>sw_archivos = (\<lambda>_. []), sw_marcos = [], sw_carpinchos = [],
                                   sw_casoAsignacion = 0\<rparr>;
          w2 \<leftarrow> iniciar_marcos C w1;
          Some (iniciar_carpinchos w2) }"

subsection \<open>Frames\<close>

text \<open>
  The first free frame of a file. The loop runs one index past the frames (\<open><=\<close>), where it
  dereferences NULL.
\<close>

fun buscar_espacio :: "marco_swamp list \<Rightarrow> string \<Rightarrow> nat list \<Rightarrow> int option" where
  "buscar_espacio ms archivo [] = Some (- 1)"
| "buscar_espacio ms archivo (i # is) =
     do { m \<leftarrow> list_get ms (int i);
          if ms_archivo m = archivo \<and> ms_indice m = - 1 then Some (ms_marco m)
          else buscar_espacio ms archivo is }"

definition hayEspacioArchivo :: "entorno_swamp \<Rightarrow> swamp_estado \<Rightarrow> string option \<Rightarrow> int option" where
  "hayEspacioArchivo C w archivo =
     do { a \<leftarrow> archivo;
          buscar_espacio (sw_marcos w) a [0..<Suc (nat (cantMarcos C * obtenerCantArchivos C))] }"

fun contar_libres :: "marco_swamp list \<Rightarrow> string \<Rightarrow> nat list \<Rightarrow> int \<Rightarrow> int option" where
  "contar_libres ms archivo [] libres = Some libres"
| "contar_libres ms archivo (i # is) libres =
     do { m \<leftarrow> list_get ms (int i);
          contar_libres ms archivo is
            (if ms_archivo m = archivo \<and> ms_indice m = - 1 then libres + 1 else libres) }"

definition verSiHayPaginas ::
  "entorno_swamp \<Rightarrow> swamp_estado \<Rightarrow> int \<Rightarrow> string \<Rightarrow> int option" where
  "verSiHayPaginas C w cantPaginas archivo1 =
     do { marcosLibres \<leftarrow> contar_libres (sw_marcos w) archivo1
            [0..<nat (cantMarcos C * obtenerCantArchivos C)] 0;
          Some (if marcosLibres \<ge> cantPaginas then 0 else - 1) }"

definition actualizarMarcos :: "string \<Rightarrow> int \<Rightarrow> int \<Rightarrow> int \<Rightarrow> swamp_estado \<Rightarrow> swamp_estado" where
  "actualizarMarcos archivo indiceMarco indicePagina pid w =
     w\<lparr>sw_marcos := map (\<lambda>m. if ms_archivo m = archivo \<and> ms_marco m = indiceMarco
                            then m\<lparr>ms_indice := indicePagina, ms_PID := pid\<rparr> else m) (sw_marcos w)\<rparr>"

text \<open>The index in the list of all frames, which is not the frame's number in its file.\<close>

fun posicion_marco :: "(marco_swamp \<Rightarrow> bool) \<Rightarrow> marco_swamp list \<Rightarrow> int \<Rightarrow> int" where
  "posicion_marco P [] i = - 1"
| "posicion_marco P (m # ms) i = (if P m then i else posicion_marco P ms (i + 1))"

definition conseguirMarco :: "swamp_estado \<Rightarrow> int \<Rightarrow> int \<Rightarrow> int" where
  "conseguirMarco w pid indicePagina =
     posicion_marco (\<lambda>m. ms_PID m = pid \<and> ms_indice m = indicePagina) (sw_marcos w) 0"

subsection \<open>Files\<close>

text \<open>A byte 0xFF reads as \<open>EOF\<close> because it is stored in a \<open>char\<close>.\<close>

definition contar_ocupados :: "char list \<Rightarrow> int" where
  "contar_ocupados f =
     list_size (filter (\<lambda>c. c \<noteq> CHR 0x00) (takeWhile (\<lambda>c. c \<noteq> CHR 0xFF) f))"

fun contadores :: "entorno_swamp \<Rightarrow> swamp_estado \<Rightarrow> nat list \<Rightarrow> int list option" where
  "contadores C w [] = Some []"
| "contadores C w (i # is) =
     do { f \<leftarrow> nombre_archivo C (int i);
          resto \<leftarrow> contadores C w is;
          Some (contar_ocupados (sw_archivos w f) # resto) }"

fun indice_menor :: "int list \<Rightarrow> int \<Rightarrow> int \<Rightarrow> int \<Rightarrow> int" where
  "indice_menor [] i menor valor = menor"
| "indice_menor (x # xs) i menor valor =
     (if x < valor then indice_menor xs (i + 1) i x else indice_menor xs (i + 1) menor valor)"

definition archivoConMasEspacio :: "entorno_swamp \<Rightarrow> swamp_estado \<Rightarrow> string option option" where
  "archivoConMasEspacio C w =
     do { cs \<leftarrow> contadores C w [0..<nat (obtenerCantArchivos C)];
          Some (nombre_archivo C (case cs of [] \<Rightarrow> 0 | c # _ \<Rightarrow> indice_menor cs 0 0 c)) }"

text \<open>The file of a process; a process that writes for the first time is registered.\<close>

definition recibirPagina ::
  "entorno_swamp \<Rightarrow> int \<Rightarrow> estado \<Rightarrow> swamp_estado \<Rightarrow> (string option \<times> swamp_estado) option" where
  "recibirPagina C pid operacion w =
     (case list_find (\<lambda>c. cs_PID c = pid) (sw_carpinchos w) of
        Some c \<Rightarrow> Some (Some (cs_archivo c), w)
      | None \<Rightarrow>
          if operacion = PUEDE_ESCRIBIR
          then do { archivo \<leftarrow> archivoConMasEspacio C w;
                    m \<leftarrow> hayEspacioArchivo C w archivo;
                    Some (if m \<noteq> - 1 then archivo else None, w) }
          else if operacion = ESCRIBIR
          then do { archivo \<leftarrow> archivoConMasEspacio C w;
                    m \<leftarrow> hayEspacioArchivo C w archivo;
                    if m \<noteq> - 1
                    then do { a \<leftarrow> archivo;
                              Some (Some a, w\<lparr>sw_carpinchos := sw_carpinchos w @
                                [\<lparr>cs_PID = pid, cs_archivo = a, cs_cantMarcos = 0\<rparr>]\<rparr>) }
                    else Some (None, w) }
          else Some (None, w))"

subsection \<open>Assignment\<close>

text \<open>
  The counter of a file compares each process with the name at the index of the process, so every
  counter is the same.
\<close>

fun contar_asignados :: "entorno_swamp \<Rightarrow> nat \<Rightarrow> carpincho_swamp list \<Rightarrow> int option" where
  "contar_asignados C d [] = Some 0"
| "contar_asignados C d (c # cs) =
     do { f \<leftarrow> nombre_archivo C (int d);
          n \<leftarrow> contar_asignados C (Suc d) cs;
          Some ((if cs_archivo c = f then 1 else 0) + n) }"

text \<open>The loop over the processes decides on the first one; the global scheme registers the process.\<close>

definition chequearAsignacion ::
  "entorno_swamp \<Rightarrow> int \<Rightarrow> swamp_estado \<Rightarrow> (int \<times> swamp_estado) option" where
  "chequearAsignacion C pid w =
     (if sw_casoAsignacion w = 0
      then (case sw_carpinchos w of
              [] \<Rightarrow> Some (0, w)
            | c # _ \<Rightarrow>
                if cs_PID c = pid
                then Some (if cs_cantMarcos c < marcos_maximos (datosConfigSwamp C) then 0 else - 1, w)
                else if obtenerCantArchivos C \<le> 0 then Some (- 1, w)
                else do { contador \<leftarrow> contar_asignados C 0 (sw_carpinchos w);
                          _ \<leftarrow> exige (marcos_maximos (datosConfigSwamp C) \<noteq> 0);
                          Some (if contador < cantMarcos C div marcos_maximos (datosConfigSwamp C)
                                then 0 else - 1, w) })
      else if sw_casoAsignacion w = 1
      then do { (unArchivo, w1) \<leftarrow> recibirPagina C pid ESCRIBIR w;
                marco \<leftarrow> hayEspacioArchivo C w1 unArchivo;
                Some (if marco \<noteq> - 1 then 0 else - 1, w1) }
      else Some (- 1, w))"

definition actualizarCarpincho :: "estado \<Rightarrow> int \<Rightarrow> swamp_estado \<Rightarrow> swamp_estado" where
  "actualizarCarpincho operacion pid w =
     (let d = (case operacion of ESCRIBIR \<Rightarrow> 1 | LEER \<Rightarrow> - 1 | _ \<Rightarrow> 0)
      in w\<lparr>sw_carpinchos := map (\<lambda>c. if cs_PID c = pid then c\<lparr>cs_cantMarcos := cs_cantMarcos c + d\<rparr>
                                    else c) (sw_carpinchos w)\<rparr>)"

definition noSuperaMaximo :: "entorno_swamp \<Rightarrow> int \<Rightarrow> int" where
  "noSuperaMaximo C totalMemoria = (if totalMemoria > tam_sw C then 0 else 1)"

text \<open>\<open>obtenerNombre\<close> deletes every occurrence of a letter in place.\<close>

fun obtenerNombre :: "string \<Rightarrow> char \<Rightarrow> string" where
  "obtenerNombre [] letra = []"
| "obtenerNombre (c # cs) letra =
     (if c \<noteq> letra then c # obtenerNombre cs letra else obtenerNombre cs letra)"

subsection \<open>Requests\<close>

text \<open>
  A handler takes the bytes of the socket and returns the state, the bytes sent and the bytes left.
\<close>

type_synonym atencion = "(swamp_estado \<times> char list \<times> char list) option"

definition puede_escribir :: "entorno_swamp \<Rightarrow> char list \<Rightarrow> swamp_estado \<Rightarrow> atencion" where
  "puede_escribir C e0 w =
     do { (tamanioBuffer, e1) \<leftarrow> recibir_int e0;
          (pid, e2) \<leftarrow> recibir_int e1;
          (cantPaginas, e3) \<leftarrow> recibir_int e2;
          (archivo, w1) \<leftarrow> recibirPagina C pid PUEDE_ESCRIBIR w;
          (asignacion, w2) \<leftarrow> chequearAsignacion C pid w1;
          (case archivo of
             Some a \<Rightarrow>
               if asignacion = 0
               then do { hayPaginas \<leftarrow> verSiHayPaginas C w2 cantPaginas a;
                         Some (w2, le32 (if hayPaginas \<noteq> - 1 then 1 else - 1), e3) }
               else Some (w2, le32 (- 1), e3)
           | None \<Rightarrow> Some (w2, le32 (- 1), e3)) }"

text \<open>
  The file is mapped in whole memory pages of 4096 bytes; what is written behind the end of the
  file inside the last one is dropped. 64 bytes are copied whatever the length of the message and
  of a page.
\<close>

definition escribir_mapa :: "int \<Rightarrow> char list \<Rightarrow> char list \<Rightarrow> char list option" where
  "escribir_mapa off bs f =
     (if 0 \<le> off \<and> off + list_size bs \<le> (list_size f + 4095) div 4096 * 4096
      then Some (take (length f)
             (take (nat off) f @ bs @ drop (nat off + length bs) f)) else None)"

definition escribir_swap :: "entorno_swamp \<Rightarrow> char list \<Rightarrow> swamp_estado \<Rightarrow> atencion" where
  "escribir_swap C e0 w =
     do { (tamanioBuffer, e1) \<leftarrow> recibir_int e0;
          (pid, e2) \<leftarrow> recibir_int e1;
          (indicePagina, e3) \<leftarrow> recibir_int e2;
          (archivo, w1) \<leftarrow> recibirPagina C pid ESCRIBIR w;
          (tamanio_msg, e4) \<leftarrow> recibir_int e3;
          (buffer, e5) \<leftarrow> recibir_bytes tamanio_msg e4;
          indiceMarco \<leftarrow> hayEspacioArchivo C w1 archivo;
          a \<leftarrow> archivo;
          if indiceMarco \<noteq> - 1
          then do {
            (asignacion, w2) \<leftarrow> chequearAsignacion C pid w1;
            if asignacion = 0
            then do {
              bs \<leftarrow> lee_bytes (buffer @ sigue_buffer C buffer) 0 64;
              f \<leftarrow> escribir_mapa (pag_sw C * indiceMarco) bs (sw_archivos w2 a);
              let w3 = w2\<lparr>sw_archivos := (sw_archivos w2)(a := f)\<rparr>;
              Some (actualizarCarpincho ESCRIBIR pid
                      (actualizarMarcos a indiceMarco indicePagina pid w3), le32 0, e5) }
            else Some (w2, le32 (- 1), e5) }
          else Some (w1, le32 (- 1), e5) }"

text \<open>\<open>fgets\<close>: at most \<open>n - 1\<close> bytes, up to the first newline, and a NUL; nothing at the end of
  the file.\<close>

definition fgets :: "int \<Rightarrow> char list \<Rightarrow> char list \<Rightarrow> char list" where
  "fgets n f buf =
     (let leido = take (nat (n - 1)) f;
          linea = takeWhile (\<lambda>c. c \<noteq> CHR 0x0A) leido;
          linea1 = (if length linea < length leido then linea @ [CHR 0x0A] else linea)
      in if f = [] then buf else linea1 @ [CHR 0x00] @ drop (length linea1 + 1) buf)"

definition contenido_nuevo :: "entorno_swamp \<Rightarrow> char list" where
  "contenido_nuevo C = map (basura_bytes C) [0..<nat (pag_sw C)]"

text \<open>
  The page is erased from the swap once it has been sent. A page that is not there is not answered;
  for an unknown process every field is copied to the start of the buffer, and the last copy is the
  uninitialised page.
\<close>

definition leer_swap :: "entorno_swamp \<Rightarrow> char list \<Rightarrow> swamp_estado \<Rightarrow> atencion" where
  "leer_swap C e0 w =
     do { (tamanioBuffer, e1) \<leftarrow> recibir_int e0;
          (pid, e2) \<leftarrow> recibir_int e1;
          (indicePagina, e3) \<leftarrow> recibir_int e2;
          (archivo, w1) \<leftarrow> recibirPagina C pid LEER w;
          (case archivo of
             Some a \<Rightarrow>
               let k = conseguirMarco w1 pid indicePagina
               in if k \<noteq> - 1
                  then let contenido = fgets (pag_sw C) (drop (nat (k * pag_sw C)) (sw_archivos w1 a))
                                         (contenido_nuevo C)
                       in Some (actualizarCarpincho LEER pid (actualizarMarcos a k (- 1) pid w1),
                                le32 pid @ le32 indicePagina @ le32 (pag_sw C) @ contenido, e3)
                  else Some (w1, [], e3)
           | None \<Rightarrow> Some (w1, contenido_nuevo C @
                         map (basura_bytes C) [nat (pag_sw C)..<nat (pag_sw C) + 12], e3)) }"

definition fijar_asignacion :: "char list \<Rightarrow> swamp_estado \<Rightarrow> atencion" where
  "fijar_asignacion e0 w =
     do { (tamanioBuffer, e1) \<leftarrow> recibir_int e0;
          (caso, e2) \<leftarrow> recibir_int e1;
          if caso = 0 then Some (w\<lparr>sw_casoAsignacion := 0\<rparr>, le32 0, e2)
          else if caso = 1 then Some (w\<lparr>sw_casoAsignacion := 1\<rparr>, le32 0, e2)
          else Some (w, [], e2) }"

text \<open>One turn of the loop of \<open>server_atender_cliente\<close>: any other code is skipped.\<close>

definition atender_swamp :: "entorno_swamp \<Rightarrow> char list \<Rightarrow> swamp_estado \<Rightarrow> atencion" where
  "atender_swamp C e0 w =
     do { (codigoOp, e1) \<leftarrow> recibir_int e0;
          if codigoOp = 11 then leer_swap C e1 w
          else if codigoOp = 12 then escribir_swap C e1 w
          else if codigoOp = 13 then puede_escribir C e1 w
          else if codigoOp = 14 then fijar_asignacion e1 w
          else Some (w, [], e1) }"

end
