(* ===== verification/Memoria_Swamp.thy ===== *)
theory Memoria_Swamp
  imports Memoria_Servidor Swamp
begin

section \<open>The memory process connected to the swap server\<close>

text \<open>
  The packets of \<^verbatim>\<open>memoria/src/client.c\<close> as bytes, and the swap server of
  \<open>Swamp\<close> put behind the three requests that \<open>Memoria_Paginas\<close> takes from its environment.
\<close>

subsection \<open>Packets\<close>

definition enviar_paquete_swamp :: "char list \<Rightarrow> int \<Rightarrow> char list" where
  "enviar_paquete_swamp stream codigo_operacion =
     le32 codigo_operacion @ le32 (list_size stream) @ stream"

definition mensaje_escritura :: "int \<Rightarrow> int \<Rightarrow> char list \<Rightarrow> char list" where
  "mensaje_escritura pid pagina msg =
     enviar_paquete_swamp (le32 pid @ le32 pagina @ le32 (list_size msg) @ msg) 12"

text \<open>The size of the packet counts four bytes that are never written.\<close>

definition mensaje_lectura :: "int \<Rightarrow> int \<Rightarrow> int \<Rightarrow> char list" where
  "mensaje_lectura basura pid pagina =
     enviar_paquete_swamp (le32 pid @ le32 pagina @ le32 basura) 11"

definition mensaje_puede_escribir :: "int \<Rightarrow> int \<Rightarrow> char list" where
  "mensaje_puede_escribir carpinchoID cantPag =
     enviar_paquete_swamp (le32 carpinchoID @ le32 cantPag) 13"

definition mensaje_tipo_asignacion :: "'s entorno \<Rightarrow> char list" where
  "mensaje_tipo_asignacion E =
     enviar_paquete_swamp (le32 (if es_dinamica E then 1 else if es_fija E then 0 else - 1)) 14"

subsection \<open>The server behind the packets\<close>

text \<open>
  The server reads requests until nothing is left of what has been sent; a request that is cut off
  leaves it waiting.
\<close>

function atender_pendientes ::
  "entorno_swamp \<Rightarrow> char list \<Rightarrow> char list \<Rightarrow> swamp_estado \<Rightarrow> (char list \<times> swamp_estado) option"
where
  "atender_pendientes C entrada enviado w =
     (if entrada = [] then Some (enviado, w)
      else case atender_swamp C entrada w of
          None \<Rightarrow> None
        | Some (w1, r, resto) \<Rightarrow>
            if length resto < length entrada then atender_pendientes C resto (enviado @ r) w1
            else None)"
  by pat_completeness auto
termination
  by (relation "measure (\<lambda>(C, entrada, enviado, w). length entrada)") auto

declare atender_pendientes.simps [simp del]

definition pedir_entero ::
  "entorno_swamp \<Rightarrow> char list \<Rightarrow> swamp_estado \<Rightarrow> (int \<times> swamp_estado) option" where
  "pedir_entero C pedido w =
     do { (r, w1) \<leftarrow> atender_pendientes C pedido [] w;
          (resultado, resto) \<leftarrow> recibir_int r;
          Some (resultado, w1) }"

definition escribir_en_swamp ::
  "entorno_swamp \<Rightarrow> int \<Rightarrow> int \<Rightarrow> char list \<Rightarrow> swamp_estado \<Rightarrow> (int \<times> swamp_estado) option" where
  "escribir_en_swamp C pid pagina msg w = pedir_entero C (mensaje_escritura pid pagina msg) w"

definition puede_escribir_en_swamp ::
  "entorno_swamp \<Rightarrow> int \<Rightarrow> int \<Rightarrow> swamp_estado \<Rightarrow> (int \<times> swamp_estado) option" where
  "puede_escribir_en_swamp C pid cantPag w = pedir_entero C (mensaje_puede_escribir pid cantPag) w"

definition leer_de_swamp ::
  "entorno_swamp \<Rightarrow> int \<Rightarrow> int \<Rightarrow> int \<Rightarrow> int \<Rightarrow> swamp_estado \<Rightarrow>
   (char list option \<times> swamp_estado) option" where
  "leer_de_swamp C basura tam pid pagina w =
     do { (r, w1) \<leftarrow> atender_pendientes C (mensaje_lectura basura pid pagina) [] w;
          (pid1, r1) \<leftarrow> recibir_int r;
          if pid1 = - 1 then Some (None, w1)
          else do { (indicePagina, r2) \<leftarrow> recibir_int r1;
                    (tamanioPagina, r3) \<leftarrow> recibir_int r2;
                    (contenidoLectura, r4) \<leftarrow> recibir_bytes tam r3;
                    Some (Some contenidoLectura, w1) } }"

definition conectar :: "entorno_swamp \<Rightarrow> int \<Rightarrow> swamp_estado entorno \<Rightarrow> swamp_estado entorno" where
  "conectar C basura E =
     E\<lparr>srv_escribir := escribir_en_swamp C,
       srv_leer := leer_de_swamp C basura (tam_pag E),
       srv_puede_escribir := puede_escribir_en_swamp C\<rparr>"

end
