(* ===== verification/Swamp_Guarda.thy ===== *)
theory Swamp_Guarda
  imports Swamp
begin

section \<open>Swamp: what the server keeps\<close>

text \<open>
  The server as a partial map from pages to contents, for the configuration the code is written
  for: one swap file, pages of 64 bytes, the global scheme. The well-formedness of the frames, the
  page that comes back from the bytes of a message (\<open>recupera\<close>), and the effect of the two
  requests on the map.
\<close>

subsection \<open>Searching the frames\<close>

lemma buscar_espacio_primero:
  assumes "i < length ms" "ms_indice (ms ! i) = - 1" "\<forall>m\<in>set ms. ms_archivo m = a" "j \<le> i" "i < n"
  obtains k where "buscar_espacio ms a [j..<n] = Some (ms_marco (ms ! k))" "k < length ms"
    "ms_indice (ms ! k) = - 1"
  using assms(4)
proof (induction "i - j" arbitrary: j thesis)
  case 0
  have g: "list_get ms (int j) = Some (ms ! j)" using list_get_nat [of j ms] 0 assms(1) by simp
  have "ms_archivo (ms ! j) = a" using assms(1,3) 0 by simp
  then show ?case using 0 g assms(1,2,5) by (simp add: upt_conv_Cons)
next
  case (Suc d)
  have g: "list_get ms (int j) = Some (ms ! j)" using list_get_nat [of j ms] Suc(2) assms(1) by simp
  have u: "[j..<n] = j # [Suc j..<n]" using Suc(2) assms(5) by (simp add: upt_conv_Cons)
  have a: "ms_archivo (ms ! j) = a" using assms(1,3) Suc(2) by simp
  show ?case
  proof (cases "ms_indice (ms ! j) = - 1")
    case True
    then show ?thesis using Suc(3) [of j] g a u Suc(2) assms(1) by simp
  next
    case False
    obtain k where "buscar_espacio ms a [Suc j..<n] = Some (ms_marco (ms ! k))" "k < length ms"
      "ms_indice (ms ! k) = - 1" by (rule Suc(1)) (use Suc(2) in auto)
    then show ?thesis using Suc(3) g u False by simp
  qed
qed

lemma posicion_marco_ninguna: "\<forall>m\<in>set ms. \<not> P m \<Longrightarrow> posicion_marco P ms i = - 1"
  by (induction ms arbitrary: i) auto

lemma posicion_marco_unica:
  assumes "k < length ms" "P (ms ! k)" "\<And>j. j < length ms \<Longrightarrow> P (ms ! j) \<Longrightarrow> j = k"
  shows "posicion_marco P ms i = i + int k"
  using assms
proof (induction ms arbitrary: i k)
  case (Cons m ms)
  show ?case
  proof (cases k)
    case 0
    then show ?thesis using Cons(3) by simp
  next
    case (Suc l)
    have "\<not> P m" using Cons(4) [of 0] Suc by auto
    moreover have "posicion_marco P ms (i + 1) = i + 1 + int l"
      by (rule Cons(1)) (use Cons(2-4) Suc in fastforce)+
    ultimately show ?thesis using Suc by simp
  qed
qed simp

subsection \<open>Well-formed servers\<close>

definition claves_unicas :: "marco_swamp list \<Rightarrow> bool" where
  "claves_unicas ms \<longleftrightarrow>
     (\<forall>i<length ms. \<forall>j<length ms. ms_indice (ms ! i) \<noteq> - 1 \<longrightarrow> ms_indice (ms ! i) = ms_indice (ms ! j) \<longrightarrow>
        ms_PID (ms ! i) = ms_PID (ms ! j) \<longrightarrow> i = j)"

definition marcos_swamp_ok :: "string \<Rightarrow> marco_swamp list \<Rightarrow> bool" where
  "marcos_swamp_ok a ms \<longleftrightarrow>
     (\<forall>i<length ms. ms_archivo (ms ! i) = a \<and> ms_marco (ms ! i) = int i) \<and> claves_unicas ms"

definition swamp_ok :: "entorno_swamp \<Rightarrow> string \<Rightarrow> swamp_estado \<Rightarrow> bool" where
  "swamp_ok C a w \<longleftrightarrow>
     pag_sw C = 64 \<and> obtenerCantArchivos C = 1 \<and> nombre_archivo C 0 = Some a \<and>
     sw_casoAsignacion w = 1 \<and> list_size (sw_marcos w) = cantMarcos C \<and>
     marcos_swamp_ok a (sw_marcos w) \<and>
     64 * list_size (sw_marcos w) \<le> list_size (sw_archivos w a) \<and>
     (\<forall>c\<in>set (sw_carpinchos w). cs_archivo c = a) \<and>
     (\<forall>m\<in>set (sw_marcos w). ms_indice m \<noteq> - 1 \<longrightarrow> ms_PID m \<in> cs_PID ` set (sw_carpinchos w))"

text \<open>What \<open>leer_swap\<close> sends for frame \<open>k\<close>, and for 64 bytes just written.\<close>

definition leida :: "entorno_swamp \<Rightarrow> char list \<Rightarrow> nat \<Rightarrow> char list" where
  "leida C f k = fgets 64 (drop (64 * k) f) (contenido_nuevo C)"

definition recupera :: "entorno_swamp \<Rightarrow> char list \<Rightarrow> char list" where
  "recupera C msg = fgets 64 (take 64 (msg @ sigue_buffer C msg)) (contenido_nuevo C)"

definition mensaje_ok :: "entorno_swamp \<Rightarrow> char list \<Rightarrow> bool" where
  "mensaje_ok C msg \<longleftrightarrow> list_size msg < 2147483648 \<and> 64 \<le> length (msg @ sigue_buffer C msg)"

definition guarda_swamp :: "entorno_swamp \<Rightarrow> string \<Rightarrow> swamp_estado \<Rightarrow> int \<times> int \<Rightarrow> char list option" where
  "guarda_swamp C a w = (\<lambda>(pid, pagina).
     let k = conseguirMarco w pid pagina
     in if pagina = - 1 \<or> k = - 1 then None else Some (leida C (sw_archivos w a) (nat k)))"

definition libres_swamp :: "swamp_estado \<Rightarrow> nat" where
  "libres_swamp w = length (filter (\<lambda>m. ms_indice m = - 1) (sw_marcos w))"

lemma conseguirMarco_unica:
  assumes "claves_unicas (sw_marcos w)" "k < length (sw_marcos w)" "ms_PID (sw_marcos w ! k) = pid"
    "ms_indice (sw_marcos w ! k) = pagina" "pagina \<noteq> - 1"
  shows "conseguirMarco w pid pagina = int k"
  unfolding conseguirMarco_def
  by (subst posicion_marco_unica [where k = k]) (use assms in \<open>auto simp: claves_unicas_def\<close>)

lemma guarda_Some:
  assumes "claves_unicas (sw_marcos w)"
  shows "guarda_swamp C a w (pid, pagina) = Some c \<longleftrightarrow>
    pagina \<noteq> - 1 \<and> (\<exists>k<length (sw_marcos w). ms_PID (sw_marcos w ! k) = pid \<and>
      ms_indice (sw_marcos w ! k) = pagina \<and> c = leida C (sw_archivos w a) k)"
proof (cases "\<exists>k<length (sw_marcos w). ms_PID (sw_marcos w ! k) = pid \<and> ms_indice (sw_marcos w ! k) = pagina")
  case True
  then obtain k where k: "k < length (sw_marcos w)" "ms_PID (sw_marcos w ! k) = pid"
    "ms_indice (sw_marcos w ! k) = pagina" by blast
  show ?thesis
  proof (cases "pagina = - 1")
    case False
    have "j = k" if "j < length (sw_marcos w)" "ms_PID (sw_marcos w ! j) = pid"
      "ms_indice (sw_marcos w ! j) = pagina" for j
      using assms that k False by (auto simp: claves_unicas_def)
    then have "(\<exists>j<length (sw_marcos w). ms_PID (sw_marcos w ! j) = pid \<and>
        ms_indice (sw_marcos w ! j) = pagina \<and> c = leida C (sw_archivos w a) j) \<longleftrightarrow>
        c = leida C (sw_archivos w a) k"
      using k by blast
    then show ?thesis
      using conseguirMarco_unica [OF assms k False] False by (auto simp: guarda_swamp_def Let_def)
  qed (simp add: guarda_swamp_def)
next
  case False
  then have "conseguirMarco w pid pagina = - 1"
    unfolding conseguirMarco_def by (intro posicion_marco_ninguna) (auto simp: in_set_conv_nth)
  then show ?thesis using False by (auto simp: guarda_swamp_def Let_def)
qed

lemma actualizarMarcos_lista:
  assumes "marcos_swamp_ok a (sw_marcos w)" "i < length (sw_marcos w)"
  shows "sw_marcos (actualizarMarcos a (int i) pagina pid w) =
    (sw_marcos w)[i := (sw_marcos w ! i)\<lparr>ms_indice := pagina, ms_PID := pid\<rparr>]"
proof (rule nth_equalityI)
  fix j assume "j < length (sw_marcos (actualizarMarcos a (int i) pagina pid w))"
  then have j: "j < length (sw_marcos w)" by (simp add: actualizarMarcos_def)
  then have "ms_archivo (sw_marcos w ! j) = a" "ms_marco (sw_marcos w ! j) = int j"
    using assms(1) by (auto simp: marcos_swamp_ok_def)
  then show "sw_marcos (actualizarMarcos a (int i) pagina pid w) ! j =
    (sw_marcos w)[i := (sw_marcos w ! i)\<lparr>ms_indice := pagina, ms_PID := pid\<rparr>] ! j"
    using j assms(2) by (auto simp: actualizarMarcos_def nth_list_update)
qed (simp add: actualizarMarcos_def)

lemma registrados_update:
  assumes "\<forall>m\<in>set ms. ms_indice m \<noteq> - 1 \<longrightarrow> ms_PID m \<in> P" "pagina = - 1 \<or> pid \<in> P"
  shows "\<forall>m\<in>set (ms[i := x\<lparr>ms_indice := pagina, ms_PID := pid\<rparr>]). ms_indice m \<noteq> - 1 \<longrightarrow> ms_PID m \<in> P"
proof (intro ballI impI)
  fix m assume m: "m \<in> set (ms[i := x\<lparr>ms_indice := pagina, ms_PID := pid\<rparr>])" "ms_indice m \<noteq> - 1"
  then have "m = x\<lparr>ms_indice := pagina, ms_PID := pid\<rparr> \<or> m \<in> set ms"
    using set_update_subset_insert by fast
  then show "ms_PID m \<in> P" using assms m(2) by auto
qed

text \<open>A frame takes a page, or loses it.\<close>

lemma marcos_swamp_ok_update:
  assumes ok: "marcos_swamp_ok a ms" and i: "i < length ms"
    and nuevo: "pagina = - 1 \<or> (\<forall>j<length ms. j \<noteq> i \<longrightarrow> \<not> (ms_PID (ms ! j) = pid \<and> ms_indice (ms ! j) = pagina))"
  shows "marcos_swamp_ok a (ms[i := (ms ! i)\<lparr>ms_indice := pagina, ms_PID := pid\<rparr>])"
proof -
  let ?ms = "ms[i := (ms ! i)\<lparr>ms_indice := pagina, ms_PID := pid\<rparr>]"
  have "claves_unicas ?ms"
    unfolding claves_unicas_def
  proof (intro allI impI)
    fix j k assume jk: "j < length ?ms" "k < length ?ms" "ms_indice (?ms ! j) \<noteq> - 1"
      "ms_indice (?ms ! j) = ms_indice (?ms ! k)" "ms_PID (?ms ! j) = ms_PID (?ms ! k)"
    consider "j = i" "k = i" | "j = i" "k \<noteq> i" | "j \<noteq> i" "k = i" | "j \<noteq> i" "k \<noteq> i" by blast
    then show "j = k"
    proof cases
      case 4
      then show ?thesis using ok jk by (auto simp: marcos_swamp_ok_def claves_unicas_def)
    qed (use nuevo jk i in auto)
  qed
  moreover have "ms_archivo (?ms ! j) = a \<and> ms_marco (?ms ! j) = int j" if "j < length ms" for j
    using that ok by (cases "j = i") (auto simp: marcos_swamp_ok_def)
  ultimately show ?thesis by (simp add: marcos_swamp_ok_def)
qed

lemma length_filter_update:
  assumes "i < length xs"
  shows "length (filter P (xs[i := y])) + (if P (xs ! i) then 1 else 0) =
    length (filter P xs) + (if P y then 1 else 0)"
proof -
  have "xs = take i xs @ xs ! i # drop (Suc i) xs" using assms by (simp add: id_take_nth_drop)
  then have "length (filter P xs) = length (filter P (take i xs)) + length (filter P (xs ! i # drop (Suc i) xs))"
    by (metis filter_append length_append)
  then show ?thesis using assms by (simp add: upd_conv_take_nth_drop)
qed

subsection \<open>The two requests\<close>

lemma length_contenido_nuevo: "pag_sw C = 64 \<Longrightarrow> length (contenido_nuevo C) = 64"
  by (simp add: contenido_nuevo_def)

lemma length_fgets:
  assumes "length buf = 64"
  shows "length (fgets 64 f buf) = 64"
proof -
  let ?l = "takeWhile (\<lambda>c. c \<noteq> CHR 0x0A) (take 63 f)"
  have "length ?l \<le> length (take 63 f)" by (rule length_takeWhile_le)
  then have "length ?l \<le> length (take 63 f)" "length (take 63 f) \<le> 63" by auto
  then show ?thesis using assms by (auto simp: fgets_def Let_def min_def)
qed

lemma fgets_take: "fgets 64 (take 64 f) buf = fgets 64 f buf"
  by (simp add: fgets_def min_def)

lemma leida_bloque: "take 64 (drop (64 * k) f) = take 64 (drop (64 * k) f') \<Longrightarrow> leida C f k = leida C f' k"
  unfolding leida_def by (metis fgets_take)

lemma hayEspacioArchivo_ok:
  assumes "swamp_ok C a w" "0 < libres_swamp w"
  obtains i where "hayEspacioArchivo C w (Some a) = Some (int i)" "i < length (sw_marcos w)"
    "ms_indice (sw_marcos w ! i) = - 1"
proof -
  have ok: "marcos_swamp_ok a (sw_marcos w)" "list_size (sw_marcos w) = cantMarcos C" "obtenerCantArchivos C = 1"
    using assms(1) by (auto simp: swamp_ok_def)
  obtain m where "m \<in> set (sw_marcos w)" "ms_indice m = - 1"
    using assms(2) by (auto simp: libres_swamp_def filter_empty_conv)
  then obtain i where i: "i < length (sw_marcos w)" "ms_indice (sw_marcos w ! i) = - 1"
    by (metis in_set_conv_nth)
  have n: "i < Suc (nat (cantMarcos C * obtenerCantArchivos C))"
    using i(1) ok(2,3) by (simp add: list_size_def)
  have "\<forall>m\<in>set (sw_marcos w). ms_archivo m = a"
    using ok(1) by (auto simp: marcos_swamp_ok_def in_set_conv_nth)
  from buscar_espacio_primero [OF i this _ n] obtain k where
    k: "buscar_espacio (sw_marcos w) a [0..<Suc (nat (cantMarcos C * obtenerCantArchivos C))] =
        Some (ms_marco (sw_marcos w ! k))" "k < length (sw_marcos w)" "ms_indice (sw_marcos w ! k) = - 1"
    by blast
  then show ?thesis using that ok(1) by (simp add: hayEspacioArchivo_def marcos_swamp_ok_def)
qed

text \<open>The file of a process, which registers it when it is new.\<close>

lemma archivoConMasEspacio_ok:
  "swamp_ok C a w \<Longrightarrow> archivoConMasEspacio C w = Some (Some a)"
  by (simp add: swamp_ok_def archivoConMasEspacio_def)

lemma recibirPagina_ok:
  assumes ok: "swamp_ok C a w" and li: "0 < libres_swamp w"
  obtains cs where "recibirPagina C pid ESCRIBIR w = Some (Some a, w\<lparr>sw_carpinchos := cs\<rparr>)"
    "\<forall>c\<in>set cs. cs_archivo c = a" "\<exists>c\<in>set cs. cs_PID c = pid"
    "cs_PID ` set (sw_carpinchos w) \<subseteq> cs_PID ` set cs"
proof (cases "list_find (\<lambda>c. cs_PID c = pid) (sw_carpinchos w)")
  case None
  obtain i where "hayEspacioArchivo C w (Some a) = Some (int i)" using hayEspacioArchivo_ok [OF ok li] .
  with None show ?thesis
    using that [of "sw_carpinchos w @ [\<lparr>cs_PID = pid, cs_archivo = a, cs_cantMarcos = 0\<rparr>]"]
      archivoConMasEspacio_ok [OF ok] ok
    by (auto simp: recibirPagina_def swamp_ok_def)
next
  case (Some c)
  then show ?thesis
    using that [of "sw_carpinchos w"] ok list_find_SomeD [OF Some] by (auto simp: recibirPagina_def swamp_ok_def)
qed

lemma swamp_ok_carpinchos:
  "swamp_ok C a w \<Longrightarrow> \<forall>c\<in>set cs. cs_archivo c = a \<Longrightarrow>
   cs_PID ` set (sw_carpinchos w) \<subseteq> cs_PID ` set cs \<Longrightarrow> swamp_ok C a (w\<lparr>sw_carpinchos := cs\<rparr>)"
  by (auto simp: swamp_ok_def)

lemma libres_carpinchos [simp]: "libres_swamp (w\<lparr>sw_carpinchos := cs\<rparr>) = libres_swamp w"
  by (simp add: libres_swamp_def)

lemma asignacion_global:
  assumes ok: "swamp_ok C a w" and li: "0 < libres_swamp w" and pid: "\<exists>c\<in>set (sw_carpinchos w). cs_PID c = pid"
  shows "chequearAsignacion C pid w = Some (0, w)"
proof -
  obtain c where c: "list_find (\<lambda>c. cs_PID c = pid) (sw_carpinchos w) = Some c"
    using pid list_find_None_iff [of "\<lambda>c. cs_PID c = pid" "sw_carpinchos w"] by fastforce
  then have "cs_archivo c = a" using ok list_find_SomeD [OF c] by (simp add: swamp_ok_def)
  moreover obtain i where "hayEspacioArchivo C w (Some a) = Some (int i)" using hayEspacioArchivo_ok [OF ok li] .
  ultimately show ?thesis using c ok by (simp add: chequearAsignacion_def recibirPagina_def swamp_ok_def)
qed

lemma actualizarCarpincho_simps [simp]:
  "sw_marcos (actualizarCarpincho op pid w) = sw_marcos w"
  "sw_archivos (actualizarCarpincho op pid w) = sw_archivos w"
  "sw_casoAsignacion (actualizarCarpincho op pid w) = sw_casoAsignacion w"
  "libres_swamp (actualizarCarpincho op pid w) = libres_swamp w"
  "guarda_swamp C a (actualizarCarpincho op pid w) = guarda_swamp C a w"
  by (simp_all add: actualizarCarpincho_def libres_swamp_def guarda_swamp_def conseguirMarco_def
    cong: if_cong)

lemma actualizarMarcos_simps [simp]:
  "sw_archivos (actualizarMarcos a i pagina pid w) = sw_archivos w"
  "sw_carpinchos (actualizarMarcos a i pagina pid w) = sw_carpinchos w"
  "sw_casoAsignacion (actualizarMarcos a i pagina pid w) = sw_casoAsignacion w"
  by (simp_all add: actualizarMarcos_def)

lemma swamp_ok_carpincho:
  "swamp_ok C a w \<Longrightarrow> swamp_ok C a (actualizarCarpincho op pid w)"
proof -
  assume ok: "swamp_ok C a w"
  have "map cs_PID (sw_carpinchos (actualizarCarpincho op pid w)) = map cs_PID (sw_carpinchos w)"
    by (simp add: actualizarCarpincho_def)
  then have "cs_PID ` set (sw_carpinchos (actualizarCarpincho op pid w)) = cs_PID ` set (sw_carpinchos w)"
    by (metis list.set_map)
  moreover have "\<forall>c\<in>set (sw_carpinchos (actualizarCarpincho op pid w)). cs_archivo c = a"
    using ok by (auto simp: actualizarCarpincho_def swamp_ok_def)
  ultimately show ?thesis using ok by (simp add: swamp_ok_def)
qed

text \<open>Frame \<open>i\<close> of the only file takes the key \<open>(pid, pagina)\<close>; the bytes of the others are as before.\<close>

lemma guarda_update:
  assumes ok: "marcos_swamp_ok a (sw_marcos w)" and i: "i < length (sw_marcos w)"
    and ms: "sw_marcos w' = (sw_marcos w)[i := (sw_marcos w ! i)\<lparr>ms_indice := pagina, ms_PID := pid\<rparr>]"
    and nuevo: "pagina = - 1 \<or> guarda_swamp C a w (pid, pagina) = None"
    and otros: "\<And>k. k < length (sw_marcos w) \<Longrightarrow> k \<noteq> i \<Longrightarrow>
      leida C (sw_archivos w' a) k = leida C (sw_archivos w a) k"
  shows "marcos_swamp_ok a (sw_marcos w')"
    "ms_indice (sw_marcos w ! i) = - 1 \<Longrightarrow> pagina \<noteq> - 1 \<Longrightarrow>
       guarda_swamp C a w' = (guarda_swamp C a w)((pid, pagina) \<mapsto> leida C (sw_archivos w' a) i)"
    "pagina = - 1 \<Longrightarrow> guarda_swamp C a w' =
       (guarda_swamp C a w)((ms_PID (sw_marcos w ! i), ms_indice (sw_marcos w ! i)) := None)"
proof -
  let ?ms = "sw_marcos w"
  have un: "claves_unicas ?ms" using ok by (simp add: marcos_swamp_ok_def)
  have no: "\<not> (ms_PID (?ms ! j) = pid \<and> ms_indice (?ms ! j) = pagina)" if "j < length ?ms" "pagina \<noteq> - 1" for j
    using nuevo that guarda_Some [OF un, of C a pid pagina] by auto
  show ok': "marcos_swamp_ok a (sw_marcos w')"
    unfolding ms by (rule marcos_swamp_ok_update [OF ok i]) (use no in blast)
  then have un': "claves_unicas (sw_marcos w')" by (simp add: marcos_swamp_ok_def)
  note gs = guarda_Some [OF un] guarda_Some [OF un']
  show "guarda_swamp C a w' = (guarda_swamp C a w)((pid, pagina) \<mapsto> leida C (sw_archivos w' a) i)"
    if libre: "ms_indice (?ms ! i) = - 1" and p: "pagina \<noteq> - 1"
  proof (rule ext, clarify)
    fix q r
    have "guarda_swamp C a w' (q, r) = Some c \<longleftrightarrow>
        ((guarda_swamp C a w)((pid, pagina) \<mapsto> leida C (sw_archivos w' a) i)) (q, r) = Some c" for c
    proof (cases "(q, r) = (pid, pagina)")
      case True
      have "(\<exists>k<length ?ms. ms_PID (sw_marcos w' ! k) = pid \<and> ms_indice (sw_marcos w' ! k) = pagina \<and>
          c = leida C (sw_archivos w' a) k) \<longleftrightarrow> c = leida C (sw_archivos w' a) i"
        using no p i by (auto simp: ms nth_list_update)
      then show ?thesis using True p by (auto simp: gs ms)
    next
      case False
      have "(ms_PID (sw_marcos w' ! k) = q \<and> ms_indice (sw_marcos w' ! k) = r \<and>
          c = leida C (sw_archivos w' a) k) \<longleftrightarrow>
        (ms_PID (?ms ! k) = q \<and> ms_indice (?ms ! k) = r \<and> c = leida C (sw_archivos w a) k)"
        if "k < length ?ms" "r \<noteq> - 1" for k
        using False that i otros [of k] libre by (cases "k = i") (auto simp: ms)
      then show ?thesis using False by (auto simp: gs ms)
    qed
    then show "guarda_swamp C a w' (q, r) =
        ((guarda_swamp C a w)((pid, pagina) \<mapsto> leida C (sw_archivos w' a) i)) (q, r)"
      by (metis not_None_eq)
  qed
  show "guarda_swamp C a w' = (guarda_swamp C a w)((ms_PID (?ms ! i), ms_indice (?ms ! i)) := None)"
    if p: "pagina = - 1"
  proof (rule ext, clarify)
    fix q r
    have "guarda_swamp C a w' (q, r) = Some c \<longleftrightarrow>
        ((guarda_swamp C a w)((ms_PID (?ms ! i), ms_indice (?ms ! i)) := None)) (q, r) = Some c" for c
    proof (cases "(q, r) = (ms_PID (?ms ! i), ms_indice (?ms ! i))")
      case True
      have "\<not> (ms_PID (sw_marcos w' ! k) = q \<and> ms_indice (sw_marcos w' ! k) = r)"
        if "k < length ?ms" "r \<noteq> - 1" for k
        using True that i p un by (cases "k = i") (auto simp: ms claves_unicas_def)
      then show ?thesis using True by (auto simp: gs ms)
    next
      case False
      have "(ms_PID (sw_marcos w' ! k) = q \<and> ms_indice (sw_marcos w' ! k) = r \<and>
          c = leida C (sw_archivos w' a) k) \<longleftrightarrow>
        (ms_PID (?ms ! k) = q \<and> ms_indice (?ms ! k) = r \<and> c = leida C (sw_archivos w a) k)"
        if "k < length ?ms" "r \<noteq> - 1" for k
        using False that i otros [of k] p by (cases "k = i") (auto simp: ms)
      then show ?thesis using False by (auto simp: gs ms)
    qed
    then show "guarda_swamp C a w' (q, r) =
        ((guarda_swamp C a w)((ms_PID (?ms ! i), ms_indice (?ms ! i)) := None)) (q, r)"
      by (metis not_None_eq)
  qed
qed

text \<open>Writing the bytes of one frame.\<close>

lemma escribir_mapa_ok:
  assumes "64 * list_size ms \<le> list_size f" "i < length ms" "length bs = 64"
  obtains f' where "escribir_mapa (64 * int i) bs f = Some f'" "length f' = length f"
    "take 64 (drop (64 * i) f') = bs"
    "\<forall>k. k \<noteq> i \<longrightarrow> take 64 (drop (64 * k) f') = take 64 (drop (64 * k) f)"
proof -
  let ?f = "take (64 * i + 0) f @ bs @ drop (64 * i + 0 + length bs) f"
  have len: "64 * i + 64 \<le> length f" using assms(1,2) by (simp add: list_size_def)
  have "64 * int i + list_size bs \<le> (list_size f + 4095) div 4096 * 4096"
    using len assms(3) by (simp add: list_size_def)
  moreover have "nat (64 * int i) = 64 * i" by simp
  ultimately have e: "escribir_mapa (64 * int i) bs f = Some ?f"
    using len assms(3) by (simp add: escribir_mapa_def list_size_def)
  have "take 64 (drop (64 * i) ?f) = bs"
    using bloque_copia [of "64 * i" 64 f 0 bs] len assms(3) by simp
  moreover have "take 64 (drop (64 * k) ?f) = take 64 (drop (64 * k) f)" if "k \<noteq> i" for k
    by (rule bloque_otro) (use len assms(3) that in auto)
  ultimately show ?thesis using that [OF e] len assms(3) by simp
qed

subsection \<open>The effect of the two requests on the map\<close>

text \<open>The state after \<open>f\<close> has been written to the file, and its frame \<open>i\<close> given to the page.\<close>

abbreviation tras_guardar ::
  "estado \<Rightarrow> int \<Rightarrow> string \<Rightarrow> nat \<Rightarrow> int \<Rightarrow> char list \<Rightarrow> swamp_estado \<Rightarrow> swamp_estado" where
  "tras_guardar op pid a i pagina f w \<equiv>
     actualizarCarpincho op pid (actualizarMarcos a (int i) pagina pid
       (w\<lparr>sw_archivos := (sw_archivos w)(a := f)\<rparr>))"

lemma pagina_guardada:
  assumes ok: "swamp_ok C a w" and i: "i < length (sw_marcos w)" "ms_indice (sw_marcos w ! i) = - 1"
    and key: "pagina \<noteq> - 1" "guarda_swamp C a w (pid, pagina) = None" and M: "mensaje_ok C msg"
    and reg: "\<exists>c\<in>set (sw_carpinchos w). cs_PID c = pid"
  obtains bs f where "lee_bytes (msg @ sigue_buffer C msg) 0 64 = Some bs"
    "escribir_mapa (64 * int i) bs (sw_archivos w a) = Some f"
    "swamp_ok C a (tras_guardar op pid a i pagina f w)"
    "guarda_swamp C a (tras_guardar op pid a i pagina f w) = (guarda_swamp C a w)((pid, pagina) \<mapsto> recupera C msg)"
    "Suc (libres_swamp (tras_guardar op pid a i pagina f w)) = libres_swamp w"
proof -
  have o: "marcos_swamp_ok a (sw_marcos w)" "64 * list_size (sw_marcos w) \<le> list_size (sw_archivos w a)"
    using ok by (auto simp: swamp_ok_def)
  let ?bs = "take 64 (msg @ sigue_buffer C msg)"
  have lb: "lee_bytes (msg @ sigue_buffer C msg) 0 64 = Some ?bs"
    using M unfolding mensaje_ok_def lee_bytes_def list_size_def by simp
  have len: "length ?bs = 64" using M by (auto simp: mensaje_ok_def)
  from escribir_mapa_ok [OF o(2) i(1) len] obtain f where f:
    "escribir_mapa (64 * int i) ?bs (sw_archivos w a) = Some f" "length f = length (sw_archivos w a)"
    "take 64 (drop (64 * i) f) = ?bs"
    "\<forall>k. k \<noteq> i \<longrightarrow> take 64 (drop (64 * k) f) = take 64 (drop (64 * k) (sw_archivos w a))" .
  let ?w1 = "w\<lparr>sw_archivos := (sw_archivos w)(a := f)\<rparr>"
  let ?w = "actualizarMarcos a (int i) pagina pid ?w1"
  have ms: "sw_marcos ?w = (sw_marcos w)[i := (sw_marcos w ! i)\<lparr>ms_indice := pagina, ms_PID := pid\<rparr>]"
    using actualizarMarcos_lista [of a ?w1 i] o(1) i(1) by simp
  have otros: "leida C (sw_archivos ?w a) k = leida C (sw_archivos w a) k"
    if "k < length (sw_marcos w)" "k \<noteq> i" for k
    by (rule leida_bloque) (use f(4) that in simp)
  have gu: "marcos_swamp_ok a (sw_marcos ?w)"
    "guarda_swamp C a ?w = (guarda_swamp C a w)((pid, pagina) \<mapsto> leida C (sw_archivos ?w a) i)"
    using guarda_update(1,2) [OF o(1) i(1) ms disjI2 [OF key(2)] otros] i(2) key(1) by blast+
  have "leida C f i = recupera C msg"
    unfolding leida_def recupera_def fgets_take [of "drop (64 * i) f", symmetric] f(3) ..
  then have g: "guarda_swamp C a ?w = (guarda_swamp C a w)((pid, pagina) \<mapsto> recupera C msg)" using gu(2) by simp
  have "list_size f = list_size (sw_archivos w a)" using f(2) by (simp add: list_size_def)
  then have k: "swamp_ok C a ?w"
    using ok gu(1) ms reg registrados_update [of "sw_marcos w" "cs_PID ` set (sw_carpinchos w)" pagina pid]
    by (auto simp: swamp_ok_def list_size_def)
  have "Suc (libres_swamp ?w) = libres_swamp w"
    using length_filter_update [OF i(1), of "\<lambda>m. ms_indice m = - 1"
        "(sw_marcos w ! i)\<lparr>ms_indice := pagina, ms_PID := pid\<rparr>"] i(2) key(1)
    by (simp add: libres_swamp_def ms)
  with that [OF lb f(1)] k g swamp_ok_carpincho [OF k] show ?thesis by simp
qed

lemma escribir_swap_ok:
  assumes ok: "swamp_ok C a w" and li: "0 < libres_swamp w"
    and key: "i32 pid = pid" "i32 pagina = pagina" "pagina \<noteq> - 1"
      "guarda_swamp C a w (pid, pagina) = None"
    and M: "mensaje_ok C msg"
  obtains w' where
    "escribir_swap C (le32 n @ le32 pid @ le32 pagina @ le32 (list_size msg) @ msg @ resto) w =
       Some (w', le32 0, resto)"
    "swamp_ok C a w'" "guarda_swamp C a w' = (guarda_swamp C a w)((pid, pagina) \<mapsto> recupera C msg)"
    "Suc (libres_swamp w') = libres_swamp w"
proof -
  obtain cs where cs: "recibirPagina C pid ESCRIBIR w = Some (Some a, w\<lparr>sw_carpinchos := cs\<rparr>)"
    "\<forall>c\<in>set cs. cs_archivo c = a" "\<exists>c\<in>set cs. cs_PID c = pid"
    "cs_PID ` set (sw_carpinchos w) \<subseteq> cs_PID ` set cs"
    using recibirPagina_ok [OF ok li] .
  let ?w = "w\<lparr>sw_carpinchos := cs\<rparr>"
  have ok1: "swamp_ok C a ?w" and li1: "0 < libres_swamp ?w"
    using swamp_ok_carpinchos [OF ok cs(2,4)] li by simp_all
  have g1: "guarda_swamp C a ?w = guarda_swamp C a w"
    by (simp add: guarda_swamp_def conseguirMarco_def cong: if_cong)
  obtain i where i: "hayEspacioArchivo C ?w (Some a) = Some (int i)" "i < length (sw_marcos ?w)"
    "ms_indice (sw_marcos ?w ! i) = - 1" using hayEspacioArchivo_ok [OF ok1 li1] .
  have as: "chequearAsignacion C pid ?w = Some (0, ?w)"
    by (rule asignacion_global [OF ok1 li1]) (use cs(3) in simp)
  have reg1: "\<exists>c\<in>set (sw_carpinchos ?w). cs_PID c = pid" using cs(3) by simp
  have key1: "guarda_swamp C a ?w (pid, pagina) = None" using key(4) g1 by simp
  obtain bs f where bf: "lee_bytes (msg @ sigue_buffer C msg) 0 64 = Some bs"
    "escribir_mapa (64 * int i) bs (sw_archivos ?w a) = Some f"
    "swamp_ok C a (tras_guardar ESCRIBIR pid a i pagina f ?w)"
    "guarda_swamp C a (tras_guardar ESCRIBIR pid a i pagina f ?w) =
       (guarda_swamp C a ?w)((pid, pagina) \<mapsto> recupera C msg)"
    "Suc (libres_swamp (tras_guardar ESCRIBIR pid a i pagina f ?w)) = libres_swamp ?w"
    using pagina_guardada [OF ok1 i(2,3) key(3) key1 M reg1, of ESCRIBIR] .
  let ?w' = "tras_guardar ESCRIBIR pid a i pagina f ?w"
  have r: "recibir_bytes (list_size msg) (msg @ resto) = Some (msg, resto)"
    by (rule recibir_bytes_append) (rule refl)
  have "i32 (list_size msg) = list_size msg"
    using M list_size_nonneg [of msg] unfolding mensaje_ok_def by (intro i32_id) linarith+
  moreover have "pag_sw C = 64" using ok by (simp add: swamp_ok_def)
  ultimately have "escribir_swap C (le32 n @ le32 pid @ le32 pagina @ le32 (list_size msg) @ msg @ resto) w =
      Some (?w', le32 0, resto)"
    using cs(1) i(1) as bf(1,2) key(1,2) r by (simp add: escribir_swap_def)
  then show ?thesis using that bf(3-5) g1 by simp
qed

lemma leer_swap_ok:
  assumes ok: "swamp_ok C a w"
    and key: "i32 pid = pid" "i32 pagina = pagina" "guarda_swamp C a w (pid, pagina) = Some cont"
  obtains w' where
    "leer_swap C (le32 n @ le32 pid @ le32 pagina @ resto) w =
       Some (w', le32 pid @ le32 pagina @ le32 64 @ cont, resto)"
    "swamp_ok C a w'" "guarda_swamp C a w' = (guarda_swamp C a w)((pid, pagina) := None)"
    "libres_swamp w' = Suc (libres_swamp w)"
proof -
  have o: "marcos_swamp_ok a (sw_marcos w)" "pag_sw C = 64" using ok by (auto simp: swamp_ok_def)
  then have un: "claves_unicas (sw_marcos w)" by (simp add: marcos_swamp_ok_def)
  obtain k where k: "pagina \<noteq> - 1" "k < length (sw_marcos w)" "ms_PID (sw_marcos w ! k) = pid"
    "ms_indice (sw_marcos w ! k) = pagina" "cont = leida C (sw_archivos w a) k"
    using key(3) guarda_Some [OF un] by blast
  have cm: "conseguirMarco w pid pagina = int k" using conseguirMarco_unica [OF un k(2-4,1)] .
  have "ms_PID (sw_marcos w ! k) \<in> cs_PID ` set (sw_carpinchos w)"
    using ok k(1,2,4) unfolding swamp_ok_def by (metis nth_mem)
  then obtain c where reg: "list_find (\<lambda>c. cs_PID c = pid) (sw_carpinchos w) = Some c"
    using k(3) list_find_None_iff [of "\<lambda>c. cs_PID c = pid" "sw_carpinchos w"] by fastforce
  have ca: "cs_archivo c = a" using ok list_find_SomeD [OF reg] by (simp add: swamp_ok_def)
  let ?w = "actualizarMarcos a (int k) (- 1) pid w"
  let ?w' = "actualizarCarpincho LEER pid ?w"
  have ms: "sw_marcos ?w = (sw_marcos w)[k := (sw_marcos w ! k)\<lparr>ms_indice := - 1, ms_PID := pid\<rparr>]"
    using actualizarMarcos_lista [OF o(1) k(2)] .
  have gu: "marcos_swamp_ok a (sw_marcos ?w)"
    "guarda_swamp C a ?w = (guarda_swamp C a w)((pid, pagina) := None)"
    using guarda_update(1,3) [OF o(1) k(2) ms] k(3,4) by simp_all
  have "nat (int k * 64) = 64 * k" by simp
  then have l: "leer_swap C (le32 n @ le32 pid @ le32 pagina @ resto) w =
      Some (?w', le32 pid @ le32 pagina @ le32 64 @ cont, resto)"
    using reg ca cm o(2) k(5) key(1,2)
    by (simp add: leer_swap_def recibirPagina_def leida_def)
  have kk: "swamp_ok C a ?w" using ok gu(1) ms registrados_update [of "sw_marcos w" "cs_PID ` set (sw_carpinchos w)" "- 1" pid]
    by (simp add: swamp_ok_def list_size_def)
  have "libres_swamp ?w = Suc (libres_swamp w)"
    using length_filter_update [OF k(2), of "\<lambda>m. ms_indice m = - 1"
        "(sw_marcos w ! k)\<lparr>ms_indice := - 1, ms_PID := pid\<rparr>"] k(1,4)
    by (simp add: libres_swamp_def ms)
  then show ?thesis using that [OF l] swamp_ok_carpincho [OF kk] gu(2) by simp
qed

subsection \<open>A full file, a missing page\<close>

lemma buscar_espacio_lleno:
  assumes "\<forall>m\<in>set ms. \<not> (ms_archivo m = a \<and> ms_indice m = - 1)" "j \<le> length ms" "length ms < n"
  shows "buscar_espacio ms a [j..<n] = None"
  using assms(2)
proof (induction "length ms - j" arbitrary: j)
  case 0
  then have "j = length ms" by simp
  then have "list_get ms (int j) = None" by (simp add: list_get_def list_size_def)
  then show ?case using 0 assms(3) by (simp add: upt_conv_Cons)
next
  case (Suc d)
  then have j: "j < length ms" by simp
  then have g: "list_get ms (int j) = Some (ms ! j)" using list_get_nat by blast
  have n: "\<not> (ms_archivo (ms ! j) = a \<and> ms_indice (ms ! j) = - 1)" using assms(1) j by simp
  have "buscar_espacio ms a [Suc j..<n] = None" by (rule Suc(1)) (use Suc(2) j in auto)
  moreover have "[j..<n] = j # [Suc j..<n]" using j assms(3) by (simp add: upt_conv_Cons)
  ultimately show ?case using g n by simp
qed

lemma buscar_espacio_Some:
  "buscar_espacio ms a is = Some i \<Longrightarrow> \<forall>m\<in>set ms. 0 \<le> ms_marco m \<Longrightarrow> \<exists>k\<in>set is. length ms \<le> k \<Longrightarrow> 0 \<le> i"
proof (induction "is")
  case (Cons k ks)
  then obtain m where m: "list_get ms (int k) = Some m" by (auto simp: bind_eq_Some_conv)
  then have "m \<in> set ms" "k < length ms" using list_get_mem by (auto simp: listas list_size_def)
  then show ?case using Cons m by (auto split: if_splits)
qed simp

definition numerados :: "entorno_swamp \<Rightarrow> swamp_estado \<Rightarrow> bool" where
  "numerados C w \<longleftrightarrow> list_size (sw_marcos w) = cantMarcos C * obtenerCantArchivos C \<and>
     (\<forall>m\<in>set (sw_marcos w). 0 \<le> ms_marco m)"

lemma escribir_swap_sin_lugar:
  assumes "recibirPagina C (i32 pid) ESCRIBIR w = Some (Some a, w')"
    and "hayEspacioArchivo C w' (Some a) = None"
  shows "escribir_swap C (le32 n @ le32 pid @ le32 pagina @ resto) w = None"
  using assms by (simp add: escribir_swap_def)
    (auto simp: bind_eq_None_conv split: prod.splits)

subsection \<open>Properties\<close>


text \<open>What survives of a page. A page of 64 bytes without a newline comes back with its last byte
  replaced by a NUL, whatever follows it in the message; with a newline before its last byte, every byte
  behind the newline is lost.\<close>

lemma pagina_recuperada:
  assumes "length pag = 64" "pag_sw C = 64"
  shows "(CHR 0x0A \<notin> set (take 63 pag) \<longrightarrow> recupera C (pag @ resto) = take 63 pag @ [CHR 0x00]) \<and>
    (\<forall>k<63. pag ! k = CHR 0x0A \<longrightarrow> CHR 0x0A \<notin> set (take k pag) \<longrightarrow>
       recupera C (pag @ resto) =
         take (k + 1) pag @ [CHR 0x00] @ drop (k + 2) (contenido_nuevo C))"
proof (intro conjI allI impI)
  have b: "take 64 ((pag @ resto) @ x) = pag" "pag \<noteq> []" for x using assms(1) by auto
  have n: "length (contenido_nuevo C) = 64" using length_contenido_nuevo [OF assms(2)] .
  show "recupera C (pag @ resto) = take 63 pag @ [CHR 0x00]" if "CHR 0x0A \<notin> set (take 63 pag)"
  proof -
    have tw: "takeWhile (\<lambda>c. c \<noteq> CHR 0x0A) (take 63 pag) = take 63 pag" using that by (intro takeWhile_eq_all_conv [THEN iffD2]) blast
    show ?thesis unfolding recupera_def b(1) using b(2) assms(1) n by (simp add: fgets_def tw)
  qed
  fix k assume k: "k < (63::nat)" "pag ! k = CHR 0x0A" "CHR 0x0A \<notin> set (take k pag)"
  obtain r where eq: "take 63 pag = take k pag @ CHR 0x0A # r"
    using id_take_nth_drop [of k "take 63 pag"] k assms(1) by simp
  have tw: "takeWhile (\<lambda>c. c \<noteq> CHR 0x0A) (take 63 pag) = take k pag"
    unfolding eq by (subst takeWhile_append2) (use k(3) in auto)
  have "take k pag @ [CHR 0x0A] = take (k + 1) pag"
    using k(1,2) assms(1) by (simp add: take_Suc_conv_app_nth)
  then show "recupera C (pag @ resto) = take (k + 1) pag @ [CHR 0x00] @ drop (k + 2) (contenido_nuevo C)"
    unfolding recupera_def b(1) using b(2) assms(1) k(1) by (simp add: fgets_def tw min_def)
qed

text \<open>A full swap file stops the server. \<open>hayEspacioArchivo\<close> never answers that there is no space:
  with every frame of the file taken its search leaves the list and dereferences NULL, and the write
  request that caused the search is not answered.\<close>

lemma sin_espacio_no_responde:
  assumes "numerados C w'"
  shows "hayEspacioArchivo C w' (Some a) \<noteq> Some (- 1) \<and>
    ((\<forall>m\<in>set (sw_marcos w'). ms_archivo m = a \<longrightarrow> ms_indice m \<noteq> - 1) \<longrightarrow>
       hayEspacioArchivo C w' (Some a) = None \<and>
       (recibirPagina C (i32 pid) ESCRIBIR w = Some (Some a, w') \<longrightarrow>
        escribir_swap C (le32 n @ le32 pid @ le32 pagina @ resto) w = None))"
proof (intro conjI impI)
  have n: "nat (cantMarcos C * obtenerCantArchivos C) = length (sw_marcos w')"
    using assms by (simp add: numerados_def list_size_def) (metis nat_int)
  show "hayEspacioArchivo C w' (Some a) \<noteq> Some (- 1)"
    using buscar_espacio_Some [of "sw_marcos w'" a "[0..<Suc (length (sw_marcos w'))]" "- 1"] assms
    by (auto simp: hayEspacioArchivo_def n numerados_def)
  assume "\<forall>m\<in>set (sw_marcos w'). ms_archivo m = a \<longrightarrow> ms_indice m \<noteq> - 1"
  then show l: "hayEspacioArchivo C w' (Some a) = None"
    using buscar_espacio_lleno [of "sw_marcos w'" a 0 "Suc (length (sw_marcos w'))"]
    by (simp add: hayEspacioArchivo_def n)
  assume "recibirPagina C (i32 pid) ESCRIBIR w = Some (Some a, w')"
  then show "escribir_swap C (le32 n @ le32 pid @ le32 pagina @ resto) w = None"
    using escribir_swap_sin_lugar l by blast
qed

definition swamp_de_prueba :: entorno_swamp where
  "swamp_de_prueba =
     \<lparr>datosConfigSwamp = \<lparr>tamanio_swamp = 64, tamanio_pagina_swamp = 64, archivos_swamp = [''a''],
        cant_archivos_swamp = ''a'', marcos_maximos = 2\<rparr>,
      basura_config = [], basura_PID = (\<lambda>_. 0), basura_bytes = (\<lambda>_. CHR 0x00),
      sigue_buffer = (\<lambda>_. replicate 64 CHR 0x00)\<rparr>"

definition estado_de_prueba :: "int \<Rightarrow> swamp_estado" where
  "estado_de_prueba indice =
     \<lparr>sw_archivos = (\<lambda>_. replicate 64 CHR 0x00),
      sw_marcos = [\<lparr>ms_archivo = ''a'', ms_marco = 0, ms_indice = indice, ms_PID = 1\<rparr>],
      sw_carpinchos = [\<lparr>cs_PID = 1, cs_archivo = ''a'', cs_cantMarcos = 0\<rparr>],
      sw_casoAsignacion = 1\<rparr>"

lemma configuracion_de_prueba:
  "pag_sw swamp_de_prueba = 64" "obtenerCantArchivos swamp_de_prueba = 1" "cantMarcos swamp_de_prueba = 1"
  "tam_sw swamp_de_prueba = 64" "nombre_archivo swamp_de_prueba 0 = Some ''a''"
  by (simp_all add: swamp_de_prueba_def obtenerCantArchivos_def cantMarcos_def nombre_archivo_def)

lemma swamp_ok_de_prueba: "swamp_ok swamp_de_prueba ''a'' (estado_de_prueba indice)"
  by (simp add: swamp_ok_def configuracion_de_prueba marcos_swamp_ok_def claves_unicas_def estado_de_prueba_def
      list_size_def)


lemma servidor_iniciado:
  assumes "pag_sw C = 64" "obtenerCantArchivos C = 1" "nombre_archivo C 0 = Some a" "0 \<le> tam_sw C"
  shows "\<exists>w w'. iniciar_servidor C = Some w \<and>
    atender_swamp C (le32 14 @ le32 4 @ le32 1) w = Some (w', le32 0, []) \<and>
    swamp_ok C a w' \<and> guarda_swamp C a w' = Map.empty \<and> int (libres_swamp w') = cantMarcos C"
proof -
  let ?n = "nat (cantMarcos C)"
  let ?ms = "map (\<lambda>i. \<lparr>ms_archivo = a, ms_marco = int i, ms_indice = - 1,
      ms_PID = basura_PID C (int i)\<rparr>) [0..<?n]"
  let ?w = "\<lparr>sw_archivos = (\<lambda>_. [])(a := replicate (nat (tam_sw C)) CHR 0x00), sw_marcos = ?ms,
      sw_carpinchos = [], sw_casoAsignacion = 0\<rparr>"
  have n: "0 \<le> cantMarcos C" "64 * cantMarcos C \<le> tam_sw C" using assms(1,4) by (auto simp: cantMarcos_def)
  have i: "iniciar_servidor C = Some ?w"
    using assms(2,3)
    by (simp add: iniciar_servidor_def crear_archivos_def iniciar_marcos_def iniciar_carpinchos_def)
  have f: "atender_swamp C (le32 14 @ le32 4 @ le32 1) ?w = Some (?w\<lparr>sw_casoAsignacion := 1\<rparr>, le32 0, [])"
    by (simp add: atender_swamp_def fijar_asignacion_def)
  have "list_size ?ms = cantMarcos C" using n(1) by (simp add: list_size_def)
  moreover have "marcos_swamp_ok a ?ms" by (simp add: marcos_swamp_ok_def claves_unicas_def)
  ultimately have ok: "swamp_ok C a (?w\<lparr>sw_casoAsignacion := 1\<rparr>)"
    using assms n by (simp add: swamp_ok_def list_size_def)
  have "guarda_swamp C a (?w\<lparr>sw_casoAsignacion := 1\<rparr>) x = None" for x
    using posicion_marco_ninguna [of ?ms "\<lambda>m. ms_PID m = fst x \<and> ms_indice m = snd x" 0]
    by (cases x) (auto simp: guarda_swamp_def conseguirMarco_def Let_def)
  moreover have "int (libres_swamp (?w\<lparr>sw_casoAsignacion := 1\<rparr>)) = cantMarcos C"
    using n(1) by (simp add: libres_swamp_def comp_def)
  ultimately show ?thesis using i f ok by (intro exI [of _ ?w] exI [of _ "?w\<lparr>sw_casoAsignacion := 1\<rparr>"]) auto
qed

text \<open>The start. With one file that holds all its frames, \<open>iniciar_servidor\<close> followed by the
  request for the global scheme gives a well-formed server that keeps no page and has every frame
  free.\<close>

lemma inicio_correcto:
  assumes "pag_sw C = 64" "obtenerCantArchivos C = 1" "nombre_archivo C 0 = Some a" "0 \<le> tam_sw C"
  shows "\<exists>w w'. iniciar_servidor C = Some w \<and>
    atender_swamp C (le32 14 @ le32 4 @ le32 1) w = Some (w', le32 0, []) \<and>
    swamp_ok C a w' \<and> guarda_swamp C a w' = Map.empty \<and> int (libres_swamp w') = cantMarcos C"
  using servidor_iniciado [OF assms] .

end
