(* ===== verification/Memoria_Virtual_Swamp.thy ===== *)
theory Memoria_Virtual_Swamp
  imports Memoria_Virtual Memoria_Swamp Swamp_Guarda
begin

section \<open>Virtual memory over the swap server of the program\<close>

text \<open>
  The swap server meets the interface of \<open>Memoria_Virtual\<close>: the packets of the memory process are
  answered as the locale asks, so the accesses of the memory process have their abstract meaning
  with the two programs connected. The properties of the connected system stand at the end.
\<close>

subsection \<open>The packets\<close>

text \<open>The four bytes that \<open>lectura_swamp\<close> sends without having written them are no operation.\<close>

definition swamp_conectado :: "entorno_swamp \<Rightarrow> string \<Rightarrow> int \<Rightarrow> swamp_estado \<Rightarrow> bool" where
  "swamp_conectado C a b w \<longleftrightarrow> swamp_ok C a w \<and> i32 b \<notin> {11, 12, 13, 14}"

lemma atender_pendientes_Nil [simp]: "atender_pendientes C [] enviado w = Some (enviado, w)"
  by (subst atender_pendientes.simps) simp

lemma atender_pendientes_uno:
  assumes "atender_swamp C entrada w = Some (w', r, resto)" "length resto < length entrada"
  shows "atender_pendientes C entrada enviado w = atender_pendientes C resto (enviado @ r) w'"
  using assms by (subst atender_pendientes.simps) auto


lemma escribir_en_swamp_ok:
  assumes "swamp_conectado C a b w" "0 < libres_swamp w" "clave_ok pid pagina" "mensaje_ok C msg"
    "guarda_swamp C a w (pid, pagina) = None"
  shows "\<exists>w'. escribir_en_swamp C pid pagina msg w = Some (0, w') \<and> swamp_conectado C a b w' \<and>
    guarda_swamp C a w' = (guarda_swamp C a w)((pid, pagina) \<mapsto> recupera C msg) \<and>
    Suc (libres_swamp w') = libres_swamp w"
proof -
  have ok: "swamp_ok C a w" and b: "i32 b \<notin> {11, 12, 13, 14}" using assms(1) by (auto simp: swamp_conectado_def)
  have key: "i32 pid = pid" "i32 pagina = pagina" "pagina \<noteq> - 1" using assms(3) by (auto simp: clave_ok_def)
  let ?n = "list_size (le32 pid @ le32 pagina @ le32 (list_size msg) @ msg)"
  obtain w' where w': "escribir_swap C (le32 ?n @ le32 pid @ le32 pagina @ le32 (list_size msg) @ msg @ []) w =
       Some (w', le32 0, [])"
    "swamp_ok C a w'" "guarda_swamp C a w' = (guarda_swamp C a w)((pid, pagina) \<mapsto> recupera C msg)"
    "Suc (libres_swamp w') = libres_swamp w"
    using escribir_swap_ok [OF ok assms(2) key assms(5,4)] .
  have "atender_swamp C (mensaje_escritura pid pagina msg) w = Some (w', le32 0, [])"
    using w'(1) by (simp add: mensaje_escritura_def enviar_paquete_swamp_def atender_swamp_def)
  then have "escribir_en_swamp C pid pagina msg w = Some (0, w')"
    by (simp add: escribir_en_swamp_def pedir_entero_def atender_pendientes_uno
        mensaje_escritura_def enviar_paquete_swamp_def)
  then show ?thesis using w'(2-4) b by (auto simp: swamp_conectado_def)
qed

lemma leer_de_swamp_ok:
  assumes "swamp_conectado C a b w" "clave_ok pid pagina" "guarda_swamp C a w (pid, pagina) = Some c"
  shows "\<exists>w'. leer_de_swamp C b 64 pid pagina w = Some (Some c, w') \<and> swamp_conectado C a b w' \<and>
    guarda_swamp C a w' = (guarda_swamp C a w)((pid, pagina) := None) \<and>
    libres_swamp w' = Suc (libres_swamp w)"
proof -
  have ok: "swamp_ok C a w" and b: "i32 b \<notin> {11, 12, 13, 14}" using assms(1) by (auto simp: swamp_conectado_def)
  have key: "i32 pid = pid" "i32 pagina = pagina" "pid \<noteq> - 1" using assms(2) by (auto simp: clave_ok_def)
  have "length c = 64"
    using assms(3) ok length_fgets length_contenido_nuevo
    by (auto simp: guarda_swamp_def leida_def swamp_ok_def Let_def split: if_splits)
  then have lc: "recibir_bytes 64 c = Some (c, [])" by (simp add: recibir_bytes_def list_size_def)
  obtain w' where w': "leer_swap C (le32 12 @ le32 pid @ le32 pagina @ le32 b) w =
       Some (w', le32 pid @ le32 pagina @ le32 64 @ c, le32 b)"
    "swamp_ok C a w'" "guarda_swamp C a w' = (guarda_swamp C a w)((pid, pagina) := None)"
    "libres_swamp w' = Suc (libres_swamp w)"
    using leer_swap_ok [OF ok key(1,2) assms(3)] .
  have n: "list_size (le32 pid @ le32 pagina @ le32 b) = 12" by (simp add: list_size_def)
  have 1: "atender_swamp C (mensaje_lectura b pid pagina) w =
      Some (w', le32 pid @ le32 pagina @ le32 64 @ c, le32 b)"
    using w'(1) unfolding mensaje_lectura_def enviar_paquete_swamp_def n by (simp add: atender_swamp_def)
  have 2: "atender_swamp C (le32 b) w' = Some (w', [], [])"
    using b by (simp add: atender_swamp_def)
  have "length (le32 b) < length (mensaje_lectura b pid pagina)"
    by (simp add: mensaje_lectura_def enviar_paquete_swamp_def)
  then have "atender_pendientes C (mensaje_lectura b pid pagina) [] w =
      Some (le32 pid @ le32 pagina @ le32 64 @ c, w')"
    using atender_pendientes_uno [OF 1] atender_pendientes_uno [OF 2] by simp
  then have "leer_de_swamp C b 64 pid pagina w = Some (Some c, w')"
    using key lc by (simp add: leer_de_swamp_def)
  then show ?thesis using w'(2-4) b by (auto simp: swamp_conectado_def)
qed

interpretation swamp: servidor_swap "escribir_en_swamp C" "leer_de_swamp C b 64" "guarda_swamp C a"
  "swamp_conectado C a b" libres_swamp "mensaje_ok C" "recupera C" for C a b
  by unfold_locales (fact escribir_en_swamp_ok, fact leer_de_swamp_ok)

subsection \<open>Sequences of accesses\<close>

text \<open>Any sequence of reads and writes inside existing pages.\<close>

inductive accesos :: "'s entorno \<Rightarrow> 's memoria \<Rightarrow> 's memoria \<Rightarrow> bool" for E where
  nada: "accesos E s s"
| lee: "accesos E s t \<Longrightarrow> p \<in> paginas_de t \<Longrightarrow> 0 \<le> off \<Longrightarrow> 0 \<le> n \<Longrightarrow> off + n \<le> tam_pag E \<Longrightarrow>
    leer_en_pagina E p n off t = Some (r, u) \<Longrightarrow> accesos E s u"
| escribe: "accesos E s t \<Longrightarrow> p \<in> paginas_de t \<Longrightarrow> 0 \<le> off \<Longrightarrow> off + list_size bs \<le> tam_pag E \<Longrightarrow>
    escribir_en_pagina E p bs (list_size bs) off t = Some (r, u) \<Longrightarrow> accesos E s u"

inductive_cases accesosE: "accesos E s t"

abbreviation conexion_swamp :: "entorno_swamp \<Rightarrow> int \<Rightarrow> swamp_estado entorno \<Rightarrow> bool" where
  "conexion_swamp C b E \<equiv>
     conexion (escribir_en_swamp C) (leer_de_swamp C b 64) (mensaje_ok C) (recupera C) E"

abbreviation inv_sistema :: "entorno_swamp \<Rightarrow> string \<Rightarrow> int \<Rightarrow> swamp_estado entorno \<Rightarrow> swamp_estado memoria \<Rightarrow> bool" where
  "inv_sistema C a b E s \<equiv> inv_virtual (guarda_swamp C a) (swamp_conectado C a b) E s"

lemma accesos_ok:
  assumes "accesos E s t" and con: "conexion_swamp C b E"
    and "inv_sistema C a b E s" "hay_lugar libres_swamp E s"
  shows "inv_sistema C a b E t \<and> hay_lugar libres_swamp E t \<and> paginas_de t = paginas_de s"
  using assms(1,3,4)
proof (induction rule: accesos.induct)
  case (lee s t p off n r u)
  then have it: "inv_sistema C a b E t" "hay_lugar libres_swamp E t" "paginas_de t = paginas_de s" by auto
  obtain g where "heap t p = Some g" "servible libres_swamp E t p g"
    using swamp.servible_todas [OF it(2,1) lee(2)] .
  from swamp.leer_pagina [OF con it(1) this(2) lee(3-5)] lee(6)
  have "accedida (guarda_swamp C a) (swamp_conectado C a b) (recupera C) libres_swamp E p g
      (contenido (guarda_swamp C a) E t p) t u" by auto
  from swamp.accedida_lugar [OF it(2) lee(2) this] it(3) show ?case by simp
next
  case (escribe s t p off bs r u)
  then have it: "inv_sistema C a b E t" "hay_lugar libres_swamp E t" "paginas_de t = paginas_de s" by auto
  obtain g where "heap t p = Some g" "servible libres_swamp E t p g"
    using swamp.servible_todas [OF it(2,1) escribe(2)] .
  from swamp.escribir_pagina [OF con it(1) this(2) escribe(3,4) refl] escribe(5)
  obtain c where "accedida (guarda_swamp C a) (swamp_conectado C a b) (recupera C) libres_swamp E p g c t u"
    by auto
  from swamp.accedida_lugar [OF it(2) escribe(2) this] it(3) show ?case by simp
qed simp

lemma longitud_contenido:
  assumes "inv_sistema C a b E s" "p \<in> paginas_de s"
  shows "list_size (contenido (guarda_swamp C a) E s p) = tam_pag E"
proof -
  have "inv_mem E s" using assms(1) by (simp add: inv_virtual_def)
  then have ok: "marcos_ok E s" "procesos_ok s" "presencia_ok s" by (auto simp: inv_mem_def)
  obtain g where g: "heap s p = Some g" using pagina_viva [OF ok(2) assms(2)] by metis
  show ?thesis
  proof (cases "pag_presencia g = 0")
    case True
    then show ?thesis
      using inv_virtualD(3) [OF assms g] contenido_ausente [OF g True, of "guarda_swamp C a"] by auto
  next
    case False
    have "ocupa (marcos_list s) (pag_marco g) (pag_pid g) (pag_pagina g)"
      using presente_ocupa [OF ok(3) assms(2) g False] .
    then show ?thesis
      using length_bytes_marco [OF ok(1), of "pag_marco g"] contenido_presente [OF g False, of "guarda_swamp C a" E]
      by (simp add: ocupa_def)
  qed
qed

subsection \<open>A concrete system\<close>

text \<open>
  One frame of 64 bytes, two pages of process 1 (the first in the frame, the second in frame 0 of
  the swap file), a TLB with one item, a swap file of two frames.
\<close>

definition swamp_ej :: entorno_swamp where
  "swamp_ej =
     \<lparr>datosConfigSwamp = \<lparr>tamanio_swamp = 128, tamanio_pagina_swamp = 64, archivos_swamp = [''a''],
        cant_archivos_swamp = ''a'', marcos_maximos = 2\<rparr>,
      basura_config = [], basura_PID = (\<lambda>_. 0), basura_bytes = (\<lambda>_. CHR 0x00),
      sigue_buffer = (\<lambda>_. replicate 64 CHR 0x00)\<rparr>"

definition config_ej :: "string \<Rightarrow> t_config_memoria" where
  "config_ej mmu =
     \<lparr>tamanio = 64, tamanio_pagina = 64, tipo_asignacion = ''DINAMICA'',
      algoritmo_reemplazo_mmu = mmu, cantida_entradas_tlb = 1,
      algoritmo_reemplazo_tlb = ''FIFO'', debug = False, marcos_por_carpincho = 1\<rparr>"

definition pagina_ej :: "int \<Rightarrow> int \<Rightarrow> t_pagina" where
  "pagina_ej numero presencia =
     \<lparr>pag_marco = 0, pag_pid = 1, pag_pagina = numero, pag_presencia = presencia, pag_uso = 0,
      pag_modif = 0, pag_carp_num = 1, pag_timestamp = 0\<rparr>"

definition entorno_ej :: "string \<Rightarrow> swamp_estado entorno" where
  "entorno_ej mmu = conectar swamp_ej 0
     \<lparr>datosConfigMemoria = config_ej mmu, list_sort_pagina = orden_insercion,
      list_sort_marco = orden_insercion, list_sort_tlb = orden_insercion,
      basura_pagina = (\<lambda>_. pagina_ej 0 0), basura_tlb = (\<lambda>_. 0),
      resto_heap = (\<lambda>_. [CHR 0x00]), srv_escribir = (\<lambda>_ _ _ _. None),
      srv_leer = (\<lambda>_ _ _. None), srv_puede_escribir = (\<lambda>_ _ _. None)\<rparr>"

definition carpincho_ej :: t_carpincho where
  "carpincho_ej = \<lparr>crp_pid = 1, crp_tlb_hits = 0, crp_tlb_miss = 0, crp_stack_pointer = 0,
     crp_paginas = [0, 1], crp_allocs = [], crp_numero = 1\<rparr>"

definition servidor_ej :: swamp_estado where
  "servidor_ej =
     \<lparr>sw_archivos = (\<lambda>_. replicate 128 CHR 0x00),
      sw_marcos = [\<lparr>ms_archivo = ''a'', ms_marco = 0, ms_indice = 2, ms_PID = 1\<rparr>,
                   \<lparr>ms_archivo = ''a'', ms_marco = 1, ms_indice = - 1, ms_PID = 0\<rparr>],
      sw_carpinchos = [\<lparr>cs_PID = 1, cs_archivo = ''a'', cs_cantMarcos = 1\<rparr>],
      sw_casoAsignacion = 1\<rparr>"

definition memoria_ej :: "swamp_estado memoria" where
  "memoria_ej =
     \<lparr>CACHE = replicate 64 CHR ''x'', cantidad_maxima_marcos = 1,
      marcos_list = [\<lparr>mrc_marco = 0, mrc_isFree = False, mrc_pagina = 1, mrc_pid = 1\<rparr>],
      carpinchos_list = [carpincho_ej], contador_carpinchos = 1, contador_timestamp = 1,
      contador_timestamp_tlb = 1, algoritm_stack_pointer = 0, tlb_fifo_pointer = 0,
      tlb_list = [\<lparr>tlb_entrada = 0, tlb_pid = 0, tlb_pagina = 0, tlb_marco = - 1, tlb_timestamp = 0\<rparr>],
      mensajes_dump_list = [], tlb_hits_totales = 0, tlb_miss_totales = 0,
      heap = [0 \<mapsto> pagina_ej 1 1, 1 \<mapsto> pagina_ej 2 0], prox_ptr = 2, swamp = servidor_ej\<rparr>"

lemmas ejemplo_defs = swamp_ej_def config_ej_def pagina_ej_def entorno_ej_def carpincho_ej_def
  servidor_ej_def memoria_ej_def conectar_def

lemma conexion_ej: "conexion_swamp swamp_ej 0 (entorno_ej ''LRU'')"
proof -
  have "\<exists>m. serializar_escritura_swap (entorno_ej ''LRU'') bs = Some m \<and> mensaje_ok swamp_ej m \<and>
      list_size (recupera swamp_ej m) = 64" if bs: "list_size bs = 64" for bs
  proof -
    let ?m = "takeWhile (\<lambda>c. c \<noteq> CHR 0x00) (bs @ [CHR 0x00]) @ [CHR 0x00]"
    have "length (takeWhile (\<lambda>c. c \<noteq> CHR 0x00) (bs @ [CHR 0x00])) \<le> 65"
      using length_takeWhile_le [of "\<lambda>c. c \<noteq> CHR 0x00" "bs @ [CHR 0x00]"] bs by (simp add: list_size_def)
    then have "mensaje_ok swamp_ej ?m" by (simp add: mensaje_ok_def list_size_def swamp_ej_def)
    moreover have "list_size (recupera swamp_ej ?m) = 64"
      using length_fgets [OF length_contenido_nuevo [of swamp_ej]]
      by (simp add: recupera_def list_size_def) (simp add: swamp_ej_def)
    ultimately show ?thesis
      by (intro exI [of _ ?m]) (simp add: serializar_escritura_swap_def cadena_c_def entorno_ej_def conectar_def)
  qed
  then show ?thesis
    by (simp add: conexion_def mensajes_ok_def ordenes_ok_def) (simp add: entorno_ej_def conectar_def config_ej_def)
qed

lemma swamp_ok_ej: "swamp_conectado swamp_ej ''a'' 0 servidor_ej"
  by (simp add: swamp_conectado_def swamp_ok_def marcos_swamp_ok_def claves_unicas_def swamp_ej_def servidor_ej_def
      obtenerCantArchivos_def nombre_archivo_def cantMarcos_def list_size_def list_get_def less_Suc_eq
      numeral_2_eq_2 i32_def)

lemma inv_mem_ej: "inv_mem (entorno_ej mmu) memoria_ej"
  by (simp add: inv_mem_def marcos_ok_def tlb_ok_def item_ok_def procesos_ok_def paginas_ok_def presencia_ok_def
      paginas_de_def ocupa_def list_size_def less_Suc_eq numeral_2_eq_2 ejemplo_defs)

lemma inv_sistema_ej: "inv_sistema swamp_ej ''a'' 0 (entorno_ej mmu) memoria_ej"
proof -
  have "length (leida swamp_ej f 0) = 64" for f
    unfolding leida_def by (rule length_fgets) (rule length_contenido_nuevo, simp add: swamp_ej_def)
  then have "\<exists>c. guarda_swamp swamp_ej ''a'' servidor_ej (1, 2) = Some c \<and> list_size c = 64"
    "guarda_swamp swamp_ej ''a'' servidor_ej (1, 1) = None"
    by (simp_all add: guarda_swamp_def conseguirMarco_def servidor_ej_def list_size_def)
  moreover have "k = (1, 2)" if "guarda_swamp swamp_ej ''a'' servidor_ej k \<noteq> None" for k
    using that by (cases k) (auto simp: guarda_swamp_def conseguirMarco_def servidor_ej_def Let_def split: if_splits)
  then have "solo_ausentes (guarda_swamp swamp_ej ''a'') memoria_ej"
    unfolding solo_ausentes_def
    by (intro allI impI bexI [of _ 1]) (auto simp: memoria_ej_def paginas_de_def carpincho_ej_def pagina_ej_def)
  ultimately show ?thesis
    using inv_mem_ej [of mmu] swamp_ok_ej unfolding inv_virtual_def
    by (simp add: memoria_ej_def paginas_de_def carpincho_ej_def pagina_ej_def clave_ok_def i32_def
        entorno_ej_def config_ej_def conectar_def)
qed

lemma lugar_ej: "hay_lugar libres_swamp (entorno_ej mmu) memoria_ej"
  by (simp add: hay_lugar_def candidata_def paginas_de_def libres_swamp_def ejemplo_defs)

lemma servible_ej: "servible libres_swamp (entorno_ej mmu) memoria_ej 1 (pagina_ej 2 0)"
  by (simp add: servible_def candidata_def paginas_de_def libres_swamp_def ejemplo_defs)

subsection \<open>Properties of the connected system\<close>

text \<open>C1. Reading through virtual memory. With the memory process connected to the swap server
  (LRU, dynamic or fixed scheme), \<open>leer_en_pagina\<close> returns the bytes of the range of the page,
  wherever the page was: in its frame, or in the swap server, which is then asked for it after the least
  recently used candidate has been written there. The page keeps its contents and is present, no other
  page changes but the victim, which keeps what the server gives back for it, the swap has as many free
  pages as before, and the invariant of the whole system holds again.\<close>

theorem lectura_virtual:
  assumes "conexion_swamp C b E" "inv_sistema C a b E s" "servible libres_swamp E s p g"
    and "0 \<le> off" "0 \<le> n" "off + n \<le> tam_pag E"
  shows "\<exists>t. leer_en_pagina E p n off s =
      Some (Some (take (nat n) (drop (nat off) (contenido (guarda_swamp C a) E s p))), t) \<and>
    accedida (guarda_swamp C a) (swamp_conectado C a b) (recupera C) libres_swamp E p g
      (contenido (guarda_swamp C a) E s p) s t"
  using assms by (rule swamp.leer_pagina)

theorem lectura_virtual_witness:
  "\<exists>t. leer_en_pagina (entorno_ej ''LRU'') 1 10 4 memoria_ej =
      Some (Some (take (nat 10) (drop (nat 4) (contenido (guarda_swamp swamp_ej ''a'') (entorno_ej ''LRU'') memoria_ej 1))), t)"
  using lectura_virtual [OF conexion_ej inv_sistema_ej servible_ej, of 4 10]
  by (auto simp: entorno_ej_def conectar_def config_ej_def)

text \<open>C2. Writing through virtual memory: \<open>escribir_en_pagina\<close> reports success and replaces exactly
  the bytes of the range in the contents of the page, whether the page was in a frame or had to be
  brought back from the swap server; the rest is as for reading.\<close>

theorem escritura_virtual:
  assumes "conexion_swamp C b E" "inv_sistema C a b E s" "servible libres_swamp E s p g"
    and "0 \<le> off" "off + n \<le> tam_pag E" "list_size buffer = n"
  shows "\<exists>t. escribir_en_pagina E p buffer n off s = Some (0, t) \<and>
    accedida (guarda_swamp C a) (swamp_conectado C a b) (recupera C) libres_swamp E p g
      (take (nat off) (contenido (guarda_swamp C a) E s p) @ buffer @
       drop (nat (off + n)) (contenido (guarda_swamp C a) E s p)) s t"
  using assms by (rule swamp.escribir_pagina)

theorem escritura_virtual_witness:
  "\<exists>t. escribir_en_pagina (entorno_ej ''LRU'') 1 ''hola'' 4 60 memoria_ej = Some (0, t)"
  using escritura_virtual [OF conexion_ej inv_sistema_ej servible_ej, of 60 4 "''hola''"]
  by (auto simp: entorno_ej_def conectar_def config_ej_def list_size_def)

text \<open>Safety of every run of page accesses. Start from a state that satisfies the invariant of the
  connected system, with the dynamic scheme, one page present and one page of swap free. After any
  sequence of reads and writes inside pages the invariant still holds, there is still room, and the next
  read has a defined result: no run dereferences NULL, overruns the cache or waits for ever for the swap
  server.\<close>

lemma accesos_seguros:
  assumes "conexion_swamp C b E" "inv_sistema C a b E s" "hay_lugar libres_swamp E s" "accesos E s t"
    and "p \<in> paginas_de s" "0 \<le> off" "0 \<le> n" "off + n \<le> tam_pag E"
  shows "inv_sistema C a b E t \<and> hay_lugar libres_swamp E t \<and>
    (\<exists>r u. leer_en_pagina E p n off t = Some (Some r, u) \<and> list_size r = n)"
proof -
  have it: "inv_sistema C a b E t" "hay_lugar libres_swamp E t" "p \<in> paginas_de t"
    using accesos_ok [OF assms(4,1-3)] assms(5) by auto
  obtain g where g: "heap t p = Some g" "servible libres_swamp E t p g"
    using swamp.servible_todas [OF it(2,1,3)] .
  have "list_size (contenido (guarda_swamp C a) E t p) = tam_pag E"
    using longitud_contenido [OF it(1,3)] .
  then show ?thesis
    using swamp.leer_pagina [OF assms(1) it(1) g(2) assms(6-8)] it assms(6-8)
    by (auto simp: list_size_def)
qed

lemma leer_de_swamp_sin_pagina:
  assumes "swamp_conectado C a b w" "i32 pid = pid" "i32 pagina = pagina" "pagina \<noteq> - 1"
    and "pid \<in> cs_PID ` set (sw_carpinchos w)" "guarda_swamp C a w (pid, pagina) = None"
  shows "leer_de_swamp C b tam pid pagina w = None"
proof -
  have ok: "swamp_ok C a w" and b: "i32 b \<notin> {11, 12, 13, 14}" using assms(1) by (auto simp: swamp_conectado_def)
  obtain c where c: "list_find (\<lambda>c. cs_PID c = pid) (sw_carpinchos w) = Some c"
    using assms(5) list_find_None_iff [of "\<lambda>c. cs_PID c = pid" "sw_carpinchos w"] by fastforce
  have k: "conseguirMarco w pid pagina = - 1"
    using assms(4,6) by (auto simp: guarda_swamp_def Let_def split: if_splits)
  have n: "list_size (le32 pid @ le32 pagina @ le32 b) = 12" by (simp add: list_size_def)
  have 1: "atender_swamp C (mensaje_lectura b pid pagina) w = Some (w, [], le32 b)"
    using c k assms(2,3) unfolding mensaje_lectura_def enviar_paquete_swamp_def n
    by (simp add: atender_swamp_def leer_swap_def recibirPagina_def)
  have 2: "atender_swamp C (le32 b) w = Some (w, [], [])" using b by (simp add: atender_swamp_def)
  have "length (le32 b) < length (mensaje_lectura b pid pagina)"
    by (simp add: mensaje_lectura_def enviar_paquete_swamp_def)
  then have "atender_pendientes C (mensaje_lectura b pid pagina) [] w = Some ([], w)"
    using atender_pendientes_uno [OF 1] atender_pendientes_uno [OF 2] by simp
  then show ?thesis by (simp add: leer_de_swamp_def recibir_int_def recibir_bytes_def)
qed

text \<open>C39. M-CLOCK loses pages. The eviction skips the write of a page that has not been modified since it
  was loaded, although the swap server erased it when it was loaded: after the eviction the page is
  neither in a frame nor in the swap, and the next time the memory process asks for it the server does
  not answer.\<close>

theorem m_clock_pierde_pagina:
  assumes "inv_sistema C a b E s" "es_m_clock E"
    and "v \<in> paginas_de s" "heap s v = Some g" "pag_presencia g \<noteq> 0" "pag_modif g = 0"
    and "pag_pid g \<in> cs_PID ` set (sw_carpinchos (swamp s))"
  shows "\<exists>t g'. desalojar E v pid pagina s = Some (pag_marco g, t) \<and>
    heap t v = Some g' \<and> pag_presencia g' = 0 \<and>
    guarda_swamp C a (swamp t) (pag_pid g, pag_pagina g) = None \<and>
    leer_de_swamp C b 64 (pag_pid g) (pag_pagina g) (swamp t) = None"
proof -
  have im: "inv_mem E s" and sw: "swamp_conectado C a b (swamp s)"
    using assms(1) by (auto simp: inv_virtual_def)
  have key: "clave_ok (pag_pid g) (pag_pagina g)"
    "guarda_swamp C a (swamp s) (pag_pid g, pag_pagina g) = None"
    using inv_virtualD(1,2) [OF assms(1,3,4)] assms(5) by auto
  have w: "if es_m_clock E \<and> pag_modif g = 0 then swamp s = swamp s
      else \<exists>stream r. serializar_escritura_swap E (bytes_marco E s (pag_marco g)) = Some stream \<and>
             srv_escribir E (pag_pid g) (pag_pagina g) stream (swamp s) = Some (r, swamp s)"
    using assms(2,6) by simp
  obtain t where t: "desalojar E v pid pagina s = Some (pag_marco g, t)"
    "desalojado E v g pid pagina (swamp s) s t"
    using desalojar_ok [OF im assms(3-5) w] .
  have "leer_de_swamp C b 64 (pag_pid g) (pag_pagina g) (swamp s) = None"
    using leer_de_swamp_sin_pagina [OF sw _ _ _ assms(7) key(2)] key(1) by (simp add: clave_ok_def)
  then show ?thesis using t key(2) by (simp add: desalojado_def)
qed

theorem m_clock_pierde_pagina_witness:
  "\<exists>t g'. desalojar (entorno_ej ''M-CLOCK'') 0 1 2 memoria_ej = Some (0, t) \<and>
    heap t 0 = Some g' \<and> pag_presencia g' = 0 \<and> leer_de_swamp swamp_ej 0 64 1 1 (swamp t) = None"
proof -
  have h: "heap memoria_ej 0 = Some (pagina_ej 1 1)" "0 \<in> paginas_de memoria_ej"
    "pag_pid (pagina_ej 1 1) \<in> cs_PID ` set (sw_carpinchos (swamp memoria_ej))"
    "es_m_clock (entorno_ej ''M-CLOCK'')" "pag_presencia (pagina_ej 1 1) \<noteq> 0" "pag_modif (pagina_ej 1 1) = 0"
    by (simp_all add: ejemplo_defs paginas_de_def)
  from m_clock_pierde_pagina [OF inv_sistema_ej h(4,2,1,5,6,3), of 1 2] show ?thesis
    by (auto simp: pagina_ej_def)
qed

text \<open>C21. The lookup of a page that is in memory: through the TLB or past it, with either replacement
  policy of the TLB, \<open>obtener_marco_para_pagina\<close> returns what a search of the frame table for the page
  gives, which is the frame the page names; it touches nothing but the TLB and the counters, and leaves
  the page in the TLB.\<close>

theorem busqueda_presente:
  assumes "inv_mem E s" "ordena (list_sort_tlb E)" "p \<in> paginas_de s" "heap s p = Some g" "pag_presencia g \<noteq> 0"
  shows "\<exists>t. obtener_marco_para_pagina E p s =
      Some (obtener_marco_de_cache s (pag_pid g) (pag_pagina g), t) \<and>
    obtener_marco_de_cache s (pag_pid g) (pag_pagina g) = pag_marco g \<and>
    datos t = datos s \<and> inv_mem E t \<and> pagina_is_in_tlb t g"
proof -
  obtain t where "obtener_marco_para_pagina E p s = Some (pag_marco g, t)" "datos t = datos s"
    "inv_mem E t" "pagina_is_in_tlb t g"
    using obtener_marco_presente [OF assms] .
  then show ?thesis using obtener_marco_de_cache_presente [OF assms(1,3-5)] by simp
qed

theorem busqueda_presente_witness:
  "\<exists>t. obtener_marco_para_pagina (entorno_ej ''LRU'') 0 memoria_ej = Some (0, t) \<and>
    CACHE t = CACHE memoria_ej \<and> pagina_is_in_tlb t (pagina_ej 1 1)"
proof -
  have h: "ordena (list_sort_tlb (entorno_ej ''LRU''))" "0 \<in> paginas_de memoria_ej"
    "heap memoria_ej 0 = Some (pagina_ej 1 1)" "pag_presencia (pagina_ej 1 1) \<noteq> 0"
    by (simp_all add: ejemplo_defs paginas_de_def)
  obtain t where t: "obtener_marco_para_pagina (entorno_ej ''LRU'') 0 memoria_ej =
      Some (obtener_marco_de_cache memoria_ej 1 1, t)" "obtener_marco_de_cache memoria_ej 1 1 = 0"
    "datos t = datos memoria_ej" "pagina_is_in_tlb t (pagina_ej 1 1)"
    using busqueda_presente [OF inv_mem_ej h] by (auto simp: pagina_ej_def)
  then show ?thesis using datos_eqD(1) [OF t(3)] by auto
qed

text \<open>C24. M-CLOCK answers. When the pointer of the clock is inside the list of candidates and the
  modification bits are bits, \<open>get_proxima_a_swampear_by_m_clock\<close> returns a candidate after at most four
  passes, changes nothing but use bits and the pointer, and under the dynamic scheme leaves the pointer
  inside the list again.\<close>

theorem m_clock_responde:
  assumes "ordena (list_sort_pagina E)" "bits_ok (heap s) ps" "puntero_listo E ps s" "ps \<noteq> []"
  shows "\<exists>v t. get_proxima_a_swampear_by_m_clock E ps s = Some (v, t) \<and> v \<in> set ps \<and> solo_bits s t \<and>
    (\<not> es_fija E \<longrightarrow> 0 \<le> algoritm_stack_pointer t \<and> algoritm_stack_pointer t < list_size ps)"
  using assms by (rule m_clock_elige)

theorem m_clock_responde_witness:
  "\<exists>v t. get_proxima_a_swampear_by_m_clock (entorno_ej ''M-CLOCK'') [0, 1] memoria_ej = Some (v, t) \<and>
    v \<in> {0, 1} \<and> algoritm_stack_pointer t < 2"
proof -
  have "ordena (list_sort_pagina (entorno_ej ''M-CLOCK''))" "bits_ok (heap memoria_ej) [0, 1]"
    "puntero_listo (entorno_ej ''M-CLOCK'') [0, 1] memoria_ej" "\<not> es_fija (entorno_ej ''M-CLOCK'')"
    by (simp_all add: bits_ok_def puntero_listo_def ejemplo_defs)
  then show ?thesis using m_clock_responde [of "entorno_ej ''M-CLOCK''" memoria_ej "[0, 1]"]
    by (auto simp: list_size_def)
qed

text \<open>M-CLOCK never wraps round: the passes run from the pointer to the end of the list. When the list
  of candidates has become shorter than the pointer, whatever the bits of its pages, the function falls off
  its end without a page, and with it the fault that called it.\<close>

lemma m_clock_puntero_fuera:
  assumes "ordena (list_sort_pagina E)" "\<not> es_fija E" "list_size ps \<le> algoritm_stack_pointer s"
  shows "get_proxima_a_swampear_by_m_clock E ps s = None \<and>
    (es_m_clock E \<longrightarrow> candidatas E pid s = Some ps \<longrightarrow>
       swampear_pagina E pid pagina s = None \<and> swampear_pagina_when_create_page E pid pagina s = None)"
proof -
  have "length (list_sort_pagina E (\<lambda>p q. clave_marco s p < clave_marco s q) ps) = length ps"
    using ordena_length [OF assms(1), of "clave_marco s" ps] .
  then have "drop (nat (algoritm_stack_pointer s))
      (list_sort_pagina E (\<lambda>p q. clave_marco s p < clave_marco s q) ps) = []"
    using assms(3) by (simp add: list_size_def)
  then have n: "get_proxima_a_swampear_by_m_clock E ps s = None"
    using assms(2) by (simp add: get_proxima_a_swampear_by_m_clock_def bind_eq_None_conv)
  then show ?thesis
    by (simp add: swampear_pagina_def swampear_pagina_when_create_page_def elegir_victima_def)
qed

text \<open>C23. LRU picks a candidate whose time stamp is the least of all candidates and changes nothing.\<close>

theorem lru_menos_usada:
  assumes "inv_mem E s" "get_carpincho s pid = Some c" "ordena (list_sort_pagina E)"
    and "candidata E s pid q" "\<not> es_m_clock E"
  shows "\<exists>ps v. candidatas E pid s = Some ps \<and> set ps = {p. candidata E s pid p} \<and>
    elegir_victima E ps s = Some (v, s) \<and> victima_lru E s pid v"
proof -
  obtain ps where ps: "candidatas E pid s = Some ps" "set ps = {p. candidata E s pid p}"
    using candidatas_ok [OF assms(1,2)] by blast
  obtain qs v where "candidatas E pid s = Some qs" "elegir_victima E qs s = Some (v, s)" "victima_lru E s pid v"
    using elegir_lru_ok [OF assms] .
  with ps show ?thesis by auto
qed

theorem lru_menos_usada_witness:
  "\<exists>ps. candidatas (entorno_ej ''LRU'') 1 memoria_ej = Some ps \<and>
    elegir_victima (entorno_ej ''LRU'') ps memoria_ej = Some (0, memoria_ej)"
proof -
  have h: "get_carpincho memoria_ej 1 = Some carpincho_ej" "ordena (list_sort_pagina (entorno_ej ''LRU''))"
    "candidata (entorno_ej ''LRU'') memoria_ej 1 0" "\<not> es_m_clock (entorno_ej ''LRU'')"
    "\<And>v. candidata (entorno_ej ''LRU'') memoria_ej 1 v \<Longrightarrow> v = 0"
    by (auto simp: get_carpincho_def candidata_def paginas_de_def ejemplo_defs split: if_splits)
  from lru_menos_usada [OF inv_mem_ej h(1-4)] h(5) show ?thesis by (auto simp: victima_lru_def)
qed

end
