(* ===== verification/Memoria_Allocs_Correcto.thy ===== *)
theory Memoria_Allocs_Correcto
  imports Memoria_Mensajes
begin

section \<open>Memoria: correctness of the allocator\<close>

text \<open>
  The blocks of a process tile its address space: the first starts at 0 and each next one where the
  bytes of the one before it end (9 bytes of metadata and its data). What placing, splitting and
  freeing a block do to the tiling, which strategy \<open>check_alloc\<close> chooses, and how many pages are
  asked for.
\<close>

named_theorems bloques \<open>laws of lists of blocks\<close>

subsection \<open>Tilings\<close>

fun contiguos :: "int \<Rightarrow> t_alloc list \<Rightarrow> bool" where
  "contiguos d [] \<longleftrightarrow> True"
| "contiguos d (a # as) \<longleftrightarrow>
     al_direccion a = d \<and> 0 < al_tamanio_data a \<and> contiguos (d + al_tamanio_data a + 9) as"

text \<open>No two neighbours are free.\<close>

fun separados :: "t_alloc list \<Rightarrow> bool" where
  "separados (a # b # as) \<longleftrightarrow> \<not> (al_isFree a \<and> al_isFree b) \<and> separados (b # as)"
| "separados _ \<longleftrightarrow> True"

lemma espacio_ocupado_simps [simp, bloques]:
  "espacio_ocupado [] = 0" "espacio_ocupado (a # as) = al_tamanio_data a + 9 + espacio_ocupado as"
  "espacio_ocupado (as @ bs) = espacio_ocupado as + espacio_ocupado bs"
  by (simp_all add: espacio_ocupado_def)

lemma contiguos_append [simp, bloques]:
  "contiguos d (as @ bs) \<longleftrightarrow> contiguos d as \<and> contiguos (d + espacio_ocupado as) bs"
  by (induction as arbitrary: d) (auto simp: algebra_simps)

lemma espacio_ocupado_pos: "contiguos d as \<Longrightarrow> 0 \<le> espacio_ocupado as"
  by (induction as arbitrary: d) fastforce+

lemma contiguos_rango:
  "contiguos d as \<Longrightarrow> a \<in> set as \<Longrightarrow> d \<le> al_direccion a \<and> 0 < al_tamanio_data a \<and>
    al_direccion a + al_tamanio_data a + 9 \<le> d + espacio_ocupado as"
proof (induction as arbitrary: d)
  case (Cons b bs)
  have "0 \<le> espacio_ocupado bs" using Cons.prems(1) espacio_ocupado_pos by auto
  then show ?case using Cons.prems Cons.IH [of "d + al_tamanio_data b + 9"] by auto
qed simp

lemma contiguos_distintos: "contiguos d as \<Longrightarrow> distinct (map al_direccion as)"
proof (induction as arbitrary: d)
  case (Cons a as)
  then have "al_direccion a \<noteq> al_direccion b" if "b \<in> set as" for b
    using contiguos_rango [of "d + al_tamanio_data a + 9" as b] that by auto
  with Cons show ?case by auto
qed simp

lemma ultimo_contiguo:
  "contiguos d as \<Longrightarrow> as \<noteq> [] \<Longrightarrow> al_direccion (last as) + al_tamanio_data (last as) + 9 = d + espacio_ocupado as"
proof (induction as arbitrary: d)
  case (Cons a as)
  show ?case
  proof (cases "as = []")
    case False
    then have "al_direccion (last as) + al_tamanio_data (last as) + 9 = d + al_tamanio_data a + 9 + espacio_ocupado as"
      using Cons.prems by (intro Cons.IH) auto
    then show ?thesis using False by simp
  qed (use Cons.prems in simp)
qed simp

lemma separados_append:
  "separados (as @ b # bs) \<longleftrightarrow> separados (as @ [b]) \<and> separados (b # bs)"
proof (induction as)
  case (Cons a as)
  then show ?case by (cases as) auto
qed simp

lemma separados_ocupado: "\<not> al_isFree b \<Longrightarrow> separados (as @ [b]) = separados as"
proof (induction as)
  case (Cons a as)
  then show ?case by (cases as) auto
qed simp

lemma separados_Cons_ocupado: "\<not> al_isFree a \<Longrightarrow> separados (a # as) = separados as"
  by (cases as) auto

lemma separados_medio:
  assumes "separados (xs @ a # ys)"
  shows "separados xs" "separados ys" "al_isFree a \<Longrightarrow> xs \<noteq> [] \<Longrightarrow> \<not> al_isFree (last xs)"
    "al_isFree a \<Longrightarrow> ys \<noteq> [] \<Longrightarrow> \<not> al_isFree (hd ys)"
proof -
  have "separados ws \<and> (ws \<noteq> [] \<longrightarrow> \<not> (al_isFree (last ws) \<and> al_isFree p))" if "separados (ws @ [p])" for ws p
    using that by (induction ws rule: separados.induct) (auto split: if_splits)
  moreover have "separados ws \<and> (ws \<noteq> [] \<longrightarrow> \<not> (al_isFree p \<and> al_isFree (hd ws)))" if "separados (p # ws)" for ws p
    using that by (cases ws) auto
  moreover have "separados (xs @ [a])" "separados (a # ys)" using assms separados_append by blast+
  ultimately show "separados xs" "separados ys" "al_isFree a \<Longrightarrow> xs \<noteq> [] \<Longrightarrow> \<not> al_isFree (last xs)"
    "al_isFree a \<Longrightarrow> ys \<noteq> [] \<Longrightarrow> \<not> al_isFree (hd ys)" by blast+
qed


text \<open>In a tiling a block is found at its own position.\<close>

lemma indice_propio:
  assumes "contiguos d (as @ b # bs)" "al_direccion a = al_direccion b"
  shows "obtener_indice_de_alloc (as @ b # bs) a = Some (int (length as))"
proof -
  have "distinct (map al_direccion (as @ b # bs))" using contiguos_distintos [OF assms(1)] .
  then have "\<forall>y\<in>set as. al_direccion y \<noteq> al_direccion a"
    unfolding assms(2) by (auto simp: image_iff)
  then have "posicion (\<lambda>x. al_direccion x = al_direccion a) (as @ b # bs) 0 = Some (0 + int (length as))"
    by (rule posicion_append) (rule assms(2) [symmetric])
  then show ?thesis by (simp add: obtener_indice_de_alloc_def)
qed

lemma get_carpincho_fija:
  assumes "get_carpincho s pid = Some c"
  shows "get_carpincho (fija_allocs pid as s) pid = Some (c\<lparr>crp_allocs := as\<rparr>)"
proof -
  have f: "filter (\<lambda>c. crp_pid c = pid) (map (\<lambda>c. if crp_pid c = pid then c\<lparr>crp_allocs := as\<rparr> else c) cs) =
      map (\<lambda>c. c\<lparr>crp_allocs := as\<rparr>) (filter (\<lambda>c. crp_pid c = pid) cs)" for cs
    by (induction cs) auto
  obtain cs where "filter (\<lambda>c. crp_pid c = pid) (carpinchos_list s) = c # cs"
    using assms
    by (cases "filter (\<lambda>c. crp_pid c = pid) (carpinchos_list s)")
      (simp_all add: get_carpincho_def list_get_0_hd Let_def list_size_def split: if_splits)
  then have "filter (\<lambda>c. crp_pid c = pid) (carpinchos_list (fija_allocs pid as s)) =
      c\<lparr>crp_allocs := as\<rparr> # map (\<lambda>c. c\<lparr>crp_allocs := as\<rparr>) cs"
    using f [of "carpinchos_list s"] by (simp add: fija_allocs_def modifica_carpincho_def)
  then show ?thesis by (simp add: get_carpincho_def list_get_0_hd list_size_def)
qed

subsection \<open>Placing and splitting\<close>

lemma agregar_al_final:
  assumes "contiguos 0 as" "0 < n" "espacio_ocupado as + n + 9 < 2147483648"
  shows "agregar_alloc_al_final as n =
      (espacio_ocupado as + 9, as @ [crear_alloc (espacio_ocupado as) n False]) \<and>
    contiguos 0 (snd (agregar_alloc_al_final as n))"
proof -
  have p: "0 \<le> espacio_ocupado as" using espacio_ocupado_pos [OF assms(1)] .
  have "agregar_alloc_al_final as n =
      (espacio_ocupado as + 9, as @ [crear_alloc (espacio_ocupado as) n False])"
  proof (cases "as = []")
    case True
    then show ?thesis using assms by (simp add: agregar_alloc_al_final_def)
  next
    case False
    let ?a = "last as"
    have l: "al_direccion ?a + al_tamanio_data ?a + 9 = espacio_ocupado as"
      using ultimo_contiguo [OF assms(1) False] by simp
    have "0 \<le> al_direccion ?a" "0 < al_tamanio_data ?a"
      using contiguos_rango [OF assms(1) last_in_set [OF False]] by auto
    then have "u32 (al_direccion ?a + 9) = al_direccion ?a + 9" using l assms(2,3) by simp
    then have "u32 (u32 (al_direccion ?a + 9) + al_tamanio_data ?a + 9) = u32 (espacio_ocupado as + 9)"
      using l by (intro arg_cong [of _ _ u32]) linarith
    then have d: "u32 (u32 (al_direccion ?a + 9) + al_tamanio_data ?a + 9) = espacio_ocupado as + 9"
      using p assms(2,3) by simp
    have "u32 (espacio_ocupado as) = espacio_ocupado as" "i32 n = n" using p assms(2,3) by simp_all
    moreover have "0 < list_size as" using False by (simp add: list_size_def)
    ultimately show ?thesis unfolding agregar_alloc_al_final_def Let_def d by simp
  qed
  then show ?thesis using assms(1,2) by (simp add: crear_alloc_def)
qed

text \<open>A block placed at the end continues the tiling: \<open>memalloc_asignar_en_pagina_con_espacio\<close>
  returns the address behind the metadata of the new block, and the new block starts where the last one
  ends.\<close>

lemma agregar_continua:
  assumes "contiguos 0 as" "0 < n" "espacio_ocupado as + n + 9 < 2147483648"
  shows "agregar_alloc_al_final as n =
      (espacio_ocupado as + 9, as @ [crear_alloc (espacio_ocupado as) n False]) \<and>
    contiguos 0 (snd (agregar_alloc_al_final as n))"
  using agregar_al_final [OF assms] .

lemma insertar_en_uno:
  "xs \<noteq> [] \<Longrightarrow> list_add_in_index xs (list_get_index_alloc ys a + 1) x = hd xs # x # tl xs" if "ys \<noteq> []"
  using that by (cases xs; cases ys) (auto simp: list_add_in_index_def list_get_index_alloc_def)

lemma encontrar_libre:
  assumes "al_isFree a" "n \<le> u32 (al_tamanio_data a)"
    "\<forall>x\<in>set xs. \<not> (al_isFree x \<and> n \<le> u32 (al_tamanio_data x))"
  shows "posicion (\<lambda>a. al_isFree a \<and> n \<le> u32 (al_tamanio_data a)) (xs @ a # ys) 0 = Some (int (length xs))"
  using posicion_append [OF assms(3), of a ys 0] assms(1,2) by simp

text \<open>The first free block that is large enough, taken whole or split.\<close>

lemma partir_casos:
  assumes ok: "contiguos 0 (xs @ a # ys)" and lim: "espacio_ocupado (xs @ a # ys) < 2147483648"
    and a: "al_isFree a" "n \<le> al_tamanio_data a" "0 < n"
    and xs: "\<forall>x\<in>set xs. \<not> (al_isFree x \<and> n \<le> u32 (al_tamanio_data x))"
  defines "b \<equiv> a\<lparr>al_tamanio_data := n, al_isFree := False\<rparr>"
    and "r \<equiv> crear_alloc (al_direccion a + n + 9) (al_tamanio_data a - n - 9) True"
  shows "al_tamanio_data a - n \<le> 9 \<Longrightarrow>
      partir_alloc (xs @ a # ys) n = Some (al_direccion a + 9, xs @ a\<lparr>al_isFree := False\<rparr> # ys, None)"
    and "\<not> al_tamanio_data a - n \<le> 9 \<Longrightarrow>
      partir_alloc (xs @ a # ys) n = Some (al_direccion a + 9, hd (xs @ b # ys) # r # tl (xs @ b # ys), Some r)"
proof -
  have px: "0 \<le> espacio_ocupado xs" "0 \<le> espacio_ocupado ys" using ok espacio_ocupado_pos by auto
  have da: "al_direccion a = espacio_ocupado xs" using ok by simp
  have ta: "u32 (al_tamanio_data a) = al_tamanio_data a" using a lim px by simp
  have dir: "u32 (al_direccion a + 9) = al_direccion a + 9" using px da a lim by simp
  have f: "posicion (\<lambda>a. al_isFree a \<and> n \<le> u32 (al_tamanio_data a)) (xs @ a # ys) 0 = Some (int (length xs))"
    by (rule encontrar_libre [OF a(1) _ xs]) (simp add: ta a(2))
  {
    assume "al_tamanio_data a - n \<le> 9"
    then have "\<not> (u32 (al_tamanio_data a) > n \<and> \<not> u32 (al_tamanio_data a - n) \<le> 9)" using a(2) by simp
    then show "partir_alloc (xs @ a # ys) n = Some (al_direccion a + 9, xs @ a\<lparr>al_isFree := False\<rparr> # ys, None)"
      using f dir by (auto simp: partir_alloc_def nth_append)
  }
  assume False: "\<not> al_tamanio_data a - n \<le> 9"
  have nums: "u32 (al_direccion a + n + 9) = al_direccion a + n + 9" "i32 n = n"
    "i32 (u32 (al_tamanio_data a - n - 9)) = al_tamanio_data a - n - 9"
    "u32 (al_tamanio_data a - n) = al_tamanio_data a - n"
    using False px da a lim by simp_all
  show "partir_alloc (xs @ a # ys) n = Some (al_direccion a + 9, hd (xs @ b # ys) # r # tl (xs @ b # ys), Some r)"
    using f dir ta nums False a by (simp add: partir_alloc_def nth_append insertar_en_uno Let_def b_def r_def)
qed

text \<open>C22. Reusing a free block. The first free block that is large enough is taken and its data address
  returned; the space of the process neither grows nor shrinks. When more than 9 bytes are left over
  they become a free block, but \<open>list_get_index_alloc\<close> always answers 0, so that block is inserted behind the
  first block of the list: the tiling survives exactly when nothing is left over or the block taken is
  the first one.\<close>

theorem partir_conserva:
  assumes ok: "contiguos 0 (xs @ a # ys)" and lim: "espacio_ocupado (xs @ a # ys) < 2147483648"
    and a: "al_isFree a" "n \<le> al_tamanio_data a" "0 < n"
    and xs: "\<forall>x\<in>set xs. \<not> (al_isFree x \<and> n \<le> u32 (al_tamanio_data x))"
  shows "\<exists>as nuevo. partir_alloc (xs @ a # ys) n = Some (al_direccion a + 9, as, nuevo) \<and>
    espacio_ocupado as = espacio_ocupado (xs @ a # ys) \<and>
    (nuevo = None \<longleftrightarrow> al_tamanio_data a - n \<le> 9) \<and>
    (contiguos 0 as \<longleftrightarrow> nuevo = None \<or> xs = [])"
proof -
  note casos = partir_casos [OF ok lim a xs]
  have da: "al_direccion a = espacio_ocupado xs" using ok by simp
  show ?thesis
  proof (cases "al_tamanio_data a - n \<le> 9")
    case True
    then show ?thesis using casos(1) ok by simp
  next
    case False
    let ?r = "crear_alloc (al_direccion a + n + 9) (al_tamanio_data a - n - 9) True"
    let ?a = "a\<lparr>al_tamanio_data := n, al_isFree := False\<rparr>"
    have "espacio_ocupado (hd (xs @ ?a # ys) # ?r # tl (xs @ ?a # ys)) = espacio_ocupado (xs @ a # ys)"
      by (cases xs) (simp_all add: crear_alloc_def)
    moreover have "contiguos 0 (hd (xs @ ?a # ys) # ?r # tl (xs @ ?a # ys)) \<longleftrightarrow> xs = []"
    proof (cases xs)
      case Nil
      then show ?thesis using ok a False by (simp add: crear_alloc_def)
    next
      case (Cons x zs)
      then have "0 \<le> espacio_ocupado zs" using ok espacio_ocupado_pos by auto
      then show ?thesis using Cons da a False by (simp add: crear_alloc_def)
    qed
    ultimately show ?thesis using casos(2) False by auto
  qed
qed

theorem partir_conserva_witness:
  "\<exists>as nuevo. partir_alloc [crear_alloc 0 3 False, crear_alloc 12 50 True] 20 = Some (21, as, nuevo) \<and>
    espacio_ocupado as = 71 \<and> \<not> contiguos 0 as"
  using partir_conserva [of "[crear_alloc 0 3 False]" "crear_alloc 12 50 True" "[]" 20]
  by (auto simp: crear_alloc_def)

subsection \<open>Freeing\<close>

text \<open>A block joined with the free block before it, and with the free block behind it.\<close>

definition junta_izq :: "t_alloc list \<Rightarrow> t_alloc \<Rightarrow> t_alloc list \<times> t_alloc" where
  "junta_izq xs a =
     (if xs \<noteq> [] \<and> al_isFree (last xs)
      then (butlast xs, a\<lparr>al_direccion := al_direccion (last xs),
                          al_tamanio_data := al_tamanio_data (last xs) + al_tamanio_data a + 9\<rparr>)
      else (xs, a))"

definition junta_der :: "t_alloc \<Rightarrow> t_alloc list \<Rightarrow> t_alloc \<times> t_alloc list" where
  "junta_der a ys =
     (if ys \<noteq> [] \<and> al_isFree (hd ys)
      then (a\<lparr>al_tamanio_data := al_tamanio_data (hd ys) + al_tamanio_data a + 9\<rparr>, tl ys) else (a, ys))"

lemma unificar_izq_junta:
  assumes "junta_izq xs a = (zs, b)"
  shows "unificar_izq (xs @ a # ys) (int (length xs)) (int (length xs)) =
    Some (int (length zs), int (length zs), zs @ b # ys)"
proof (cases xs rule: rev_cases)
  case Nil
  then show ?thesis using assms by (simp add: unificar_izq_def junta_izq_def)
next
  case (snoc ws p)
  have g: "list_get (ws @ p # a # ys) (int (length ws)) = Some p"
    "list_get (ws @ p # a # ys) (1 + int (length ws)) = Some a"
    by (simp_all add: list_get_def list_size_def nth_append nat_add_distrib)
  show ?thesis
    using assms snoc g
    by (auto simp: unificar_izq_def junta_izq_def list_remove_def list_size_def nat_add_distrib
        list_update_append split: if_splits)
qed

lemma unificar_der_junta:
  assumes "junta_der a ys = (b, zs)"
  shows "unificar_der (xs @ a # ys) (int (length xs)) (int (length xs)) = Some (xs @ b # zs)"
proof (cases ys)
  case Nil
  then show ?thesis using assms by (simp add: unificar_der_def junta_der_def list_size_def)
next
  case (Cons n ws)
  have g: "list_get (xs @ a # n # ws) (int (length xs) + 1) = Some n"
    "list_get (xs @ a # n # ws) (int (length xs)) = Some a"
    by (simp_all add: list_get_def list_size_def nth_append nat_add_distrib)
  show ?thesis
    using assms Cons g
    by (auto simp: unificar_der_def junta_der_def list_remove_def list_size_def nat_add_distrib
        list_update_append split: if_splits)
qed

lemma junta_izq_ok:
  assumes "junta_izq xs a = (zs, b)" "contiguos d (xs @ a # ys)" "separados xs"
  shows "contiguos d (zs @ b # ys)" "espacio_ocupado (zs @ b # ys) = espacio_ocupado (xs @ a # ys)"
    "separados zs" "zs \<noteq> [] \<Longrightarrow> \<not> al_isFree (last zs)" "al_isFree b = al_isFree a"
    "al_direccion b \<le> al_direccion a"
    "al_direccion a + al_tamanio_data a = al_direccion b + al_tamanio_data b"
proof -
  have "contiguos d (zs @ b # ys) \<and> espacio_ocupado (zs @ b # ys) = espacio_ocupado (xs @ a # ys) \<and>
    separados zs \<and> (zs \<noteq> [] \<longrightarrow> \<not> al_isFree (last zs)) \<and> al_isFree b = al_isFree a \<and>
    al_direccion b \<le> al_direccion a \<and> al_direccion a + al_tamanio_data a = al_direccion b + al_tamanio_data b"
  proof (cases "xs \<noteq> [] \<and> al_isFree (last xs)")
    case True
    then obtain ws p where w: "xs = ws @ [p]" "al_isFree p" by (cases xs rule: rev_cases) auto
    then have zs: "zs = ws" "b = a\<lparr>al_direccion := al_direccion p, al_tamanio_data := al_tamanio_data p + al_tamanio_data a + 9\<rparr>"
      using assms(1) by (auto simp: junta_izq_def)
    have c: "contiguos d ws" "al_direccion p = d + espacio_ocupado ws" "0 < al_tamanio_data p"
      "al_direccion a = d + espacio_ocupado ws + al_tamanio_data p + 9" "0 < al_tamanio_data a"
      "contiguos (d + espacio_ocupado ws + al_tamanio_data p + 9 + al_tamanio_data a + 9) ys"
      using assms(2) w(1) by (simp_all add: add.assoc)
    have e: "d + espacio_ocupado ws + (al_tamanio_data p + al_tamanio_data a + 9) + 9 =
        d + espacio_ocupado ws + al_tamanio_data p + 9 + al_tamanio_data a + 9" by simp
    have "contiguos (d + espacio_ocupado ws + (al_tamanio_data p + al_tamanio_data a + 9) + 9) ys"
      unfolding e by (rule c(6))
    with c(1-5) have "contiguos d (zs @ b # ys)" unfolding zs by simp
    then show ?thesis using separados_medio(1,3) [of ws p "[]"] assms(3) c(2-5) w unfolding zs by simp
  next
    case False
    then have "zs = xs" "b = a" using assms(1) by (auto simp: junta_izq_def split: if_splits)
    then show ?thesis using assms(2,3) False by auto
  qed
  then show "contiguos d (zs @ b # ys)" "espacio_ocupado (zs @ b # ys) = espacio_ocupado (xs @ a # ys)"
    "separados zs" "zs \<noteq> [] \<Longrightarrow> \<not> al_isFree (last zs)" "al_isFree b = al_isFree a"
    "al_direccion b \<le> al_direccion a"
    "al_direccion a + al_tamanio_data a = al_direccion b + al_tamanio_data b" by simp_all
qed

lemma junta_der_ok:
  assumes "junta_der a ys = (b, zs)" "contiguos d (xs @ a # ys)" "separados ys"
  shows "contiguos d (xs @ b # zs)" "espacio_ocupado (xs @ b # zs) = espacio_ocupado (xs @ a # ys)"
    "separados zs" "zs \<noteq> [] \<Longrightarrow> \<not> al_isFree (hd zs)" "al_isFree b = al_isFree a"
    "al_direccion b = al_direccion a" "al_tamanio_data a \<le> al_tamanio_data b"
proof -
  have "contiguos d (xs @ b # zs) \<and> espacio_ocupado (xs @ b # zs) = espacio_ocupado (xs @ a # ys) \<and>
    separados zs \<and> (zs \<noteq> [] \<longrightarrow> \<not> al_isFree (hd zs)) \<and> al_isFree b = al_isFree a \<and>
    al_direccion b = al_direccion a \<and> al_tamanio_data a \<le> al_tamanio_data b"
  proof (cases "ys \<noteq> [] \<and> al_isFree (hd ys)")
    case True
    then obtain n ws where w: "ys = n # ws" "al_isFree n" by (cases ys) auto
    then have zs: "zs = ws" "b = a\<lparr>al_tamanio_data := al_tamanio_data n + al_tamanio_data a + 9\<rparr>"
      using assms(1) by (auto simp: junta_der_def)
    have c: "contiguos d xs" "al_direccion a = d + espacio_ocupado xs" "0 < al_tamanio_data a" "0 < al_tamanio_data n"
      "contiguos (d + espacio_ocupado xs + al_tamanio_data a + 9 + al_tamanio_data n + 9) ws"
      using assms(2) w(1) by (simp_all add: add.assoc)
    have e: "d + espacio_ocupado xs + (al_tamanio_data n + al_tamanio_data a + 9) + 9 =
        d + espacio_ocupado xs + al_tamanio_data a + 9 + al_tamanio_data n + 9" by simp
    have "contiguos (d + espacio_ocupado xs + (al_tamanio_data n + al_tamanio_data a + 9) + 9) ws"
      unfolding e by (rule c(5))
    with c(1-4) have "contiguos d (xs @ b # zs)" unfolding zs by simp
    then show ?thesis using separados_medio(2,4) [of "[]" n ws] assms(3) c(2-4) w unfolding zs by simp
  next
    case False
    then have "zs = ys" "b = a" using assms(1) by (auto simp: junta_der_def split: if_splits)
    then show ?thesis using assms(2,3) False by auto
  qed
  then show "contiguos d (xs @ b # zs)" "espacio_ocupado (xs @ b # zs) = espacio_ocupado (xs @ a # ys)"
    "separados zs" "zs \<noteq> [] \<Longrightarrow> \<not> al_isFree (hd zs)" "al_isFree b = al_isFree a"
    "al_direccion b = al_direccion a" "al_tamanio_data a \<le> al_tamanio_data b" by simp_all
qed

lemma separados_unir:
  assumes "separados xs" "separados ys" "xs \<noteq> [] \<Longrightarrow> \<not> al_isFree (last xs)" "ys \<noteq> [] \<Longrightarrow> \<not> al_isFree (hd ys)"
  shows "separados (xs @ b # ys)"
proof -
  have "separados (b # ys)" using assms(2,4) by (cases ys) auto
  moreover have "separados (xs @ [b])"
    using assms(1,3) by (induction xs rule: separados.induct) (auto split: if_splits)
  ultimately show ?thesis using separados_append by blast
qed

lemma junta_izq_ocupados: "junta_izq xs a = (zs, b) \<Longrightarrow> x \<in> set xs \<Longrightarrow> \<not> al_isFree x \<Longrightarrow> x \<in> set zs"
  by (cases xs rule: rev_cases) (auto simp: junta_izq_def split: if_splits)

lemma junta_der_ocupados: "junta_der a ys = (b, zs) \<Longrightarrow> x \<in> set ys \<Longrightarrow> \<not> al_isFree x \<Longrightarrow> x \<in> set zs"
  by (cases ys) (auto simp: junta_der_def split: if_splits)

lemma liberar_lista:
  assumes ok: "contiguos d (xs @ a # ys)" and sep: "separados xs" "separados ys"
  obtains zs b ws where "liberar_alloc (xs @ a # ys) (int (length xs)) = Some (int (length zs), zs @ b # ws)"
    "al_isFree b" "al_direccion b \<le> al_direccion a"
    "al_direccion a + al_tamanio_data a \<le> al_direccion b + al_tamanio_data b"
    "contiguos d (zs @ b # ws)" "separados (zs @ b # ws)" "espacio_ocupado (zs @ b # ws) = espacio_ocupado (xs @ a # ys)"
    "\<forall>x\<in>set xs \<union> set ys. \<not> al_isFree x \<longrightarrow> x \<in> set zs \<union> set ws"
proof -
  let ?a = "a\<lparr>al_isFree := True\<rparr>"
  have ok1: "contiguos d (xs @ ?a # ys)" using ok by simp
  obtain zs b where i: "junta_izq xs ?a = (zs, b)" by force
  obtain c ws where r: "junta_der b ys = (c, ws)" by force
  have k: "obtener_indice_de_alloc (xs @ ?a # ys) a = Some (int (length xs))"
    by (rule indice_propio [OF ok1]) simp
  have g: "list_get (xs @ a # ys) (int (length xs)) = Some a" by (simp add: list_get_def list_size_def)
  have l: "liberar_alloc (xs @ a # ys) (int (length xs)) = Some (int (length zs), zs @ c # ws)"
    using g k unificar_izq_junta [OF i, of ys] unificar_der_junta [OF r, of zs]
    by (simp add: liberar_alloc_def)
  note iz = junta_izq_ok [OF i ok1 sep(1)]
  note de = junta_der_ok [OF r iz(1) sep(2)]
  have "al_direccion c \<le> al_direccion a" "al_direccion a + al_tamanio_data a \<le> al_direccion c + al_tamanio_data c"
    using iz(6,7) de(6,7) by simp_all
  with that [OF l _ this de(1) separados_unir [OF iz(3) de(3) iz(4) de(4)]] show thesis
    using iz(2,5) de(2,5) junta_izq_ocupados [OF i] junta_der_ocupados [OF r] by auto
qed

text \<open>C18. Freeing a block coalesces. In a tiling without neighbouring free blocks, \<open>liberar_alloc\<close> on the
  block at any position finds its neighbours, and gives a tiling of the same bytes without neighbouring
  free blocks, in which the block that now holds the freed bytes is free and is the one whose position is
  returned.\<close>

theorem liberar_une:
  assumes ok: "contiguos d (xs @ a # ys)" and sep: "separados xs" "separados ys"
  shows "\<exists>xs' b ys'. liberar_alloc (xs @ a # ys) (int (length xs)) = Some (int (length xs'), xs' @ b # ys') \<and>
    al_isFree b \<and> al_direccion b \<le> al_direccion a \<and>
    al_direccion a + al_tamanio_data a \<le> al_direccion b + al_tamanio_data b \<and>
    contiguos d (xs' @ b # ys') \<and> separados (xs' @ b # ys') \<and>
    espacio_ocupado (xs' @ b # ys') = espacio_ocupado (xs @ a # ys)"
  using liberar_lista [OF assms] by metis

theorem liberar_une_witness:
  "liberar_alloc [crear_alloc 0 10 True, crear_alloc 19 5 False, crear_alloc 33 7 True] 1 =
    Some (0, [crear_alloc 0 40 True])"
proof -
  have "\<exists>xs' b ys'. liberar_alloc ([crear_alloc 0 10 True] @ crear_alloc 19 5 False # [crear_alloc 33 7 True]) (int (length [crear_alloc 0 10 True])) =
      Some (int (length xs'), xs' @ b # ys') \<and> contiguos 0 (xs' @ b # ys')"
    using liberar_une [of 0 "[crear_alloc 0 10 True]" "crear_alloc 19 5 False" "[crear_alloc 33 7 True]"]
    by (force simp: crear_alloc_def)
  then show ?thesis
    by (simp add: liberar_alloc_def unificar_izq_def unificar_der_def obtener_indice_de_alloc_def list_get_def
        list_size_def list_remove_def crear_alloc_def)
qed

subsection \<open>Choosing the strategy\<close>

lemma recorre_allocs_eq:
  "recorre_allocs n as acum =
     (if \<exists>a\<in>set as. al_isFree a \<and> n \<le> al_tamanio_data a then None else Some (acum + espacio_ocupado as))"
  by (induction as arbitrary: acum) (auto simp: algebra_simps)

lemma check_size_swamp_casos:
  assumes "check_size_swamp E pid k s = Some (hay, t)"
  obtains r w where "srv_puede_escribir E pid k (swamp s) = Some (r, w)" "hay \<longleftrightarrow> r \<noteq> 0" "t = s\<lparr>swamp := w\<rparr>"
  using assms by (auto simp: check_size_swamp_def enviar_consulta_puede_escribir_en_swap_def bind_eq_Some_conv)

text \<open>The strategy of \<open>check_alloc\<close> is sound. A free block is chosen exactly when one is large enough,
  and then the split of \<open>memalloc_asignar_en_heap_libre\<close> finds it; the end of the last page is chosen only
  when block and metadata fit behind the last block; pages are asked for, or the request is refused, only
  when they do not fit.\<close>

lemma estrategia_correcta:
  assumes "check_alloc E c n s = Some (r, t)" and "0 \<le> n"
    and "\<forall>a\<in>set (crp_allocs c). 0 \<le> al_tamanio_data a \<and> al_tamanio_data a < 4294967296"
  shows "(r = ALLOC_HEAP \<longleftrightarrow> (\<exists>a\<in>set (crp_allocs c). al_isFree a \<and> n \<le> al_tamanio_data a)) \<and>
    (r = ALLOC_HEAP \<longrightarrow> t = s \<and> partir_alloc (crp_allocs c) n \<noteq> None) \<and>
    (r = ALLOC_PAGINA \<longrightarrow> t = s \<and> espacio_ocupado (crp_allocs c) + n + 9 \<le> espacio_total E c) \<and>
    (r = ALLOC_SOLICITAR_PAGINA \<or> r = ALLOC_SIN_ESPACIO \<longrightarrow>
       espacio_total E c < espacio_ocupado (crp_allocs c) + n + 9)"
proof (cases "\<exists>a\<in>set (crp_allocs c). al_isFree a \<and> n \<le> al_tamanio_data a")
  case True
  then have "\<exists>a\<in>set (crp_allocs c). al_isFree a \<and> n \<le> u32 (al_tamanio_data a)" using assms(3) by auto
  then have "posicion (\<lambda>a. al_isFree a \<and> n \<le> u32 (al_tamanio_data a)) (crp_allocs c) 0 \<noteq> None"
    by (simp add: posicion_None)
  then have "partir_alloc (crp_allocs c) n \<noteq> None" by (auto simp: partir_alloc_def Let_def)
  then show ?thesis using True assms(1) by (simp add: check_alloc_def recorre_allocs_eq)
next
  case False
  then show ?thesis
    using assms(1)
    by (auto simp: check_alloc_def recorre_allocs_eq Let_def bind_eq_Some_conv split: if_splits)
qed

definition entorno_alloc :: "int \<Rightarrow> unit entorno" where
  "entorno_alloc respuesta =
     \<lparr>datosConfigMemoria = \<lparr>tamanio = 64, tamanio_pagina = 32, tipo_asignacion = ''DINAMICA'',
        algoritmo_reemplazo_mmu = ''LRU'', cantida_entradas_tlb = 1, algoritmo_reemplazo_tlb = ''FIFO'',
        debug = False, marcos_por_carpincho = 1\<rparr>,
      list_sort_pagina = orden_insercion, list_sort_marco = orden_insercion, list_sort_tlb = orden_insercion,
      basura_pagina = (\<lambda>_. \<lparr>pag_marco = 0, pag_pid = 0, pag_pagina = 0, pag_presencia = 0, pag_uso = 0,
         pag_modif = 0, pag_carp_num = 0, pag_timestamp = 0\<rparr>),
      basura_tlb = (\<lambda>_. 0), resto_heap = (\<lambda>_. [CHR 0x00]), srv_escribir = (\<lambda>_ _ _ w. Some (0, w)),
      srv_leer = (\<lambda>_ _ w. Some (None, w)), srv_puede_escribir = (\<lambda>_ _ w. Some (respuesta, w))\<rparr>"

definition carpincho_alloc :: "t_alloc list \<Rightarrow> t_carpincho" where
  "carpincho_alloc as = \<lparr>crp_pid = 1, crp_tlb_hits = 0, crp_tlb_miss = 0, crp_stack_pointer = 0,
     crp_paginas = [0], crp_allocs = as, crp_numero = 1\<rparr>"

definition memoria_alloc :: "t_alloc list \<Rightarrow> unit memoria" where
  "memoria_alloc as =
     \<lparr>CACHE = replicate 64 CHR ''_'', cantidad_maxima_marcos = 2,
      marcos_list = [\<lparr>mrc_marco = 0, mrc_isFree = False, mrc_pagina = 1, mrc_pid = 1\<rparr>,
                     \<lparr>mrc_marco = 1, mrc_isFree = True, mrc_pagina = 0, mrc_pid = 0\<rparr>],
      carpinchos_list = [carpincho_alloc as], contador_carpinchos = 1, contador_timestamp = 1,
      contador_timestamp_tlb = 1, algoritm_stack_pointer = 0, tlb_fifo_pointer = 0,
      tlb_list = [\<lparr>tlb_entrada = 0, tlb_pid = 0, tlb_pagina = 0, tlb_marco = - 1, tlb_timestamp = 0\<rparr>],
      mensajes_dump_list = [], tlb_hits_totales = 0, tlb_miss_totales = 0,
      heap = [0 \<mapsto> \<lparr>pag_marco = 0, pag_pid = 1, pag_pagina = 1, pag_presencia = 1, pag_uso = 0,
         pag_modif = 0, pag_carp_num = 1, pag_timestamp = 0\<rparr>], prox_ptr = 1, swamp = ()\<rparr>"

text \<open>A refusal of the swap server is taken for a yes. \<open>check_size_swamp\<close> converts the answer to a
  truth value, and -1, which the server sends when it has no room, is true: a request that does not fit
  asks for pages although the server has refused them, and only the answer 0, which the server never
  sends, would refuse it.\<close>

lemma negativa_ignorada:
  assumes "srv_puede_escribir E (crp_pid c) (calcular_cantidad_paginas_necesaria E
      (espacio_total E c - espacio_ocupado (crp_allocs c)) n) (swamp s) = Some (r, w)"
    and "\<not> es_fija E" "\<forall>a\<in>set (crp_allocs c). \<not> (al_isFree a \<and> n \<le> al_tamanio_data a)"
    and "espacio_total E c < espacio_ocupado (crp_allocs c) + n + 9"
  shows "check_alloc E c n s = Some (if r = 0 then ALLOC_SIN_ESPACIO else ALLOC_SOLICITAR_PAGINA, s\<lparr>swamp := w\<rparr>)"
proof -
  have "recorre_allocs n (crp_allocs c) 0 = Some (espacio_ocupado (crp_allocs c))"
    using assms(3) by (simp add: recorre_allocs_eq)
  then show ?thesis using assms
    by (simp add: check_alloc_def Let_def check_size_swamp_def enviar_consulta_puede_escribir_en_swap_def)
qed

lemma cantidad_de_paginas:
  assumes "0 < tam_pag E" "tam_pag E < 2147483648" "libre < n + 9" "n + 9 - libre < 2147483648"
  shows "(calcular_cantidad_paginas_necesaria E libre n - 1) * tam_pag E < n + 9 - libre \<and>
    n + 9 - libre \<le> calcular_cantidad_paginas_necesaria E libre n * tam_pag E"
proof -
  let ?t = "tam_pag E" and ?e = "n + 9 - libre" and ?k = "calcular_cantidad_paginas_necesaria E libre n"
  have e: "0 < ?e" "u32 ?e = ?e" "u32 ?t = ?t" using assms by simp_all
  have dm: "?e div ?t * ?t + ?e mod ?t = ?e" by simp
  have m: "0 \<le> ?e mod ?t" "?e mod ?t < ?t" using assms(1) by simp_all
  have q1: "0 \<le> ?e div ?t" using e(1) assms(1) by (simp add: pos_imp_zdiv_nonneg_iff)
  then have "?e div ?t * 1 \<le> ?e div ?t * ?t" using assms(1) by (intro mult_left_mono) auto
  then have q: "0 \<le> ?e div ?t" "?e div ?t \<le> ?e" using q1 dm m(1) by linarith+
  show ?thesis
  proof (cases "?e mod ?t = 0")
    case True
    then have "?k = i32 (?e div ?t)"
      unfolding calcular_cantidad_paginas_necesaria_def mod_u32_def div_u32_def Let_def e(2,3) by simp
    then have "?k = ?e div ?t" using q assms(4) by simp
    then show ?thesis using dm True assms(1) by (simp add: left_diff_distrib)
  next
    case False
    have "?e div ?t < ?e \<or> ?t = 1" using e(1) assms(1) int_div_less_self [of ?e ?t] by linarith
    then have lt: "?e div ?t + 1 < 2147483648" using assms(4) False q by auto
    have "?k = i32 (u32 (?e div ?t + 1))" using False
      unfolding calcular_cantidad_paginas_necesaria_def mod_u32_def div_u32_def Let_def e(2,3) by simp
    then have "?k = ?e div ?t + 1" using q lt by simp
    have "(?e div ?t + 1) * ?t = ?e div ?t * ?t + ?t" by (simp add: distrib_right)
    moreover have "0 < ?e mod ?t" using m(1) False by linarith
    ultimately show ?thesis unfolding \<open>?k = ?e div ?t + 1\<close> add_diff_cancel using dm m(2) by linarith
  qed
qed

text \<open>The number of pages asked for is the least one that holds what does not fit: with a page less
  the block and its metadata would not fit, with these pages they do.\<close>

lemma paginas_necesarias:
  assumes "0 < tam_pag E" "tam_pag E < 2147483648" "libre < n + 9" "n + 9 - libre < 2147483648"
  shows "(calcular_cantidad_paginas_necesaria E libre n - 1) * tam_pag E < n + 9 - libre \<and>
    n + 9 - libre \<le> calcular_cantidad_paginas_necesaria E libre n * tam_pag E"
  using cantidad_de_paginas [OF assms] .

text \<open>A request for 0 bytes stops the memory process. The block is placed at the end of the last page,
  but no address lies in the data of a block without data, so the search for the block just placed gives
  NULL, which is dereferenced.\<close>

lemma memalloc_de_cero:
  assumes "get_carpincho s pid = Some c" "\<forall>a\<in>set (crp_allocs c). \<not> al_isFree a"
    and "contiguos 0 (crp_allocs c)" "espacio_ocupado (crp_allocs c) + 9 \<le> espacio_total E c"
    and "espacio_ocupado (crp_allocs c) + 9 < 2147483648"
  shows "memory_memalloc E pid 0 dir s = None"
proof -
  let ?as = "crp_allocs c" and ?o = "espacio_ocupado (crp_allocs c)"
  let ?n = "crear_alloc ?o 0 False"
  have st: "elegir_estrategia E pid 0 s = Some (ALLOC_PAGINA, s)"
    using assms(1,2,4) by (simp add: elegir_estrategia_def check_alloc_def recorre_allocs_eq Let_def)
  have p: "0 \<le> ?o" using espacio_ocupado_pos [OF assms(3)] .
  have ag: "agregar_alloc_al_final ?as 0 = (?o + 9, ?as @ [?n])"
  proof (cases "?as = []")
    case True
    then show ?thesis by (simp add: agregar_alloc_al_final_def)
  next
    case False
    let ?a = "last ?as"
    have l: "al_direccion ?a + al_tamanio_data ?a + 9 = ?o" using ultimo_contiguo [OF assms(3) False] by simp
    have "0 \<le> al_direccion ?a" "0 < al_tamanio_data ?a"
      using contiguos_rango [OF assms(3) last_in_set [OF False]] by auto
    then have "u32 (al_direccion ?a + 9) = al_direccion ?a + 9" using l assms(5) by simp
    then have "u32 (u32 (al_direccion ?a + 9) + al_tamanio_data ?a + 9) = u32 (?o + 9)"
      using l by (intro arg_cong [of _ _ u32]) linarith
    then have d: "u32 (u32 (al_direccion ?a + 9) + al_tamanio_data ?a + 9) = ?o + 9" using p assms(5) by simp
    have "u32 ?o = ?o" "0 < list_size ?as" using p assms(5) False by (simp_all add: list_size_def)
    then show ?thesis unfolding agregar_alloc_al_final_def Let_def d by simp
  qed
  have fuera: "\<not> en_rango (?o + 9) a" if "a \<in> set (?as @ [?n])" for a
  proof (cases "a = ?n")
    case True
    then show ?thesis using p assms(5) by (simp add: en_rango_def crear_alloc_def)
  next
    case False
    then have a: "0 \<le> al_direccion a" "0 < al_tamanio_data a" "al_direccion a + al_tamanio_data a + 9 \<le> ?o"
      using that contiguos_rango [OF assms(3), of a] by auto
    have u: "u32 (al_direccion a + 9) = al_direccion a + 9" using a assms(5) by simp
    have "u32 (al_direccion a + 9 + al_tamanio_data a - 1) = al_direccion a + 9 + al_tamanio_data a - 1"
      using a assms(5) by simp
    then show ?thesis using a unfolding en_rango_def Let_def u by simp
  qed
  let ?s = "fija_allocs pid (?as @ [?n]) s"
  have as: "asignar_segun E ALLOC_PAGINA pid 0 dir s = Some (EXITO, ?o + 9, ?s)"
    using assms(1) ag by (simp add: asignar_segun_def memalloc_asignar_en_pagina_con_espacio_def)
  have "obtener_alloc_de_un_carpincho (c\<lparr>crp_allocs := ?as @ [?n]\<rparr>) (?o + 9) = None"
    by (simp only: obtener_alloc_de_un_carpincho_def posicion_None t_carpincho.simps) (rule ballI, rule fuera, simp)
  then show ?thesis
    by (simp only: memory_memalloc_def st as get_carpincho_fija [OF assms(1)] Option.bind.simps split simp_thms
        if_True)
qed

end
