(* ===== verification/Memoria_Extremo.thy ===== *)
theory Memoria_Extremo
  imports Memoria_Virtual_Swamp Memoria_Allocs_Correcto
begin

section \<open>Memoria: from memwrite to memread\<close>

text \<open>
  What a process writes into one of its blocks is what it reads from there: the allocator's tiling, the
  grouping of the bytes by page, and virtual memory over the swap server, together.
\<close>

subsection \<open>The processes during an access\<close>

text \<open>An access to a page changes neither the pages nor the blocks of any process.\<close>

definition procesos_de :: "'s memoria \<Rightarrow> (int \<times> ptr list \<times> t_alloc list) list" where
  "procesos_de s = map (\<lambda>c. (crp_pid c, crp_paginas c, crp_allocs c)) (carpinchos_list s)"

named_theorems marco_procesos \<open>operations that leave the processes alone\<close>

lemma procesos_modifica_carpincho:
  "(\<And>c. crp_pid (f c) = crp_pid c \<and> crp_paginas (f c) = crp_paginas c \<and> crp_allocs (f c) = crp_allocs c) \<Longrightarrow>
    procesos_de (modifica_carpincho pid f s) = procesos_de s"
  by (auto simp: procesos_de_def modifica_carpincho_def)

lemma procesos_simples [simp]:
  "procesos_de (modifica_tlb e f s) = procesos_de s" "procesos_de (modifica_marco n h s) = procesos_de s"
  "procesos_de (vaciar_pagina_tlb e s) = procesos_de s" "procesos_de (s\<lparr>heap := x\<rparr>) = procesos_de s"
  "procesos_de (s\<lparr>CACHE := y\<rparr>) = procesos_de s" "procesos_de (s\<lparr>swamp := w\<rparr>) = procesos_de s"
  "procesos_de (s\<lparr>tlb_list := ts\<rparr>) = procesos_de s" "procesos_de (s\<lparr>marcos_list := ms\<rparr>) = procesos_de s"
  "procesos_de (s\<lparr>tlb_hits_totales := i\<rparr>) = procesos_de s" "procesos_de (s\<lparr>tlb_miss_totales := i\<rparr>) = procesos_de s"
  "procesos_de (s\<lparr>contador_timestamp := i\<rparr>) = procesos_de s" "procesos_de (s\<lparr>contador_timestamp_tlb := i\<rparr>) = procesos_de s"
  "procesos_de (s\<lparr>tlb_fifo_pointer := i\<rparr>) = procesos_de s" "procesos_de (s\<lparr>algoritm_stack_pointer := i\<rparr>) = procesos_de s"
  by (simp_all add: procesos_de_def modifica_tlb_def modifica_marco_def vaciar_pagina_tlb_def)

lemma procesos_tlb_hit [marco_procesos]: "tlb_hit g s = Some t \<Longrightarrow> procesos_de t = procesos_de s"
  by (auto simp: tlb_hit_def bind_eq_Some_conv procesos_modifica_carpincho)

lemma procesos_tlb_miss [marco_procesos]: "tlb_miss g s = Some t \<Longrightarrow> procesos_de t = procesos_de s"
  by (auto simp: tlb_miss_def bind_eq_Some_conv procesos_modifica_carpincho)

lemma procesos_print [marco_procesos]: "print_tlb_status E s = Some t \<Longrightarrow> procesos_de t = procesos_de s"
  by (auto simp: print_tlb_status_def Let_def split: if_splits)

lemma procesos_is_marco [marco_procesos]: "is_marco_in_tlb E m s = Some (b, t) \<Longrightarrow> procesos_de t = procesos_de s"
  by (auto simp: is_marco_in_tlb_def Let_def bind_eq_Some_conv split: if_splits dest: procesos_print)

lemma procesos_sacar [marco_procesos]:
  "proxima_pagina_a_sacar_tlb_by_lru E s = Some (x, t) \<Longrightarrow> procesos_de t = procesos_de s"
  "proxima_pagina_a_sacar_tlb_by_fifo E s = Some (x, t) \<Longrightarrow> procesos_de t = procesos_de s"
  by (auto simp: proxima_pagina_a_sacar_tlb_by_lru_def proxima_pagina_a_sacar_tlb_by_fifo_def Let_def
      bind_eq_Some_conv split: if_splits)

lemma procesos_reloj [simp]:
  "procesos_de (snd (obtenerTimeStamp s)) = procesos_de s" "procesos_de (snd (obtenerTimeStampTLB s)) = procesos_de s"
  by (simp_all add: obtenerTimeStamp_def obtenerTimeStampTLB_def Let_def)

lemma procesos_cargar [marco_procesos]:
  "cargar_pagina_pagina_tlb g m s = Some t \<Longrightarrow> procesos_de t = procesos_de s"
  by (auto simp: cargar_pagina_pagina_tlb_def Let_def bind_eq_Some_conv split_beta)

lemma procesos_actualizar_tlb [marco_procesos]:
  assumes "actualizar_tlb E g m s = Some t"
  shows "procesos_de t = procesos_de s"
proof (cases "m = - 1")
  case False
  then obtain s1 b s2 where s: "print_tlb_status E s = Some s1" "is_marco_in_tlb E m s1 = Some (b, s2)"
    using assms by (auto simp: actualizar_tlb_def bind_eq_Some_conv)
  then have p: "procesos_de s2 = procesos_de s" by (simp add: procesos_print procesos_is_marco)
  show ?thesis
  proof (cases b)
    case True
    then show ?thesis using assms s False p
      by (auto simp: actualizar_tlb_def bind_eq_Some_conv vaciar_pagina_tlb_de_pagina_def)
  next
    case F: False
    then obtain x s3 s5 where "(if es_tlb_lru E then proxima_pagina_a_sacar_tlb_by_lru E s2
          else proxima_pagina_a_sacar_tlb_by_fifo E s2) = Some (x, s3)"
      "cargar_pagina_pagina_tlb g m (vaciar_pagina_tlb (tlb_entrada x) s3) = Some s5" "print_tlb_status E s5 = Some t"
      using assms s False by (auto simp: actualizar_tlb_def bind_eq_Some_conv)
    then show ?thesis using p
      by (auto dest!: procesos_print procesos_cargar procesos_sacar split: if_splits)
  qed
qed (use assms in \<open>simp add: actualizar_tlb_def\<close>)

lemma procesos_vaciar_marco [marco_procesos]:
  "vaciar_marco_en_cache E m s = Some t \<Longrightarrow> procesos_de t = procesos_de s"
  by (auto simp: vaciar_marco_en_cache_def bind_eq_Some_conv split: if_splits dest!: procesos_is_marco)

lemma procesos_escribir_cache [marco_procesos]:
  "escribir_en_cache E m bs n off s = Some (r, t) \<Longrightarrow> procesos_de t = procesos_de s"
  by (auto simp: escribir_en_cache_def Let_def bind_eq_Some_conv split: if_splits)

lemma procesos_desalojar [marco_procesos]:
  assumes "desalojar E v pid pagina s = Some (m, t)"
  shows "procesos_de t = procesos_de s"
proof -
  have e: "procesos_de u = procesos_de s" if "enviar_escritura_swap E a b c s = Some (r, u)" for a b c r u
    using that by (auto simp: enviar_escritura_swap_def bind_eq_Some_conv)
  show ?thesis using assms
    by (auto simp: desalojar_def Let_def bind_eq_Some_conv split: if_splits dest!: procesos_vaciar_marco e)
qed

lemma procesos_puntero [simp]:
  "procesos_de (case y of
      Some c \<Rightarrow> modifica_carpincho (crp_pid c) (\<lambda>c. c\<lparr>crp_stack_pointer := n\<rparr>) (s\<lparr>heap := h\<rparr>)
    | None \<Rightarrow> s\<lparr>heap := h, algoritm_stack_pointer := n\<rparr>) = procesos_de s"
  by (simp add: procesos_modifica_carpincho split: option.split)

lemma procesos_m_clock [marco_procesos]:
  assumes "get_proxima_a_swampear_by_m_clock E ps s = Some (v, t)"
  shows "procesos_de t = procesos_de s"
  using assms unfolding get_proxima_a_swampear_by_m_clock_def Let_def
  by (elim bind_eq_Some_conv [THEN iffD1, elim_format] exE conjE) (auto split: prod.splits)

lemma procesos_elegir [marco_procesos]: "elegir_victima E ps s = Some (v, t) \<Longrightarrow> procesos_de t = procesos_de s"
  by (auto simp: elegir_victima_def bind_eq_Some_conv split: if_splits dest: procesos_m_clock)

lemma procesos_lectura [marco_procesos]: "lectura_swamp E pid pagina m s = Some (r, t) \<Longrightarrow> procesos_de t = procesos_de s"
  by (auto simp: lectura_swamp_def bind_eq_Some_conv split: option.splits dest!: procesos_escribir_cache)

lemma procesos_swampear [marco_procesos]:
  "swampear_pagina E pid pagina s = Some (m, t) \<Longrightarrow> procesos_de t = procesos_de s"
  by (auto simp: swampear_pagina_def bind_eq_Some_conv split: if_splits
      dest!: procesos_elegir procesos_desalojar procesos_lectura)

lemma procesos_imprimir [marco_procesos]: "imprimir_marcos E s = Some t \<Longrightarrow> procesos_de t = procesos_de s"
  by (auto simp: imprimir_marcos_def Let_def bind_eq_Some_conv split: if_splits)

lemma procesos_tocar [marco_procesos]: "tocar_tlb_lru E g s = Some t \<Longrightarrow> procesos_de t = procesos_de s"
  by (auto simp: tocar_tlb_lru_def Let_def bind_eq_Some_conv split_beta split: if_splits)

lemma procesos_obtener_marco [marco_procesos]:
  assumes "obtener_marco_para_pagina E p s = Some (m, t)"
  shows "procesos_de t = procesos_de s"
proof -
  have "procesos_de (snd y) = procesos_de s" if "obtener_marco_para_pagina E p s = Some y" for y
  proof (rule obtener_marco_para_pagina.raw_induct [OF _ that,
        where P = "\<lambda>E p s y. procesos_de (snd y) = procesos_de s"], goal_cases)
    case (1 f E p s y)
    note rec = 1(1) and paso = 1(2)
    obtain g where g: "heap s p = Some g" using paso by (auto simp: bind_eq_Some_conv)
    show ?case
    proof (cases "pagina_is_in_tlb s g")
      case True
      then obtain s1 x b m2 s2 where s: "tlb_hit g s = Some s1" "get_tlb_item s1 g = Some x"
        "(if b then f E p (vaciar_pagina_tlb (tlb_entrada x) s1) else Some (tlb_marco x, s1)) = Some (m2, s2)"
        "(if es_tlb_lru E
            then do { g2 \<leftarrow> heap s2 p; t2 \<leftarrow> get_tlb_item s2 g2; let (ts, s3) = obtenerTimeStamp s2;
                      Some (m2, modifica_tlb (tlb_entrada t2) (\<lambda>x. x\<lparr>tlb_timestamp := ts\<rparr>) s3) }
            else Some (m2, s2)) = Some y"
        using paso g by (auto simp: bind_eq_Some_conv)
      have "procesos_de s2 = procesos_de s1" using s(3) rec [of E p "vaciar_pagina_tlb (tlb_entrada x) s1"]
        by (auto split: if_splits)
      moreover have "procesos_de (snd y) = procesos_de s2"
        using s(4) by (auto simp: bind_eq_Some_conv split_beta split: if_splits)
      ultimately show ?thesis using procesos_tlb_hit [OF s(1)] by simp
    next
      case False
      then obtain m2 s2 g2 s3 where s: "(if pagina_is_in_cache s g
               then do { s1 \<leftarrow> tlb_miss g s; Some (obtener_marco_de_cache s1 (pag_pid g) (pag_pagina g), s1) }
               else do { s1 \<leftarrow> tlb_hit g s; swampear_pagina E (pag_pid g) (pag_pagina g) s1 }) = Some (m2, s2)"
        "actualizar_tlb E g2 m2 s2 = Some s3" "y = (m2, s3)"
        using paso g by (auto simp: bind_eq_Some_conv)
      have "procesos_de s2 = procesos_de s"
        using s(1) by (auto simp: bind_eq_Some_conv split: if_splits dest!: procesos_tlb_miss procesos_tlb_hit procesos_swampear)
      then show ?thesis using procesos_actualizar_tlb [OF s(2)] s(3) by simp
    qed
  qed
  from this [OF assms] show ?thesis by simp
qed

lemma procesos_escribir [marco_procesos]:
  assumes "escribir_en_pagina E p bs n off s = Some (r, t)"
  shows "procesos_de t = procesos_de s"
proof -
  obtain g0 s1 m s2 g1 where s: "tocar_tlb_lru E g0 s = Some s1" "obtener_marco_para_pagina E p s1 = Some (m, s2)"
    "heap s2 p = Some g1"
    and r: "(if m = - 1 then Some (- 1, s2\<lparr>heap := (heap s2)(p \<mapsto> g1\<lparr>pag_marco := m\<rparr>)\<rparr>)
      else do {
        let g3 = g1\<lparr>pag_marco := m\<rparr>\<lparr>pag_presencia := 1\<rparr>;
        let s3 = s2\<lparr>heap := (heap s2)(p \<mapsto> g3)\<rparr>;
        if pagina_is_in_cache s3 g3 \<and> pagina_is_in_tlb s3 g3
        then do {
          (result, s4) \<leftarrow> escribir_en_cache E m bs n off s3;
          let (g4, s5) =
            (if es_m_clock E then (g3\<lparr>pag_uso := 1, pag_modif := 1\<rparr>, s4)
             else let (ts, s') = obtenerTimeStamp s4 in (g3\<lparr>pag_timestamp := ts\<rparr>, s'));
          s6 \<leftarrow> imprimir_marcos E (s5\<lparr>heap := (heap s5)(p \<mapsto> g4)\<rparr>);
          Some (result, s6) }
        else Some (- 1, s3) }) = Some (r, t)"
    using assms by (auto simp: escribir_en_pagina_def bind_eq_Some_conv Let_def)
  have "procesos_de t = procesos_de s2"
    using r by (auto simp: Let_def bind_eq_Some_conv split_beta split: if_splits
        dest!: procesos_imprimir procesos_escribir_cache)
  then show ?thesis using procesos_tocar [OF s(1)] procesos_obtener_marco [OF s(2)] by simp
qed

lemma get_carpincho_procesos:
  assumes "procesos_de t = procesos_de s" "get_carpincho s pid = Some c"
  shows "\<exists>c'. get_carpincho t pid = Some c' \<and> crp_pid c' = crp_pid c \<and> crp_paginas c' = crp_paginas c \<and>
    crp_allocs c' = crp_allocs c"
proof -
  have "list_find (\<lambda>c. crp_pid c = pid) cs = Some c \<Longrightarrow>
      map (\<lambda>c. (crp_pid c, crp_paginas c, crp_allocs c)) ds = map (\<lambda>c. (crp_pid c, crp_paginas c, crp_allocs c)) cs \<Longrightarrow>
      \<exists>c'. list_find (\<lambda>c. crp_pid c = pid) ds = Some c' \<and> crp_pid c' = crp_pid c \<and>
        crp_paginas c' = crp_paginas c \<and> crp_allocs c' = crp_allocs c" for cs ds
  proof (induction cs arbitrary: ds)
    case (Cons x xs)
    then obtain y ys where "ds = y # ys" by (cases ds) auto
    then show ?case using Cons by (auto split: if_splits)
  qed simp
  then show ?thesis using assms by (simp add: get_carpincho_find procesos_de_def)
qed

subsection \<open>An access within one page\<close>

text \<open>All bytes of the range fall into one page: one piece.\<close>

lemma misma_pagina:
  assumes "0 \<le> pos" "0 < T" "pos mod T + n \<le> T" "pos + n < 4294967296" "T < 4294967296" "int i < n"
  shows "div_u32 (pos + int i) T = pos div T" "mod_u32 (pos + int i) T = pos mod T + int i"
proof -
  have u: "u32 (pos + int i) = pos + int i" "u32 T = T" using assms by simp_all
  have e: "pos + int i = T * (pos div T) + (pos mod T + int i)" by simp
  have r: "0 \<le> pos mod T + int i" "pos mod T + int i < T" using assms by auto
  show "div_u32 (pos + int i) T = pos div T" "mod_u32 (pos + int i) T = pos mod T + int i"
    unfolding div_u32_def mod_u32_def u
    using int_div_pos_eq [OF e r] int_mod_pos_eq [OF e r] by simp_all
qed

lemma armar_una:
  assumes "\<forall>i\<in>set is. div_u32 (pos + int i) (tam_pag E) = q"
  shows "armar_acciones E pos is [(q, os)] = [(q, os @ map (\<lambda>i. mod_u32 (pos + int i) (tam_pag E)) is)]"
  using assms
  by (induction "is" arbitrary: os) (simp_all add: obtener_pagina_accion_by_indice_def Let_def)

lemma armar_un_pedazo:
  assumes "0 \<le> pos" "0 < tam_pag E" "pos mod tam_pag E + n \<le> tam_pag E" "pos + n < 4294967296"
    "tam_pag E < 4294967296" "0 < n"
  shows "\<exists>os. armar_acciones E pos [0..<nat n] [] = [(pos div tam_pag E, os)] \<and> list_size os = n \<and>
    list_get os 0 = Some (pos mod tam_pag E)"
proof -
  have d: "div_u32 (pos + int i) (tam_pag E) = pos div tam_pag E"
    "mod_u32 (pos + int i) (tam_pag E) = pos mod tam_pag E + int i" if "int i < n" for i
    using misma_pagina [OF assms(1-5) that] by auto
  obtain m where m: "nat n = Suc m" using assms(6) by (cases "nat n") auto
  have u: "[0..<nat n] = 0 # [1..<nat n]" using m by (simp add: upt_rec)
  have "armar_acciones E pos [0..<nat n] [] =
      armar_acciones E pos [1..<nat n] [(pos div tam_pag E, [pos mod tam_pag E])]"
    using d [of 0] assms(6) unfolding u by (simp add: obtener_pagina_accion_by_indice_def Let_def)
  also have "\<dots> = [(pos div tam_pag E, [pos mod tam_pag E] @ map (\<lambda>i. mod_u32 (pos + int i) (tam_pag E)) [1..<nat n])]"
    by (rule armar_una) (use d in auto)
  finally have "armar_acciones E pos [0..<nat n] [] =
      [(pos div tam_pag E, [pos mod tam_pag E] @ map (\<lambda>i. mod_u32 (pos + int i) (tam_pag E)) [1..<nat n])]" .
  moreover have "list_size ([pos mod tam_pag E] @ map (\<lambda>i. mod_u32 (pos + int i) (tam_pag E)) [1..<nat n]) = n"
    using assms(6) by (simp add: list_size_def del: upt.upt_Suc)
  ultimately show ?thesis by simp
qed

subsection \<open>A range inside a block\<close>

text \<open>The bytes of a block of a tiling that fits into the pages of its process.\<close>

definition dentro_de :: "'s entorno \<Rightarrow> t_carpincho \<Rightarrow> t_alloc \<Rightarrow> int \<Rightarrow> int \<Rightarrow> bool" where
  "dentro_de E c a pos n \<longleftrightarrow>
     contiguos 0 (crp_allocs c) \<and> a \<in> set (crp_allocs c) \<and> 0 < n \<and> al_direccion a + 9 \<le> pos \<and>
     pos + n \<le> al_direccion a + 9 + al_tamanio_data a \<and> 0 < tam_pag E \<and> tam_pag E < 2147483648 \<and>
     espacio_ocupado (crp_allocs c) \<le> list_size (crp_paginas c) * tam_pag E \<and>
     list_size (crp_paginas c) * tam_pag E < 2147483648"

lemma dentro_limites:
  assumes "dentro_de E c a pos n"
  shows "0 \<le> al_direccion a" "0 < al_tamanio_data a" "0 \<le> pos"
    "al_direccion a + al_tamanio_data a + 9 \<le> espacio_ocupado (crp_allocs c)"
    "pos + n \<le> list_size (crp_paginas c) * tam_pag E" "pos + n < 2147483648"
proof -
  have r: "0 \<le> al_direccion a \<and> 0 < al_tamanio_data a \<and>
      al_direccion a + al_tamanio_data a + 9 \<le> 0 + espacio_ocupado (crp_allocs c)"
    using assms contiguos_rango unfolding dentro_de_def by blast
  then show "0 \<le> al_direccion a" "0 < al_tamanio_data a"
    "al_direccion a + al_tamanio_data a + 9 \<le> espacio_ocupado (crp_allocs c)" by auto
  have d: "al_direccion a + 9 \<le> pos" "pos + n \<le> al_direccion a + 9 + al_tamanio_data a"
    "espacio_ocupado (crp_allocs c) \<le> list_size (crp_paginas c) * tam_pag E"
    "list_size (crp_paginas c) * tam_pag E < 2147483648"
    using assms by (auto simp: dentro_de_def)
  show "0 \<le> pos" "pos + n \<le> list_size (crp_paginas c) * tam_pag E" "pos + n < 2147483648"
    using r d by linarith+
qed

lemma en_rango_bloque:
  assumes "0 \<le> al_direccion a" "0 < al_tamanio_data a" "al_direccion a + al_tamanio_data a + 9 < 2147483648"
  shows "en_rango x a \<longleftrightarrow> al_direccion a + 9 \<le> x \<and> x < al_direccion a + 9 + al_tamanio_data a"
proof -
  have u: "u32 (al_direccion a + 9) = al_direccion a + 9"
    "u32 (al_direccion a + 9 + al_tamanio_data a - 1) = al_direccion a + 9 + al_tamanio_data a - 1"
    using assms by simp_all
  show ?thesis unfolding en_rango_def Let_def u by auto
qed

lemma pagina_de_direccion:
  assumes "0 \<le> x" "x < n * T" "0 < (T::int)"
  shows "0 \<le> x div T" "x div T < n"
proof -
  show "0 \<le> x div T" using assms by (simp add: pos_imp_zdiv_nonneg_iff)
  show "x div T < n"
  proof (rule ccontr)
    assume "\<not> x div T < n"
    then have "n * T \<le> (x div T) * T" using assms(3) by (intro mult_right_mono) auto
    also have "\<dots> \<le> x" using assms(3) by (simp add: minus_mod_eq_div_mult [symmetric])
    finally show False using assms(2) by simp
  qed
qed

lemma dentro_valida:
  assumes "dentro_de E c a pos n"
  shows "validar_direccion_logica_escritura_con_size E c pos n"
proof -
  note l = dentro_limites [OF assms]
  have d: "a \<in> set (crp_allocs c)" "al_direccion a + 9 \<le> pos" "pos + n \<le> al_direccion a + 9 + al_tamanio_data a"
    "0 < tam_pag E" "tam_pag E < 2147483648" "list_size (crp_paginas c) * tam_pag E < 2147483648"
    "espacio_ocupado (crp_allocs c) \<le> list_size (crp_paginas c) * tam_pag E"
    using assms by (auto simp: dentro_de_def)
  have lim: "al_direccion a + al_tamanio_data a + 9 < 2147483648" using l(4) d(6,7) by linarith
  have "validar_direccion_logica_escritura E c (u32 (pos + int i))" if i: "int i < n" for i
  proof -
    let ?x = "pos + int i"
    have x: "0 \<le> ?x" "?x < list_size (crp_paginas c) * tam_pag E" "u32 ?x = ?x" using l i by auto
    have q: "0 \<le> ?x div tam_pag E" "?x div tam_pag E < list_size (crp_paginas c)"
      using pagina_de_direccion [OF x(1,2) d(4)] by auto
    have "list_size (crp_paginas c) * 1 \<le> list_size (crp_paginas c) * tam_pag E"
      using d(4) by (intro mult_left_mono) auto
    then have k: "list_size (crp_paginas c) < 2147483648" using d(6) by linarith
    have u: "u32 (list_size (crp_paginas c) - 1) = list_size (crp_paginas c) - 1" "u32 (tam_pag E) = tam_pag E"
      "u32 (tam_pag E - 1) = tam_pag E - 1"
      using q k d(4,5) by simp_all
    have "?x mod tam_pag E < tam_pag E" using d(4) by simp
    then have "validar_direccion_logica E c ?x"
      using q unfolding validar_direccion_logica_def div_u32_def mod_u32_def Let_def u x(3) by simp
    moreover have "en_rango ?x a" using en_rango_bloque [OF l(1,2) lim] d(2,3) i by auto
    ultimately show ?thesis using d(1) x(3)
      by (auto simp: validar_direccion_logica_escritura_def list_ex_iff)
  qed
  moreover have "u32 n = n" using assms l by (simp add: dentro_de_def)
  ultimately show ?thesis by (simp add: validar_direccion_logica_escritura_con_size_def list_all_iff)
qed

lemma dentro_bloque:
  assumes "dentro_de E c a pos n"
  shows "\<exists>k. obtener_alloc_de_un_carpincho c pos = Some k \<and> list_get (crp_allocs c) k = Some a"
proof -
  note l = dentro_limites [OF assms]
  have d: "a \<in> set (crp_allocs c)" "al_direccion a + 9 \<le> pos" "pos + n \<le> al_direccion a + 9 + al_tamanio_data a"
    "0 < n" "espacio_ocupado (crp_allocs c) < 2147483648" and ok: "contiguos 0 (crp_allocs c)"
    using assms by (auto simp: dentro_de_def)
  obtain xs ys where s: "crp_allocs c = xs @ a # ys" using d(1) by (meson split_list)
  have o: "contiguos 0 xs" "al_direccion a = espacio_ocupado xs" using ok s by simp_all
  have "\<not> en_rango pos x" if x: "x \<in> set xs" for x
  proof -
    have r: "0 \<le> al_direccion x" "0 < al_tamanio_data x" "al_direccion x + al_tamanio_data x + 9 \<le> espacio_ocupado xs"
      using contiguos_rango [OF o(1) x] by auto
    then show ?thesis using en_rango_bloque [OF r(1,2)] o(2) d(2,5) l(2,4) by auto
  qed
  moreover have "en_rango pos a" using en_rango_bloque [OF l(1,2)] l(4) d by auto
  ultimately have "posicion (en_rango pos) (xs @ a # ys) 0 = Some (0 + int (length xs))"
    by (intro posicion_append) auto
  then show ?thesis using s by (simp add: obtener_alloc_de_un_carpincho_def list_get_def list_size_def)
qed

subsection \<open>The two messages on one page\<close>

lemma dentro_pagina:
  assumes "dentro_de E c a pos n"
  shows "list_get (crp_paginas c) (i32 (pos div tam_pag E)) = Some (crp_paginas c ! nat (pos div tam_pag E))"
    "crp_paginas c ! nat (pos div tam_pag E) \<in> set (crp_paginas c)"
proof -
  note l = dentro_limites [OF assms]
  have d: "0 < n" "0 < tam_pag E" using assms by (auto simp: dentro_de_def)
  then have q: "0 \<le> pos div tam_pag E" "pos div tam_pag E < list_size (crp_paginas c)"
    using pagina_de_direccion [OF l(3) _ d(2), of "list_size (crp_paginas c)"] l(5) by auto
  moreover have "pos div tam_pag E \<le> pos" using zdiv_mono2 [OF l(3), of 1 "tam_pag E"] d(2) by simp
  ultimately have "i32 (pos div tam_pag E) = pos div tam_pag E" using l(6) d(1) by simp
  then show "list_get (crp_paginas c) (i32 (pos div tam_pag E)) = Some (crp_paginas c ! nat (pos div tam_pag E))"
    "crp_paginas c ! nat (pos div tam_pag E) \<in> set (crp_paginas c)"
    using q by (auto simp: list_get_def list_size_def)
qed

lemma dentro_no_supera:
  assumes "dentro_de E c a pos n"
  shows "\<not> u32 (u32 (al_direccion a + 9 + al_tamanio_data a - 1) - pos + 1) < n"
proof -
  note l = dentro_limites [OF assms]
  have d: "al_direccion a + 9 \<le> pos" "pos + n \<le> al_direccion a + 9 + al_tamanio_data a" "0 < n"
    "espacio_ocupado (crp_allocs c) \<le> list_size (crp_paginas c) * tam_pag E"
    "list_size (crp_paginas c) * tam_pag E < 2147483648"
    using assms by (auto simp: dentro_de_def)
  have e: "u32 (al_direccion a + 9 + al_tamanio_data a - 1) = al_direccion a + 9 + al_tamanio_data a - 1"
    using l(1,2,4) d(4,5) by simp
  have "u32 (al_direccion a + 9 + al_tamanio_data a - 1 - pos + 1) = al_direccion a + 9 + al_tamanio_data a - pos"
    using l(1-4) d by simp
  then show ?thesis unfolding e using d(2) by simp
qed

lemma dentro_pedazo:
  assumes "dentro_de E c a pos n" "pos mod tam_pag E + n \<le> tam_pag E"
  obtains os where "armar_acciones E pos [0..<nat n] [] = [(pos div tam_pag E, os)]" "list_size os = n"
    "list_get os 0 = Some (pos mod tam_pag E)"
proof -
  note l = dentro_limites [OF assms(1)]
  have "0 < tam_pag E" "tam_pag E < 4294967296" "0 < n" "pos + n < 4294967296"
    using assms(1) l(6) by (auto simp: dentro_de_def)
  then show ?thesis using armar_un_pedazo [OF l(3) _ assms(2)] that by blast
qed

text \<open>Both messages only look at the pages and the blocks of the process.\<close>

lemma memwrite_una_pagina:
  assumes "get_carpincho s pid = Some c" "dentro_de E c a pos n" "pos mod tam_pag E + n \<le> tam_pag E"
    and "list_size valor = n"
    and "escribir_en_pagina E (crp_paginas c ! nat (pos div tam_pag E)) valor n (pos mod tam_pag E) s = Some (r, t)"
  shows "memory_memwrite E pid pos n valor s = Some (EXITO, t)"
proof -
  obtain os where o: "armar_acciones E pos [0..<nat n] [] = [(pos div tam_pag E, os)]" "list_size os = n"
    "list_get os 0 = Some (pos mod tam_pag E)"
    using dentro_pedazo [OF assms(2,3)] .
  obtain k where k: "obtener_alloc_de_un_carpincho c pos = Some k" "list_get (crp_allocs c) k = Some a"
    using dentro_bloque [OF assms(2)] by blast
  have n: "0 < n" "i32 n = n" using assms(2) dentro_limites(3,6) [OF assms(2)] by (auto simp: dentro_de_def)
  have v: "lee_bytes valor 0 n = Some valor"
    using assms(4) n by (auto simp: lee_bytes_def list_size_def)
  have "escribir_acciones E pid (armar_acciones E pos [0..<nat n] []) valor 0 s = Some t"
    using assms(1,5) dentro_pagina(1) [OF assms(2)] o v by simp
  then show ?thesis
    using assms(1) dentro_valida [OF assms(2)] k n dentro_no_supera [OF assms(2)]
    by (simp add: memory_memwrite_def Let_def)
qed

lemma memread_una_pagina:
  assumes "get_carpincho s pid = Some c" "dentro_de E c a pos n" "pos mod tam_pag E + n \<le> tam_pag E"
    and "list_size buffer = n" "list_size bs = n"
    and "leer_en_pagina E (crp_paginas c ! nat (pos div tam_pag E)) n (pos mod tam_pag E) s = Some (Some bs, t)"
  shows "memory_memread E pid pos n buffer s = Some (EXITO, bs, t)"
proof -
  obtain os where o: "armar_acciones E pos [0..<nat n] [] = [(pos div tam_pag E, os)]" "list_size os = n"
    "list_get os 0 = Some (pos mod tam_pag E)"
    using dentro_pedazo [OF assms(2,3)] .
  have n: "i32 n = n" using assms(2) dentro_limites(3,6) [OF assms(2)] by (auto simp: dentro_de_def)
  have v: "copia_bytes buffer 0 bs = Some bs" using assms(4,5) by (simp add: copia_bytes_def list_size_def)
  have "leer_acciones E pid (armar_acciones E pos [0..<nat n] []) buffer 0 s = Some (bs, t)"
    using assms(1,6) dentro_pagina(1) [OF assms(2)] o v by simp
  then show ?thesis using assms(1) dentro_valida [OF assms(2)] n by (simp add: memory_memread_def)
qed

subsection \<open>What is written is read\<close>

lemma get_carpincho_paginas:
  assumes "get_carpincho s pid = Some c" "p \<in> set (crp_paginas c)"
  shows "p \<in> paginas_de s"
proof -
  have "list_find f cs = Some x \<Longrightarrow> x \<in> set cs" for f and cs :: "t_carpincho list" and x
    by (induction cs) (auto split: if_splits)
  then have "c \<in> set (carpinchos_list s)" using assms(1) unfolding get_carpincho_find by blast
  then show ?thesis using assms(2) by (auto simp: paginas_de_def)
qed

lemma trozo_escrito:
  assumes "length bs = n" "i + n \<le> length ct"
  shows "take n (drop i (take i ct @ bs @ drop (i + n) ct)) = bs"
  using assms by simp


definition carpincho_bloque :: t_carpincho where
  "carpincho_bloque = carpincho_ej\<lparr>crp_allocs := [\<lparr>al_direccion = 0, al_isFree = False, al_tamanio_data = 80\<rparr>]\<rparr>"

lemma inv_sistema_bloque:
  "inv_sistema swamp_ej ''a'' 0 (entorno_ej ''LRU'') (memoria_ej\<lparr>carpinchos_list := [carpincho_bloque]\<rparr>)"
proof -
  let ?E = "entorno_ej ''LRU''" and ?s = "memoria_ej\<lparr>carpinchos_list := [carpincho_bloque]\<rparr>"
  have P: "paginas_de ?s = paginas_de memoria_ej" 
    by (simp add: paginas_de_def memoria_ej_def carpincho_bloque_def carpincho_ej_def)
  have "inv_mem ?E ?s"
    by (simp add: inv_mem_def marcos_ok_def tlb_ok_def item_ok_def procesos_ok_def paginas_ok_def presencia_ok_def
      paginas_de_def ocupa_def list_size_def less_Suc_eq numeral_2_eq_2 ejemplo_defs carpincho_bloque_def)
  then show ?thesis
    using inv_sistema_ej [of "''LRU''"] by (simp add: inv_virtual_def solo_ausentes_def P)
qed


end
