(* ===== verification/Memoria_Pedazos.thy ===== *)
theory Memoria_Pedazos
  imports Memoria_Extremo
begin

section \<open>Memoria: ranges over several pages\<close>

text \<open>
  \<open>armar_acciones\<close> groups the bytes of a range by page with a search for every byte. What comes out is one
  piece per page, in order, each as long as the rest of its page allows.
\<close>

subsection \<open>The pieces of a range\<close>

text \<open>A piece: the page, the offset inside it and the number of bytes.\<close>

function pedazos :: "int \<Rightarrow> int \<Rightarrow> int \<Rightarrow> (int \<times> int \<times> int) list" where
  "pedazos T pos n =
     (if n \<le> 0 \<or> T \<le> 0 then []
      else let k = min n (T - pos mod T)
           in (pos div T, pos mod T, k) # pedazos T (pos + k) (n - k))"
  by pat_completeness auto
termination
proof (relation "measure (\<lambda>(T, pos, n). nat n)", simp)
  fix T pos n k :: int
  assume "\<not> (n \<le> 0 \<or> T \<le> 0)" "k = min n (T - pos mod T)"
  moreover from this have "pos mod T < T" by simp
  ultimately show "((T, pos + k, n - k), (T, pos, n)) \<in> measure (\<lambda>(T, pos, n). nat n)" by auto
qed

declare pedazos.simps [simp del]

lemma pedazos_Nil: "n \<le> 0 \<Longrightarrow> pedazos T pos n = []"
  by (simp add: pedazos.simps)

lemma pedazos_Cons:
  "0 < n \<Longrightarrow> 0 < T \<Longrightarrow> k = min n (T - pos mod T) \<Longrightarrow>
    pedazos T pos n = (pos div T, pos mod T, k) # pedazos T (pos + k) (n - k)"
  by (subst pedazos.simps) (simp add: Let_def)

definition accion :: "int \<times> int \<times> int \<Rightarrow> t_pagina_accion" where
  "accion p = (case p of (q, off, k) \<Rightarrow> (q, map (\<lambda>i. off + int i) [0..<nat k]))"

lemma armar_append: "armar_acciones E pos (is @ js) acc = armar_acciones E pos js (armar_acciones E pos is acc)"
  by (induction "is" arbitrary: acc) (simp_all add: Let_def)

lemma agregar_al_ultimo:
  "q \<notin> fst ` set acc \<Longrightarrow> agregar_direccion q d (acc @ [(q, os)]) = acc @ [(q, os @ [d])]"
  by (induction acc) auto

lemma obtener_ultimo:
  "obtener_pagina_accion_by_indice acc q = None \<longleftrightarrow> q \<notin> fst ` set acc"
  "obtener_pagina_accion_by_indice (acc @ [(q, os)]) q \<noteq> None"
  by (induction acc) (auto simp: obtener_pagina_accion_by_indice_def)

text \<open>The bytes of one page, when it was opened before and when it is new.\<close>

lemma armar_misma:
  assumes "\<forall>i\<in>set is. div_u32 (pos + int i) (tam_pag E) = q" "q \<notin> fst ` set acc"
  shows "armar_acciones E pos is (acc @ [(q, os)]) =
    acc @ [(q, os @ map (\<lambda>i. mod_u32 (pos + int i) (tam_pag E)) is)]"
  using assms(1)
proof (induction "is" arbitrary: os)
  case (Cons i js)
  then show ?case
    using obtener_ultimo(2) [of acc q os] agregar_al_ultimo [OF assms(2)]
    by (auto simp: Let_def split: option.split)
qed simp

lemma armar_nueva:
  assumes "\<forall>i\<in>set is. div_u32 (pos + int i) (tam_pag E) = q" "q \<notin> fst ` set acc" "is \<noteq> []"
  shows "armar_acciones E pos is acc = acc @ [(q, map (\<lambda>i. mod_u32 (pos + int i) (tam_pag E)) is)]"
proof -
  obtain i js where i: "is = i # js" using assms(3) by (cases "is") auto
  have "obtener_pagina_accion_by_indice acc q = None" using assms(2) obtener_ultimo(1) by blast
  then have "armar_acciones E pos is acc =
      armar_acciones E pos js (acc @ [(q, [mod_u32 (pos + int i) (tam_pag E)])])"
    using i assms(1) agregar_al_ultimo [OF assms(2), of _ "[]"] by (simp add: Let_def)
  also have "\<dots> = acc @ [(q, [mod_u32 (pos + int i) (tam_pag E)] @ map (\<lambda>i. mod_u32 (pos + int i) (tam_pag E)) js)]"
    by (rule armar_misma) (use assms i in auto)
  finally show ?thesis using i by simp
qed

lemma armar_desde:
  assumes "0 < tam_pag E" "tam_pag E < 4294967296" "0 \<le> pos" "pos + n < 4294967296" "0 \<le> i" "i \<le> n"
    and "\<forall>q\<in>fst ` set acc. q < (pos + i) div tam_pag E"
  shows "armar_acciones E pos [nat i..<nat n] acc = acc @ map accion (pedazos (tam_pag E) (pos + i) (n - i))"
  using assms
proof (induction "tam_pag E" "pos + i" "n - i" arbitrary: i acc rule: pedazos.induct)
  case 1
  show ?case
  proof (cases "n - i \<le> 0")
    case False
    let ?T = "tam_pag E" and ?x = "pos + i"
    define k where "k = min (n - i) (?T - ?x mod ?T)"
    have m: "0 \<le> ?x mod ?T" "?x mod ?T < ?T" using 1(2) by simp_all
    then have k: "0 < k" "k \<le> n - i" "?x mod ?T + k \<le> ?T" using False by (auto simp: k_def)
    have d: "div_u32 (pos + int j) ?T = ?x div ?T" "mod_u32 (pos + int j) ?T = ?x mod ?T + (int j - i)"
      if j: "nat i \<le> j" "j < nat (i + k)" for j
    proof -
      have "int (j - nat i) < k" using j 1(6) k by linarith
      from misma_pagina [OF _ 1(2) k(3) _ 1(3) this] show "div_u32 (pos + int j) ?T = ?x div ?T"
        "mod_u32 (pos + int j) ?T = ?x mod ?T + (int j - i)"
        using j 1 k by (auto simp: of_nat_diff)
    qed
    have "[nat i..<nat n] = [nat i..<nat (i + k)] @ [nat (i + k)..<nat n]"
      using k 1(6) upt_add_eq_append [of "nat i" "nat (i + k)" "nat n - nat (i + k)"] by simp
    moreover have "armar_acciones E pos [nat i..<nat (i + k)] acc = acc @ [accion (?x div ?T, ?x mod ?T, k)]"
    proof -
      have "armar_acciones E pos [nat i..<nat (i + k)] acc =
          acc @ [(?x div ?T, map (\<lambda>j. mod_u32 (pos + int j) ?T) [nat i..<nat (i + k)])]"
        by (rule armar_nueva) (use d 1 k in auto)
      moreover have "map (\<lambda>j. mod_u32 (pos + int j) ?T) [nat i..<nat (i + k)] =
          map (\<lambda>j. ?x mod ?T + int j) [0..<nat k]"
      proof (rule nth_equalityI)
        fix j assume "j < length (map (\<lambda>j. mod_u32 (pos + int j) ?T) [nat i..<nat (i + k)])"
        then have "j < nat k" using 1(6) k by (simp add: nat_add_distrib)
        then show "map (\<lambda>j. mod_u32 (pos + int j) ?T) [nat i..<nat (i + k)] ! j =
            map (\<lambda>j. ?x mod ?T + int j) [0..<nat k] ! j"
          using d(2) [of "nat i + j"] 1(6) k by (simp add: nat_add_distrib)
      qed (use 1(6) k in \<open>simp add: nat_add_distrib\<close>)
      ultimately show ?thesis by (simp add: accion_def)
    qed
    moreover have "armar_acciones E pos [nat (i + k)..<nat n] (acc @ [accion (?x div ?T, ?x mod ?T, k)]) =
      (acc @ [accion (?x div ?T, ?x mod ?T, k)]) @ map accion (pedazos ?T (pos + (i + k)) (n - (i + k)))"
      if "i + k < n"
    proof (rule 1(1) [OF _ k_def])
      have "k = ?T - ?x mod ?T" using that by (auto simp: k_def)
      then have "?x + k = ?T * (?x div ?T) + ?T" using mult_div_mod_eq [of ?T ?x] by linarith
      then have "?x + k = ?T * (?x div ?T + 1)" by (simp add: distrib_left)
      then have "(?x + k) div ?T = ?x div ?T + 1" using 1(2) by simp
      then show "\<forall>q\<in>fst ` set (acc @ [accion (?x div ?T, ?x mod ?T, k)]). q < (pos + (i + k)) div ?T"
        using 1(8) by (auto simp: accion_def add.assoc)
    qed (use 1(2-7) k(1,2) False that in auto)
    moreover have "pedazos ?T ?x (n - i) = (?x div ?T, ?x mod ?T, k) # pedazos ?T (?x + k) (n - i - k)"
      using pedazos_Cons [of "n - i" ?T k ?x] False 1(2) by (simp add: k_def)
    ultimately show ?thesis
      using k by (cases "i + k < n") (auto simp: armar_append algebra_simps pedazos_Nil)
  qed (use 1 in \<open>simp add: pedazos_Nil\<close>)
qed

lemma armar_pedazos:
  assumes "0 < tam_pag E" "tam_pag E < 4294967296" "0 \<le> pos" "0 \<le> n" "pos + n < 4294967296"
  shows "armar_acciones E pos [0..<nat n] [] = map accion (pedazos (tam_pag E) pos n)"
  using armar_desde [OF assms(1-3,5), of 0 "[]"] assms(4) by simp

end
