(* ===== verification/Memoria_Creacion.thy ===== *)
theory Memoria_Creacion
  imports Memoria_Virtual_Swamp
begin

section \<open>Memoria: start, new processes and new pages\<close>

text \<open>
  The memory process starts in the invariant of virtual memory, and registering a process and creating a
  page (in a free frame, or in that of a page that is sent to the swap server for it) keep it.
\<close>

subsection \<open>The two halves of the invariant\<close>

text \<open>What the invariant of virtual memory asks of the swap server.\<close>

definition guarda_ok :: "'s guarda \<Rightarrow> ('s \<Rightarrow> bool) \<Rightarrow> 's entorno \<Rightarrow> 's memoria \<Rightarrow> bool" where
  "guarda_ok G V E s \<longleftrightarrow> V (swamp s) \<and> solo_ausentes G s \<and>
     (\<forall>p\<in>paginas_de s. \<forall>g. heap s p = Some g \<longrightarrow> clave_ok (pag_pid g) (pag_pagina g) \<and>
        (if pag_presencia g \<noteq> 0 then G (swamp s) (pag_pid g, pag_pagina g) = None
         else \<exists>c. G (swamp s) (pag_pid g, pag_pagina g) = Some c \<and> list_size c = tam_pag E))"

lemma inv_virtual_guarda: "inv_virtual G V E s \<longleftrightarrow> inv_mem E s \<and> guarda_ok G V E s"
  by (auto simp: inv_virtual_def guarda_ok_def)

lemma guarda_ok_cong:
  assumes "swamp t = swamp s" "paginas_de t = paginas_de s" "\<And>p. p \<in> paginas_de s \<Longrightarrow> heap t p = heap s p"
  shows "guarda_ok G V E t = guarda_ok G V E s"
  using assms by (auto simp: guarda_ok_def solo_ausentes_def)

subsection \<open>Start\<close>

definition item_libre :: "t_tlb \<Rightarrow> bool" where
  "item_libre t \<longleftrightarrow> tlb_pid t = 0 \<and> tlb_marco t = - 1"

lemma create_tlb_desde_efecto:
  "\<exists>ts. tlb_list (create_tlb_desde E is s) = tlb_list s @ ts \<and> map tlb_entrada ts = map int is \<and>
    list_all item_libre ts \<and> datos (create_tlb_desde E is s) = datos s \<and>
    tlb_fifo_pointer (create_tlb_desde E is s) = tlb_fifo_pointer s"
proof (induction "is" arbitrary: s)
  case (Cons i "is")
  let ?t = "\<lambda>ts. \<lparr>tlb_entrada = int i, tlb_pid = 0, tlb_pagina = 0, tlb_marco = - 1, tlb_timestamp = ts\<rparr>"
  obtain ts s1 where c: "create_tlb_desde E (i # is) s = create_tlb_desde E is s1" "tlb_list s1 = tlb_list s @ [?t ts]"
    "datos s1 = datos s" "tlb_fifo_pointer s1 = tlb_fifo_pointer s"
    by (cases "es_tlb_lru E") (auto simp: obtenerTimeStampTLB_def datos_def)
  obtain us where u: "tlb_list (create_tlb_desde E is s1) = tlb_list s1 @ us" "map tlb_entrada us = map int is"
    "list_all item_libre us" "datos (create_tlb_desde E is s1) = datos s1"
    "tlb_fifo_pointer (create_tlb_desde E is s1) = tlb_fifo_pointer s1"
    using Cons.IH [of s1] by blast
  then show ?case unfolding c(1) using c(2-4) by (intro exI [of _ "?t ts # us"]) (simp, simp add: item_libre_def)
qed simp

text \<open>The configurations with which the process can work at all.\<close>

definition config_ok :: "'s entorno \<Rightarrow> bool" where
  "config_ok E \<longleftrightarrow> \<not> en_debug E \<and> 0 < tam_pag E \<and> tam_pag E < 2147483648 \<and> 0 \<le> tam_mem E \<and>
     tam_mem E < 2147483648 \<and> 0 < cantida_entradas_tlb (datosConfigMemoria E)"

lemma inicio_inv:
  assumes "config_ok E" "V w" "\<And>k. G w k = None"
  shows "inv_virtual G V E (inicializarMemoria E w)"
proof -
  have c: "\<not> en_debug E" "0 < tam_pag E" "tam_pag E < 2147483648" "0 \<le> tam_mem E" "tam_mem E < 2147483648"
    "0 < cantida_entradas_tlb (datosConfigMemoria E)"
    using assms(1) by (auto simp: config_ok_def)
  let ?s = "inicializarMemoria E w"
  obtain ts where s: "tlb_list ?s = ts" "marcos_list ?s = create_marcos E" "carpinchos_list ?s = []"
    "CACHE ?s = replicate (nat (tam_mem E)) CHR ''_''" "swamp ?s = w" "tlb_fifo_pointer ?s = 0"
    and ts: "map tlb_entrada ts = map int [0..<nat (cantida_entradas_tlb (datosConfigMemoria E))]"
    "list_all item_libre ts"
  proof -
    let ?ini = "\<lparr>CACHE = replicate (nat (tam_mem E)) CHR ''_'',
               cantidad_maxima_marcos = i32 (div_u32 (tam_mem E) (tam_pag E)),
               marcos_list = create_marcos E, carpinchos_list = [], contador_carpinchos = 0,
               contador_timestamp = 0, contador_timestamp_tlb = 0, algoritm_stack_pointer = 0,
               tlb_fifo_pointer = 0, tlb_list = [], mensajes_dump_list = [],
               tlb_hits_totales = 0, tlb_miss_totales = 0, heap = Map.empty, prox_ptr = 0,
               swamp = w\<rparr>"
    have e: "?s = create_tlb_desde E [0..<nat (cantida_entradas_tlb (datosConfigMemoria E))] ?ini"
      by (simp add: inicializarMemoria_def create_tlb_def Let_def)
    obtain us where u: "tlb_list ?s = us" "map tlb_entrada us = map int [0..<nat (cantida_entradas_tlb (datosConfigMemoria E))]"
      "list_all item_libre us" "datos ?s = datos ?ini" "tlb_fifo_pointer ?s = 0"
      using create_tlb_desde_efecto [of E "[0..<nat (cantida_entradas_tlb (datosConfigMemoria E))]" ?ini]
      unfolding e by auto
    show ?thesis using that [of us] u datos_eqD(1,2,5,7) [OF u(4)] by simp
  qed
  have q: "get_amount_marcos E = tam_mem E div tam_pag E"
    using c by (simp add: get_amount_marcos_def div_u32_def)
  then have "0 \<le> get_amount_marcos E" "get_amount_marcos E * tam_pag E \<le> tam_mem E"
    using c by (simp_all add: pos_imp_zdiv_nonneg_iff minus_mod_eq_div_mult [symmetric])
  then have "marcos_ok E ?s"
    using c s by (auto simp: marcos_ok_def create_marcos_def list_size_def)
  moreover have "tlb_ok E ?s"
  proof -
    have l: "length ts = nat (cantida_entradas_tlb (datosConfigMemoria E))"
      using arg_cong [OF ts(1), of length] by simp
    have "distinct (map tlb_entrada ts)" unfolding ts(1) by (simp add: distinct_map inj_on_def)
    then show ?thesis
      using c s l ts(2) by (auto simp: tlb_ok_def list_all_iff item_libre_def item_ok_def list_size_def)
  qed
  moreover have "procesos_ok ?s" "presencia_ok ?s" "paginas_de ?s = {}"
    using s by (auto simp: procesos_ok_def presencia_ok_def paginas_de_def create_marcos_def)
  ultimately show ?thesis
    using assms c(1) s(5) by (simp add: inv_virtual_def inv_mem_def solo_ausentes_def)
qed

subsection \<open>A new process\<close>

lemma create_carpincho_inv:
  assumes "inv_virtual G V E s" "pid \<noteq> 0"
  shows "inv_virtual G V E (create_carpincho pid s)"
proof (cases "exist_carpincho s pid")
  case False
  let ?t = "create_carpincho pid s"
  have n: "pid \<notin> crp_pid ` set (carpinchos_list s)"
    using False by (auto simp: exist_carpincho_def list_size_def filter_empty_conv)
  have t: "marcos_list ?t = marcos_list s" "CACHE ?t = CACHE s" "tlb_list ?t = tlb_list s" "heap ?t = heap s"
    "tlb_fifo_pointer ?t = tlb_fifo_pointer s" "prox_ptr ?t = prox_ptr s" "swamp ?t = swamp s"
    "\<exists>x. carpinchos_list ?t = carpinchos_list s @ [x] \<and> crp_pid x = pid \<and> crp_paginas x = []"
    using False by (simp_all add: create_carpincho_def)
  then have P: "paginas_de ?t = paginas_de s" by (auto simp: paginas_de_def)
  have "inv_mem E s" using assms(1) by (simp add: inv_virtual_def)
  then have "inv_mem E ?t"
    using t n assms(2) P
    by (auto simp: inv_mem_def marcos_ok_def tlb_ok_def procesos_ok_def paginas_ok_def presencia_ok_def)
  moreover have "guarda_ok G V E ?t"
    using guarda_ok_cong [of ?t s G V E] P t(4,7) assms(1) by (simp add: inv_virtual_guarda)
  ultimately show ?thesis by (simp add: inv_virtual_guarda)
qed (use assms in \<open>simp add: create_carpincho_def\<close>)

subsection \<open>Putting a new page into its frame\<close>

text \<open>The part of \<open>create_pagina\<close> behind the choice of the frame.\<close>

definition colocar :: "'s entorno \<Rightarrow> t_carpincho \<Rightarrow> ptr \<Rightarrow> int \<Rightarrow> 's memoria \<Rightarrow> (ptr \<times> 's memoria) option" where
  "colocar E c p marco s1 =
     do { let pagina = list_size (crp_paginas c) + 1;
          let s2 = modifica_marco marco
            (\<lambda>m. m\<lparr>mrc_pid := crp_pid c, mrc_pagina := pagina, mrc_isFree := False\<rparr>) s1;
          let g = (basura_pagina E p)\<lparr>pag_pagina := pagina, pag_pid := crp_pid c,
                     pag_carp_num := crp_numero c, pag_marco := marco, pag_presencia := 1\<rparr>;
          s3 \<leftarrow> actualizar_tlb E g marco s2;
          let (g1, s4) =
            (if es_m_clock E then (g\<lparr>pag_uso := 1, pag_modif := 0\<rparr>, s3)
             else let (ts, s') = obtenerTimeStamp s3 in (g\<lparr>pag_timestamp := ts\<rparr>, s'));
          let s5 = modifica_carpincho (crp_pid c) (\<lambda>c. c\<lparr>crp_paginas := crp_paginas c @ [p]\<rparr>)
                     (s4\<lparr>heap := (heap s4)(p \<mapsto> g1)\<rparr>);
          s6 \<leftarrow> imprimir_marcos E s5;
          Some (p, s6) }"

lemma create_pagina_colocar:
  "create_pagina E pid s =
     do { c \<leftarrow> get_carpincho s pid;
          before_value \<leftarrow> can_carpincho_add_marco_to_page E c s;
          let ini = s\<lparr>prox_ptr := Suc (prox_ptr s)\<rparr>;
          (marco, s1) \<leftarrow>
            (if before_value
             then do { m \<leftarrow> get_free_marco E ini; Some (mrc_marco m, ini) }
             else do { (n, s1) \<leftarrow> swampear_pagina_when_create_page E (crp_pid c) (list_size (crp_paginas c) + 1) ini;
                       m \<leftarrow> get_marco_by_marco_number s1 n;
                       Some (mrc_marco m, s1) });
          colocar E c (prox_ptr s) marco s1 }"
  by (simp add: create_pagina_def colocar_def Let_def)

text \<open>One more page for one process.\<close>

definition una_mas :: "int \<Rightarrow> ptr \<Rightarrow> (int \<times> ptr list) list \<Rightarrow> (int \<times> ptr list) list" where
  "una_mas pid p cs = map (\<lambda>(i, ps). if i = pid then (i, ps @ [p]) else (i, ps)) cs"

lemma fst_una_mas [simp]: "map fst (una_mas pid p cs) = map fst cs"
  by (auto simp: una_mas_def)

lemma procesos_vista_agregar:
  assumes "procesos_vista cs p V" "(pid, ps) \<in> set cs" "c \<in> {0, 1}"
  shows "procesos_vista (una_mas pid p cs) (Suc p) (V(p \<mapsto> (pid, int (length ps) + 1, c, d)))"
  unfolding procesos_vista_def
proof (intro conjI ballI)
  show "distinct (map fst (una_mas pid p cs))" using assms(1) by (simp add: procesos_vista_def)
  let ?V = "V(p \<mapsto> (pid, int (length ps) + 1, c, d))"
  fix x assume "x \<in> set (una_mas pid p cs)"
  then obtain i qs where q: "(i, qs) \<in> set cs" "x = (if i = pid then (i, qs @ [p]) else (i, qs))"
    by (auto simp: una_mas_def)
  have w: "i \<noteq> 0" "\<forall>q\<in>set qs. q < p" "\<forall>k<length qs. \<exists>c\<in>{0, 1}. \<exists>d. V (qs ! k) = Some (i, int k + 1, c, d)"
    using assms(1) q(1) unfolding procesos_vista_def by auto
  have v: "\<exists>c\<in>{0, 1}. \<exists>d. ?V (qs ! k) = Some (i, int k + 1, c, d)" if "k < length qs" for k
  proof -
    have "qs ! k \<noteq> p" using w(2) that by force
    then show ?thesis using w(3) that by simp
  qed
  have "qs = ps" if "i = pid"
    using assms(1,2) q(1) that eq_key_imp_eq_value [of cs pid qs ps] by (simp add: procesos_vista_def)
  then show "case x of (i, qs) \<Rightarrow> i \<noteq> 0 \<and> (\<forall>q\<in>set qs. q < Suc p) \<and>
      (\<forall>k<length qs. \<exists>c\<in>{0, 1}. \<exists>d. ?V (qs ! k) = Some (i, int k + 1, c, d))"
    using q(2) w v assms(3) by (auto simp: nth_append less_Suc_eq)
qed

lemma colocar_ok:
  assumes nd: "\<not> en_debug E" and ok: "marcos_ok E s1" "tlb_ok E s1" and srt: "ordena (list_sort_tlb E)"
    and pr: "procesos_vista (pids_paginas s1) p (vista s1)" "prox_ptr s1 = Suc p"
    and c: "(crp_pid c, crp_paginas c) \<in> set (pids_paginas s1)"
    and ps: "presencia_salvo (paginas_de s1) (marcos_list s1) (vista s1) m"
    and m: "0 \<le> m" "m < list_size (marcos_list s1)"
    and no: "\<And>t. t \<in> set (tlb_list s1) \<Longrightarrow> tlb_marco t \<noteq> m"
  obtains t g where "colocar E c p m s1 = Some (p, t)" "inv_mem E t" "heap t = (heap s1)(p \<mapsto> g)"
    "clave_pag g = (crp_pid c, list_size (crp_paginas c) + 1, 1, m)" "CACHE t = CACHE s1" "swamp t = swamp s1"
    "pids_paginas t = una_mas (crp_pid c) p (pids_paginas s1)"
proof -
  let ?n = "list_size (crp_paginas c) + 1"
  let ?f = "\<lambda>m. m\<lparr>mrc_pid := crp_pid c, mrc_pagina := ?n, mrc_isFree := False\<rparr>"
  let ?s2 = "modifica_marco m ?f s1" and ?x = "?f (marcos_list s1 ! nat m)"
  let ?g = "(basura_pagina E p)\<lparr>pag_pagina := ?n, pag_pid := crp_pid c,
              pag_carp_num := crp_numero c, pag_marco := m, pag_presencia := 1\<rparr>"
  have pid: "crp_pid c \<noteq> 0" using pr(1) c by (auto simp: procesos_vista_def)
  have i: "nat m < length (marcos_list s1)" using m by (simp add: list_size_def)
  have l2: "marcos_list ?s2 = (marcos_list s1)[nat m := ?x]" using modifica_marco_lista [OF ok(1) m] .
  have r2: "tlb_list ?s2 = tlb_list s1" "tlb_fifo_pointer ?s2 = tlb_fifo_pointer s1" "heap ?s2 = heap s1"
    "CACHE ?s2 = CACHE s1" "swamp ?s2 = swamp s1" "carpinchos_list ?s2 = carpinchos_list s1" "prox_ptr ?s2 = prox_ptr s1"
    by (simp_all add: modifica_marco_def)
  have t2: "tlb_ok E ?s2" by (rule tlb_ok_otro_marco [OF ok(2) no r2(1,2) l2 m(1)])
  have oc: "ocupa (marcos_list ?s2) m (pag_pid ?g) (pag_pagina ?g)"
    unfolding l2 using i m(1) by (simp add: ocupa_def list_size_def)
  obtain s3 where s3: "actualizar_tlb E ?g m ?s2 = Some s3" "datos s3 = datos ?s2" "tlb_ok E s3"
    using actualizar_tlb_ok [OF nd t2 srt oc] pid no r2(1) by auto
  obtain g s4 where g: "(if es_m_clock E then (?g\<lparr>pag_uso := 1, pag_modif := 0\<rparr>, s3)
      else let (ts, s') = obtenerTimeStamp s3 in (?g\<lparr>pag_timestamp := ts\<rparr>, s')) = (g, s4)"
    by fastforce
  have g': "clave_pag g = (crp_pid c, ?n, 1, m)" and s4: "misma_tlb s3 s4"
    using g obtenerTimeStamp_misma [OF surjective_pairing, of s3]
    by (auto simp: clave_pag_def Let_def split_beta split: if_splits)
  have t4: "tlb_ok E s4" using misma_tlb_ok [OF s4 s3(3)] .
  have d: "datos s4 = datos ?s2" using s4 s3(2) by (simp add: misma_tlb_def)
  note d4 = datos_eqD [OF d]
  let ?t = "modifica_carpincho (crp_pid c) (\<lambda>c. c\<lparr>crp_paginas := crp_paginas c @ [p]\<rparr>)
                     (s4\<lparr>heap := (heap s4)(p \<mapsto> g)\<rparr>)"
  have t: "heap ?t = (heap s1)(p \<mapsto> g)" "CACHE ?t = CACHE s1" "swamp ?t = swamp s1" "prox_ptr ?t = Suc p"
    "marcos_list ?t = (marcos_list s1)[nat m := ?x]" "tlb_list ?t = tlb_list s4" "tlb_fifo_pointer ?t = tlb_fifo_pointer s4"
    using d4 l2 r2 pr(2) by (simp_all add: modifica_carpincho_def)
  have pp: "pids_paginas ?t = una_mas (crp_pid c) p (pids_paginas s1)"
  proof -
    have "pids_paginas ?t = una_mas (crp_pid c) p (pids_paginas s4)"
      by (auto simp: modifica_carpincho_def una_mas_def)
    then show ?thesis using datos_proyeccion(4) [OF d4(7)] r2(6) by simp
  qed
  have "colocar E c p m s1 = Some (p, ?t)"
    using s3(1) g nd by (simp add: colocar_def Let_def)
  moreover have "inv_mem E ?t"
  proof -
    have v: "vista ?t = (vista s1)(p \<mapsto> (crp_pid c, ?n, 1, m))" using vista_upd [OF t(1)] g' by simp
    have lt: "q < p" if "q \<in> paginas_de s1" for q
      using that pr(1) unfolding paginas_de_pids procesos_vista_def by auto
    have P: "paginas_de ?t = insert p (paginas_de s1)"
      using c unfolding paginas_de_pids pp by (auto simp: una_mas_def split: if_splits)
    have "marcos_ok E ?t"
      by (rule marcos_ok_update [OF ok(1) t(5)]) (use t(2) ok(1) i m(1) in \<open>auto simp: marcos_ok_def\<close>)
    moreover have "tlb_ok E ?t" using t4 t(5-7) d4(2) l2 by (simp add: tlb_ok_def)
    moreover have "procesos_ok ?t"
      unfolding procesos_ok_vista pp v t(4) list_size_def by (rule procesos_vista_agregar [OF pr(1) c]) simp
    moreover have "presencia_ok ?t"
      unfolding presencia_ok_vista P v t(5)
      by (rule presencia_ocupar [OF ps m]) (use lt in auto)
    ultimately show ?thesis using nd by (simp add: inv_mem_def)
  qed
  ultimately show ?thesis using that t(1-3) g' pp by blast
qed

subsection \<open>The swap server and the other pages\<close>

lemma colocada_guarda:
  assumes g: "guarda_ok G V E s1" "G (swamp s1) k = None" "clave_ok (fst k) (snd k)"
    and p: "p \<notin> paginas_de s1" "paginas_de t = insert p (paginas_de s1)"
    and t: "heap t = (heap s1)(p \<mapsto> f)" "clave_pag f = (fst k, snd k, 1, m)" "swamp t = swamp s1"
  shows "guarda_ok G V E t"
proof -
  have f: "pag_pid f = fst k" "pag_pagina f = snd k" "pag_presencia f = 1" using t(2) by (auto simp: clave_pag_def)
  have h: "heap t q = heap s1 q" if "q \<in> paginas_de s1" for q using that p(1) t(1) by auto
  have "solo_ausentes G t"
    using g(1) p(2) h t(3) unfolding guarda_ok_def solo_ausentes_def by (metis insertCI)
  then show ?thesis
    using g p h t(1,3) f unfolding guarda_ok_def by (auto split: if_splits)
qed

lemma colocada_contenido:
  assumes "heap t = (heap s1)(p \<mapsto> f)" "CACHE t = CACHE s1" "swamp t = swamp s1" "q \<noteq> p"
  shows "contenido G E t q = contenido G E s1 q"
  using assms by (simp add: contenido_def bytes_marco_def split: option.split)

text \<open>The next number of a process is not in use, in memory or in the swap server.\<close>

lemma numero_de_pagina:
  assumes "procesos_ok s" "get_carpincho s pid = Some c" "p \<in> paginas_de s" "heap s p = Some g" "pag_pid g = pid"
  shows "pag_pagina g \<le> list_size (crp_paginas c)"
proof -
  obtain c' where c': "get_carpincho s (pag_pid g) = Some c'" "c' \<in> set (carpinchos_list s)" "p \<in> set (crp_paginas c')"
    using pagina_viva_de(5) [OF assms(1,3,4)] by blast
  then have "c' = c" using assms(2,5) by simp
  moreover obtain k where k: "k < length (crp_paginas c')" "crp_paginas c' ! k = p" using c'(3) by (meson in_set_conv_nth)
  moreover have "paginas_ok (heap s) c'" using assms(1) c'(2) by (simp add: procesos_ok_def)
  ultimately show ?thesis using assms(4) by (fastforce simp: paginas_ok_def list_size_def)
qed

lemma numero_nuevo:
  assumes "inv_virtual G V E s" "get_carpincho s pid = Some c"
  shows "G (swamp s) (pid, list_size (crp_paginas c) + 1) = None"
proof (rule ccontr)
  assume "G (swamp s) (pid, list_size (crp_paginas c) + 1) \<noteq> None"
  from inv_virtual_ausente [OF assms(1) this] obtain p g where p: "p \<in> paginas_de s" "heap s p = Some g"
    "(pid, list_size (crp_paginas c) + 1) = (pag_pid g, pag_pagina g)" by metis
  have "procesos_ok s" using assms(1) by (simp add: inv_virtual_def inv_mem_def)
  from numero_de_pagina [OF this assms(2) p(1,2)] p(3) show False by simp
qed

subsection \<open>A page in a free frame\<close>

lemma item_no_libre:
  assumes "tlb_ok E s" "0 \<le> m" "mrc_isFree (marcos_list s ! nat m)" "t \<in> set (tlb_list s)"
  shows "tlb_marco t \<noteq> m"
proof -
  have "item_ok (marcos_list s) t" using assms(1,4) by (simp add: tlb_ok_def)
  then show ?thesis using assms(2,3) by (auto simp: item_ok_def ocupa_def split: if_splits)
qed

lemma marco_libre:
  assumes "marcos_ok E s" "ordena (list_sort_marco E)" "any_marco_free s"
  obtains x where "get_free_marco E s = Some x" "0 \<le> mrc_marco x" "mrc_marco x < list_size (marcos_list s)"
    "mrc_isFree (marcos_list s ! nat (mrc_marco x))"
proof -
  have "filter mrc_isFree (marcos_list s) \<noteq> []" using assms(3) by (auto simp: any_marco_free_def list_size_def)
  then obtain x where x: "get_free_marco E s = Some x" "x \<in> set (filter mrc_isFree (marcos_list s))"
    using ordena_first [OF assms(2), of "filter mrc_isFree (marcos_list s)" mrc_marco]
    unfolding get_free_marco_def by metis
  then obtain i where "i < length (marcos_list s)" "marcos_list s ! i = x" "mrc_isFree x"
    by (auto simp: in_set_conv_nth)
  moreover from this have "mrc_marco x = int i" using assms(1) by (auto simp: marcos_ok_def)
  ultimately show ?thesis using that [OF x(1)] by (simp add: list_size_def)
qed

text \<open>The next address is fresh, and reserving it changes nothing else.\<close>

lemma reservar:
  assumes "inv_virtual G V E s"
  shows "inv_virtual G V E (s\<lparr>prox_ptr := Suc (prox_ptr s)\<rparr>)"
    "procesos_vista (pids_paginas s) (prox_ptr s) (vista s)" "prox_ptr s \<notin> paginas_de s"
proof -
  let ?t = "s\<lparr>prox_ptr := Suc (prox_ptr s)\<rparr>"
  have im: "inv_mem E s" "procesos_ok s" using assms by (auto simp: inv_virtual_def inv_mem_def)
  have P: "paginas_de ?t = paginas_de s" by (simp add: paginas_de_def)
  have "inv_mem E ?t"
    using im P by (auto simp: inv_mem_def marcos_ok_def tlb_ok_def procesos_ok_def presencia_ok_def less_Suc_eq)
  then show "inv_virtual G V E ?t"
    using assms guarda_ok_cong [of ?t s G V E] P by (simp add: inv_virtual_guarda)
  show "procesos_vista (pids_paginas s) (prox_ptr s) (vista s)" using im(2) by (simp add: procesos_ok_vista)
  show "prox_ptr s \<notin> paginas_de s" using im(2) by (auto simp: procesos_ok_def paginas_de_def)
qed

text \<open>The state after the creation of a page for \<open>pid\<close>: one more page, present, and no other page changed
  but the victim \<open>v\<close>, if there was one.\<close>

definition creada ::
  "'s guarda \<Rightarrow> ('s \<Rightarrow> bool) \<Rightarrow> (char list \<Rightarrow> char list) \<Rightarrow> 's entorno \<Rightarrow> int \<Rightarrow> ptr option \<Rightarrow>
   's memoria \<Rightarrow> 's memoria \<Rightarrow> bool"
where
  "creada G V R E pid v s t \<longleftrightarrow>
     inv_virtual G V E t \<and> pids_paginas t = una_mas pid (prox_ptr s) (pids_paginas s) \<and>
     (\<exists>g. heap t (prox_ptr s) = Some g \<and> pag_presencia g = 1) \<and> otras_paginas G R E (prox_ptr s) v s t"

lemma pids_paginas_mem: "c \<in> set (carpinchos_list s) \<Longrightarrow> (crp_pid c, crp_paginas c) \<in> set (pids_paginas s)"
  by force

lemma paginas_de_una_mas:
  assumes "pids_paginas t = una_mas pid p (pids_paginas s)" "(pid, ps) \<in> set (pids_paginas s)"
  shows "paginas_de t = insert p (paginas_de s)"
  using assms(2) unfolding paginas_de_pids assms(1) by (auto simp: una_mas_def split: if_splits)

lemma crear_libre:
  assumes inv: "inv_virtual G V E s" and srt: "ordenes_ok E" and c: "get_carpincho s pid = Some c"
    and libre: "can_carpincho_add_marco_to_page E c s = Some True"
    and k: "clave_ok pid (list_size (crp_paginas c) + 1)"
  obtains t where "create_pagina E pid s = Some (prox_ptr s, t)" "creada G V R E pid None s t" "swamp t = swamp s"
proof -
  let ?p = "prox_ptr s" and ?i = "s\<lparr>prox_ptr := Suc (prox_ptr s)\<rparr>"
  note res = reservar [OF inv]
  have im: "inv_mem E ?i" and gi: "guarda_ok G V E ?i" using res(1) by (simp_all add: inv_virtual_guarda)
  have ok: "\<not> en_debug E" "marcos_ok E ?i" "tlb_ok E ?i" "presencia_ok ?i" using im by (auto simp: inv_mem_def)
  have cm: "c \<in> set (carpinchos_list s)" "crp_pid c = pid" using get_carpinchoD [OF c] by auto
  have "any_marco_free ?i"
    using libre by (auto simp: can_carpincho_add_marco_to_page_def any_marco_free_def bind_eq_Some_conv split: if_splits)
  then obtain x where x: "get_free_marco E ?i = Some x" "0 \<le> mrc_marco x" "mrc_marco x < list_size (marcos_list ?i)"
    "mrc_isFree (marcos_list ?i ! nat (mrc_marco x))"
    using marco_libre [OF ok(2)] srt by (metis ordenes_ok_def)
  let ?m = "mrc_marco x"
  have P: "paginas_de ?i = paginas_de s" "vista ?i = vista s" by (simp_all add: paginas_de_def vista_def fun_eq_iff)
  have "presencia_salvo (paginas_de ?i) (marcos_list ?i) (vista ?i) ?m"
    using presencia_libre [OF _ x(2-4)] ok(4) by (simp add: presencia_ok_vista)
  moreover have "procesos_vista (pids_paginas ?i) ?p (vista ?i)" using res(2) P(2) by simp
  ultimately obtain t f where t: "colocar E c ?p ?m ?i = Some (?p, t)" "inv_mem E t" "heap t = (heap ?i)(?p \<mapsto> f)"
    "clave_pag f = (crp_pid c, list_size (crp_paginas c) + 1, 1, ?m)" "CACHE t = CACHE ?i" "swamp t = swamp ?i"
    "pids_paginas t = una_mas (crp_pid c) ?p (pids_paginas ?i)"
    using colocar_ok [OF ok(1-3), of ?p c ?m] srt x(2,3) item_no_libre [OF ok(3) x(2,4)] pids_paginas_mem [OF cm(1)]
    by (auto simp: ordenes_ok_def)
  have cr: "create_pagina E pid s = Some (?p, t)"
    using c libre x(1) t(1) by (simp add: create_pagina_colocar)
  have Pt: "paginas_de t = insert ?p (paginas_de ?i)"
    using paginas_de_una_mas [OF t(7) pids_paginas_mem] cm(1) by simp
  have "guarda_ok G V E t"
    by (rule colocada_guarda [OF gi, of "(pid, list_size (crp_paginas c) + 1)"])
      (use numero_nuevo [OF inv c] k res(3) P(1) Pt t(3,4,6) cm(2) in simp_all)
  moreover have "contenido G E ?i q = contenido G E s q" for q
    by (simp add: contenido_def bytes_marco_def split: option.split)
  then have "otras_paginas G R E ?p None s t"
    using colocada_contenido [OF t(3,5,6)] by (simp add: otras_paginas_def)
  ultimately show ?thesis
    using that [OF cr] t cm(2) by (auto simp: creada_def inv_virtual_guarda clave_pag_def)
qed

subsection \<open>A page in the frame of another one\<close>

lemma presencia_salvo_update:
  assumes "presencia_salvo P ms V m" "0 \<le> m"
  shows "presencia_salvo P (ms[nat m := x]) V m"
  unfolding presencia_salvo_def
proof (intro conjI ballI allI impI)
  fix q a b c d assume "q \<in> P" "V q = Some (a, b, c, d)" "c \<noteq> 0"
  then have *: "d \<noteq> m" "ocupa ms d a b" using assms(1) unfolding presencia_salvo_def by blast+
  moreover from *(2) have "0 \<le> d" by (simp add: ocupa_def)
  ultimately show "d \<noteq> m" "ocupa (ms[nat m := x]) d a b" using ocupa_update assms(2) by blast+
next
  fix i assume i: "i < length (ms[nat m := x])" "int i \<noteq> m"
  then have "nat m \<noteq> i" "i < length ms" using assms(2) by auto
  then show "if mrc_isFree (ms[nat m := x] ! i) then mrc_pid (ms[nat m := x] ! i) = 0 \<and> mrc_pagina (ms[nat m := x] ! i) = 0
    else \<exists>p\<in>P. \<exists>c. c \<noteq> 0 \<and> V p = Some (mrc_pid (ms[nat m := x] ! i), mrc_pagina (ms[nat m := x] ! i), c, int i)"
    using assms(1) i(2) unfolding presencia_salvo_def by simp
qed

text \<open>What is left when a present page has been sent away.\<close>

lemma desalojada_marcos:
  assumes inv: "inv_mem E s" and v: "v \<in> paginas_de s" "heap s v = Some g" "pag_presencia g \<noteq> 0"
    and d: "desalojado E v g pid n w s t"
  shows "marcos_ok E t" "0 \<le> pag_marco g" "pag_marco g < list_size (marcos_list t)"
    "\<exists>x. get_marco_by_marco_number t (pag_marco g) = Some x \<and> mrc_marco x = pag_marco g"
    "presencia_salvo (paginas_de t) (marcos_list t) (vista t) (pag_marco g)"
    "procesos_vista cs k (vista s) \<Longrightarrow> procesos_vista cs k (vista t)"
proof -
  let ?m = "pag_marco g"
  let ?x = "(marcos_list s ! nat ?m)\<lparr>mrc_pagina := n, mrc_pid := pid, mrc_isFree := False\<rparr>"
  have ok: "marcos_ok E s" "presencia_ok s" "procesos_ok s" using inv by (auto simp: inv_mem_def)
  have m: "0 \<le> ?m" "?m < list_size (marcos_list s)"
    using presente_ocupa [OF ok(2) v] by (auto simp: ocupa_def)
  have x: "marcos_list t = (marcos_list s)[nat ?m := ?x]" "mrc_marco ?x = ?m"
    using d ok(1) m by (auto simp: desalojado_def marcos_ok_def list_size_def)
  show mok: "marcos_ok E t"
    by (rule marcos_ok_update [OF ok(1) x(1)]) (use d x(2) m(1) in \<open>simp_all add: desalojado_def\<close>)
  show "0 \<le> ?m" and m2: "?m < list_size (marcos_list t)" using m x(1) by (simp_all add: list_size_def)
  show "\<exists>x. get_marco_by_marco_number t ?m = Some x \<and> mrc_marco x = ?m"
    using marco_por_numero [OF mok m(1) m2] x m by (simp add: list_size_def)
  have Vv: "vista s v = Some (pag_pid g, pag_pagina g, pag_presencia g, ?m)"
    using v(2) by (simp add: vista_def clave_pag_def)
  have vt: "vista t = (vista s)(v \<mapsto> (pag_pid g, pag_pagina g, 0, 0))"
    using d vista_upd [of t s v] by (simp add: clave_pag_def desalojado_def)
  have P: "paginas_de t = paginas_de s" using d paginas_de_cong [of t s] by (simp add: desalojado_def)
  show "presencia_salvo (paginas_de t) (marcos_list t) (vista t) ?m"
    unfolding P x(1) vt
  proof (rule presencia_salvo_update [OF presencia_desocupar m(1)])
    show "presencia_vista (paginas_de s) (marcos_list s) (vista s)" using ok(2) by (simp add: presencia_ok_vista)
    show "v \<in> paginas_de s" "vista s v = Some (pag_pid g, pag_pagina g, pag_presencia g, ?m)"
      "pag_presencia g \<noteq> 0" by (fact v(1) Vv v(3))+
    show "q = v" if "q \<in> paginas_de s" "vista s q = Some (pag_pid g, pag_pagina g, c', e)" for q c' e
      using that pagina_unica [OF ok(3) _ v(1) _ v(2), of q] by (auto simp: vista_Some)
  qed
  show "procesos_vista cs k (vista t)" if "procesos_vista cs k (vista s)"
    unfolding vt by (rule procesos_vista_upd [OF that Vv]) simp
qed

lemma desalojada_guarda:
  assumes inv: "inv_virtual G V E s" and v: "v \<in> paginas_de s" "heap s v = Some g" "pag_presencia g \<noteq> 0"
    and d: "desalojado E v g pid n w s t"
    and w: "V w" "G w = (G (swamp s))((pag_pid g, pag_pagina g) \<mapsto> b)" "list_size b = tam_pag E"
  shows "guarda_ok G V E t"
    "q \<in> paginas_de s \<Longrightarrow> contenido G E t q = (if q = v then b else contenido G E s q)"
proof -
  have im: "inv_mem E s" and ok: "procesos_ok s" "presencia_ok s" using inv by (auto simp: inv_virtual_def inv_mem_def)
  have t: "heap t = (heap s)(v \<mapsto> g\<lparr>pag_presencia := 0, pag_marco := 0\<rparr>)" "swamp t = w" "paginas_de t = paginas_de s"
    using d paginas_de_cong [of t s] by (simp_all add: desalojado_def)
  have otra: "G w (pag_pid f, pag_pagina f) = G (swamp s) (pag_pid f, pag_pagina f)"
    if "q \<in> paginas_de s" "heap s q = Some f" "q \<noteq> v" for q f
  proof -
    have "(pag_pid f, pag_pagina f) \<noteq> (pag_pid g, pag_pagina g)"
      using pagina_unica [OF ok(1) that(1) v(1) that(2) v(2)] that(3) by auto
    then show ?thesis unfolding w(2) by (rule fun_upd_other)
  qed
  have "solo_ausentes G t"
    unfolding solo_ausentes_def
  proof (intro allI impI)
    fix k assume k: "G (swamp t) k \<noteq> None"
    show "\<exists>q\<in>paginas_de t. \<exists>f. heap t q = Some f \<and> pag_presencia f = 0 \<and> k = (pag_pid f, pag_pagina f)"
    proof (cases "k = (pag_pid g, pag_pagina g)")
      case True
      then show ?thesis using v(1) t by (intro bexI [of _ v]) simp_all
    next
      case False
      then have "G (swamp s) k \<noteq> None" using k w(2) t(2) by simp
      from inv_virtual_ausente [OF inv this] obtain q f where q: "q \<in> paginas_de s" "heap s q = Some f"
        "pag_presencia f = 0" "k = (pag_pid f, pag_pagina f)" .
      then have "q \<noteq> v" using v(2,3) by auto
      then show ?thesis using q t by (intro bexI [of _ q]) simp_all
    qed
  qed
  moreover have "clave_ok (pag_pid f) (pag_pagina f) \<and>
        (if pag_presencia f \<noteq> 0 then G (swamp t) (pag_pid f, pag_pagina f) = None
         else \<exists>c. G (swamp t) (pag_pid f, pag_pagina f) = Some c \<and> list_size c = tam_pag E)"
    if q: "q \<in> paginas_de t" "heap t q = Some f" for q f
  proof (cases "q = v")
    case True
    then have "f = g\<lparr>pag_presencia := 0, pag_marco := 0\<rparr>" using q(2) t(1) by simp
    then show ?thesis using inv_virtualD(1) [OF inv v(1,2)] w(2,3) t(2) by simp
  next
    case False
    then have f: "q \<in> paginas_de s" "heap s q = Some f" using q t by simp_all
    show ?thesis using inv_virtualD [OF inv f] otra [OF f False] t(2) by simp
  qed
  ultimately show "guarda_ok G V E t" using w(1) t(2) unfolding guarda_ok_def by blast
  assume q: "q \<in> paginas_de s"
  obtain f where f: "heap s q = Some f" using pagina_viva [OF ok(1) q] by metis
  show "contenido G E t q = (if q = v then b else contenido G E s q)"
  proof (cases "q = v")
    case True
    then show ?thesis using t(1,2) w(2) by (simp add: contenido_def)
  next
    case False
    have "0 \<le> pag_marco f \<and> pag_marco f \<noteq> pag_marco g" if "pag_presencia f \<noteq> 0"
      using presente_ocupa [OF ok(2) q f that] marcos_distintos [OF im q v(1) False f v(2) that v(3)]
      by (simp add: ocupa_def)
    then show ?thesis using False f t(1,2) otra [OF q f False] d by (simp add: contenido_def desalojado_def)
  qed
qed

context servidor_swap
begin

lemma crear_desalojando:
  assumes con: "conexion escribir leer M R E" and inv: "inv_virtual G V E s" and c: "get_carpincho s pid = Some c"
    and lleno: "can_carpincho_add_marco_to_page E c s = Some False"
    and k: "clave_ok pid (list_size (crp_paginas c) + 1)"
    and li: "0 < libres (swamp s)" and q: "candidata E s pid q"
  obtains t v where "create_pagina E pid s = Some (prox_ptr s, t)" "victima_lru E s pid v"
    "creada G V R E pid (Some v) s t" "Suc (libres (swamp t)) = libres (swamp s)"
proof -
  let ?p = "prox_ptr s" and ?n = "list_size (crp_paginas c) + 1"
  let ?i = "s\<lparr>prox_ptr := Suc (prox_ptr s)\<rparr>"
  have E: "srv_escribir E = escribir" "\<not> es_m_clock E" "ordenes_ok E" "mensajes_ok M R E"
    using con unfolding conexion_def by blast+
  note res = reservar [OF inv]
  have im: "inv_mem E ?i" using res(1) by (simp add: inv_virtual_guarda)
  have ok: "\<not> en_debug E" "marcos_ok E ?i" "presencia_ok ?i" "procesos_ok ?i" using im by (auto simp: inv_mem_def)
  have cm: "c \<in> set (carpinchos_list s)" "crp_pid c = pid" using get_carpinchoD [OF c] by auto
  have P: "paginas_de ?i = paginas_de s" "vista ?i = vista s" by (simp_all add: paginas_de_def vista_def fun_eq_iff)
  have ci: "get_carpincho ?i pid = Some c" "candidata E ?i pid q" "victima_lru E ?i = victima_lru E s"
    using c q P(1) by (simp_all add: get_carpincho_def candidata_def victima_lru_def clave_timestamp_def fun_eq_iff)
  have li': "0 < libres (swamp ?i)" using li by simp
  obtain ps v g w s2 where ps: "candidatas E pid ?i = Some ps" "elegir_victima E ps ?i = Some (v, ?i)"
    "victima_lru E ?i pid v" and v: "v \<in> paginas_de ?i" "heap ?i v = Some g" "pag_presencia g \<noteq> 0"
    and s2: "desalojar E v pid ?n ?i = Some (pag_marco g, s2)" "desalojado E v g pid ?n w ?i s2"
    and w: "V w" "G w = (G (swamp ?i))((pag_pid g, pag_pagina g) \<mapsto> degradada R E (bytes_marco E ?i (pag_marco g)))"
      "list_size (degradada R E (bytes_marco E ?i (pag_marco g))) = tam_pag E" "Suc (libres w) = libres (swamp ?i)"
    using expulsar [OF E res(1) li' ci(1,2)] .
  let ?m = "pag_marco g" and ?kv = "(pag_pid g, pag_pagina g)"
  have d: "heap s2 = (heap s)(v \<mapsto> g\<lparr>pag_presencia := 0, pag_marco := 0\<rparr>)" "swamp s2 = w" "prox_ptr s2 = Suc ?p"
    "carpinchos_list s2 = carpinchos_list s" "tlb_ok E s2" "\<And>t. t \<in> set (tlb_list s2) \<Longrightarrow> tlb_marco t \<noteq> ?m"
    using s2(2) by (simp_all add: desalojado_def)
  note ma = desalojada_marcos [OF im v s2(2)]
  have P2: "paginas_de s2 = paginas_de s" "pids_paginas s2 = pids_paginas s"
    using paginas_de_cong [of s2 s] d(4) by simp_all
  have pv: "procesos_vista (pids_paginas s2) ?p (vista s2)" using ma(6) res(2) P(2) P2(2) by simp
  note cp = pids_paginas_mem [OF cm(1), folded P2(2)]
  obtain t f where t: "colocar E c ?p ?m s2 = Some (?p, t)" "inv_mem E t" "heap t = (heap s2)(?p \<mapsto> f)"
    "clave_pag f = (crp_pid c, list_size (crp_paginas c) + 1, 1, ?m)" "CACHE t = CACHE s2" "swamp t = swamp s2"
    "pids_paginas t = una_mas (crp_pid c) ?p (pids_paginas s2)"
    using colocar_ok [OF ok(1) ma(1) d(5) _ pv d(3) cp ma(5,2,3) d(6)] E(3) by (auto simp: ordenes_ok_def)
  have cr: "create_pagina E pid s = Some (?p, t)"
    using c lleno ps(1,2) s2(1) ma(4) t(1) cm(2)
    by (auto simp: create_pagina_colocar swampear_pagina_when_create_page_def)
  have wk: "G w (pid, ?n) = None"
  proof -
    have "?kv \<noteq> (pid, ?n)" using numero_de_pagina [OF ok(4) ci(1) v(1,2)] by auto
    then have "G w (pid, ?n) = G (swamp s) (pid, ?n)" using w(2) by auto
    then show ?thesis using numero_nuevo [OF inv c] by simp
  qed
  note des = desalojada_guarda [OF res(1) v s2(2) w(1-3)]
  have gt: "guarda_ok G V E t"
    by (rule colocada_guarda [of G V E s2 "(pid, ?n)"])
      (use des(1) w(2) wk k d(2) P2(1) res(3) t(3,4,6) cm(2) paginas_de_una_mas [OF t(7) cp] in simp_all)
  have cont: "contenido G E ?i a = contenido G E s a" for a
    by (simp add: contenido_def bytes_marco_def split: option.split)
  have "contenido G E s v = bytes_marco E ?i ?m" using contenido_presente [OF v(2,3), of G E] by (simp add: cont)
  then have "contenido G E s2 a = (if a = v then degradada R E (contenido G E s v) else contenido G E s a)"
    if "a \<in> paginas_de s" for a
    using des(2) [of a] P(1) that by (simp add: cont)
  then have "otras_paginas G R E ?p (Some v) s t"
    using colocada_contenido [OF t(3,5,6)] by (simp add: otras_paginas_def)
  then have "creada G V R E pid (Some v) s t"
    using gt t(2-4,7) cm(2) P2(2) by (auto simp: creada_def inv_virtual_guarda clave_pag_def)
  then show ?thesis using that [OF cr] ps(3) ci(3) w(4) t(6) d(2) by simp
qed

end

subsection \<open>A new page, in either case\<close>

text \<open>The creation of a page for the process \<open>c\<close> has a frame: a free one that the process may take, or that of a
  candidate, which the swap server has room for.\<close>

definition hay_marco :: "('s \<Rightarrow> nat) \<Rightarrow> 's entorno \<Rightarrow> t_carpincho \<Rightarrow> 's memoria \<Rightarrow> bool" where
  "hay_marco libres E c s \<longleftrightarrow> clave_ok (crp_pid c) (list_size (crp_paginas c) + 1) \<and>
     (can_carpincho_add_marco_to_page E c s = Some False \<longrightarrow>
        0 < libres (swamp s) \<and> (\<exists>q. candidata E s (crp_pid c) q))"

context servidor_swap
begin

lemma crear:
  assumes con: "conexion escribir leer M R E" and inv: "inv_virtual G V E s" and c: "get_carpincho s pid = Some c"
    and m: "hay_marco libres E c s"
  obtains t v where "create_pagina E pid s = Some (prox_ptr s, t)" "creada G V R E pid v s t"
    "v = None \<or> (\<exists>q. v = Some q \<and> victima_lru E s pid q)" "libres (swamp s) \<le> Suc (libres (swamp t))"
proof -
  have pid: "crp_pid c = pid" using get_carpinchoD [OF c] by simp
  have k: "clave_ok pid (list_size (crp_paginas c) + 1)" using m pid by (simp add: hay_marco_def)
  have "procesos_ok s" using inv by (simp add: inv_virtual_def inv_mem_def)
  from get_all_pages_in_cache_ok [OF this] obtain b where b: "can_carpincho_add_marco_to_page E c s = Some b"
    by (auto simp: can_carpincho_add_marco_to_page_def)
  show thesis
  proof (cases b)
    case True
    then have l: "can_carpincho_add_marco_to_page E c s = Some True" using b by simp
    have "ordenes_ok E" using con unfolding conexion_def by blast
    from crear_libre [OF inv this c l k, of R] obtain t where "create_pagina E pid s = Some (prox_ptr s, t)"
      "creada G V R E pid None s t" "swamp t = swamp s" .
    then show thesis using that [of t None] by simp
  next
    case False
    then have f: "can_carpincho_add_marco_to_page E c s = Some False" using b by simp
    then obtain q where q: "0 < libres (swamp s)" "candidata E s pid q" using m pid by (auto simp: hay_marco_def)
    from crear_desalojando [OF con inv c f k q] obtain t v where "create_pagina E pid s = Some (prox_ptr s, t)"
      "victima_lru E s pid v" "creada G V R E pid (Some v) s t" "Suc (libres (swamp t)) = libres (swamp s)" .
    then show thesis using that [of t "Some v"] by simp
  qed
qed

end

subsection \<open>The life of the connected system\<close>

text \<open>
  The states that the memory process reaches from its start, connected to a swap server that has just
  started: processes are registered, pages are created while there is room for them, and existing pages
  are read and written.
\<close>

inductive vida :: "entorno_swamp \<Rightarrow> swamp_estado entorno \<Rightarrow> swamp_estado memoria \<Rightarrow> bool" for C E where
  arranque: "iniciar_servidor C = Some w \<Longrightarrow>
    atender_swamp C (le32 14 @ le32 4 @ le32 1) w = Some (w', r, []) \<Longrightarrow> vida C E (inicializarMemoria E w')"
| proceso: "vida C E s \<Longrightarrow> pid \<noteq> 0 \<Longrightarrow> vida C E (create_carpincho pid s)"
| pagina: "vida C E s \<Longrightarrow> get_carpincho s pid = Some c \<Longrightarrow> hay_marco libres_swamp E c s \<Longrightarrow>
    create_pagina E pid s = Some (p, t) \<Longrightarrow> vida C E t"
| lectura: "vida C E s \<Longrightarrow> servible libres_swamp E s p g \<Longrightarrow> 0 \<le> off \<Longrightarrow> 0 \<le> n \<Longrightarrow> off + n \<le> tam_pag E \<Longrightarrow>
    leer_en_pagina E p n off s = Some (r, t) \<Longrightarrow> vida C E t"
| escritura: "vida C E s \<Longrightarrow> servible libres_swamp E s p g \<Longrightarrow> 0 \<le> off \<Longrightarrow> off + list_size bs \<le> tam_pag E \<Longrightarrow>
    escribir_en_pagina E p bs (list_size bs) off s = Some (r, t) \<Longrightarrow> vida C E t"

text \<open>The swap server has one file, of pages of 64 bytes, and the memory process sends it, where it sends
  bytes it has not written, no operation.\<close>

definition swamp_config_ok :: "entorno_swamp \<Rightarrow> string \<Rightarrow> int \<Rightarrow> bool" where
  "swamp_config_ok C a b \<longleftrightarrow> pag_sw C = 64 \<and> obtenerCantArchivos C = 1 \<and> nombre_archivo C 0 = Some a \<and>
     0 \<le> tam_sw C \<and> i32 b \<notin> {11, 12, 13, 14}"

lemma vida_inv:
  assumes "vida C E s" and con: "conexion_swamp C b E" and E: "config_ok E" and C: "swamp_config_ok C a b"
  shows "inv_sistema C a b E s"
  using assms(1)
proof (induction rule: vida.induct)
  case (arranque w w' r)
  have c: "pag_sw C = 64" "obtenerCantArchivos C = 1" "nombre_archivo C 0 = Some a" "0 \<le> tam_sw C"
    "i32 b \<notin> {11, 12, 13, 14}"
    using C by (simp_all add: swamp_config_ok_def)
  from servidor_iniciado [OF c(1-4)] have "swamp_ok C a w'" "guarda_swamp C a w' = Map.empty"
    using arranque by auto
  then show ?case
    by (intro inicio_inv [OF E]) (use c(5) in \<open>simp_all add: swamp_conectado_def\<close>)
next
  case (proceso s pid)
  then show ?case using create_carpincho_inv by blast
next
  case (pagina s pid c p t)
  from swamp.crear [OF con pagina.IH pagina.hyps(2,3)] pagina.hyps(4) show ?case
    by (auto simp: creada_def)
next
  case (lectura s p g off n r t)
  from swamp.leer_pagina [OF con lectura.IH lectura.hyps(2-5)] lectura.hyps(6) show ?case
    by (auto simp: accedida_def)
next
  case (escritura s p g off bs r t)
  from swamp.escribir_pagina [OF con escritura.IH escritura.hyps(2-4) refl] escritura.hyps(5) show ?case
    by (auto simp: accedida_def)
qed

text \<open>C16. From its start, connected to a swap server that has just started, and through any registration of
  processes, creation of pages and accesses to pages, the system stays well formed: every frame is free or
  holds the page that names it, every page is in its own frame or in the swap and never in both, and its
  contents are one page long.\<close>

theorem vida_segura:
  assumes "vida C E s" "conexion_swamp C b E" "config_ok E" "swamp_config_ok C a b"
  shows "inv_sistema C a b E s \<and>
    (\<forall>p\<in>paginas_de s. \<exists>g. heap s p = Some g \<and>
       (pag_presencia g = 0 \<longleftrightarrow> guarda_swamp C a (swamp s) (pag_pid g, pag_pagina g) \<noteq> None) \<and>
       list_size (contenido (guarda_swamp C a) E s p) = tam_pag E)"
proof -
  note inv = vida_inv [OF assms]
  then have ok: "procesos_ok s" by (simp add: inv_virtual_def inv_mem_def)
  have "\<exists>g. heap s p = Some g \<and>
      (pag_presencia g = 0 \<longleftrightarrow> guarda_swamp C a (swamp s) (pag_pid g, pag_pagina g) \<noteq> None) \<and>
      list_size (contenido (guarda_swamp C a) E s p) = tam_pag E" if p: "p \<in> paginas_de s" for p
  proof -
    obtain g where g: "heap s p = Some g" using pagina_viva [OF ok p] by metis
    show ?thesis
      using g inv_virtualD(2,3) [OF inv p g] longitud_contenido [OF inv p] by (cases "pag_presencia g = 0") auto
  qed
  then show ?thesis using inv by blast
qed

text \<open>C17. The creation of a page: it is the new last page of its process and in memory; the contents of every
  other page are unchanged, but for the one the least recently used of the candidates loses on its way
  to the swap when no frame was free.\<close>

theorem pagina_nueva:
  assumes "inv_sistema C a b E s" "conexion_swamp C b E" "get_carpincho s pid = Some c" "hay_marco libres_swamp E c s"
  shows "\<exists>t v g. create_pagina E pid s = Some (prox_ptr s, t) \<and> inv_sistema C a b E t \<and>
    pids_paginas t = una_mas pid (prox_ptr s) (pids_paginas s) \<and>
    heap t (prox_ptr s) = Some g \<and> pag_presencia g = 1 \<and>
    otras_paginas (guarda_swamp C a) (recupera C) E (prox_ptr s) v s t \<and>
    (\<forall>q. v = Some q \<longrightarrow> victima_lru E s pid q)"
proof -
  from swamp.crear [OF assms(2,1,3,4)] obtain t v where "create_pagina E pid s = Some (prox_ptr s, t)"
    "creada (guarda_swamp C a) (swamp_conectado C a b) (recupera C) E pid v s t"
    "v = None \<or> (\<exists>q. v = Some q \<and> victima_lru E s pid q)" by metis
  then show ?thesis unfolding creada_def by blast
qed

lemma configuracion_ej: "config_ok (entorno_ej ''LRU'')" "swamp_config_ok swamp_ej ''a'' 0"
  by (simp_all add: config_ok_def swamp_config_ok_def ejemplo_defs obtenerCantArchivos_def nombre_archivo_def i32_def)

text \<open>The start of the example, and its first process.\<close>

definition primero_ej :: "swamp_estado \<Rightarrow> swamp_estado memoria" where
  "primero_ej w = create_carpincho 1 (inicializarMemoria (entorno_ej ''LRU'') w)"

lemma primero_ej_campos:
  "carpinchos_list (primero_ej w) = [\<lparr>crp_pid = 1, crp_tlb_hits = 0, crp_tlb_miss = 0, crp_stack_pointer = 0,
     crp_paginas = [], crp_allocs = [], crp_numero = 1\<rparr>]"
  "marcos_list (primero_ej w) = [\<lparr>mrc_marco = 0, mrc_isFree = True, mrc_pagina = 0, mrc_pid = 0\<rparr>]"
  "cantidad_maxima_marcos (primero_ej w) = 1" "prox_ptr (primero_ej w) = 0" "swamp (primero_ej w) = w"
  by (simp_all add: primero_ej_def inicializarMemoria_def create_tlb_def create_marcos_def get_amount_marcos_def
    create_carpincho_def exist_carpincho_def ejemplo_defs div_u32_def obtenerTimeStampTLB_def list_size_def upt_rec i32_def)

lemma primero_ej_marco:
  "hay_marco libres_swamp (entorno_ej ''LRU'') (hd (carpinchos_list (primero_ej w))) (primero_ej w)"
  "get_carpincho (primero_ej w) 1 = Some (hd (carpinchos_list (primero_ej w)))"
  "pids_paginas (primero_ej w) = [(1, [])]"
  by (simp_all add: hay_marco_def can_carpincho_add_marco_to_page_def get_all_pages_in_cache_def any_marco_free_def
      get_carpincho_def primero_ej_campos list_size_def clave_ok_def i32_def) (simp_all add: entorno_ej_def config_ej_def conectar_def)

lemma primero_ej_inv:
  "\<exists>w. vida swamp_ej (entorno_ej ''LRU'') (primero_ej w) \<and> inv_sistema swamp_ej ''a'' 0 (entorno_ej ''LRU'') (primero_ej w)"
proof -
  have c: "pag_sw swamp_ej = 64" "obtenerCantArchivos swamp_ej = 1" "nombre_archivo swamp_ej 0 = Some ''a''"
    "0 \<le> tam_sw swamp_ej"
    using configuracion_ej(2) by (simp_all add: swamp_config_ok_def)
  from servidor_iniciado [OF c] obtain u w where "iniciar_servidor swamp_ej = Some u"
    "atender_swamp swamp_ej (le32 14 @ le32 4 @ le32 1) u = Some (w, le32 0, [])" by blast
  then have "vida swamp_ej (entorno_ej ''LRU'') (primero_ej w)"
    unfolding primero_ej_def by (intro vida.proceso vida.arranque) auto
  then show ?thesis using vida_inv [OF _ conexion_ej configuracion_ej] by blast
qed

theorem pagina_nueva_witness:
  "\<exists>w t. create_pagina (entorno_ej ''LRU'') 1 (primero_ej w) = Some (0, t) \<and> pids_paginas t = [(1, [0])] \<and>
    inv_sistema swamp_ej ''a'' 0 (entorno_ej ''LRU'') t"
proof -
  obtain w where w: "inv_sistema swamp_ej ''a'' 0 (entorno_ej ''LRU'') (primero_ej w)" using primero_ej_inv by blast
  show ?thesis
    using pagina_nueva [OF w conexion_ej primero_ej_marco(2,1)]
    by (intro exI [of _ w]) (auto simp: primero_ej_campos(4) primero_ej_marco(3) una_mas_def)
qed

theorem vida_segura_witness:
  "\<exists>s. vida swamp_ej (entorno_ej ''LRU'') s \<and> pids_paginas s = [(1, [0])] \<and>
    list_size (contenido (guarda_swamp swamp_ej ''a'') (entorno_ej ''LRU'') s 0) = 64"
proof -
  have tam: "tam_pag (entorno_ej ''LRU'') = 64" by (simp add: ejemplo_defs)
  obtain w where w: "vida swamp_ej (entorno_ej ''LRU'') (primero_ej w)"
    "inv_sistema swamp_ej ''a'' 0 (entorno_ej ''LRU'') (primero_ej w)" using primero_ej_inv by blast
  from swamp.crear [OF conexion_ej w(2) primero_ej_marco(2,1)] obtain t v where
    "create_pagina (entorno_ej ''LRU'') 1 (primero_ej w) = Some (0, t)"
    "creada (guarda_swamp swamp_ej ''a'') (swamp_conectado swamp_ej ''a'' 0) (recupera swamp_ej) (entorno_ej ''LRU'') 1 v (primero_ej w) t"
    unfolding primero_ej_campos(4) .
  then have t: "vida swamp_ej (entorno_ej ''LRU'') t" "pids_paginas t = [(1, [0])]"
    using vida.pagina [OF w(1) primero_ej_marco(2,1)] by (auto simp: creada_def primero_ej_campos(4) primero_ej_marco(3) una_mas_def)
  then have z: "0 \<in> paginas_de t" by (simp add: paginas_de_pids)
  have "list_size (contenido (guarda_swamp swamp_ej ''a'') (entorno_ej ''LRU'') t 0) = 64"
    using bspec [OF conjunct2 [OF vida_segura [OF t(1) conexion_ej configuracion_ej]] z] unfolding tam by blast
  with t show ?thesis by (intro exI conjI)
qed

end
