(* ===== verification/Memoria_Rangos.thy ===== *)
theory Memoria_Rangos
  imports Memoria_Pedazos Memoria_Creacion
begin

section \<open>Memoria: accesses to ranges always end\<close>

text \<open>
  While the swap server has a free frame, every page of every process can be brought in. So a write or a read
  of any range inside the pages of a process ends, and keeps the invariant of the connected system and the
  lists of pages and blocks.
\<close>

subsection \<open>Room\<close>

text \<open>A new page finds a frame: a free one, or that of a candidate.\<close>

definition lugar :: "'s entorno \<Rightarrow> 's memoria \<Rightarrow> bool" where
  "lugar E s \<longleftrightarrow> es_dinamica E \<and>
     (if paginas_de s = {} then any_marco_free s \<and> 0 \<le> cantidad_maxima_marcos s else \<exists>q. candidata E s 0 q)"

definition en_servicio :: "entorno_swamp \<Rightarrow> string \<Rightarrow> int \<Rightarrow> swamp_estado entorno \<Rightarrow> swamp_estado memoria \<Rightarrow> bool" where
  "en_servicio C a b E s \<longleftrightarrow> inv_sistema C a b E s \<and> lugar E s \<and> 0 < libres_swamp (swamp s)"

text \<open>An access keeps the service, the processes and the free frames of the swap server.\<close>

definition mantiene ::
  "entorno_swamp \<Rightarrow> string \<Rightarrow> int \<Rightarrow> swamp_estado entorno \<Rightarrow> swamp_estado memoria \<Rightarrow> swamp_estado memoria \<Rightarrow> bool" where
  "mantiene C a b E s t \<longleftrightarrow> en_servicio C a b E t \<and> procesos_de t = procesos_de s \<and>
     libres_swamp (swamp t) = libres_swamp (swamp s)"

lemma mantiene_trans: "mantiene C a b E s t \<Longrightarrow> mantiene C a b E t u \<Longrightarrow> mantiene C a b E s u"
  by (simp add: mantiene_def)

lemma mantiene_refl: "en_servicio C a b E s \<Longrightarrow> mantiene C a b E s s"
  by (simp add: mantiene_def)

lemma candidata_dinamica: "\<not> es_fija E \<Longrightarrow> candidata E s pid q = candidata E s 0 q"
  by (simp add: candidata_def)

lemma paginas_de_procesos: "paginas_de s = (\<Union>(pid, ps, as)\<in>set (procesos_de s). set ps)"
  by (auto simp: paginas_de_def procesos_de_def)

lemma en_servicio_servible:
  assumes "en_servicio C a b E s" "p \<in> paginas_de s"
  obtains g where "servible libres_swamp E s p g"
proof -
  have l: "lugar E s" "0 < libres_swamp (swamp s)" "procesos_ok s"
    using assms(1) by (auto simp: en_servicio_def inv_virtual_def inv_mem_def)
  obtain g where g: "heap s p = Some g" using pagina_viva [OF l(3) assms(2)] by metis
  have "\<not> es_fija E" "\<exists>q. candidata E s 0 q" using l(1) assms(2) by (auto simp: lugar_def split: if_splits)
  then have "\<exists>q. candidata E s (pag_pid g) q" using candidata_dinamica by blast
  then show ?thesis using that assms(2) g l(2) by (simp add: servible_def)
qed

lemma accedida_mantiene:
  assumes "en_servicio C a b E s" "p \<in> paginas_de s" "procesos_de t = procesos_de s"
    and "accedida (guarda_swamp C a) (swamp_conectado C a b) R libres_swamp E p g c s t"
  shows "mantiene C a b E s t"
proof -
  have t: "inv_sistema C a b E t" "libres_swamp (swamp t) = libres_swamp (swamp s)"
    "\<exists>g'. heap t p = Some g' \<and> pag_presencia g' = 1"
    using assms(4) by (auto simp: accedida_def)
  have P: "paginas_de t = paginas_de s" using assms(3) by (simp add: paginas_de_procesos)
  have f: "es_dinamica E" using assms(1) by (simp add: en_servicio_def lugar_def)
  then have "candidata E t 0 p" using t(3) P assms(2) by (auto simp: candidata_def)
  then have "lugar E t" using f P assms(2) by (auto simp: lugar_def)
  then show ?thesis using t assms by (simp add: mantiene_def en_servicio_def)
qed

lemma procesos_leer:
  assumes "leer_en_pagina E p n off s = Some (r, t)"
  shows "procesos_de t = procesos_de s"
proof -
  obtain g0 s1 m s2 g1 where s: "tocar_tlb_lru E g0 s = Some s1" "obtener_marco_para_pagina E p s1 = Some (m, s2)"
    and r: "(if m = - 1 then Some (None, s2\<lparr>heap := (heap s2)(p \<mapsto> g1\<lparr>pag_marco := m\<rparr>)\<rparr>)
      else do {
        let g3 = g1\<lparr>pag_marco := m\<rparr>\<lparr>pag_presencia := 1\<rparr>;
        let s3 = s2\<lparr>heap := (heap s2)(p \<mapsto> g3)\<rparr>;
        if pagina_is_in_cache s3 g3 \<and> pagina_is_in_tlb s3 g3
        then do {
          r \<leftarrow> retornar_contenido E s3 m off n;
          result \<leftarrow> r;
          let (g4, s4) =
            (if es_m_clock E then (g3\<lparr>pag_uso := 1\<rparr>, s3)
             else let (ts, s') = obtenerTimeStamp s3 in (g3\<lparr>pag_timestamp := ts\<rparr>, s'));
          s5 \<leftarrow> imprimir_marcos E (s4\<lparr>heap := (heap s4)(p \<mapsto> g4)\<rparr>);
          Some (Some result, s5) }
        else Some (None, s3) }) = Some (r, t)"
    using assms by (auto simp: leer_en_pagina_def bind_eq_Some_conv Let_def)
  have "procesos_de t = procesos_de s2"
    using r by (auto simp: Let_def bind_eq_Some_conv split_beta split: if_splits dest!: procesos_imprimir)
  then show ?thesis using procesos_tocar [OF s(1)] procesos_obtener_marco [OF s(2)] by simp
qed

lemma leer_en_servicio:
  assumes "conexion_swamp C b E" "en_servicio C a b E s" "p \<in> paginas_de s"
    and "0 \<le> off" "0 \<le> n" "off + n \<le> tam_pag E"
  obtains bs t where "leer_en_pagina E p n off s = Some (Some bs, t)" "list_size bs = n" "mantiene C a b E s t"
proof -
  have inv: "inv_sistema C a b E s" using assms(2) by (simp add: en_servicio_def)
  obtain g where g: "servible libres_swamp E s p g" using en_servicio_servible [OF assms(2,3)] .
  from swamp.leer_pagina [OF assms(1) inv g assms(4-6)] obtain t where
    t: "leer_en_pagina E p n off s =
      Some (Some (take (nat n) (drop (nat off) (contenido (guarda_swamp C a) E s p))), t)"
    "accedida (guarda_swamp C a) (swamp_conectado C a b) (recupera C) libres_swamp E p g
      (contenido (guarda_swamp C a) E s p) s t" by blast
  have "list_size (take (nat n) (drop (nat off) (contenido (guarda_swamp C a) E s p))) = n"
    using longitud_contenido [OF inv assms(3)] assms(4-6) by (simp add: list_size_def)
  then show ?thesis using that [OF t(1)] accedida_mantiene [OF assms(2,3) procesos_leer [OF t(1)] t(2)] by simp
qed

lemma escribir_en_servicio:
  assumes "conexion_swamp C b E" "en_servicio C a b E s" "p \<in> paginas_de s"
    and "0 \<le> off" "off + n \<le> tam_pag E" "list_size bs = n"
  obtains t where "escribir_en_pagina E p bs n off s = Some (0, t)" "mantiene C a b E s t"
proof -
  have inv: "inv_sistema C a b E s" using assms(2) by (simp add: en_servicio_def)
  obtain g where g: "servible libres_swamp E s p g" using en_servicio_servible [OF assms(2,3)] .
  from swamp.escribir_pagina [OF assms(1) inv g assms(4-6)] obtain t c where
    t: "escribir_en_pagina E p bs n off s = Some (0, t)"
    "accedida (guarda_swamp C a) (swamp_conectado C a b) (recupera C) libres_swamp E p g c s t" by blast
  show ?thesis using that [OF t(1)] accedida_mantiene [OF assms(2,3) procesos_escribir [OF t(1)] t(2)] by simp
qed

subsection \<open>Pieces inside the pages\<close>

text \<open>Every piece is in one of \<open>m\<close> pages, and inside the buffer of length \<open>l\<close> where the code looks for it: behind
  the last piece only (\<open>previo\<close> bytes).\<close>

fun pedazos_ok :: "int \<Rightarrow> int \<Rightarrow> int \<Rightarrow> int \<Rightarrow> (int \<times> int \<times> int) list \<Rightarrow> bool" where
  "pedazos_ok T m l previo [] \<longleftrightarrow> True"
| "pedazos_ok T m l previo ((q, off, k) # ps) \<longleftrightarrow>
     0 \<le> q \<and> q < m \<and> 0 \<le> off \<and> 0 < k \<and> off + k \<le> T \<and> 0 \<le> previo \<and> previo + k \<le> l \<and> pedazos_ok T m l k ps"

lemma pedazos_pedazos_ok:
  assumes "0 < T" "0 \<le> pos" "pos + n \<le> m * T" "0 \<le> previo" "previo + n \<le> l"
  shows "pedazos_ok T m l previo (pedazos T pos n)"
  using assms
proof (induction T pos n arbitrary: previo rule: pedazos.induct)
  case (1 T pos n)
  show ?case
  proof (cases "n \<le> 0")
    case False
    define k where "k = min n (T - pos mod T)"
    have m: "0 \<le> pos mod T" "pos mod T < T" using 1(2) by simp_all
    then have k: "0 < k" "k \<le> n" "pos mod T + k \<le> T" using False by (auto simp: k_def)
    have "pedazos_ok T m l k (pedazos T (pos + k) (n - k))"
      by (rule 1(1) [OF _ k_def]) (use 1(2-6) k False in auto)
    moreover have "0 \<le> pos div T" "pos div T < m"
      using pagina_de_direccion [of pos m T] 1(2-6) False by auto
    ultimately show ?thesis
      using pedazos_Cons [of n T k pos] False 1(2-6) k m by (simp add: k_def)
  qed (simp add: pedazos_Nil)
qed

lemma dentro_pedazos:
  assumes "dentro_de E c x pos n" "0 \<le> previo" "previo + n \<le> l"
  shows "armar_acciones E pos [0..<nat n] [] = map accion (pedazos (tam_pag E) pos n)"
    "pedazos_ok (tam_pag E) (list_size (crp_paginas c)) l previo (pedazos (tam_pag E) pos n)"
proof -
  note l = dentro_limites [OF assms(1)]
  have d: "0 < n" "0 < tam_pag E" "tam_pag E < 2147483648" using assms(1) by (auto simp: dentro_de_def)
  show "armar_acciones E pos [0..<nat n] [] = map accion (pedazos (tam_pag E) pos n)"
    by (rule armar_pedazos) (use l d in auto)
  show "pedazos_ok (tam_pag E) (list_size (crp_paginas c)) l previo (pedazos (tam_pag E) pos n)"
    by (rule pedazos_pedazos_ok) (use l d assms in auto)
qed

lemma accion_simps:
  "fst (accion (q, off, k)) = q" "0 < k \<Longrightarrow> list_size (snd (accion (q, off, k))) = k"
  "0 < k \<Longrightarrow> list_get (snd (accion (q, off, k))) 0 = Some off"
  by (simp_all add: accion_def list_size_def list_get_def)

subsection \<open>Reads, writes and metadata\<close>

text \<open>The process of an access, and page \<open>q\<close> of it.\<close>

definition accesible ::
  "entorno_swamp \<Rightarrow> string \<Rightarrow> int \<Rightarrow> swamp_estado entorno \<Rightarrow> swamp_estado memoria \<Rightarrow> int \<Rightarrow> ptr list \<Rightarrow> bool" where
  "accesible C a b E s pid ps \<longleftrightarrow> en_servicio C a b E s \<and> list_size ps < 2147483648 \<and>
     (\<exists>c. get_carpincho s pid = Some c \<and> crp_paginas c = ps)"

lemma accesible_mantiene: "accesible C a b E s pid ps \<Longrightarrow> mantiene C a b E s t \<Longrightarrow> accesible C a b E t pid ps"
  using get_carpincho_procesos [of t s pid] by (fastforce simp: accesible_def mantiene_def)

lemma buscar_pagina_viva: "\<forall>p\<in>set ps. h p \<noteq> None \<Longrightarrow> \<exists>x. buscar_pagina h pid n ps = Some x"
  by (induction ps) auto

lemma buscar_pagina_nth:
  assumes "\<forall>i<length ps. \<exists>g. h (ps ! i) = Some g \<and> pag_pid g = pid \<and> pag_pagina g = j + int i + 1" "k < length ps"
  shows "buscar_pagina h pid (j + int k + 1) ps = Some (Some (ps ! k))"
  using assms
proof (induction ps arbitrary: j k)
  case (Cons p ps)
  obtain g where g: "h p = Some g" "pag_pid g = pid" "pag_pagina g = j + 1" using Cons.prems(1) by fastforce
  have h: "\<forall>i<length ps. \<exists>g. h (ps ! i) = Some g \<and> pag_pid g = pid \<and> pag_pagina g = (j + 1) + int i + 1"
  proof (intro allI impI)
    fix i assume "i < length ps"
    then show "\<exists>g. h (ps ! i) = Some g \<and> pag_pid g = pid \<and> pag_pagina g = (j + 1) + int i + 1"
      using Cons.prems(1) [rule_format, of "Suc i"] by (simp add: algebra_simps)
  qed
  show ?case
  proof (cases k)
    case 0
    have "\<forall>p\<in>set ps. h p \<noteq> None" using h by (metis in_set_conv_nth option.distinct(1))
    then obtain x where "buscar_pagina h pid (j + 1) ps = Some x" using buscar_pagina_viva by blast
    then show ?thesis using g 0 by simp
  next
    case (Suc i)
    then have "buscar_pagina h pid ((j + 1) + int i + 1) ps = Some (Some (ps ! i))"
      using Cons.IH [OF h] Cons.prems(2) by simp
    then show ?thesis using g Suc by (simp add: algebra_simps)
  qed
qed simp

lemma accesible_pagina:
  assumes "accesible C a b E s pid ps" "0 \<le> q" "q < list_size ps"
  obtains c p where "get_carpincho s pid = Some c" "list_get (crp_paginas c) (i32 q) = Some p"
    "get_page s c (i32 (q + 1)) = Some (Some p)" "p \<in> paginas_de s" "en_servicio C a b E s"
proof -
  obtain c where c: "get_carpincho s pid = Some c" "crp_paginas c = ps" and en: "en_servicio C a b E s"
    and lim: "list_size ps < 2147483648"
    using assms(1) by (auto simp: accesible_def)
  let ?p = "ps ! nat q"
  have e: "i32 q = q" "i32 (q + 1) = q + 1" using assms(2,3) lim by simp_all
  have "list_get (crp_paginas c) (i32 q) = Some ?p"
    using assms(2,3) c(2) e by (auto simp: list_get_def list_size_def)
  moreover have "?p \<in> set ps" using assms(2,3) by (simp add: list_size_def)
  moreover have "get_page s c (i32 (q + 1)) = Some (Some ?p)"
  proof -
    have c': "c \<in> set (carpinchos_list s)" using get_carpinchoD [OF c(1)] by simp
    then have ok: "paginas_ok (heap s) c"
      using en by (auto simp: en_servicio_def inv_virtual_def inv_mem_def procesos_ok_def)
    show ?thesis
      using buscar_pagina_nth [of ps "heap s" "crp_pid c" 0 "nat q"] ok c(2) e assms(2,3)
      by (fastforce simp: get_page_def paginas_ok_def list_size_def add.commute)
  qed
  ultimately show ?thesis using that [OF c(1)] get_carpincho_paginas [OF c(1)] c(2) en by simp
qed

lemma escribir_pedazos:
  assumes con: "conexion_swamp C b E"
    and "accesible C a b E s pid ps" "pedazos_ok (tam_pag E) (list_size ps) (list_size valor) previo pz"
  shows "\<exists>t. escribir_acciones E pid (map accion pz) valor previo s = Some t \<and> mantiene C a b E s t"
    (is "?escribe escribir_acciones")
    "\<exists>t. escribir_acciones_heap E pid (map accion pz) valor previo s = Some t \<and> mantiene C a b E s t"
    (is "?escribe escribir_acciones_heap")
proof -
  have "?escribe escribir_acciones \<and> ?escribe escribir_acciones_heap"
    using assms(2,3)
  proof (induction "tam_pag E" "list_size ps" "list_size valor" previo pz arbitrary: s rule: pedazos_ok.induct)
    case (1 previo)
    then show ?case using mantiene_refl by (auto simp: accesible_def)
  next
    case (2 previo q off k pz)
    have z: "0 \<le> q" "q < list_size ps" "0 \<le> off" "0 < k" "off + k \<le> tam_pag E" "0 \<le> previo"
      "previo + k \<le> list_size valor" "pedazos_ok (tam_pag E) (list_size ps) (list_size valor) k pz"
      using 2(3) by auto
    obtain c p where c: "get_carpincho s pid = Some c" "list_get (crp_paginas c) (i32 q) = Some p"
      "get_page s c (i32 (q + 1)) = Some (Some p)" "p \<in> paginas_de s" "en_servicio C a b E s"
      using accesible_pagina [OF 2(2) z(1,2)] .
    obtain v where v: "lee_bytes valor previo k = Some v" "list_size v = k"
      using z by (auto simp: lee_bytes_def list_size_def)
    obtain t where t: "escribir_en_pagina E p v k off s = Some (0, t)" "mantiene C a b E s t"
      using escribir_en_servicio [OF con c(5,4) z(3,5) v(2)] .
    from 2(1) [OF accesible_mantiene [OF 2(2) t(2)] z(8)] show ?case
      using c(1-3) v(1) t z(4) mantiene_trans [OF t(2)] by (auto simp: accion_simps)
  qed
  then show "?escribe escribir_acciones" "?escribe escribir_acciones_heap" by auto
qed

lemma leer_pedazos:
  assumes con: "conexion_swamp C b E"
    and "accesible C a b E s pid ps" "pedazos_ok (tam_pag E) (list_size ps) (list_size buffer) previo pz"
  shows "\<exists>bs t. leer_acciones E pid (map accion pz) buffer previo s = Some (bs, t) \<and>
    list_size bs = list_size buffer \<and> mantiene C a b E s t"
  using assms(2,3)
proof (induction pz arbitrary: s buffer previo)
  case Nil
  then show ?case using mantiene_refl by (auto simp: accesible_def)
next
  case (Cons z pz)
  obtain q off k where q: "z = (q, off, k)" by (cases z)
  have z: "0 \<le> q" "q < list_size ps" "0 \<le> off" "0 < k" "off + k \<le> tam_pag E" "0 \<le> previo"
    "previo + k \<le> list_size buffer" "pedazos_ok (tam_pag E) (list_size ps) (list_size buffer) k pz"
    using Cons.prems(2) q by auto
  obtain c p where c: "get_carpincho s pid = Some c" "list_get (crp_paginas c) (i32 q) = Some p"
    "get_page s c (i32 (q + 1)) = Some (Some p)" "p \<in> paginas_de s" "en_servicio C a b E s"
    using accesible_pagina [OF Cons.prems(1) z(1,2)] .
  obtain v t where t: "leer_en_pagina E p k off s = Some (Some v, t)" "list_size v = k" "mantiene C a b E s t"
    using leer_en_servicio [OF con c(5,4) z(3) _ z(5)] z(4) by auto
  obtain buf where buf: "copia_bytes buffer previo v = Some buf" using z(6,7) t(2) by (simp add: copia_bytes_def)
  then have lb: "list_size buf = list_size buffer" using copia_bytes_length by (simp add: list_size_def)
  from Cons.IH [OF accesible_mantiene [OF Cons.prems(1) t(3)], of buf k] z(8) lb
  obtain bs u where "leer_acciones E pid (map accion pz) buf k t = Some (bs, u)"
    "list_size bs = list_size buffer" "mantiene C a b E t u" by metis
  moreover have "leer_acciones E pid (map accion (z # pz)) buffer previo s = leer_acciones E pid (map accion pz) buf k t"
    using c(1,2) t(1) buf z(4) by (simp add: q accion_simps)
  ultimately show ?case using mantiene_trans [OF t(3)] by metis
qed

end
