(* ===== verification/Memoria_Memalloc.thy ===== *)
theory Memoria_Memalloc
  imports Memoria_Rangos
begin

section \<open>Memoria: allocation always succeeds while there is room\<close>

text \<open>
  With the swap server connected, a process that frees nothing gets every block it asks for, behind the blocks it
  has: the question to the swap server is answered, the pages are created, the list of blocks stays a tiling
  of the address space, and the metadata of the new block is written inside the pages.
\<close>

subsection \<open>The question to the swap server\<close>

lemma contar_libres_total:
  "\<forall>i\<in>set is. i < length ms \<Longrightarrow> \<exists>n. contar_libres ms a is k = Some n"
  by (induction "is" arbitrary: k) (auto simp: list_get_def list_size_def)

lemma recibirPagina_consulta:
  assumes ok: "swamp_ok C a w" and li: "0 < libres_swamp w"
  shows "\<exists>r. recibirPagina C pid PUEDE_ESCRIBIR w = Some (r, w) \<and> (\<forall>x. r = Some x \<longrightarrow> x = a)"
proof (cases "list_find (\<lambda>c. cs_PID c = pid) (sw_carpinchos w)")
  case None
  obtain i where "hayEspacioArchivo C w (Some a) = Some (int i)" using hayEspacioArchivo_ok [OF ok li] .
  then show ?thesis using None archivoConMasEspacio_ok [OF ok] by (auto simp: recibirPagina_def)
next
  case (Some c)
  then show ?thesis using ok list_find_SomeD [OF Some] by (auto simp: recibirPagina_def swamp_ok_def)
qed

text \<open>The answer is 1 or -1, never 0, and the server at most registers the process.\<close>

lemma puede_escribir_ok:
  assumes ok: "swamp_ok C a w" and li: "0 < libres_swamp w"
  shows "\<exists>r cs. puede_escribir C (le32 8 @ le32 pid @ le32 n) w = Some (w\<lparr>sw_carpinchos := cs\<rparr>, le32 r, []) \<and>
    r \<in> {1, - 1} \<and> swamp_ok C a (w\<lparr>sw_carpinchos := cs\<rparr>)"
proof -
  obtain cs where cs: "recibirPagina C (i32 pid) ESCRIBIR w = Some (Some a, w\<lparr>sw_carpinchos := cs\<rparr>)"
    "\<forall>c\<in>set cs. cs_archivo c = a" "\<exists>c\<in>set cs. cs_PID c = i32 pid"
    "cs_PID ` set (sw_carpinchos w) \<subseteq> cs_PID ` set cs"
    using recibirPagina_ok [OF ok li] .
  let ?w = "w\<lparr>sw_carpinchos := cs\<rparr>"
  have w: "swamp_ok C a ?w" using swamp_ok_carpinchos [OF ok cs(2,4)] .
  obtain i where "hayEspacioArchivo C ?w (Some a) = Some (int i)"
    using hayEspacioArchivo_ok [OF w] li by auto
  then have ca: "chequearAsignacion C (i32 pid) w = Some (0, ?w)"
    using cs(1) ok by (simp add: chequearAsignacion_def swamp_ok_def)
  obtain r where r: "recibirPagina C (i32 pid) PUEDE_ESCRIBIR w = Some (r, w)" "\<forall>x. r = Some x \<longrightarrow> x = a"
    using recibirPagina_consulta [OF ok li] by blast
  have "int (length (sw_marcos ?w)) = cantMarcos C * obtenerCantArchivos C"
    using w by (simp add: swamp_ok_def list_size_def)
  then have n: "nat (cantMarcos C * obtenerCantArchivos C) = length (sw_marcos ?w)" by linarith
  obtain l where l: "contar_libres (sw_marcos ?w) a [0..<nat (cantMarcos C * obtenerCantArchivos C)] 0 = Some l"
    using contar_libres_total [of "[0..<length (sw_marcos ?w)]" "sw_marcos ?w" a 0] unfolding n by auto
  show ?thesis
  proof (cases r)
    case None
    then show ?thesis using ca r(1) w by (intro exI [of _ "- 1"] exI [of _ cs]) (simp add: puede_escribir_def)
  next
    case (Some x)
    then show ?thesis using ca r l w
      by (intro exI [of _ "if l \<ge> i32 n then 1 else - 1"] exI [of _ cs]) (simp add: puede_escribir_def verSiHayPaginas_def)
  qed
qed

lemma puede_escribir_en_swamp_ok:
  assumes "swamp_conectado C a b w" "0 < libres_swamp w"
  shows "\<exists>r w'. puede_escribir_en_swamp C pid n w = Some (r, w') \<and> r \<noteq> 0 \<and> swamp_conectado C a b w' \<and>
    guarda_swamp C a w' = guarda_swamp C a w \<and> libres_swamp w' = libres_swamp w"
proof -
  have ok: "swamp_ok C a w" and b: "i32 b \<notin> {11, 12, 13, 14}" using assms(1) by (auto simp: swamp_conectado_def)
  obtain r cs where r: "puede_escribir C (le32 8 @ le32 pid @ le32 n) w = Some (w\<lparr>sw_carpinchos := cs\<rparr>, le32 r, [])"
    "r \<in> {1, - 1}" "swamp_ok C a (w\<lparr>sw_carpinchos := cs\<rparr>)"
    using puede_escribir_ok [OF ok assms(2)] by blast
  have "list_size (le32 pid @ le32 n) = 8" by (simp add: list_size_def)
  then have "atender_swamp C (mensaje_puede_escribir pid n) w = Some (w\<lparr>sw_carpinchos := cs\<rparr>, le32 r, [])"
    using r(1) by (simp add: mensaje_puede_escribir_def enviar_paquete_swamp_def atender_swamp_def)
  then have "puede_escribir_en_swamp C pid n w = Some (i32 r, w\<lparr>sw_carpinchos := cs\<rparr>)"
    by (simp add: puede_escribir_en_swamp_def pedir_entero_def atender_pendientes_uno
        mensaje_puede_escribir_def enviar_paquete_swamp_def)
  moreover have "i32 r \<noteq> 0" using r(2) by auto
  moreover have "guarda_swamp C a (w\<lparr>sw_carpinchos := cs\<rparr>) = guarda_swamp C a w"
    by (simp add: guarda_swamp_def conseguirMarco_def Let_def fun_eq_iff)
  ultimately show ?thesis using r(3) b by (auto simp: swamp_conectado_def)
qed

lemma lugar_cong:
  assumes "paginas_de t = paginas_de s" "heap t = heap s" "marcos_list t = marcos_list s"
    "cantidad_maxima_marcos t = cantidad_maxima_marcos s"
  shows "lugar E t = lugar E s"
proof -
  have "candidata E t 0 = candidata E s 0" using assms by (simp add: candidata_def fun_eq_iff)
  then show ?thesis using assms by (simp add: lugar_def any_marco_free_def)
qed

lemma consulta_en_servicio:
  assumes "srv_puede_escribir E = puede_escribir_en_swamp C" "en_servicio C a b E s"
  shows "\<exists>t. check_size_swamp E pid n s = Some (True, t) \<and> mantiene C a b E s t \<and> carpinchos_list t = carpinchos_list s"
proof -
  have inv: "inv_mem E s" "guarda_ok (guarda_swamp C a) (swamp_conectado C a b) E s" "0 < libres_swamp (swamp s)"
    and w: "swamp_conectado C a b (swamp s)"
    using assms(2) by (auto simp: en_servicio_def inv_virtual_guarda guarda_ok_def)
  obtain r w' where r: "puede_escribir_en_swamp C pid n (swamp s) = Some (r, w')" "r \<noteq> 0" "swamp_conectado C a b w'"
    "guarda_swamp C a w' = guarda_swamp C a (swamp s)" "libres_swamp w' = libres_swamp (swamp s)"
    using puede_escribir_en_swamp_ok [OF w inv(3)] by blast
  let ?t = "s\<lparr>swamp := w'\<rparr>"
  have P: "paginas_de ?t = paginas_de s" by (simp add: paginas_de_def)
  have "inv_mem E ?t"
    using inv(1) by (simp add: inv_mem_def marcos_ok_def tlb_ok_def procesos_ok_def presencia_ok_def P)
  moreover have "guarda_ok (guarda_swamp C a) (swamp_conectado C a b) E ?t"
    using inv(2) r(3,4) by (simp add: guarda_ok_def solo_ausentes_def P)
  moreover have "lugar E ?t"
    using assms(2) lugar_cong [of ?t s E] P by (simp add: en_servicio_def)
  ultimately have "mantiene C a b E s ?t"
    using r(5) inv(3) by (simp add: mantiene_def en_servicio_def inv_virtual_guarda)
  then show ?thesis
    using r(1,2) assms(1) by (simp add: check_size_swamp_def enviar_consulta_puede_escribir_en_swap_def)
qed

subsection \<open>What a process has\<close>

text \<open>The pages and the blocks of a process.\<close>

definition proceso :: "'s memoria \<Rightarrow> int \<Rightarrow> (ptr list \<times> t_alloc list) option" where
  "proceso s = map_of (procesos_de s)"

lemma proceso_get: "proceso s pid = map_option (\<lambda>c. (crp_paginas c, crp_allocs c)) (get_carpincho s pid)"
proof -
  have "map_of (map (\<lambda>c. (crp_pid c, crp_paginas c, crp_allocs c)) cs) pid =
      map_option (\<lambda>c. (crp_paginas c, crp_allocs c)) (list_find (\<lambda>c. crp_pid c = pid) cs)" for cs
    by (induction cs) auto
  then show ?thesis by (simp add: proceso_def procesos_de_def get_carpincho_find)
qed

lemma proceso_Some:
  "proceso s pid = Some (ps, as) \<longleftrightarrow> (\<exists>c. get_carpincho s pid = Some c \<and> crp_paginas c = ps \<and> crp_allocs c = as)"
  by (auto simp: proceso_get)

lemma mantiene_proceso: "mantiene C a b E s t \<Longrightarrow> proceso t = proceso s"
  by (simp add: mantiene_def proceso_def)

lemma map_of_actualiza:
  "map_of (map (\<lambda>(i, x). if i = k then (i, f x) else (i, x)) xs) = (map_of xs)(k := map_option f (map_of xs k))"
  by (induction xs) (auto simp: fun_eq_iff)

lemma proceso_modifica:
  assumes "get_carpincho s pid = Some c" "\<And>x. crp_pid (f x) = crp_pid x"
    and "\<And>x. (crp_paginas (f x), crp_allocs (f x)) = h (crp_paginas x, crp_allocs x)"
  shows "proceso (modifica_carpincho pid f s) = (proceso s)(pid \<mapsto> h (crp_paginas c, crp_allocs c))"
proof -
  have "procesos_de (modifica_carpincho pid f s) =
      map (\<lambda>(i, x). if i = pid then (i, h x) else (i, x)) (procesos_de s)"
    using assms(2,3) by (auto simp: procesos_de_def modifica_carpincho_def)
  then have "proceso (modifica_carpincho pid f s) = (proceso s)(pid := map_option h (proceso s pid))"
    by (simp add: proceso_def map_of_actualiza)
  moreover have "proceso s pid = Some (crp_paginas c, crp_allocs c)" using assms(1) by (simp add: proceso_get)
  ultimately show ?thesis by simp
qed

lemma proceso_create_carpincho:
  assumes "get_carpincho s pid = None"
  shows "proceso (create_carpincho pid s) = (proceso s)(pid \<mapsto> ([], []))"
proof -
  have n: "\<not> exist_carpincho s pid" "pid \<notin> fst ` set (procesos_de s)"
    using assms by (auto simp: get_carpincho_find exist_carpincho_def list_size_def filter_empty_conv
        procesos_de_def list_find_None_iff)
  then have "procesos_de (create_carpincho pid s) = procesos_de s @ [(pid, [], [])]"
    by (simp add: create_carpincho_def procesos_de_def)
  moreover have "map_of (xs @ [(pid, y)]) = (map_of xs)(pid \<mapsto> y)" if "pid \<notin> fst ` set xs"
    for xs and y :: "ptr list \<times> t_alloc list"
    using that by (induction xs) (auto simp: fun_eq_iff)
  ultimately show ?thesis using n(2) by (simp add: proceso_def)
qed

subsection \<open>New pages\<close>

lemma procesos_colocar:
  assumes "colocar E c p m s = Some (q, t)"
  shows "q = p \<and> procesos_de t =
    map (\<lambda>(i, ps, as). if i = crp_pid c then (i, ps @ [p], as) else (i, ps, as)) (procesos_de s)"
proof -
  let ?g = "(basura_pagina E p)\<lparr>pag_pagina := list_size (crp_paginas c) + 1, pag_pid := crp_pid c,
      pag_carp_num := crp_numero c, pag_marco := m, pag_presencia := 1\<rparr>"
  let ?reloj = "\<lambda>u. if es_m_clock E then (?g\<lparr>pag_uso := 1, pag_modif := 0\<rparr>, u)
      else let (ts, s') = obtenerTimeStamp u in (?g\<lparr>pag_timestamp := ts\<rparr>, s')"
  obtain s2 where s2: "actualizar_tlb E ?g m (modifica_marco m
      (\<lambda>m. m\<lparr>mrc_pid := crp_pid c, mrc_pagina := list_size (crp_paginas c) + 1, mrc_isFree := False\<rparr>) s) = Some s2"
    and r: "(case ?reloj s2 of (g1, s3) \<Rightarrow>
      do { s6 \<leftarrow> imprimir_marcos E (modifica_carpincho (crp_pid c) (\<lambda>c. c\<lparr>crp_paginas := crp_paginas c @ [p]\<rparr>)
             (s3\<lparr>heap := (heap s3)(p \<mapsto> g1)\<rparr>)); Some (p, s6) }) = Some (q, t)"
    using assms unfolding colocar_def Let_def by (elim bind_eq_Some_conv [THEN iffD1, elim_format] exE conjE)
  obtain g1 s3 where x: "?reloj s2 = (g1, s3)" by (cases "?reloj s2") blast
  have f: "imprimir_marcos E (modifica_carpincho (crp_pid c) (\<lambda>c. c\<lparr>crp_paginas := crp_paginas c @ [p]\<rparr>)
      (s3\<lparr>heap := (heap s3)(p \<mapsto> g1)\<rparr>)) = Some t" "q = p"
    using r unfolding x by (auto simp: bind_eq_Some_conv)
  have "procesos_de s3 = procesos_de s2" using x by (auto simp: Let_def split_beta split: if_splits)
  moreover have "procesos_de s2 = procesos_de s" using procesos_actualizar_tlb [OF s2] by simp
  moreover have "procesos_de t =
      map (\<lambda>(i, ps, as). if i = crp_pid c then (i, ps @ [p], as) else (i, ps, as)) (procesos_de s3)"
    using procesos_imprimir [OF f(1)] by (auto simp: procesos_de_def modifica_carpincho_def)
  ultimately show ?thesis using f(2) by simp
qed

lemma procesos_swampear_create:
  assumes "swampear_pagina_when_create_page E pid n s = Some (m, t)"
  shows "procesos_de t = procesos_de s"
proof -
  obtain ps v s1 where "elegir_victima E ps s = Some (v, s1)" "desalojar E v pid n s1 = Some (m, t)"
    using assms by (auto simp: swampear_pagina_when_create_page_def bind_eq_Some_conv)
  then show ?thesis using procesos_elegir procesos_desalojar by metis
qed

lemma procesos_crear:
  assumes "create_pagina E pid s = Some (p, t)"
  shows "procesos_de t = map (\<lambda>(i, ps, as). if i = pid then (i, ps @ [p], as) else (i, ps, as)) (procesos_de s)"
proof -
  let ?i = "s\<lparr>prox_ptr := Suc (prox_ptr s)\<rparr>"
  obtain c b m s1 where c: "get_carpincho s pid = Some c"
    "(if b then do { m \<leftarrow> get_free_marco E ?i; Some (mrc_marco m, ?i) }
      else do { (n, s1) \<leftarrow> swampear_pagina_when_create_page E (crp_pid c) (list_size (crp_paginas c) + 1) ?i;
                m \<leftarrow> get_marco_by_marco_number s1 n;
                Some (mrc_marco m, s1) }) = Some (m, s1)" "colocar E c (prox_ptr s) m s1 = Some (p, t)"
    using assms unfolding create_pagina_colocar Let_def by (auto simp: bind_eq_Some_conv split: prod.splits)
  have i: "procesos_de ?i = procesos_de s" by (simp add: procesos_de_def)
  have "procesos_de s1 = procesos_de s"
  proof (cases b)
    case True
    then show ?thesis using c(2) i by (auto simp: bind_eq_Some_conv)
  next
    case False
    then show ?thesis using c(2) i by (auto simp: bind_eq_Some_conv dest!: procesos_swampear_create)
  qed
  then show ?thesis using procesos_colocar [OF c(3)] get_carpinchoD [OF c(1)] by auto
qed

lemma proceso_crear:
  assumes "create_pagina E pid s = Some (p, t)" "proceso s pid = Some (ps, as)"
  shows "proceso t = (proceso s)(pid \<mapsto> (ps @ [p], as))"
proof -
  have "(\<lambda>(i, ps, as). if i = pid then (i, ps @ [p], as) else (i, ps, as)) =
      (\<lambda>(i, x :: ptr list \<times> t_alloc list). if i = pid then (i, fst x @ [p], snd x) else (i, x))"
    by (auto simp: fun_eq_iff)
  then show ?thesis
    using procesos_crear [OF assms(1)] map_of_actualiza [of pid "\<lambda>x. (fst x @ [p], snd x)" "procesos_de s"] assms(2)
    by (simp add: proceso_def)
qed

lemma crear_en_servicio:
  assumes con: "conexion_swamp C b E" and en: "en_servicio C a b E s" and pr: "proceso s pid = Some (ps, as)"
    and k: "clave_ok pid (list_size ps + 1)" and li: "1 < libres_swamp (swamp s)"
  obtains p t where "create_pagina E pid s = Some (p, t)" "en_servicio C a b E t"
    "proceso t = (proceso s)(pid \<mapsto> (ps @ [p], as))" "libres_swamp (swamp s) \<le> Suc (libres_swamp (swamp t))"
proof -
  have inv: "inv_sistema C a b E s" "lugar E s" using en by (auto simp: en_servicio_def)
  then have im: "inv_mem E s" by (simp add: inv_virtual_def)
  obtain c where c: "get_carpincho s pid = Some c" "crp_paginas c = ps" "crp_pid c = pid"
    using pr get_carpinchoD [of s pid] by (auto simp: proceso_Some)
  have f: "es_dinamica E" using inv(2) by (simp add: lugar_def)
  have "\<exists>q. candidata E s pid q" if x: "can_carpincho_add_marco_to_page E c s = Some False"
  proof (cases "paginas_de s = {}")
    case True
    then have "get_all_pages_in_cache s = Some []" using get_all_pages_in_cache_ok [of s] im by (auto simp: inv_mem_def)
    then show ?thesis using x inv(2) True f
      by (auto simp: lugar_def can_carpincho_add_marco_to_page_def list_size_def split: if_splits)
  next
    case False
    then show ?thesis using inv(2) candidata_dinamica [of E s pid] f by (auto simp: lugar_def)
  qed
  then have m: "hay_marco libres_swamp E c s" using k li c by (auto simp: hay_marco_def)
  from swamp.crear [OF con inv(1) c(1) m] obtain t v where t: "create_pagina E pid s = Some (prox_ptr s, t)"
    "creada (guarda_swamp C a) (swamp_conectado C a b) (recupera C) E pid v s t"
    "libres_swamp (swamp s) \<le> Suc (libres_swamp (swamp t))" by metis
  have P: "prox_ptr s \<in> paginas_de t"
    using t(2) pids_paginas_mem [of c s] get_carpinchoD [OF c(1)]
    by (auto simp: creada_def paginas_de_pids una_mas_def split: if_splits intro!: bexI [of _ c])
  moreover have "candidata E t 0 (prox_ptr s)" using t(2) P f by (auto simp: candidata_def creada_def)
  ultimately have "lugar E t" using f by (auto simp: lugar_def)
  then have "en_servicio C a b E t" using t(2,3) li by (simp add: en_servicio_def creada_def)
  then show thesis using that [OF t(1) _ proceso_crear [OF t(1) pr] t(3)] by blast
qed

lemma asignar_en_servicio:
  assumes con: "conexion_swamp C b E" and en: "en_servicio C a b E s" and pr: "proceso s pid = Some (ps, as)"
    and k: "i32 pid = pid" "pid \<noteq> - 1" "list_size ps + int n < 2147483648" and li: "n < libres_swamp (swamp s)"
  shows "\<exists>qs t. asignar_paginas_carpincho E pid n s = Some t \<and> length qs = n \<and> en_servicio C a b E t \<and>
    proceso t = (proceso s)(pid \<mapsto> (ps @ qs, as)) \<and> libres_swamp (swamp s) \<le> libres_swamp (swamp t) + n"
  using en pr k(3) li
proof (induction n arbitrary: s ps)
  case 0
  then show ?case by (intro exI [of _ "[]"] exI [of _ s]) (simp add: fun_upd_idem)
next
  case (Suc n)
  have "clave_ok pid (list_size ps + 1)" using k(1,2) Suc.prems(3) by (simp add: clave_ok_def list_size_def)
  then obtain p t where t: "create_pagina E pid s = Some (p, t)" "en_servicio C a b E t"
    "proceso t = (proceso s)(pid \<mapsto> (ps @ [p], as))" "libres_swamp (swamp s) \<le> Suc (libres_swamp (swamp t))"
    using crear_en_servicio [OF con Suc.prems(1,2), of thesis] Suc.prems(4) by simp
  have "proceso t pid = Some (ps @ [p], as)" "list_size (ps @ [p]) + int n < 2147483648" "n < libres_swamp (swamp t)"
    using t(3,4) Suc.prems(3,4) by (simp_all add: list_size_def)
  from Suc.IH [OF t(2) this] obtain qs u where "asignar_paginas_carpincho E pid n t = Some u" "length qs = n"
    "en_servicio C a b E u" "proceso u = (proceso t)(pid \<mapsto> ((ps @ [p]) @ qs, as))"
    "libres_swamp (swamp t) \<le> libres_swamp (swamp u) + n" by blast
  then show ?case using t by (intro exI [of _ "p # qs"] exI [of _ u]) simp
qed

end
