(* ===== verification/Memoria_Bloques.thy ===== *)
theory Memoria_Bloques
  imports Memoria_Memalloc Memoria_Servidor
begin

section \<open>Memoria: reusing and freeing blocks in place\<close>

text \<open>What the service needs of \<open>partir_alloc\<close> when it keeps the tiling, and of lists without neighbouring free
  blocks.\<close>

text \<open>A free block that is taken whole, or that is the first one.\<close>

lemma partir_en_su_lugar:
  assumes ok: "contiguos 0 (xs @ a # ys)" and lim: "espacio_ocupado (xs @ a # ys) < 2147483648"
    and a: "al_isFree a" "n \<le> al_tamanio_data a" "0 < n" and sep: "separados (xs @ a # ys)"
    and xs: "\<forall>x\<in>set xs. \<not> (al_isFree x \<and> n \<le> u32 (al_tamanio_data x))" and c: "al_tamanio_data a - n \<le> 9 \<or> xs = []"
  obtains as nuevo b where "partir_alloc (xs @ a # ys) n = Some (al_direccion a + 9, as, nuevo)"
    "contiguos 0 as" "separados as" "espacio_ocupado as = espacio_ocupado (xs @ a # ys)"
    "b \<in> set as" "al_direccion b = al_direccion a" "n \<le> al_tamanio_data b" "\<not> al_isFree b"
    "\<forall>z. nuevo = Some z \<longrightarrow> z \<in> set as"
    "set xs \<union> set ys \<subseteq> set as"
proof -
  note casos = partir_casos [OF ok lim a xs]
  note m = separados_medio [OF sep]
  show thesis
  proof (cases "al_tamanio_data a - n \<le> 9")
    case True
    then show thesis
      by (intro that [OF casos(1), of "a\<lparr>al_isFree := False\<rparr>"])
        (use ok a m separados_unir [of xs ys "a\<lparr>al_isFree := False\<rparr>"] in auto)
  next
    case False
    then have x: "xs = []" using c by blast
    let ?r = "crear_alloc (al_direccion a + n + 9) (al_tamanio_data a - n - 9) True"
    let ?a = "a\<lparr>al_tamanio_data := n, al_isFree := False\<rparr>"
    have p: "partir_alloc (xs @ a # ys) n = Some (al_direccion a + 9, ?a # ?r # ys, Some ?r)"
      using casos(2) [OF False] x by simp
    have "separados (?r # ys)" using m(2,4) a(1) by (cases ys) (auto simp: crear_alloc_def)
    then have "separados (?a # ?r # ys)" by (simp add: crear_alloc_def)
    then show thesis by (rule that [OF p _ _ _ , of ?a, rotated]) (use ok a x False in \<open>auto simp: crear_alloc_def\<close>)
  qed
qed

end
