(* ===== verification/Memoria_Servicio.thy ===== *)
theory Memoria_Servicio
  imports Memoria_Bloques
begin

section \<open>Memoria: the service to the processes\<close>

text \<open>
  The message server, from its start, connected to a swap server that has just started: every allocation for which
  there is room, every read and write, valid or not, and every release that does not empty the first page of its
  process is answered; the invariant of the system and the tilings of the blocks hold all along.
\<close>

subsection \<open>Blocks inside the pages\<close>

definition bloques_ok :: "'s entorno \<Rightarrow> ptr list \<Rightarrow> t_alloc list \<Rightarrow> bool" where
  "bloques_ok E ps as \<longleftrightarrow> contiguos 0 as \<and> separados as \<and>
     espacio_ocupado as \<le> list_size ps * tam_pag E \<and> list_size ps * tam_pag E < 2147483648"

text \<open>The pages a request for \<open>n\<close> bytes needs, and the room for them.\<close>

definition paginas_nuevas :: "'s entorno \<Rightarrow> ptr list \<Rightarrow> t_alloc list \<Rightarrow> int \<Rightarrow> int" where
  "paginas_nuevas E ps as n =
     (let libre = list_size ps * tam_pag E - espacio_ocupado as
      in if n + 9 \<le> libre then 0 else calcular_cantidad_paginas_necesaria E libre n)"

definition cabe :: "swamp_estado entorno \<Rightarrow> swamp_estado memoria \<Rightarrow> int \<Rightarrow> ptr list \<Rightarrow> t_alloc list \<Rightarrow> int \<Rightarrow> bool" where
  "cabe E s pid ps as n \<longleftrightarrow> 0 < n \<and> n + 9 < 2147483648 \<and> i32 pid = pid \<and> pid \<noteq> - 1 \<and>
     (\<forall>x\<in>set as. al_isFree x \<longrightarrow> al_tamanio_data x < n) \<and>
     (list_size ps + paginas_nuevas E ps as n) * tam_pag E < 2147483648 \<and>
     nat (paginas_nuevas E ps as n) < libres_swamp (swamp s)"

lemma paginas_nuevas_alcanzan:
  assumes "bloques_ok E ps as" "0 < tam_pag E" "tam_pag E < 2147483648" "0 < n" "n + 9 < 2147483648"
  shows "0 \<le> paginas_nuevas E ps as n"
    "espacio_ocupado as + n + 9 \<le> (list_size ps + paginas_nuevas E ps as n) * tam_pag E"
proof -
  let ?l = "list_size ps * tam_pag E - espacio_ocupado as"
  have l: "0 \<le> ?l" using assms(1) by (simp add: bloques_ok_def)
  have "0 \<le> paginas_nuevas E ps as n \<and>
    espacio_ocupado as + n + 9 \<le> (list_size ps + paginas_nuevas E ps as n) * tam_pag E"
  proof (cases "n + 9 \<le> ?l")
    case False
    then have k: "n + 9 - ?l \<le> calcular_cantidad_paginas_necesaria E ?l n * tam_pag E"
      using cantidad_de_paginas [OF assms(2,3), of ?l n] l assms(5) by linarith
    moreover have "0 \<le> calcular_cantidad_paginas_necesaria E ?l n"
    proof (rule ccontr)
      assume "\<not> ?thesis"
      then have "calcular_cantidad_paginas_necesaria E ?l n * tam_pag E \<le> 0"
        using assms(2) by (simp add: mult_le_0_iff)
      then show False using k False by linarith
    qed
    ultimately show ?thesis using False by (simp add: paginas_nuevas_def Let_def distrib_right)
  qed (simp add: paginas_nuevas_def)
  then show "0 \<le> paginas_nuevas E ps as n"
    "espacio_ocupado as + n + 9 \<le> (list_size ps + paginas_nuevas E ps as n) * tam_pag E" by auto
qed

lemma bloques_ok_mas:
  assumes "bloques_ok E ps as" "espacio_ocupado as + n + 9 \<le> list_size qs * tam_pag E" "0 < n"
    "list_size qs * tam_pag E < 2147483648"
  shows "bloques_ok E qs (as @ [crear_alloc (espacio_ocupado as) n False])"
  using assms by (simp add: bloques_ok_def crear_alloc_def separados_ocupado)

subsection \<open>Placing the block\<close>

lemma fija_en_servicio: "en_servicio C a b E (fija_allocs pid as s) = en_servicio C a b E s"
proof -
  let ?t = "fija_allocs pid as s"
  have t: "pids_paginas ?t = pids_paginas s" "heap ?t = heap s" "marcos_list ?t = marcos_list s" "CACHE ?t = CACHE s"
    "tlb_list ?t = tlb_list s" "tlb_fifo_pointer ?t = tlb_fifo_pointer s" "prox_ptr ?t = prox_ptr s"
    "swamp ?t = swamp s" "cantidad_maxima_marcos ?t = cantidad_maxima_marcos s"
    by (auto simp: fija_allocs_def modifica_carpincho_def)
  then have P: "paginas_de ?t = paginas_de s" by (simp add: paginas_de_pids)
  have "vista ?t = vista s" using t(2) by (simp add: vista_def fun_eq_iff)
  then have "inv_mem E ?t = inv_mem E s"
    unfolding inv_mem_def procesos_ok_vista presencia_ok_vista using t(1,3-7) P
    by (simp add: marcos_ok_def tlb_ok_def)
  moreover have "guarda_ok G V E ?t = guarda_ok G V E s" for G :: "swamp_estado guarda" and V
    by (rule guarda_ok_cong) (use t P in simp_all)
  ultimately show ?thesis using lugar_cong [OF P t(2,3,9)] t(8) by (simp add: en_servicio_def inv_virtual_guarda)
qed

lemma crear_carpincho_en_servicio:
  assumes "en_servicio C a b E s" "pid \<noteq> 0" "get_carpincho s pid = None"
  shows "en_servicio C a b E (create_carpincho pid s)"
proof -
  let ?t = "create_carpincho pid s"
  have t: "heap ?t = heap s" "marcos_list ?t = marcos_list s" "swamp ?t = swamp s"
    "cantidad_maxima_marcos ?t = cantidad_maxima_marcos s"
    by (simp_all add: create_carpincho_def)
  have "paginas_de ?t = paginas_de s" by (auto simp: create_carpincho_def paginas_de_def)
  note lugar_cong [OF this t(1,2,4)]
  moreover have "inv_sistema C a b E ?t"
    using create_carpincho_inv [OF _ assms(2)] assms(1) unfolding en_servicio_def by blast
  ultimately show ?thesis using assms(1) t(3) by (simp add: en_servicio_def)
qed

lemma colocar_bloque:
  assumes en: "en_servicio C a b E s" and pr: "proceso s pid = Some (ps, as)"
    and "contiguos 0 as" "0 < n" "espacio_ocupado as + n + 9 < 2147483648"
  shows "\<exists>t. memalloc_asignar_en_pagina_con_espacio pid n s = Some (espacio_ocupado as + 9, t) \<and> en_servicio C a b E t \<and>
    proceso t = (proceso s)(pid \<mapsto> (ps, as @ [crear_alloc (espacio_ocupado as) n False])) \<and> swamp t = swamp s"
proof -
  let ?as = "as @ [crear_alloc (espacio_ocupado as) n False]"
  obtain c where c: "get_carpincho s pid = Some c" "crp_paginas c = ps" "crp_allocs c = as"
    using pr by (auto simp: proceso_Some)
  have "memalloc_asignar_en_pagina_con_espacio pid n s = Some (espacio_ocupado as + 9, fija_allocs pid ?as s)"
    using c agregar_al_final [OF assms(3-5)] by (simp add: memalloc_asignar_en_pagina_con_espacio_def)
  moreover have "proceso (fija_allocs pid ?as s) = (proceso s)(pid \<mapsto> (ps, ?as))"
    unfolding fija_allocs_def
    using proceso_modifica [OF c(1), of "\<lambda>c. c\<lparr>crp_allocs := ?as\<rparr>" "\<lambda>x. (fst x, ?as)"] c(2) by simp
  moreover have "swamp (fija_allocs pid ?as s) = swamp s" by (simp add: fija_allocs_def modifica_carpincho_def)
  ultimately show ?thesis using en by (simp add: fija_en_servicio)
qed

text \<open>The strategy that is chosen, carried out.\<close>

definition asignacion ::
  "'s entorno \<Rightarrow> int \<Rightarrow> int \<Rightarrow> int \<Rightarrow> 's memoria \<Rightarrow> (status_memory_op \<times> int \<times> 's memoria) option" where
  "asignacion E pid n dir0 s =
     do { (st, s1) \<leftarrow> elegir_estrategia E pid n s; asignar_segun E st pid n dir0 s1 }"

lemma asignar_paginas_nuevas:
  assumes con: "conexion_swamp C b E" and en: "en_servicio C a b E s" and pr: "proceso s pid = Some (ps, as)"
    and ok: "bloques_ok E ps as" and k: "paginas_nuevas E ps as n \<noteq> 0" and cb: "cabe E s pid ps as n"
    and T: "0 < tam_pag E" "tam_pag E < 2147483648"
  shows "\<exists>qs t. memalloc_asignar_en_paginas_nuevas E pid n s = Some (espacio_ocupado as + 9, t) \<and>
    list_size qs = paginas_nuevas E ps as n \<and> en_servicio C a b E t \<and>
    proceso t = (proceso s)(pid \<mapsto> (ps @ qs, as @ [crear_alloc (espacio_ocupado as) n False])) \<and>
    libres_swamp (swamp s) \<le> libres_swamp (swamp t) + length qs"
proof -
  let ?k = "paginas_nuevas E ps as n"
  have n: "0 < n" "n + 9 < 2147483648" "i32 n = n" and li: "nat ?k < libres_swamp (swamp s)"
    and lim: "(list_size ps + ?k) * tam_pag E < 2147483648" and pid: "i32 pid = pid" "pid \<noteq> - 1"
    using cb by (auto simp: cabe_def)
  note al = paginas_nuevas_alcanzan [OF ok T n(1,2)]
  have "list_size ps + ?k \<le> (list_size ps + ?k) * tam_pag E"
    using mult_left_mono [of 1 "tam_pag E" "list_size ps + ?k"] al(1) T by (simp add: list_size_def)
  then have "list_size ps + int (nat ?k) < 2147483648" using lim al(1) by simp
  from asignar_en_servicio [OF con en pr pid this li] obtain qs t where
    t: "asignar_paginas_carpincho E pid (nat ?k) s = Some t" "length qs = nat ?k" "en_servicio C a b E t"
    "proceso t = (proceso s)(pid \<mapsto> (ps @ qs, as))" "libres_swamp (swamp s) \<le> libres_swamp (swamp t) + nat ?k" by blast
  have pt: "proceso t pid = Some (ps @ qs, as)" using t(4) by simp
  have "contiguos 0 as" "espacio_ocupado as + n + 9 < 2147483648" using ok al(2) lim by (auto simp: bloques_ok_def)
  from colocar_bloque [OF t(3) pt this(1) n(1) this(2)] obtain u where
    u: "memalloc_asignar_en_pagina_con_espacio pid n t = Some (espacio_ocupado as + 9, u)" "en_servicio C a b E u"
    "proceso u = (proceso t)(pid \<mapsto> (ps @ qs, as @ [crear_alloc (espacio_ocupado as) n False]))" "swamp u = swamp t" by blast
  obtain c where c: "get_carpincho s pid = Some c" "crp_paginas c = ps" "crp_allocs c = as"
    using pr by (auto simp: proceso_Some)
  have "0 \<le> list_size ps * tam_pag E" using T by (simp add: list_size_def)
  then have "espacio_total E c = list_size ps * tam_pag E" using c ok by (simp add: espacio_total_def bloques_ok_def)
  moreover have "calcular_cantidad_paginas_necesaria E (list_size ps * tam_pag E - espacio_ocupado as) n = ?k"
    using k by (auto simp: paginas_nuevas_def Let_def)
  ultimately have "memalloc_asignar_en_paginas_nuevas E pid n s = Some (espacio_ocupado as + 9, u)"
    using c t(1) u(1) n(3) by (simp add: memalloc_asignar_en_paginas_nuevas_def Let_def)
  then show ?thesis using t u al(1) by (intro exI [of _ qs] exI [of _ u]) (simp add: list_size_def)
qed

lemma asignacion_existente:
  assumes con: "conexion_swamp C b E" and srv: "srv_puede_escribir E = puede_escribir_en_swamp C"
    and en: "en_servicio C a b E s" and pr: "proceso s pid = Some (ps, as)"
    and ok: "bloques_ok E ps as" and cb: "cabe E s pid ps as n"
    and T: "0 < tam_pag E" "tam_pag E < 2147483648"
  shows "\<exists>qs t. asignacion E pid n dir s = Some (EXITO, espacio_ocupado as + 9, t) \<and>
    list_size qs = paginas_nuevas E ps as n \<and> en_servicio C a b E t \<and>
    proceso t = (proceso s)(pid \<mapsto> (ps @ qs, as @ [crear_alloc (espacio_ocupado as) n False])) \<and>
    libres_swamp (swamp s) \<le> libres_swamp (swamp t) + length qs"
proof -
  let ?l = "list_size ps * tam_pag E - espacio_ocupado as"
  obtain c where c: "get_carpincho s pid = Some c" "crp_paginas c = ps" "crp_allocs c = as"
    using pr by (auto simp: proceso_Some)
  have n: "0 < n" "n + 9 < 2147483648" "i32 n = n" using cb by (auto simp: cabe_def)
  have din: "\<not> es_fija E" using en by (auto simp: en_servicio_def lugar_def)
  have "0 \<le> list_size ps * tam_pag E" using T by (simp add: list_size_def)
  then have e: "espacio_total E c - espacio_ocupado as = ?l" using c ok by (simp add: espacio_total_def bloques_ok_def)
  have r: "recorre_allocs n as 0 = Some (espacio_ocupado as)" using cb by (auto simp: recorre_allocs_eq cabe_def)
  show ?thesis
  proof (cases "n + 9 \<le> ?l")
    case True
    then have k: "paginas_nuevas E ps as n = 0" by (simp add: paginas_nuevas_def)
    have "elegir_estrategia E pid n s = Some (ALLOC_PAGINA, s)"
      using c n(3) r e True by (simp add: elegir_estrategia_def check_alloc_def Let_def)
    moreover have "contiguos 0 as" "espacio_ocupado as + n + 9 < 2147483648" using ok True by (auto simp: bloques_ok_def)
    from colocar_bloque [OF en pr this(1) n(1) this(2)] obtain t where
      "memalloc_asignar_en_pagina_con_espacio pid n s = Some (espacio_ocupado as + 9, t)" "en_servicio C a b E t"
      "proceso t = (proceso s)(pid \<mapsto> (ps, as @ [crear_alloc (espacio_ocupado as) n False]))" "swamp t = swamp s" by blast
    ultimately show ?thesis using k
      by (intro exI [of _ "[]"] exI [of _ t]) (simp add: asignacion_def asignar_segun_def list_size_def)
  next
    case False
    let ?k = "calcular_cantidad_paginas_necesaria E ?l n"
    obtain s1 where s1: "check_size_swamp E pid ?k s = Some (True, s1)" "mantiene C a b E s s1"
      using consulta_en_servicio [OF srv en] by blast
    have st: "elegir_estrategia E pid n s = Some (ALLOC_SOLICITAR_PAGINA, s1)"
      using c n(3) r e False din s1(1) get_carpinchoD(2) [OF c(1)]
      by (simp add: elegir_estrategia_def check_alloc_def Let_def)
    have p1: "proceso s1 = proceso s" "en_servicio C a b E s1" "libres_swamp (swamp s1) = libres_swamp (swamp s)"
      using mantiene_proceso [OF s1(2)] s1(2) by (simp_all add: mantiene_def)
    have "paginas_nuevas E ps as n \<noteq> 0"
    proof
      assume "paginas_nuevas E ps as n = 0"
      then show False using paginas_nuevas_alcanzan(2) [OF ok T n(1,2)] False by simp
    qed
    moreover have "cabe E s1 pid ps as n" using cb p1(3) by (simp add: cabe_def)
    ultimately show ?thesis
      using asignar_paginas_nuevas [OF con p1(2) _ ok _ _ T, of pid n] pr p1(1,3) st
      by (auto simp: asignacion_def asignar_segun_def)
  qed
qed

lemma asignacion_nueva:
  assumes con: "conexion_swamp C b E" and srv: "srv_puede_escribir E = puede_escribir_en_swamp C"
    and en: "en_servicio C a b E s" and pr: "proceso s pid = None" and pid: "pid \<noteq> 0"
    and cb: "cabe E s pid [] [] n" and T: "0 < tam_pag E" "tam_pag E < 2147483648"
  shows "\<exists>qs t. asignacion E pid n dir s = Some (EXITO, 9, t) \<and> list_size qs = paginas_nuevas E [] [] n \<and>
    en_servicio C a b E t \<and> proceso t = (proceso s)(pid \<mapsto> (qs, [crear_alloc 0 n False])) \<and>
    libres_swamp (swamp s) \<le> libres_swamp (swamp t) + length qs"
proof -
  let ?k = "calcular_cantidad_paginas_necesaria E 0 n"
  have c: "get_carpincho s pid = None" using pr by (simp add: proceso_get)
  have n: "0 < n" "n + 9 < 2147483648" "i32 n = n" using cb by (auto simp: cabe_def)
  obtain s1 where s1: "check_size_swamp E pid ?k s = Some (True, s1)" "mantiene C a b E s s1"
    "carpinchos_list s1 = carpinchos_list s"
    using consulta_en_servicio [OF srv en] by blast
  let ?t = "create_carpincho pid s1"
  have p1: "proceso s1 = proceso s" "en_servicio C a b E s1" "libres_swamp (swamp s1) = libres_swamp (swamp s)"
    using mantiene_proceso [OF s1(2)] s1(2) by (simp_all add: mantiene_def)
  have c1: "get_carpincho s1 pid = None" using c s1(3) by (simp add: get_carpincho_find)
  have st: "elegir_estrategia E pid n s = Some (ALLOC_SOLICITAR_PAGINA, ?t)"
    using c n(3) s1(1) by (simp add: elegir_estrategia_def)
  have t: "en_servicio C a b E ?t" "proceso ?t = (proceso s)(pid \<mapsto> ([], []))" "swamp ?t = swamp s1"
    using crear_carpincho_en_servicio [OF p1(2) pid c1] proceso_create_carpincho [OF c1] p1(1)
    by (simp_all add: create_carpincho_def)
  have ok: "bloques_ok E [] []" by (simp add: bloques_ok_def list_size_def)
  have "paginas_nuevas E [] [] n \<noteq> 0"
  proof
    assume "paginas_nuevas E [] [] n = 0"
    then show False using paginas_nuevas_alcanzan(2) [OF ok T n(1,2)] n(1) by (simp add: list_size_def)
  qed
  moreover have "cabe E ?t pid [] [] n" using cb t(3) p1(3) by (simp add: cabe_def)
  ultimately show ?thesis
    using asignar_paginas_nuevas [OF con t(1) _ ok _ _ T, of pid n] t(2,3) p1(3) st
    by (auto simp: asignacion_def asignar_segun_def)
qed

subsection \<open>The metadata\<close>

lemma en_servicio_pagina:
  assumes "en_servicio C a b E s"
  shows "0 < tam_pag E" "tam_pag E < 2147483648" "\<not> en_debug E"
  using assms by (auto simp: en_servicio_def inv_virtual_def inv_mem_def marcos_ok_def)

lemma accesible_bloques:
  assumes "en_servicio C a b E s" "proceso s pid = Some (ps, as)" "bloques_ok E ps as"
  shows "accesible C a b E s pid ps"
proof -
  note T = en_servicio_pagina [OF assms(1)]
  have "list_size ps \<le> list_size ps * tam_pag E"
    using mult_left_mono [of 1 "tam_pag E" "list_size ps"] T by (simp add: list_size_def)
  then show ?thesis using assms by (auto simp: accesible_def bloques_ok_def proceso_Some)
qed

lemma persistir_en_servicio:
  assumes con: "conexion_swamp C b E" and en: "en_servicio C a b E s"
    and pr: "proceso s pid = Some (ps, as)" and ok: "bloques_ok E ps as" and x: "x \<in> set as"
  obtains t where "persistir_metadata_heap E pid x s = Some t" "mantiene C a b E s t"
proof -
  note T = en_servicio_pagina [OF en]
  obtain c where c: "get_carpincho s pid = Some c" "crp_paginas c = ps" "crp_allocs c = as"
    using pr by (auto simp: proceso_Some)
  obtain us vs where as: "as = us @ x # vs" using x by (meson split_list)
  have o: "contiguos 0 as" "espacio_ocupado as \<le> list_size ps * tam_pag E" "list_size ps * tam_pag E < 2147483648"
    using ok by (auto simp: bloques_ok_def)
  have r: "0 \<le> al_direccion x" "al_direccion x + 9 \<le> list_size ps * tam_pag E"
    using contiguos_rango [OF o(1) x] o(2) by auto
  have i: "obtener_indice_de_alloc as x = Some (int (length us))"
    unfolding as by (rule indice_propio [of 0]) (use o(1) as in simp_all)
  have g: "\<exists>y. list_get as j = Some y" if "0 \<le> j" "j < list_size as" for j
    using that by (simp add: list_get_def list_size_def)
  obtain prev where prev: "(if int (length us) - 1 \<ge> 0
      then do { p \<leftarrow> list_get as (int (length us) - 1); Some (al_direccion p) } else Some 0) = Some prev"
    using g [of "int (length us) - 1"] as by (fastforce simp: list_size_def)
  obtain sig where sig: "(if int (length us) + 1 \<le> list_size as - 1
      then do { p \<leftarrow> list_get as (int (length us) + 1); Some (al_direccion p) } else Some 0) = Some sig"
    using g [of "int (length us) + 1"] by fastforce
  let ?m = "bytes_heap_metadata prev sig (al_isFree x)"
  have m: "list_size ?m = 9" by (simp add: bytes_heap_metadata_def list_size_def)
  have "armar_acciones E (al_direccion x) [0..<nat 9] [] = map accion (pedazos (tam_pag E) (al_direccion x) 9)"
    by (rule armar_pedazos) (use T o(3) r in auto)
  moreover have pz: "pedazos_ok (tam_pag E) (list_size ps) (list_size ?m) 0 (pedazos (tam_pag E) (al_direccion x) 9)"
    by (rule pedazos_pedazos_ok) (use T r m in auto)
  ultimately obtain t where t: "escribir_heap_memoria_fisica E ?m (al_direccion x) pid s = Some t" "mantiene C a b E s t"
    using escribir_pedazos(2) [OF con accesible_bloques [OF en pr ok] pz] by (auto simp: escribir_heap_memoria_fisica_def)
  have "persistir_metadata_heap E pid x s = Some t"
    using t(1) unfolding persistir_metadata_heap_def c(1) bind.bind_lunit c(3) i prev sig by simp
  then show thesis using that t(2) by blast
qed

text \<open>A block is found by the address of its data.\<close>

lemma bloque_encontrado:
  assumes en: "en_servicio C a b E s" and pr: "proceso s pid = Some (ps, as)" and ok: "bloques_ok E ps as" and x: "x \<in> set as"
  obtains c k where "get_carpincho s pid = Some c" "crp_paginas c = ps" "crp_allocs c = as"
    "obtener_alloc_de_un_carpincho c (al_direccion x + 9) = Some k" "list_get (crp_allocs c) k = Some x"
proof -
  note T = en_servicio_pagina [OF en]
  obtain c where c: "get_carpincho s pid = Some c" "crp_paginas c = ps" "crp_allocs c = as"
    using pr by (auto simp: proceso_Some)
  have "contiguos 0 as" using ok by (simp add: bloques_ok_def)
  then have "dentro_de E c x (al_direccion x + 9) 1"
    using contiguos_rango [of 0 as x] c ok T x by (simp add: dentro_de_def bloques_ok_def)
  from dentro_bloque [OF this] show thesis using that [OF c] by blast
qed

subsection \<open>Allocation\<close>

definition de_proceso :: "'s memoria \<Rightarrow> int \<Rightarrow> ptr list \<times> t_alloc list" where
  "de_proceso s pid = (case proceso s pid of Some x \<Rightarrow> x | None \<Rightarrow> ([], []))"

definition estado_servicio ::
  "entorno_swamp \<Rightarrow> string \<Rightarrow> int \<Rightarrow> swamp_estado entorno \<Rightarrow> swamp_estado memoria \<Rightarrow> bool" where
  "estado_servicio C a b E s \<longleftrightarrow> en_servicio C a b E s \<and>
     (\<forall>pid ps as. proceso s pid = Some (ps, as) \<longrightarrow> bloques_ok E ps as)"

lemma estado_servicio_mantiene: "estado_servicio C a b E s \<Longrightarrow> mantiene C a b E s t \<Longrightarrow> estado_servicio C a b E t"
  using mantiene_proceso [of C a b E s t] by (simp add: estado_servicio_def mantiene_def)

text \<open>The program is connected to the swap server, for the question too.\<close>

definition conectado :: "entorno_swamp \<Rightarrow> int \<Rightarrow> swamp_estado entorno \<Rightarrow> bool" where
  "conectado C b E \<longleftrightarrow> conexion_swamp C b E \<and> srv_puede_escribir E = puede_escribir_en_swamp C"

text \<open>The state after the allocation of \<open>n\<close> bytes.\<close>

definition asignado ::
  "entorno_swamp \<Rightarrow> string \<Rightarrow> int \<Rightarrow> swamp_estado entorno \<Rightarrow> int \<Rightarrow> int \<Rightarrow> swamp_estado memoria \<Rightarrow> swamp_estado memoria \<Rightarrow> bool"
where
  "asignado C a b E pid n s t \<longleftrightarrow> (case de_proceso s pid of (ps, as) \<Rightarrow>
     \<exists>qs. list_size qs = paginas_nuevas E ps as n \<and>
       proceso t = (proceso s)(pid \<mapsto> (ps @ qs, as @ [crear_alloc (espacio_ocupado as) n False])) \<and>
       libres_swamp (swamp s) \<le> libres_swamp (swamp t) + length qs \<and> estado_servicio C a b E t)"

lemma asignado_en_servicio: "asignado C a b E pid n s t \<Longrightarrow> estado_servicio C a b E t"
  by (auto simp: asignado_def split: prod.splits)

lemma memory_memalloc_asignacion:
  "memory_memalloc E pid n dir s =
     do { (result, d, s2) \<leftarrow> asignacion E pid n dir s;
          if result = EXITO
          then do { c \<leftarrow> get_carpincho s2 pid;
                    k \<leftarrow> obtener_alloc_de_un_carpincho c d;
                    x \<leftarrow> list_get (crp_allocs c) k;
                    s3 \<leftarrow> persistir_metadata_heap E pid x s2;
                    Some (result, d, s3) }
          else Some (result, d, s2) }"
  unfolding memory_memalloc_def asignacion_def by (cases "elegir_estrategia E pid n s") auto

lemma memalloc_persiste:
  assumes con: "conexion_swamp C b E" and st: "estado_servicio C a b E s"
    and t: "asignacion E pid n dir s = Some (EXITO, al_direccion x + 9, t)" "en_servicio C a b E t"
      "proceso t = (proceso s)(pid \<mapsto> (ps, as))" "bloques_ok E ps as" "x \<in> set as"
  obtains u where "memory_memalloc E pid n dir s = Some (EXITO, al_direccion x + 9, u)" "estado_servicio C a b E u"
    "proceso u = proceso t" "libres_swamp (swamp u) = libres_swamp (swamp t)"
proof -
  have pt: "proceso t pid = Some (ps, as)" using t(3) by simp
  obtain u where u: "persistir_metadata_heap E pid x t = Some u" "mantiene C a b E t u"
    using persistir_en_servicio [OF con t(2) pt t(4,5)] .
  obtain c k where c: "get_carpincho t pid = Some c" "obtener_alloc_de_un_carpincho c (al_direccion x + 9) = Some k"
    "list_get (crp_allocs c) k = Some x"
    using bloque_encontrado [OF t(2) pt t(4,5)] by metis
  have "memory_memalloc E pid n dir s = Some (EXITO, al_direccion x + 9, u)"
    using t(1) c u(1) by (simp add: memory_memalloc_asignacion)
  moreover have "estado_servicio C a b E t" using st t(2-4) by (auto simp: estado_servicio_def split: if_splits)
  ultimately show thesis
    using that estado_servicio_mantiene [OF _ u(2)] mantiene_proceso [OF u(2)] u(2) by (simp add: mantiene_def)
qed

lemma memalloc_con_lugar:
  assumes con: "conectado C b E" and st: "estado_servicio C a b E s" and pid: "pid \<noteq> 0"
    and pr: "de_proceso s pid = (ps, as)" and cb: "cabe E s pid ps as n"
  shows "\<exists>t. memory_memalloc E pid n dir s = Some (EXITO, espacio_ocupado as + 9, t) \<and> asignado C a b E pid n s t"
proof -
  let ?x = "crear_alloc (espacio_ocupado as) n False"
  have co: "conexion_swamp C b E" "srv_puede_escribir E = puede_escribir_en_swamp C" using con by (auto simp: conectado_def)
  have en: "en_servicio C a b E s" using st by (simp add: estado_servicio_def)
  note T = en_servicio_pagina [OF en]
  have n: "0 < n" "n + 9 < 2147483648" using cb by (auto simp: cabe_def)
  have ok: "bloques_ok E ps as"
  proof (cases "proceso s pid")
    case None
    then show ?thesis using pr by (simp add: de_proceso_def bloques_ok_def list_size_def)
  next
    case (Some y)
    then show ?thesis using pr st by (simp add: de_proceso_def estado_servicio_def)
  qed
  have "\<exists>qs t. asignacion E pid n dir s = Some (EXITO, espacio_ocupado as + 9, t) \<and>
    list_size qs = paginas_nuevas E ps as n \<and> en_servicio C a b E t \<and>
    proceso t = (proceso s)(pid \<mapsto> (ps @ qs, as @ [?x])) \<and>
    libres_swamp (swamp s) \<le> libres_swamp (swamp t) + length qs"
  proof (cases "proceso s pid")
    case None
    then have e: "ps = []" "as = []" using pr by (simp_all add: de_proceso_def)
    show ?thesis using asignacion_nueva [OF co en None pid _ T(1,2), of n dir] cb unfolding e by simp
  next
    case (Some y)
    then have "proceso s pid = Some (ps, as)" using pr by (simp add: de_proceso_def)
    from asignacion_existente [OF co en this ok cb T(1,2)] show ?thesis .
  qed
  then obtain qs t where t: "asignacion E pid n dir s = Some (EXITO, espacio_ocupado as + 9, t)"
    "list_size qs = paginas_nuevas E ps as n" "en_servicio C a b E t"
    "proceso t = (proceso s)(pid \<mapsto> (ps @ qs, as @ [?x]))"
    "libres_swamp (swamp s) \<le> libres_swamp (swamp t) + length qs" by blast
  have l: "list_size (ps @ qs) = list_size ps + paginas_nuevas E ps as n" using t(2) by (simp add: list_size_def)
  have okt: "bloques_ok E (ps @ qs) (as @ [?x])"
    by (rule bloques_ok_mas [OF ok]) (use paginas_nuevas_alcanzan [OF ok T(1,2) n] cb n(1) l in \<open>auto simp: cabe_def\<close>)
  have x: "al_direccion ?x = espacio_ocupado as" "?x \<in> set (as @ [?x])" by (simp_all add: crear_alloc_def)
  obtain u where u: "memory_memalloc E pid n dir s = Some (EXITO, al_direccion ?x + 9, u)" "estado_servicio C a b E u"
    "proceso u = proceso t" "libres_swamp (swamp u) = libres_swamp (swamp t)"
    using memalloc_persiste [OF co(1) st _ t(3,4) okt x(2), of n dir] t(1) x(1) by auto
  then have "asignado C a b E pid n s u" using pr t(2,4,5) by (auto simp: asignado_def)
  then show ?thesis using u(1) x(1) by auto
qed

text \<open>A request that a free block takes: the first one that is large enough is taken whole, or is the first of all.\<close>

definition reusa :: "t_alloc list \<Rightarrow> int \<Rightarrow> t_alloc list \<Rightarrow> t_alloc \<Rightarrow> t_alloc list \<Rightarrow> bool" where
  "reusa as n xs y ys \<longleftrightarrow> 0 < n \<and> as = xs @ y # ys \<and> al_isFree y \<and> n \<le> al_tamanio_data y \<and>
     (\<forall>x\<in>set xs. al_isFree x \<longrightarrow> al_tamanio_data x < n) \<and> (al_tamanio_data y - n \<le> 9 \<or> xs = [])"

definition la_toma_un_libre :: "t_alloc list \<Rightarrow> int \<Rightarrow> bool" where
  "la_toma_un_libre as n \<longleftrightarrow> (\<exists>xs y ys. reusa as n xs y ys)"

lemma asignacion_en_libre:
  assumes con: "conexion_swamp C b E" and en: "en_servicio C a b E s" and pr: "proceso s pid = Some (ps, as)"
    and ok: "bloques_ok E ps as" and re: "reusa as n xs y ys"
  obtains x as' t where "asignacion E pid n dir s = Some (EXITO, al_direccion x + 9, t)" "en_servicio C a b E t"
    "proceso t = (proceso s)(pid \<mapsto> (ps, as'))" "bloques_ok E ps as'" "x \<in> set as'"
    "al_direccion x = al_direccion y" "n \<le> al_tamanio_data x" "\<not> al_isFree x" "set xs \<union> set ys \<subseteq> set as'"
    "libres_swamp (swamp t) = libres_swamp (swamp s)"
proof -
  have y: "0 < n" "as = xs @ y # ys" "al_isFree y" "n \<le> al_tamanio_data y" "\<forall>x\<in>set xs. al_isFree x \<longrightarrow> al_tamanio_data x < n"
    "al_tamanio_data y - n \<le> 9 \<or> xs = []"
    using re by (auto simp: reusa_def)
  have o: "contiguos 0 (xs @ y # ys)" "separados (xs @ y # ys)" "espacio_ocupado (xs @ y # ys) < 2147483648"
    using ok y(2) by (auto simp: bloques_ok_def)
  have tam: "u32 (al_tamanio_data x) = al_tamanio_data x" "al_tamanio_data x < 2147483648" if "x \<in> set (xs @ y # ys)" for x
    using contiguos_rango [OF o(1) that] o(3) by auto
  then have xs: "\<forall>x\<in>set xs. \<not> (al_isFree x \<and> n \<le> u32 (al_tamanio_data x))" using y(5) by fastforce
  obtain as' x nuevo where
    p: "partir_alloc (xs @ y # ys) n = Some (al_direccion y + 9, as', nuevo)" "contiguos 0 as'" "separados as'"
    "espacio_ocupado as' = espacio_ocupado (xs @ y # ys)" "x \<in> set as'" "al_direccion x = al_direccion y" "n \<le> al_tamanio_data x"
    "\<not> al_isFree x" "\<forall>z. nuevo = Some z \<longrightarrow> z \<in> set as'" "set xs \<union> set ys \<subseteq> set as'"
    using partir_en_su_lugar [OF o(1,3) y(3,4,1) o(2) xs y(6)] .
  note p = p [folded y(2)]
  obtain c where c: "get_carpincho s pid = Some c" "crp_paginas c = ps" "crp_allocs c = as"
    using pr by (auto simp: proceso_Some)
  have i: "i32 n = n" using y(1,4) tam(2) [of y] by simp
  have st: "elegir_estrategia E pid n s = Some (ALLOC_HEAP, s)"
    using c i y(2-4) by (auto simp: elegir_estrategia_def check_alloc_def recorre_allocs_eq)
  let ?s = "fija_allocs pid as' s"
  have f: "en_servicio C a b E ?s" "swamp ?s = swamp s"
    using en by (simp_all add: fija_en_servicio) (simp add: fija_allocs_def modifica_carpincho_def)
  have ps: "proceso ?s = (proceso s)(pid \<mapsto> (ps, as'))"
    unfolding fija_allocs_def
    using proceso_modifica [OF c(1), of "\<lambda>c. c\<lparr>crp_allocs := as'\<rparr>" "\<lambda>x. (fst x, as')"] c(2) by simp
  have ok': "bloques_ok E ps as'" using ok p(2-4) by (simp add: bloques_ok_def)
  have "proceso ?s pid = Some (ps, as')" using ps by simp
  obtain t where t: "(case nuevo of Some z \<Rightarrow> persistir_metadata_heap E pid z ?s | None \<Rightarrow> Some ?s) = Some t" "mantiene C a b E ?s t"
  proof (cases nuevo)
    case None
    then show ?thesis using that mantiene_refl [OF f(1)] by simp
  next
    case (Some z)
    then show ?thesis
      using that persistir_en_servicio [OF con f(1) \<open>proceso ?s pid = Some (ps, as')\<close> ok', of z] p(9) by auto
  qed
  have "memalloc_asignar_en_heap_libre E pid n s = Some (al_direccion x + 9, t)"
    using c p(1,6) t(1) by (simp add: memalloc_asignar_en_heap_libre_def Let_def)
  then have "asignacion E pid n dir s = Some (EXITO, al_direccion x + 9, t)"
    using st by (simp add: asignacion_def asignar_segun_def)
  then show thesis
    using that [of x t as'] t(2) mantiene_proceso [OF t(2)] ps ok' p(5-8,10) f(2) by (simp add: mantiene_def)
qed

lemma memalloc_en_libre:
  assumes con: "conectado C b E" and st: "estado_servicio C a b E s" and pr: "proceso s pid = Some (ps, as)"
    and re: "reusa as n xs y ys"
  obtains x as' t where "memory_memalloc E pid n dir s = Some (EXITO, al_direccion y + 9, t)"
    "proceso t = (proceso s)(pid \<mapsto> (ps, as'))" "estado_servicio C a b E t" "x \<in> set as'"
    "al_direccion x = al_direccion y" "n \<le> al_tamanio_data x" "\<not> al_isFree x" "set xs \<union> set ys \<subseteq> set as'"
proof -
  have co: "conexion_swamp C b E" and en: "en_servicio C a b E s" and ok: "bloques_ok E ps as"
    using con st pr by (auto simp: conectado_def estado_servicio_def)
  obtain x as' t where t: "asignacion E pid n dir s = Some (EXITO, al_direccion x + 9, t)" "en_servicio C a b E t"
    "proceso t = (proceso s)(pid \<mapsto> (ps, as'))" "bloques_ok E ps as'" "x \<in> set as'"
    "al_direccion x = al_direccion y" "n \<le> al_tamanio_data x" "\<not> al_isFree x" "set xs \<union> set ys \<subseteq> set as'"
    using asignacion_en_libre [OF co en pr ok re] .
  obtain u where "memory_memalloc E pid n dir s = Some (EXITO, al_direccion x + 9, u)" "estado_servicio C a b E u"
    "proceso u = proceso t"
    using memalloc_persiste [OF co st t(1-5)] .
  then show thesis using that t(3,5-9) by metis
qed

subsection \<open>Reads and writes\<close>

text \<open>Two blocks of a tiling are 9 bytes apart.\<close>

lemma bloques_separados:
  assumes "contiguos d as" "x \<in> set as" "y \<in> set as" "x \<noteq> y"
  shows "al_direccion x + al_tamanio_data x + 9 \<le> al_direccion y \<or> al_direccion y + al_tamanio_data y + 9 \<le> al_direccion x"
  using assms
proof (induction as arbitrary: d)
  case (Cons z as)
  then show ?case using contiguos_rango [of "d + al_tamanio_data z + 9" as x] contiguos_rango [of "d + al_tamanio_data z + 9" as y]
    by auto
qed simp

lemma bloque_limites:
  assumes "bloques_ok E ps as" "x \<in> set as"
  shows "0 \<le> al_direccion x" "0 < al_tamanio_data x" "al_direccion x + al_tamanio_data x + 9 < 2147483648"
  using contiguos_rango [of 0 as x] assms by (auto simp: bloques_ok_def)

lemma rango_en_un_bloque:
  assumes ok: "bloques_ok E ps as" and v: "\<And>i. int i < n \<Longrightarrow> list_ex (en_rango (u32 (pos + int i))) as"
    and p: "0 \<le> pos" "pos < 4294967296" and m: "0 < m" "int m \<le> n"
  shows "\<exists>x\<in>set as. al_direccion x + 9 \<le> pos \<and> pos + int m \<le> al_direccion x + 9 + al_tamanio_data x"
  using m
proof (induction m)
  case (Suc m)
  obtain y where y: "y \<in> set as" "en_rango (u32 (pos + int m)) y"
    using v [of m] Suc.prems by (auto simp: list_ex_iff)
  note ly = bloque_limites [OF ok y(1)]
  show ?case
  proof (cases "m = 0")
    case True
    then show ?thesis using y en_rango_bloque [OF ly] p by (intro bexI [of _ y]) simp_all
  next
    case False
    then obtain x where x: "x \<in> set as" "al_direccion x + 9 \<le> pos" "pos + int m \<le> al_direccion x + 9 + al_tamanio_data x"
      using Suc by auto
    note lx = bloque_limites [OF ok x(1)]
    have u: "u32 (pos + int m) = pos + int m" using p(1) x(3) lx by simp
    have r: "al_direccion y + 9 \<le> pos + int m" "pos + int m < al_direccion y + 9 + al_tamanio_data y"
      using y(2) en_rango_bloque [OF ly] unfolding u by auto
    have "x = y"
    proof (rule ccontr)
      assume "x \<noteq> y"
      then have "al_direccion x + al_tamanio_data x + 9 \<le> al_direccion y \<or> al_direccion y + al_tamanio_data y + 9 \<le> al_direccion x"
        using bloques_separados [of 0 as x y] x(1) y(1) ok by (simp add: bloques_ok_def)
      then show False using r x(2,3) False by linarith
    qed
    then show ?thesis using x(1,2) r(2) by auto
  qed
qed simp

lemma valida_dentro:
  assumes ok: "bloques_ok E (crp_paginas c) (crp_allocs c)" and T: "0 < tam_pag E" "tam_pag E < 2147483648"
    and v: "validar_direccion_logica_escritura_con_size E c pos (i32 n)"
    and p: "0 \<le> pos" "pos < 4294967296" "0 < n" "n < 4294967296"
  obtains x where "dentro_de E c x pos n"
proof -
  have "u32 (i32 n) = n" using p(3,4) by (simp add: u32_def i32_def mod_diff_left_eq)
  then have "list_ex (en_rango (u32 (pos + int i))) (crp_allocs c)" if "int i < n" for i
    using v that by (auto simp: validar_direccion_logica_escritura_con_size_def list_all_iff
        validar_direccion_logica_escritura_def split: if_splits)
  from rango_en_un_bloque [OF ok this p(1,2), where m = "nat n"] p(3) obtain x where
    "x \<in> set (crp_allocs c)" "al_direccion x + 9 \<le> pos" "pos + n \<le> al_direccion x + 9 + al_tamanio_data x" by auto
  then show thesis using that [of x] ok T p(3) by (simp add: dentro_de_def bloques_ok_def)
qed

lemma memwrite_en_servicio:
  assumes con: "conexion_swamp C b E" and st: "estado_servicio C a b E s"
    and p: "0 \<le> pos" "pos < 4294967296" "0 < n" "n < 4294967296" "n \<le> list_size valor"
  shows "\<exists>r t. memory_memwrite E pid pos n valor s = Some (r, t) \<and> mantiene C a b E s t"
proof -
  have en: "en_servicio C a b E s" using st by (simp add: estado_servicio_def)
  note T = en_servicio_pagina [OF en]
  show ?thesis
  proof (cases "get_carpincho s pid")
    case None
    then show ?thesis using mantiene_refl [OF en] by (simp add: memory_memwrite_def)
  next
    case (Some c)
    then have pr: "proceso s pid = Some (crp_paginas c, crp_allocs c)" by (simp add: proceso_get)
    then have ok: "bloques_ok E (crp_paginas c) (crp_allocs c)" using st by (simp add: estado_servicio_def)
    show ?thesis
    proof (cases "validar_direccion_logica_escritura_con_size E c pos (i32 n)")
      case False
      then show ?thesis using Some mantiene_refl [OF en] by (simp add: memory_memwrite_def)
    next
      case True
      obtain x where x: "dentro_de E c x pos n" using valida_dentro [OF ok T(1,2) True p(1-4)] .
      obtain k where k: "obtener_alloc_de_un_carpincho c pos = Some k" "list_get (crp_allocs c) k = Some x"
        using dentro_bloque [OF x] by blast
      note pz = dentro_pedazos [OF x, of 0 "list_size valor"]
      obtain t where "escribir_acciones E pid (armar_acciones E pos [0..<nat n] []) valor 0 s = Some t" "mantiene C a b E s t"
        using escribir_pedazos(1) [OF con accesible_bloques [OF en pr ok] pz(2)] pz(1) p(5) by auto
      then show ?thesis using Some True k dentro_no_supera [OF x] by (simp add: memory_memwrite_def Let_def)
    qed
  qed
qed

lemma memread_en_servicio:
  assumes con: "conexion_swamp C b E" and st: "estado_servicio C a b E s"
    and p: "0 \<le> pos" "pos < 4294967296" "0 \<le> n" "n < 4294967296" "list_size buffer = n"
  shows "\<exists>r bs t. memory_memread E pid pos n buffer s = Some (r, bs, t) \<and> mantiene C a b E s t"
proof -
  have en: "en_servicio C a b E s" using st by (simp add: estado_servicio_def)
  note T = en_servicio_pagina [OF en]
  show ?thesis
  proof (cases "get_carpincho s pid")
    case None
    then show ?thesis using mantiene_refl [OF en] by (simp add: memory_memread_def)
  next
    case (Some c)
    then have pr: "proceso s pid = Some (crp_paginas c, crp_allocs c)" by (simp add: proceso_get)
    then have ok: "bloques_ok E (crp_paginas c) (crp_allocs c)" using st by (simp add: estado_servicio_def)
    show ?thesis
    proof (cases "validar_direccion_logica_escritura_con_size E c pos (i32 n)")
      case False
      then show ?thesis using Some mantiene_refl [OF en] by (simp add: memory_memread_def)
    next
      case True
      have "\<exists>bs t. leer_acciones E pid (armar_acciones E pos [0..<nat n] []) buffer 0 s = Some (bs, t) \<and> mantiene C a b E s t"
      proof (cases "n = 0")
        case True
        then show ?thesis using mantiene_refl [OF en] by simp
      next
        case False
        obtain x where x: "dentro_de E c x pos n" using valida_dentro [OF ok T(1,2) True p(1,2) _ p(4)] False p(3) by auto
        note pz = dentro_pedazos [OF x, of 0 "list_size buffer"]
        show ?thesis using leer_pedazos [OF con accesible_bloques [OF en pr ok] pz(2)] pz(1) p(5) by auto
      qed
      then show ?thesis using Some True by (auto simp: memory_memread_def)
    qed
  qed
qed

subsection \<open>Freeing\<close>

text \<open>Some other block that begins in the first page stays in use: nothing is compacted.\<close>

definition sin_compactar :: "'s entorno \<Rightarrow> t_alloc list \<Rightarrow> int \<Rightarrow> bool" where
  "sin_compactar E as pos \<longleftrightarrow> (\<exists>x\<in>set as. \<not> al_isFree x \<and> al_direccion x < tam_pag E \<and> al_direccion x + 9 \<noteq> pos)"

lemma compactar_no_hace_nada:
  assumes "get_carpincho s pid = Some c" "crp_paginas c \<noteq> []" "0 < tam_pag E" "x \<in> set (crp_allocs c)" "\<not> al_isFree x"
    "0 \<le> al_direccion x" "al_direccion x < tam_pag E" "tam_pag E < 2147483648"
  shows "compactar_todo E pid s = Some s"
proof -
  have "i32 (div_u32 (u32 (al_direccion x + int 0)) (tam_pag E)) = 0"
    using assms(3,6-8) by (simp add: div_u32_def)
  then have "alloc_esta_en_pagina E x 0"
    unfolding alloc_esta_en_pagina_def list_ex_iff by (intro bexI [of _ 0]) (simp_all del: upt_Suc)
  then have "\<not> todos_los_allocs_estan_libres (obtener_todos_los_allocs_de_carpincho_de_una_pagina E c 0)"
    using assms(4,5)
    by (auto simp: todos_los_allocs_estan_libres_def obtener_todos_los_allocs_de_carpincho_de_una_pagina_def list_all_iff)
  moreover obtain p where "list_get (crp_paginas c) 0 = Some p"
    using assms(2) by (cases "crp_paginas c") (auto simp: list_get_def list_size_def)
  ultimately have "compactar E pid s = Some (0, s)" using assms(1) by (simp add: compactar_def)
  then show ?thesis by (subst compactar_todo.simps) simp
qed

lemma bloque_de_direccion:
  assumes "contiguos 0 (xs @ y # ys)" "espacio_ocupado (xs @ y # ys) < 2147483648"
  shows "posicion (\<lambda>a. al_direccion y + 9 = u32 (al_direccion a + 9)) (xs @ y # ys) 0 = Some (int (length xs))"
proof -
  have u: "u32 (al_direccion a + 9) = al_direccion a + 9" if "a \<in> set (xs @ y # ys)" for a
    using contiguos_rango [OF assms(1) that] assms(2) by auto
  have "distinct (map al_direccion (xs @ y # ys))" using contiguos_distintos [OF assms(1)] .
  then have "\<forall>x\<in>set xs. al_direccion y + 9 \<noteq> u32 (al_direccion x + 9)" using u by (auto simp: image_iff)
  then show ?thesis using posicion_append [of xs "\<lambda>a. al_direccion y + 9 = u32 (al_direccion a + 9)" y ys 0] u [of y] by simp
qed

lemma memfree_efecto:
  assumes con: "conexion_swamp C b E" and st: "estado_servicio C a b E s" and pr: "proceso s pid = Some (ps, as)"
    and y: "as = xs @ y # ys" "\<not> al_isFree y" and sc: "sin_compactar E as (al_direccion y + 9)"
  obtains zs z ws t where "memory_memfree E pid (al_direccion y + 9) s = Some (EXITO, t)"
    "proceso t = (proceso s)(pid \<mapsto> (ps, zs @ z # ws))" "estado_servicio C a b E t"
    "al_isFree z" "al_direccion z \<le> al_direccion y" "al_direccion y + al_tamanio_data y \<le> al_direccion z + al_tamanio_data z"
    "espacio_ocupado (zs @ z # ws) = espacio_ocupado as"
    "\<forall>x\<in>set xs \<union> set ys. \<not> al_isFree x \<longrightarrow> x \<in> set zs \<union> set ws"
proof -
  have en: "en_servicio C a b E s" and ok: "bloques_ok E ps as" using st pr by (auto simp: estado_servicio_def)
  note T = en_servicio_pagina [OF en]
  have o: "contiguos 0 (xs @ y # ys)" "separados xs" "separados ys" "espacio_ocupado (xs @ y # ys) < 2147483648"
    using ok separados_medio [of xs y ys] unfolding y(1) by (auto simp: bloques_ok_def)
  obtain c where c: "get_carpincho s pid = Some c" "crp_paginas c = ps" "crp_allocs c = as"
    using pr by (auto simp: proceso_Some)
  obtain zs z ws where l: "liberar_alloc (xs @ y # ys) (int (length xs)) = Some (int (length zs), zs @ z # ws)"
    "al_isFree z" "al_direccion z \<le> al_direccion y" "al_direccion y + al_tamanio_data y \<le> al_direccion z + al_tamanio_data z"
    "contiguos 0 (zs @ z # ws)" "separados (zs @ z # ws)" "espacio_ocupado (zs @ z # ws) = espacio_ocupado (xs @ y # ys)"
    "\<forall>x\<in>set xs \<union> set ys. \<not> al_isFree x \<longrightarrow> x \<in> set zs \<union> set ws"
    using liberar_lista [OF o(1-3)] .
  let ?as = "zs @ z # ws"
  let ?s = "fija_allocs pid ?as s"
  have f: "en_servicio C a b E ?s" using en by (simp add: fija_en_servicio)
  have ps: "proceso ?s = (proceso s)(pid \<mapsto> (ps, ?as))"
    unfolding fija_allocs_def
    using proceso_modifica [OF c(1), of "\<lambda>c. c\<lparr>crp_allocs := ?as\<rparr>" "\<lambda>x. (fst x, ?as)"] c(2) by simp
  have ok': "bloques_ok E ps ?as" using ok l(5-7) y(1) by (simp add: bloques_ok_def)
  have p1: "proceso ?s pid = Some (ps, ?as)" using ps by simp
  obtain t where t: "persistir_metadata_heap E pid z ?s = Some t" "mantiene C a b E ?s t"
    using persistir_en_servicio [OF con f p1 ok', of z] by auto
  have pt: "proceso t = (proceso s)(pid \<mapsto> (ps, ?as))" using mantiene_proceso [OF t(2)] ps by simp
  then obtain d where d: "get_carpincho t pid = Some d" "crp_paginas d = ps" "crp_allocs d = ?as"
    using proceso_Some [of t pid ps ?as] by auto
  obtain x where x: "x \<in> set as" "\<not> al_isFree x" "al_direccion x < tam_pag E" "al_direccion x + 9 \<noteq> al_direccion y + 9"
    using sc by (auto simp: sin_compactar_def)
  then have "x \<in> set xs \<union> set ys" using y(1) by auto
  then have xd: "x \<in> set (crp_allocs d)" using l(8) x(2) d(3) by auto
  have x0: "0 \<le> al_direccion x" using contiguos_rango [OF o(1), of x] x(1) y(1) by simp
  have v: "validar_direccion_logica E c (al_direccion y + 9)"
  proof -
    have "dentro_de E c y (al_direccion y + 9) 1"
      using contiguos_rango [OF o(1), of y] c ok T y(1) by (simp add: dentro_de_def bloques_ok_def)
    then show ?thesis
      using dentro_valida [of E c y "al_direccion y + 9" 1] dentro_limites(3,6) [of E c y "al_direccion y + 9" 1]
      by (simp add: validar_direccion_logica_escritura_con_size_def validar_direccion_logica_escritura_def split: if_splits)
  qed
  have "obtener_alloc_con_inicio_de_direccion_de_dato_de_un_carpincho c (al_direccion y + 9) = Some (int (length xs))"
    using bloque_de_direccion [OF o(1,4)] c(3) y(1)
    by (simp add: obtener_alloc_con_inicio_de_direccion_de_dato_de_un_carpincho_def)
  moreover have "list_get as (int (length xs)) = Some y" "list_get ?as (int (length zs)) = Some z"
    using y(1) by (simp_all add: list_get_def list_size_def nth_append)
  moreover have "compactar_todo E pid t = Some t"
  proof (rule compactar_no_hace_nada [OF d(1) _ T(1) xd x(2) x0 x(3) T(2)])
    have "0 < espacio_ocupado (xs @ y # ys)" using contiguos_rango [OF o(1), of y] x0 by fastforce
    then show "crp_paginas d \<noteq> []" using ok y(1) d(2) by (auto simp: bloques_ok_def list_size_def)
  qed
  ultimately have "memory_memfree E pid (al_direccion y + 9) s = Some (EXITO, t)"
    using c(1,3) v y l(1) t(1) by (simp add: memory_memfree_def)
  moreover have "estado_servicio C a b E t" using st pt t(2) ok' by (auto simp: estado_servicio_def mantiene_def split: if_splits)
  ultimately show thesis using that pt l y(1) by simp
qed

lemma memfree_en_servicio:
  assumes con: "conexion_swamp C b E" and st: "estado_servicio C a b E s"
    and sc: "\<forall>ps as. proceso s pid = Some (ps, as) \<longrightarrow> sin_compactar E as pos"
  shows "\<exists>r t. memory_memfree E pid pos s = Some (r, t) \<and> estado_servicio C a b E t"
proof (cases "get_carpincho s pid")
  case None
  then show ?thesis using st by (simp add: memory_memfree_def)
next
  case (Some c)
  have pr: "proceso s pid = Some (crp_paginas c, crp_allocs c)" using Some by (simp add: proceso_get)
  then have ok: "bloques_ok E (crp_paginas c) (crp_allocs c)" using st by (simp add: estado_servicio_def)
  show ?thesis
  proof (cases "obtener_alloc_con_inicio_de_direccion_de_dato_de_un_carpincho c pos")
    case None
    then show ?thesis using Some st by (simp add: memory_memfree_def)
  next
    case k: (Some k)
    obtain xs y ys where y: "crp_allocs c = xs @ y # ys" "k = 0 + int (length xs)" "pos = u32 (al_direccion y + 9)"
      using posicion_SomeD [OF k [unfolded obtener_alloc_con_inicio_de_direccion_de_dato_de_un_carpincho_def]] .
    have "contiguos 0 (crp_allocs c)" "espacio_ocupado (crp_allocs c) < 2147483648"
      using ok by (auto simp: bloques_ok_def)
    then have pos: "pos = al_direccion y + 9" using contiguos_rango [of 0 "crp_allocs c" y] y(1,3) by auto
    have g: "list_get (crp_allocs c) k = Some y" using y(1,2) by (simp add: list_get_def list_size_def)
    show ?thesis
    proof (cases "al_isFree y")
      case True
      then show ?thesis using Some k g st by (simp add: memory_memfree_def)
    next
      case False
      have "sin_compactar E (crp_allocs c) (al_direccion y + 9)" using sc pr pos by simp
      from memfree_efecto [OF con st pr y(1) False this] obtain t where
        "memory_memfree E pid (al_direccion y + 9) s = Some (EXITO, t)" "estado_servicio C a b E t" by metis
      then show ?thesis using pos by blast
    qed
  qed
qed

subsection \<open>The message server\<close>

text \<open>The messages that must be answered: every read, every write that brings as many bytes as it announces and
  at least one, every allocation for which there is room at the end or that a free block takes, every release
  after which the first page of the process is still in use, and whatever is not for the memory.\<close>

definition tiene_lugar :: "swamp_estado entorno \<Rightarrow> swamp_estado memoria \<Rightarrow> int \<Rightarrow> int \<Rightarrow> bool" where
  "tiene_lugar E s pid n \<longleftrightarrow> pid \<noteq> 0 \<and>
     (case de_proceso s pid of (ps, as) \<Rightarrow> cabe E s pid ps as n \<or> la_toma_un_libre as n)"

definition se_libera :: "swamp_estado entorno \<Rightarrow> swamp_estado memoria \<Rightarrow> int \<Rightarrow> int \<Rightarrow> bool" where
  "se_libera E s pid pos \<longleftrightarrow> (\<forall>ps as. proceso s pid = Some (ps, as) \<longrightarrow> sin_compactar E as pos)"

definition admitida :: "swamp_estado entorno \<Rightarrow> swamp_estado memoria \<Rightarrow> mate_instance \<Rightarrow> bool" where
  "admitida E s c \<longleftrightarrow> mi_tipo c = MEMORIA \<longrightarrow>
     mem_tipoOp c = MEMREAD \<or>
     mem_tipoOp c = MEMWRITE \<and> 0 < u32 (mem_size c) \<and> u32 (mem_size c) \<le> list_size (mem_valor c) \<or>
     mem_tipoOp c = MEMALLOC \<and> tiene_lugar E s (mi_PID c) (u32 (mem_size c)) \<or>
     mem_tipoOp c = MEMFREE \<and> se_libera E s (mi_PID c) (u32 (mem_addr c))"

lemma estado_sin_debug: "estado_servicio C a b E s \<Longrightarrow> \<not> en_debug E"
  using en_servicio_pagina(3) by (auto simp: estado_servicio_def)

lemma atender_memalloc_en_servicio:
  assumes con: "conectado C b E" and st: "estado_servicio C a b E s" and pid: "mi_PID c \<noteq> 0"
    and pr: "de_proceso s (mi_PID c) = (ps, as)" and cb: "cabe E s (mi_PID c) ps as (u32 (mem_size c))"
    and op: "mi_tipo c = MEMORIA" "mem_tipoOp c = MEMALLOC"
  shows "\<exists>t. atender E basura c s = Some (t, le32 (espacio_ocupado as + 9)) \<and>
    asignado C a b E (mi_PID c) (u32 (mem_size c)) s t"
proof -
  obtain t where "memory_memalloc E (mi_PID c) (u32 (mem_size c)) 0 s = Some (EXITO, espacio_ocupado as + 9, t)"
    "asignado C a b E (mi_PID c) (u32 (mem_size c)) s t"
    using memalloc_con_lugar [OF con st pid pr cb] by blast
  then show ?thesis using op estado_sin_debug [OF st] by (auto simp: atender_def atender_memalloc_def)
qed

lemma atender_en_servicio:
  assumes con: "conectado C b E" and st: "estado_servicio C a b E s" and ad: "admitida E s c"
  shows "\<exists>t r. atender E basura c s = Some (t, r) \<and> estado_servicio C a b E t"
proof (cases "mi_tipo c = MEMORIA")
  case True
  have co: "conexion_swamp C b E" using con by (simp add: conectado_def)
  consider (lee) "mem_tipoOp c = MEMREAD"
    | (escribe) "mem_tipoOp c = MEMWRITE" "0 < u32 (mem_size c)" "u32 (mem_size c) \<le> list_size (mem_valor c)"
    | (pide) "mem_tipoOp c = MEMALLOC" "tiene_lugar E s (mi_PID c) (u32 (mem_size c))"
    | (suelta) "mem_tipoOp c = MEMFREE" "se_libera E s (mi_PID c) (u32 (mem_addr c))"
    using ad True by (auto simp: admitida_def)
  then show ?thesis
  proof cases
    case lee
    have "list_size (map basura [0..<nat (u32 (mem_size c))]) = u32 (mem_size c)"
      using u32_range(1) by (simp add: list_size_def)
    from memread_en_servicio [OF co st u32_range u32_range this] obtain r bs t where
      "memory_memread E (mi_PID c) (u32 (mem_addr c)) (u32 (mem_size c)) (map basura [0..<nat (u32 (mem_size c))]) s =
        Some (r, bs, t)" "mantiene C a b E s t" by blast
    then show ?thesis using lee True estado_sin_debug [OF st] estado_servicio_mantiene [OF st]
      by (auto simp: atender_def atender_memread_def)
  next
    case escribe
    from memwrite_en_servicio [OF co st u32_range escribe(2) u32_range(2) escribe(3)] obtain r t where
      "memory_memwrite E (mi_PID c) (u32 (mem_addr c)) (u32 (mem_size c)) (mem_valor c) s = Some (r, t)"
      "mantiene C a b E s t" by blast
    then show ?thesis using escribe True estado_sin_debug [OF st] estado_servicio_mantiene [OF st]
      by (auto simp: atender_def atender_memwrite_def)
  next
    case pide
    obtain ps as where pr: "de_proceso s (mi_PID c) = (ps, as)" by (cases "de_proceso s (mi_PID c)")
    then consider "cabe E s (mi_PID c) ps as (u32 (mem_size c))" | xs y ys where "reusa as (u32 (mem_size c)) xs y ys"
      using pide(2) by (auto simp: tiene_lugar_def la_toma_un_libre_def)
    then show ?thesis
    proof cases
      case 1
      have "mi_PID c \<noteq> 0" using pide(2) by (simp add: tiene_lugar_def)
      from atender_memalloc_en_servicio [OF con st this pr 1 True pide(1)] show ?thesis
        using asignado_en_servicio by blast
    next
      case (2 xs y ys)
      have "proceso s (mi_PID c) = Some (ps, as)"
        using pr 2 by (cases "proceso s (mi_PID c)") (auto simp: de_proceso_def reusa_def)
      from memalloc_en_libre [OF con st this 2] obtain t where
        "memory_memalloc E (mi_PID c) (u32 (mem_size c)) 0 s = Some (EXITO, al_direccion y + 9, t)" "estado_servicio C a b E t"
        by metis
      then show ?thesis using pide(1) True estado_sin_debug [OF st] by (simp add: atender_def atender_memalloc_def)
    qed
  next
    case suelta
    from memfree_en_servicio [OF co st suelta(2) [unfolded se_libera_def]] obtain r t where
      "memory_memfree E (mi_PID c) (u32 (mem_addr c)) s = Some (r, t)" "estado_servicio C a b E t" by blast
    then show ?thesis using suelta(1) True estado_sin_debug [OF st] by (simp add: atender_def atender_memfree_def)
  qed
qed (use st in \<open>simp add: atender_def\<close>)

subsection \<open>From the start\<close>

text \<open>Room for one page at least, in memory and in the swap file.\<close>

definition config_servicio :: "entorno_swamp \<Rightarrow> string \<Rightarrow> int \<Rightarrow> swamp_estado entorno \<Rightarrow> bool" where
  "config_servicio C a b E \<longleftrightarrow> config_ok E \<and> swamp_config_ok C a b \<and> es_dinamica E \<and>
     tam_pag E \<le> tam_mem E \<and> 0 < cantMarcos C"

inductive servicio :: "entorno_swamp \<Rightarrow> swamp_estado entorno \<Rightarrow> swamp_estado memoria \<Rightarrow> bool" for C E where
  inicio: "iniciar_servidor C = Some w \<Longrightarrow>
    atender_swamp C (le32 14 @ le32 4 @ le32 1) w = Some (w', r, []) \<Longrightarrow> servicio C E (inicializarMemoria E w')"
| mensaje: "servicio C E s \<Longrightarrow> admitida E s c \<Longrightarrow> atender E basura c s = Some (t, r) \<Longrightarrow> servicio C E t"

lemma estado_inicial:
  assumes cs: "config_servicio C a b E" and w: "iniciar_servidor C = Some w"
    "atender_swamp C (le32 14 @ le32 4 @ le32 1) w = Some (w', r, [])"
  shows "estado_servicio C a b E (inicializarMemoria E w')"
proof -
  let ?s = "inicializarMemoria E w'"
  have c: "config_ok E" "swamp_config_ok C a b" "es_dinamica E" "tam_pag E \<le> tam_mem E" "0 < cantMarcos C"
    using cs by (auto simp: config_servicio_def)
  then have sc: "pag_sw C = 64" "obtenerCantArchivos C = 1" "nombre_archivo C 0 = Some a" "0 \<le> tam_sw C"
    "i32 b \<notin> {11, 12, 13, 14}"
    by (simp_all add: swamp_config_ok_def)
  from servidor_iniciado [OF sc(1-4)] w have ok: "swamp_ok C a w'" "guarda_swamp C a w' = Map.empty"
    "int (libres_swamp w') = cantMarcos C" by auto
  have inv: "inv_sistema C a b E ?s"
    by (rule inicio_inv [OF c(1)]) (use ok sc(5) in \<open>simp_all add: swamp_conectado_def\<close>)
  have d: "1 \<le> tam_mem E div tam_pag E" "tam_mem E div tam_pag E < 2147483648"
    using c(1,4) zdiv_mono1 [of "tam_pag E" "tam_mem E" "tam_pag E"] zdiv_mono2 [of "tam_mem E" 1 "tam_pag E"]
    by (auto simp: config_ok_def)
  then have q: "get_amount_marcos E = tam_mem E div tam_pag E"
    using c(1) by (simp add: get_amount_marcos_def div_u32_def config_ok_def)
  let ?ini = "\<lparr>CACHE = replicate (nat (tam_mem E)) CHR ''_'',
             cantidad_maxima_marcos = i32 (div_u32 (tam_mem E) (tam_pag E)),
             marcos_list = create_marcos E, carpinchos_list = [], contador_carpinchos = 0,
             contador_timestamp = 0, contador_timestamp_tlb = 0, algoritm_stack_pointer = 0,
             tlb_fifo_pointer = 0, tlb_list = [], mensajes_dump_list = [],
             tlb_hits_totales = 0, tlb_miss_totales = 0, heap = Map.empty, prox_ptr = 0,
             swamp = w'\<rparr>"
  have e: "?s = create_tlb_desde E [0..<nat (cantida_entradas_tlb (datosConfigMemoria E))] ?ini"
    by (simp add: inicializarMemoria_def create_tlb_def Let_def)
  have dt: "datos ?s = datos ?ini" using create_tlb_desde_efecto unfolding e by blast
  have s: "carpinchos_list ?s = []" "marcos_list ?s = create_marcos E" "swamp ?s = w'"
    using datos_eqD [OF dt] by auto
  have m: "cantidad_maxima_marcos ?s = i32 (get_amount_marcos E)"
    using datos_eqD(6) [OF dt] by (simp add: get_amount_marcos_def)
  have "any_marco_free ?s" using s(2) d q by (simp add: any_marco_free_def create_marcos_def list_size_def filter_empty_conv)
  moreover have "0 \<le> cantidad_maxima_marcos ?s" unfolding m q using d by simp
  ultimately have "lugar E ?s" using c(3) s(1) by (simp add: lugar_def paginas_de_def)
  moreover have "proceso ?s = Map.empty" using s(1) by (simp add: proceso_def procesos_de_def)
  ultimately show ?thesis using inv s(3) ok(3) c(5) by (simp add: estado_servicio_def en_servicio_def)
qed

lemma servicio_estado:
  assumes "servicio C E s" "conectado C b E" "config_servicio C a b E"
  shows "estado_servicio C a b E s"
  using assms(1)
proof (induction rule: servicio.induct)
  case (inicio w w' r)
  then show ?case using estado_inicial [OF assms(3)] by blast
next
  case (mensaje s c basura t r)
  then show ?case
    using atender_en_servicio [OF assms(2) mensaje.IH mensaje.hyps(2), where basura = basura] mensaje.hyps(3) by auto
qed

text \<open>C3. The memory process answers. From its start, connected to a swap server that has just started, and
  whatever reads, writes, releases and allocations with room it has served, the next one is answered too, the
  invariant of the connected system holds, and the blocks of every process tile its address space inside its
  pages.\<close>

theorem servicio_responde:
  assumes "servicio C E s" "conectado C b E" "config_servicio C a b E" "admitida E s c"
  shows "inv_sistema C a b E s \<and>
    (\<forall>pid ps as. proceso s pid = Some (ps, as) \<longrightarrow> contiguos 0 as \<and> espacio_ocupado as \<le> list_size ps * tam_pag E) \<and>
    (\<exists>t r. atender E basura c s = Some (t, r) \<and> servicio C E t)"
proof -
  note st = servicio_estado [OF assms(1-3)]
  obtain t r where t: "atender E basura c s = Some (t, r)" using atender_en_servicio [OF assms(2) st assms(4)] by blast
  then have "servicio C E t" using servicio.mensaje [OF assms(1,4)] by blast
  then show ?thesis using st t by (simp add: estado_servicio_def en_servicio_def bloques_ok_def)
qed

text \<open>C4. An allocation for which there is room is answered with the address behind the blocks of the process and
  the new metadata; the process gets the new block and exactly the pages it needs for it, no other process
  changes, and the system stays in service.\<close>

theorem memalloc_coloca:
  assumes "conectado C b E" "estado_servicio C a b E s" "mi_PID c \<noteq> 0"
    and "de_proceso s (mi_PID c) = (ps, as)" "cabe E s (mi_PID c) ps as (u32 (mem_size c))"
    and "mi_tipo c = MEMORIA" "mem_tipoOp c = MEMALLOC"
  shows "\<exists>t qs. atender E basura c s = Some (t, le32 (espacio_ocupado as + 9)) \<and>
    list_size qs = paginas_nuevas E ps as (u32 (mem_size c)) \<and>
    proceso t = (proceso s)(mi_PID c \<mapsto> (ps @ qs, as @ [crear_alloc (espacio_ocupado as) (u32 (mem_size c)) False])) \<and>
    estado_servicio C a b E t"
proof -
  obtain t where "atender E basura c s = Some (t, le32 (espacio_ocupado as + 9))"
    "asignado C a b E (mi_PID c) (u32 (mem_size c)) s t"
    using atender_memalloc_en_servicio [OF assms] by blast
  then show ?thesis using assms(4) by (auto simp: asignado_def)
qed

text \<open>C5. A release at the level of messages. While another block that begins in the first page of the process is in
  use, MEMFREE with the address of a block in use succeeds: the block is free afterwards, joined with its free
  neighbours, the other blocks in use and the pages stay, no other process changes, and the system stays in
  service.\<close>

theorem memfree_libera:
  assumes "conectado C b E" "estado_servicio C a b E s" "proceso s (mi_PID c) = Some (ps, xs @ y # ys)" "\<not> al_isFree y"
    and "sin_compactar E (xs @ y # ys) (al_direccion y + 9)" "u32 (mem_addr c) = al_direccion y + 9"
    and "mi_tipo c = MEMORIA" "mem_tipoOp c = MEMFREE"
  shows "\<exists>t zs z ws. atender E basura c s = Some (t, le32 MATE_FREE_OK) \<and>
    proceso t = (proceso s)(mi_PID c \<mapsto> (ps, zs @ z # ws)) \<and> al_isFree z \<and> al_direccion z \<le> al_direccion y \<and>
    al_direccion y + al_tamanio_data y \<le> al_direccion z + al_tamanio_data z \<and>
    espacio_ocupado (zs @ z # ws) = espacio_ocupado (xs @ y # ys) \<and>
    (\<forall>x\<in>set xs \<union> set ys. \<not> al_isFree x \<longrightarrow> x \<in> set zs \<union> set ws) \<and> estado_servicio C a b E t"
proof -
  have co: "conexion_swamp C b E" using assms(1) by (simp add: conectado_def)
  obtain zs z ws t where t: "memory_memfree E (mi_PID c) (al_direccion y + 9) s = Some (EXITO, t)"
    "proceso t = (proceso s)(mi_PID c \<mapsto> (ps, zs @ z # ws))" "estado_servicio C a b E t"
    "al_isFree z" "al_direccion z \<le> al_direccion y" "al_direccion y + al_tamanio_data y \<le> al_direccion z + al_tamanio_data z"
    "espacio_ocupado (zs @ z # ws) = espacio_ocupado (xs @ y # ys)"
    "\<forall>x\<in>set xs \<union> set ys. \<not> al_isFree x \<longrightarrow> x \<in> set zs \<union> set ws"
    using memfree_efecto [OF co assms(2,3) refl assms(4,5)] .
  have "atender E basura c s = Some (t, le32 MATE_FREE_OK)"
    using t(1) assms(6-8) estado_sin_debug [OF assms(2)] by (simp add: atender_def atender_memfree_def)
  then show ?thesis using t(2-8) by (intro exI conjI)
qed

text \<open>The system of the example, at its start: process 1 asks for 40 bytes, and then reads.\<close>

definition mensaje_ej :: "int \<Rightarrow> mate_instance" where
  "mensaje_ej op = instancia_ejemplo\<lparr>mi_PID := 1, mem_size := 40, mem_tipoOp := op\<rparr>"

lemma config_ej_servicio: "config_servicio swamp_ej ''a'' 0 (entorno_ej ''LRU'')" "conectado swamp_ej 0 (entorno_ej ''LRU'')"
  using configuracion_ej conexion_ej
  by (simp_all add: config_servicio_def conectado_def) (simp_all add: ejemplo_defs cantMarcos_def)

lemma arranque_ej:
  obtains w where "servicio swamp_ej (entorno_ej ''LRU'') (inicializarMemoria (entorno_ej ''LRU'') w)" "libres_swamp w = 2"
    "proceso (inicializarMemoria (entorno_ej ''LRU'') w) = Map.empty" "swamp (inicializarMemoria (entorno_ej ''LRU'') w) = w"
proof -
  have c: "pag_sw swamp_ej = 64" "obtenerCantArchivos swamp_ej = 1" "nombre_archivo swamp_ej 0 = Some ''a''"
    "0 \<le> tam_sw swamp_ej"
    using configuracion_ej(2) by (simp_all add: swamp_config_ok_def)
  from servidor_iniciado [OF c] obtain u w where w: "iniciar_servidor swamp_ej = Some u"
    "atender_swamp swamp_ej (le32 14 @ le32 4 @ le32 1) u = Some (w, le32 0, [])"
    "int (libres_swamp w) = cantMarcos swamp_ej" by blast
  have "cantMarcos swamp_ej = 2" by (simp add: cantMarcos_def swamp_ej_def)
  moreover have "proceso (inicializarMemoria (entorno_ej ''LRU'') w) = Map.empty"
    "swamp (inicializarMemoria (entorno_ej ''LRU'') w) = w"
    by (simp_all add: proceso_def procesos_de_def inicializarMemoria_def create_tlb_def ejemplo_defs upt_rec)
  moreover have "libres_swamp w = 2" using w(3) \<open>cantMarcos swamp_ej = 2\<close> by simp
  ultimately show thesis using that [OF servicio.inicio [OF w(1,2)]] by blast
qed

lemma cabe_ej:
  assumes "libres_swamp (swamp s) = 2"
  shows "cabe (entorno_ej ''LRU'') s 1 [] [] 40"
proof -
  have "tam_pag (entorno_ej ''LRU'') = 64" by (simp add: ejemplo_defs)
  then have "paginas_nuevas (entorno_ej ''LRU'') [] [] 40 = 1" "tam_pag (entorno_ej ''LRU'') = 64"
    by (simp_all add: paginas_nuevas_def calcular_cantidad_paginas_necesaria_def mod_u32_def div_u32_def list_size_def)
  then show ?thesis using assms by (simp add: cabe_def list_size_def i32_def)
qed

theorem memalloc_coloca_witness:
  "\<exists>w t qs. atender (entorno_ej ''LRU'') (\<lambda>_. CHR 0x00) (mensaje_ej MEMALLOC) (inicializarMemoria (entorno_ej ''LRU'') w) =
      Some (t, le32 9) \<and> list_size qs = 1 \<and> proceso t = [1 \<mapsto> (qs, [crear_alloc 0 40 False])]"
proof -
  let ?E = "entorno_ej ''LRU''"
  obtain w where w: "servicio swamp_ej ?E (inicializarMemoria ?E w)" "libres_swamp w = 2"
    "proceso (inicializarMemoria ?E w) = Map.empty" "swamp (inicializarMemoria ?E w) = w" using arranque_ej .
  have m: "mi_PID (mensaje_ej MEMALLOC) = 1" "u32 (mem_size (mensaje_ej MEMALLOC)) = 40"
    "mi_tipo (mensaje_ej MEMALLOC) = MEMORIA" "mem_tipoOp (mensaje_ej MEMALLOC) = MEMALLOC"
    by (simp_all add: mensaje_ej_def instancia_ejemplo_def)
  have "tam_pag ?E = 64" by (simp add: ejemplo_defs)
  then have k: "paginas_nuevas ?E [] [] 40 = 1"
    by (simp add: paginas_nuevas_def calcular_cantidad_paginas_necesaria_def mod_u32_def div_u32_def list_size_def)
  have d: "de_proceso (inicializarMemoria ?E w) (mi_PID (mensaje_ej MEMALLOC)) = ([], [])"
    using w(3) by (simp add: de_proceso_def)
  have c: "cabe ?E (inicializarMemoria ?E w) (mi_PID (mensaje_ej MEMALLOC)) [] [] (u32 (mem_size (mensaje_ej MEMALLOC)))"
    unfolding m using cabe_ej w(2,4) by simp
  from memalloc_coloca [OF config_ej_servicio(2) servicio_estado [OF w(1) config_ej_servicio(2,1)] _ d c m(3,4),
      where basura = "\<lambda>_. CHR 0x00"]
  show ?thesis using m(1,2) k w(3) by (intro exI [of _ w]) auto
qed

text \<open>Two blocks of process 1, and the second one is given back.\<close>

theorem memfree_libera_witness:
  "\<exists>s t qs bs. atender (entorno_ej ''LRU'') (\<lambda>_. CHR 0x00) ((mensaje_ej MEMFREE)\<lparr>mem_addr := 58\<rparr>) s = Some (t, le32 5) \<and>
    proceso s = [1 \<mapsto> (qs, [crear_alloc 0 40 False, crear_alloc 49 6 False])] \<and>
    proceso t = [1 \<mapsto> (qs, bs)] \<and> espacio_ocupado bs = 64 \<and> list_ex al_isFree bs"
proof -
  let ?E = "entorno_ej ''LRU''" and ?x = "crear_alloc 0 40 False" and ?y = "crear_alloc 49 6 False"
  let ?c = "(mensaje_ej MEMFREE)\<lparr>mem_addr := 58\<rparr>"
  obtain w where w: "servicio swamp_ej ?E (inicializarMemoria ?E w)" "libres_swamp w = 2"
    "proceso (inicializarMemoria ?E w) = Map.empty" "swamp (inicializarMemoria ?E w) = w" using arranque_ej .
  note st = servicio_estado [OF w(1) config_ej_servicio(2,1)]
  have T: "tam_pag ?E = 64" by (simp add: ejemplo_defs)
  then have k: "paginas_nuevas ?E [] [] 40 = 1"
    by (simp add: paginas_nuevas_def calcular_cantidad_paginas_necesaria_def mod_u32_def div_u32_def list_size_def)
  have d: "de_proceso (inicializarMemoria ?E w) 1 = ([], [])" using w(3) by (simp add: de_proceso_def)
  obtain s1 where s1: "asignado swamp_ej ''a'' 0 ?E 1 40 (inicializarMemoria ?E w) s1"
    using memalloc_con_lugar [OF config_ej_servicio(2) st _ d cabe_ej] w(2,4) by auto
  then obtain qs where qs: "list_size qs = 1" "proceso s1 = [1 \<mapsto> (qs, [?x])]" "0 < libres_swamp (swamp s1)"
    "estado_servicio swamp_ej ''a'' 0 ?E s1"
    using d k w(2-4) by (auto simp: asignado_def list_size_def)
  have d1: "de_proceso s1 1 = (qs, [?x])" using qs(2) by (simp add: de_proceso_def)
  have k1: "paginas_nuevas ?E qs [?x] 6 = 0" using qs(1) T by (simp add: paginas_nuevas_def crear_alloc_def)
  have "cabe ?E s1 1 qs [?x] 6" using qs(1,3) k1 T by (simp add: cabe_def crear_alloc_def i32_def)
  then obtain s2 where s2: "asignado swamp_ej ''a'' 0 ?E 1 6 s1 s2"
    using memalloc_con_lugar [OF config_ej_servicio(2) qs(4) _ d1] by auto
  then have p2: "proceso s2 = [1 \<mapsto> (qs, [?x, ?y])]" "estado_servicio swamp_ej ''a'' 0 ?E s2"
    using d1 k1 qs(2) by (auto simp: asignado_def list_size_def crear_alloc_def)
  have "proceso s2 (mi_PID ?c) = Some (qs, [?x] @ ?y # [])" "\<not> al_isFree ?y"
    "sin_compactar ?E ([?x] @ ?y # []) (al_direccion ?y + 9)" "u32 (mem_addr ?c) = al_direccion ?y + 9"
    "mi_tipo ?c = MEMORIA" "mem_tipoOp ?c = MEMFREE" "mi_PID ?c = 1"
    using p2(1) T by (simp_all add: mensaje_ej_def instancia_ejemplo_def crear_alloc_def sin_compactar_def)
  from memfree_libera [OF config_ej_servicio(2) p2(2) this(1-6), where basura = "\<lambda>_. CHR 0x00"] this(7)
  obtain t zs z ws where t: "atender ?E (\<lambda>_. CHR 0x00) ?c s2 = Some (t, le32 5)" "proceso t = [1 \<mapsto> (qs, zs @ z # ws)]"
    "al_isFree z" "espacio_ocupado (zs @ z # ws) = 64"
    using p2(1) by (auto simp: crear_alloc_def)
  then show ?thesis using p2(1)
    by (intro exI [of _ s2] exI [of _ t] exI [of _ qs] exI [of _ "zs @ z # ws"]) simp
qed

theorem servicio_responde_witness:
  "\<exists>s t r. servicio swamp_ej (entorno_ej ''LRU'') s \<and>
    atender (entorno_ej ''LRU'') (\<lambda>_. CHR 0x00) (mensaje_ej MEMREAD) s = Some (t, r) \<and>
    servicio swamp_ej (entorno_ej ''LRU'') t"
proof -
  obtain w where w: "servicio swamp_ej (entorno_ej ''LRU'') (inicializarMemoria (entorno_ej ''LRU'') w)" using arranque_ej .
  have "admitida (entorno_ej ''LRU'') (inicializarMemoria (entorno_ej ''LRU'') w) (mensaje_ej MEMREAD)"
    by (simp add: admitida_def mensaje_ej_def instancia_ejemplo_def)
  from servicio_responde [OF w config_ej_servicio(2,1) this] w show ?thesis by blast
qed

end
