(* ===== verification/Memoria_Liberacion.thy ===== *)
theory Memoria_Liberacion
  imports Memoria_Servicio
begin

section \<open>Memoria: what releasing memory breaks\<close>

text \<open>
  Compaction starts when every block that begins in the first page of a process is free. It takes the first page
  out of the list of the process, frees the object of the page behind it, and does not give the frame back. The
  end of a process gives no frame back either.
\<close>

subsection \<open>Compaction\<close>

text \<open>A process whose only block is free.\<close>

lemma solo_bloque_libre:
  assumes "contiguos 0 [z]" "0 < tam_pag E" "tam_pag E < 2147483648"
  shows "filter (\<lambda>a. alloc_esta_en_pagina E a 0) [z] = [z]"
    "borrar_allocs [z] 0 [z] = Some (al_tamanio_data z + 9, [])" "al_direccion z = 0" "0 < al_tamanio_data z"
proof -
  have z: "al_direccion z = 0" "0 < al_tamanio_data z" using assms(1) by simp_all
  then have "i32 (div_u32 (u32 (al_direccion z + int 0)) (tam_pag E)) = 0" using assms by (simp add: div_u32_def)
  then have "alloc_esta_en_pagina E z 0"
    unfolding alloc_esta_en_pagina_def list_ex_iff by (intro bexI [of _ 0]) (simp_all del: upt_Suc)
  then show "filter (\<lambda>a. alloc_esta_en_pagina E a 0) [z] = [z]" by simp
  show "borrar_allocs [z] 0 [z] = Some (al_tamanio_data z + 9, [])"
    by (simp add: obtener_indice_de_alloc_def list_remove_def list_size_def)
  show "al_direccion z = 0" "0 < al_tamanio_data z" using z .
qed

lemma compactar_sin_bloques:
  assumes "get_carpincho s pid = Some c" "crp_allocs c = []" "crp_paginas c = p # ps"
  shows "compactar_todo E pid s = Some s"
proof -
  have "compactar E pid s = Some (0, s)"
    using assms by (simp add: compactar_def obtener_todos_los_allocs_de_carpincho_de_una_pagina_def
        todos_los_allocs_estan_libres_def list_get_def list_size_def)
  then show ?thesis by (subst compactar_todo.simps) simp
qed

lemma compactar_primera:
  assumes c: "get_carpincho s pid = Some c" "crp_paginas c = p # ps" "crp_allocs c = [z]" "contiguos 0 [z]" "al_isFree z"
    and g: "heap s p = Some g" "pag_pagina g = 1" and h: "ps \<noteq> [] \<Longrightarrow> heap s (hd ps) \<noteq> None"
    and T: "0 < tam_pag E" "tam_pag E < 2147483648"
  defines "t \<equiv> modifica_carpincho (crp_pid c) (\<lambda>c. c\<lparr>crp_allocs := [], crp_paginas := ps\<rparr>)
      (s\<lparr>heap := (if ps = [] then heap s else (heap s)(hd ps := None))\<rparr>)"
  shows "compactar E pid s = Some (1, t)"
proof -
  note z = solo_bloque_libre [OF c(4) T]
  have l: "libera (list_get ps 0) (heap s) = Some (if ps = [] then heap s else (heap s)(hd ps := None))"
    using h by (cases ps) (auto simp: libera_def list_get_def list_size_def)
  have "compactar_pagina c p [z] s = Some t"
    using c(2,3) g z(2,4) l
    by (simp add: compactar_pagina_def list_remove_def list_size_def bajar_direcciones_def t_def)
  moreover have "obtener_todos_los_allocs_de_carpincho_de_una_pagina E c 0 = [z]"
    using z(1) c(3) by (simp add: obtener_todos_los_allocs_de_carpincho_de_una_pagina_def)
  moreover have "list_get (crp_paginas c) 0 = Some p" using c(2) by (simp add: list_get_def list_size_def)
  ultimately show ?thesis using c(1,5) by (simp add: compactar_def todos_los_allocs_estan_libres_def list_size_def)
qed

text \<open>The release of the only block, up to compaction.\<close>

lemma memfree_unico:
  assumes con: "conexion_swamp C b E" and st: "estado_servicio C a b E s" and pr: "proceso s pid = Some (ps, [y])"
    and y: "\<not> al_isFree y"
  obtains c t where "memory_memfree E pid 9 s = do { u \<leftarrow> compactar_todo E pid t; Some (EXITO, u) }"
    "get_carpincho t pid = Some c" "crp_paginas c = ps" "crp_allocs c = [y\<lparr>al_isFree := True\<rparr>]" "estado_servicio C a b E t"
    "contiguos 0 [y\<lparr>al_isFree := True\<rparr>]" "ps \<noteq> []"
proof -
  have en: "en_servicio C a b E s" and ok: "bloques_ok E ps [y]" using st pr by (auto simp: estado_servicio_def)
  note T = en_servicio_pagina [OF en]
  let ?z = "y\<lparr>al_isFree := True\<rparr>"
  have o: "al_direccion y = 0" "0 < al_tamanio_data y" "al_tamanio_data y + 9 \<le> list_size ps * tam_pag E"
    "list_size ps * tam_pag E < 2147483648"
    using ok by (simp_all add: bloques_ok_def)
  obtain c where c: "get_carpincho s pid = Some c" "crp_paginas c = ps" "crp_allocs c = [y]"
    using pr by (auto simp: proceso_Some)
  let ?s = "fija_allocs pid [?z] s"
  have f: "en_servicio C a b E ?s" using en by (simp add: fija_en_servicio)
  have ps: "proceso ?s = (proceso s)(pid \<mapsto> (ps, [?z]))"
    unfolding fija_allocs_def
    using proceso_modifica [OF c(1), of "\<lambda>c. c\<lparr>crp_allocs := [?z]\<rparr>" "\<lambda>x. (fst x, [?z])"] c(2) by simp
  have ok': "bloques_ok E ps [?z]" using ok by (simp add: bloques_ok_def)
  have p1: "proceso ?s pid = Some (ps, [?z])" using ps by simp
  obtain t where t: "persistir_metadata_heap E pid ?z ?s = Some t" "mantiene C a b E ?s t"
    using persistir_en_servicio [OF con f p1 ok', of ?z] by auto
  have pt: "proceso t = (proceso s)(pid \<mapsto> (ps, [?z]))" using mantiene_proceso [OF t(2)] ps by simp
  then obtain d where d: "get_carpincho t pid = Some d" "crp_paginas d = ps" "crp_allocs d = [?z]"
    using proceso_Some [of t pid ps "[?z]"] by auto
  have v: "validar_direccion_logica E c 9"
  proof -
    have "dentro_de E c y 9 1" using c o T by (simp add: dentro_de_def)
    then show ?thesis
      using dentro_valida [of E c y 9 1] dentro_limites(3,6) [of E c y 9 1]
      by (simp add: validar_direccion_logica_escritura_con_size_def validar_direccion_logica_escritura_def split: if_splits)
  qed
  have "memory_memfree E pid 9 s = do { u \<leftarrow> compactar_todo E pid t; Some (EXITO, u) }"
    using c v o(1) y t(1)
    by (simp add: memory_memfree_def obtener_alloc_con_inicio_de_direccion_de_dato_de_un_carpincho_def list_get_def
        list_size_def liberar_alloc_def obtener_indice_de_alloc_def unificar_izq_def unificar_der_def)
  moreover have "estado_servicio C a b E t" using st pt t(2) ok' by (auto simp: estado_servicio_def mantiene_def split: if_splits)
  moreover have "ps \<noteq> []" using o(2,3) by (auto simp: list_size_def)
  ultimately show thesis using that d ok by (simp add: bloques_ok_def)
qed

lemma primera_pagina:
  assumes "estado_servicio C a b E s" "get_carpincho s pid = Some c" "crp_paginas c = p # ps"
  obtains g where "heap s p = Some g" "pag_pagina g = 1" "\<forall>q\<in>set ps. heap s q \<noteq> None"
proof -
  have "procesos_ok s" using assms(1) by (simp add: estado_servicio_def en_servicio_def inv_virtual_def inv_mem_def)
  then have ok: "paginas_ok (heap s) c" using get_carpinchoD [OF assms(2)] by (auto simp: procesos_ok_def)
  then have "\<exists>g. heap s p = Some g \<and> pag_pagina g = 1" using assms(3) by (fastforce simp: paginas_ok_def)
  moreover have "heap s q \<noteq> None" if "q \<in> set ps" for q
  proof -
    have "q \<in> set (crp_paginas c)" using that assms(3) by simp
    then obtain k where "k < length (crp_paginas c)" "crp_paginas c ! k = q" by (auto simp: in_set_conv_nth)
    then show ?thesis using ok by (auto simp: paginas_ok_def)
  qed
  ultimately show thesis using that by blast
qed

lemma memalloc_en_colgada:
  assumes c: "get_carpincho s pid = Some c" "crp_paginas c = q # ps" "crp_allocs c = []" and q: "heap s q = None"
    and T: "0 < tam_pag E" "list_size (q # ps) * tam_pag E < 2147483648" and n: "0 < n" "n + 9 \<le> tam_pag E"
  shows "memory_memalloc E pid n dir s = None"
proof -
  define k where "k = list_size (q # ps) * tam_pag E"
  have tk: "tam_pag E \<le> k"
    using mult_right_mono [of 1 "list_size (q # ps)" "tam_pag E"] T(1) by (simp add: k_def list_size_def)
  moreover have "k < 2147483648" using T(2) unfolding k_def .
  ultimately have k: "0 \<le> k" "k < 2147483648" "n + 9 \<le> k" "i32 n = n" using T(1) n by simp_all
  then have e: "espacio_total E c = k" "n + 9 \<le> k" "i32 n = n"
    unfolding espacio_total_def c(2) k_def [symmetric] using k by simp_all
  then have st: "elegir_estrategia E pid n s = Some (ALLOC_PAGINA, s)"
    using c(1,3) by (simp add: elegir_estrategia_def check_alloc_def)
  let ?x = "crear_alloc 0 n False"
  let ?s = "fija_allocs pid [?x] s"
  have "asignar_segun E ALLOC_PAGINA pid n dir s = Some (EXITO, 9, ?s)"
    using c(1,3) e(3) by (simp add: asignar_segun_def memalloc_asignar_en_pagina_con_espacio_def
        agregar_alloc_al_final_def list_size_def)
  moreover have d: "get_carpincho ?s pid = Some (c\<lparr>crp_allocs := [?x]\<rparr>)" by (rule get_carpincho_fija [OF c(1)])
  moreover have "persistir_metadata_heap E pid ?x ?s = None"
  proof -
    have "get_page ?s (c\<lparr>crp_allocs := [?x]\<rparr>) k = None" for k
      using c(2) q by (simp add: get_page_def fija_allocs_def modifica_carpincho_def)
    then have "escribir_acciones_heap E pid (a # as) bs j ?s = None" for a as bs j
      using d by (simp add: Let_def split: Option.bind_split)
    moreover have "armar_acciones E 0 [0..<nat 9] [] = map accion (pedazos (tam_pag E) 0 9)"
      by (rule armar_pedazos) (use T(1) tk k(2) in auto)
    then have "\<exists>a as. armar_acciones E 0 [0..<9] [] = a # as" using T(1) by (subst (asm) pedazos.simps) (simp add: Let_def)
    ultimately have "escribir_heap_memoria_fisica E bs 0 pid ?s = None" for bs
      by (auto simp: escribir_heap_memoria_fisica_def)
    then show ?thesis using d by (simp add: persistir_metadata_heap_def crear_alloc_def split: Option.bind_split)
  qed
  moreover have g: "list_get [?x] i = (if i = 0 then Some ?x else None)" for i by (auto simp: list_get_def list_size_def)
  ultimately show ?thesis using st by (auto simp: memory_memalloc_def g split: Option.bind_split if_splits)
qed

text \<open>C29. Freeing its only block ruins a process. A process with two pages or more frees its only block: MEMFREE
  reports success, the process loses its first page, and the object of the page that is the first one now has
  been freed although it stays in the list, so the next allocation that fits into a page reads it and has no
  defined outcome.\<close>

theorem memfree_deja_colgada:
  assumes "conexion_swamp C b E" "estado_servicio C a b E s" "proceso s pid = Some (p # q # ps, [y])" "\<not> al_isFree y"
    and "0 < n" "n + 9 \<le> tam_pag E"
  shows "\<exists>t. memory_memfree E pid 9 s = Some (EXITO, t) \<and> proceso t pid = Some (q # ps, []) \<and> heap t q = None \<and>
    memory_memalloc E pid n dir t = None"
proof -
  let ?z = "y\<lparr>al_isFree := True\<rparr>"
  have en: "en_servicio C a b E s" and ok: "bloques_ok E (p # q # ps) [y]" using assms(2,3) by (auto simp: estado_servicio_def)
  note T = en_servicio_pagina [OF en]
  obtain c u where u: "memory_memfree E pid 9 s = do { t \<leftarrow> compactar_todo E pid u; Some (EXITO, t) }"
    "get_carpincho u pid = Some c" "crp_paginas c = p # q # ps" "crp_allocs c = [?z]" "estado_servicio C a b E u" "contiguos 0 [?z]"
    using memfree_unico [OF assms(1-4)] by metis
  obtain g where g: "heap u p = Some g" "pag_pagina g = 1" "\<forall>x\<in>set (q # ps). heap u x \<noteq> None"
    using primera_pagina [OF u(5,2,3)] .
  let ?f = "\<lambda>c. c\<lparr>crp_allocs := [], crp_paginas := q # ps\<rparr>"
  let ?t = "modifica_carpincho (crp_pid c) ?f (u\<lparr>heap := (heap u)(q := None)\<rparr>)"
  have "compactar E pid u = Some (1, ?t)"
    using compactar_primera [OF u(2,3,4,6) _ g(1,2) _ T(1,2)] g(3) by simp
  moreover have pid: "crp_pid c = pid" using get_carpinchoD(2) [OF u(2)] .
  have gu: "get_carpincho (u\<lparr>heap := (heap u)(q := None)\<rparr>) pid = Some c" using u(2) by (simp add: get_carpincho_def)
  have pt: "proceso ?t pid = Some (q # ps, [])"
    using proceso_modifica [OF gu, of ?f "\<lambda>_. (q # ps, [])"] pid by simp
  then obtain d where d: "get_carpincho ?t pid = Some d" "crp_paginas d = q # ps" "crp_allocs d = []"
    using proceso_Some [of ?t pid "q # ps" "[]"] by auto
  ultimately have "compactar_todo E pid u = Some ?t"
    using compactar_sin_bloques [OF d(1,3,2)] by (subst compactar_todo.simps) simp
  moreover have q: "heap ?t q = None" by (simp add: modifica_carpincho_def)
  moreover have "list_size (q # ps) * tam_pag E < 2147483648" using ok T by (simp add: bloques_ok_def list_size_def distrib_right)
  then have "memory_memalloc E pid n dir ?t = None" using memalloc_en_colgada [OF d q T(1) _ assms(5,6)] by simp
  ultimately show ?thesis using u(1) pt by auto
qed

text \<open>With one page only, the release itself goes wrong: after the compaction the process has no page, the
  loop of \<open>compactar\<close> is not entered the second time, and the function ends without a value.\<close>

lemma memfree_unica_pagina:
  assumes "conexion_swamp C b E" "estado_servicio C a b E s" "proceso s pid = Some ([p], [y])" "\<not> al_isFree y"
  shows "memory_memfree E pid 9 s = None"
proof -
  let ?z = "y\<lparr>al_isFree := True\<rparr>"
  have en: "en_servicio C a b E s" using assms(2) by (simp add: estado_servicio_def)
  note T = en_servicio_pagina [OF en]
  obtain c u where u: "memory_memfree E pid 9 s = do { t \<leftarrow> compactar_todo E pid u; Some (EXITO, t) }"
    "get_carpincho u pid = Some c" "crp_paginas c = [p]" "crp_allocs c = [?z]" "estado_servicio C a b E u" "contiguos 0 [?z]"
    using memfree_unico [OF assms] by metis
  obtain g where g: "heap u p = Some g" "pag_pagina g = 1" using primera_pagina [OF u(5,2,3)] by metis
  let ?f = "\<lambda>c. c\<lparr>crp_allocs := [], crp_paginas := []\<rparr>"
  let ?t = "modifica_carpincho (crp_pid c) ?f (u\<lparr>heap := heap u\<rparr>)"
  have "compactar E pid u = Some (1, ?t)"
    using compactar_primera [OF u(2,3,4,6) _ g(1,2) _ T(1,2)] by simp
  moreover have pid: "crp_pid c = pid" using get_carpinchoD(2) [OF u(2)] .
  have gu: "get_carpincho (u\<lparr>heap := heap u\<rparr>) pid = Some c" using u(2) by (simp add: get_carpincho_def)
  have "proceso ?t pid = Some ([], [])"
    using proceso_modifica [OF gu, of ?f "\<lambda>_. ([], [])"] pid by simp
  then have "compactar E pid ?t = None"
    using proceso_Some [of ?t pid "[]" "[]"] by (auto simp: compactar_def list_get_def list_size_def)
  ultimately have "compactar_todo E pid u = None"
    by (subst compactar_todo.simps, simp) (subst compactar_todo.simps, simp)
  then show ?thesis using u(1) by simp
qed

text \<open>The process of two pages with one block of 80 bytes, and a process with one page and one block.\<close>

lemma servicio_bloque:
  "estado_servicio swamp_ej ''a'' 0 (entorno_ej ''LRU'') (memoria_ej\<lparr>carpinchos_list := [carpincho_bloque]\<rparr>)"
  "proceso (memoria_ej\<lparr>carpinchos_list := [carpincho_bloque]\<rparr>) 1 = Some ([0, 1], [crear_alloc 0 80 False])"
proof -
  let ?E = "entorno_ej ''LRU''" and ?s = "memoria_ej\<lparr>carpinchos_list := [carpincho_bloque]\<rparr>"
  have T: "tam_pag ?E = 64" "es_dinamica ?E" "\<not> es_fija ?E" by (simp_all add: entorno_ej_def config_ej_def conectar_def)
  have P: "paginas_de ?s = {0, 1}" by (simp add: paginas_de_def carpincho_bloque_def carpincho_ej_def)
  have p: "proceso ?s = [1 \<mapsto> ([0, 1], [crear_alloc 0 80 False])]"
    by (simp add: proceso_def procesos_de_def carpincho_bloque_def carpincho_ej_def crear_alloc_def)
  then show "proceso ?s 1 = Some ([0, 1], [crear_alloc 0 80 False])" by simp
  have "heap ?s 0 = Some (pagina_ej 1 1)" "pag_presencia (pagina_ej 1 1) = 1" by (simp_all add: memoria_ej_def pagina_ej_def)
  then have "candidata ?E ?s 0 0" using P T(3) by (simp add: candidata_def)
  then have "lugar ?E ?s" using P T(2) by (auto simp: lugar_def)
  moreover have "0 < libres_swamp (swamp ?s)" by (simp add: memoria_ej_def libres_swamp_def servidor_ej_def)
  ultimately have "en_servicio swamp_ej ''a'' 0 ?E ?s" using inv_sistema_bloque by (simp add: en_servicio_def)
  then show "estado_servicio swamp_ej ''a'' 0 ?E ?s"
    using p T(1) by (auto simp: estado_servicio_def bloques_ok_def crear_alloc_def list_size_def split: if_splits)
qed

theorem memfree_deja_colgada_witness:
  "\<exists>t. memory_memfree (entorno_ej ''LRU'') 1 9 (memoria_ej\<lparr>carpinchos_list := [carpincho_bloque]\<rparr>) = Some (EXITO, t) \<and>
    memory_memalloc (entorno_ej ''LRU'') 1 20 0 t = None"
proof -
  have "20 + 9 \<le> tam_pag (entorno_ej ''LRU'')" "\<not> al_isFree (crear_alloc 0 80 False)"
    by (simp_all add: entorno_ej_def config_ej_def conectar_def crear_alloc_def)
  from memfree_deja_colgada [OF conexion_ej servicio_bloque this(2) _ this(1), of 0] show ?thesis by auto
qed

subsection \<open>The end of a process\<close>

lemma indice_carpincho_ausente: "\<forall>c\<in>set cs. crp_pid c \<noteq> pid \<Longrightarrow> indice_carpincho pid cs i k = k"
  by (induction cs arbitrary: i) auto

lemma indice_carpincho_propio:
  assumes "\<forall>x\<in>set cs. crp_pid x \<noteq> pid" "crp_pid c = pid" "\<forall>x\<in>set ds. crp_pid x \<noteq> pid"
  shows "indice_carpincho pid (cs @ c # ds) i k = i + int (length cs)"
  using assms by (induction cs arbitrary: i k) (auto simp: indice_carpincho_ausente)

lemma liberar_paginas:
  assumes "\<forall>p\<in>set ps. h p \<noteq> None" "distinct ps"
  shows "free_pages_by_carpincho ps h = Some (\<lambda>x. if x \<in> set ps then None else h x)"
  using assms
proof (induction ps arbitrary: h)
  case (Cons p ps)
  then have "free_pages_by_carpincho ps (h(p := None)) = Some (\<lambda>x. if x \<in> set ps then None else (h(p := None)) x)"
    by (intro Cons.IH) auto
  moreover obtain g where "h p = Some g" using Cons.prems by auto
  ultimately show ?case by (auto simp: libera_def)
qed simp

lemma sin_proceso_no_presente:
  assumes pres: "presencia_ok s" and ms: "i < length (marcos_list s)" "\<not> mrc_isFree (marcos_list s ! i)"
    and otros: "\<forall>c\<in>set (carpinchos_list s). crp_pid c \<noteq> mrc_pid (marcos_list s ! i) \<and> paginas_ok (heap s) c"
  shows False
proof -
  have "\<exists>p\<in>paginas_de s. \<exists>g. heap s p = Some g \<and> pag_presencia g \<noteq> 0 \<and> pag_marco g = int i \<and>
      pag_pid g = mrc_pid (marcos_list s ! i) \<and> pag_pagina g = mrc_pagina (marcos_list s ! i)"
    using pres ms unfolding presencia_ok_def by metis
  then obtain p g where p: "p \<in> paginas_de s" "heap s p = Some g" "pag_pid g = mrc_pid (marcos_list s ! i)" by blast
  then obtain c where c: "c \<in> set (carpinchos_list s)" "p \<in> set (crp_paginas c)" by (auto simp: paginas_de_def)
  then obtain k where "k < length (crp_paginas c)" "crp_paginas c ! k = p" by (auto simp: in_set_conv_nth)
  then have "pag_pid g = crp_pid c" using otros c(1) p(2) by (fastforce simp: paginas_ok_def)
  then show False using otros c(1) p(3) by auto
qed

text \<open>C30. The frames of a process that has ended are lost. The end of a process frees its page objects and takes it
  out of the list of processes, but gives back neither its frames nor its place in the swap server: a frame that
  held one of its pages stays taken, by a process that no longer exists, so the invariant of the frames is broken
  and nothing can evict it.\<close>

theorem final_pierde_marcos:
  assumes "inv_mem E s" "get_carpincho s pid = Some c" "p \<in> set (crp_paginas c)" "heap s p = Some g" "pag_presencia g \<noteq> 0"
  shows "\<exists>t. memory_memfree_all E pid s = Some (EXITO, t) \<and> get_carpincho t pid = None \<and> swamp t = swamp s \<and>
    \<not> mrc_isFree (marcos_list t ! nat (pag_marco g)) \<and> mrc_pid (marcos_list t ! nat (pag_marco g)) = pid \<and> \<not> presencia_ok t"
proof -
  have ok: "procesos_ok s" "presencia_ok s" using assms(1) by (auto simp: inv_mem_def)
  note c = get_carpinchoD [OF assms(2)]
  obtain cs ds where l: "carpinchos_list s = cs @ c # ds" using c(1) by (meson split_list)
  have d: "distinct (map crp_pid (carpinchos_list s))" "\<forall>c\<in>set (carpinchos_list s). paginas_ok (heap s) c"
    using ok(1) by (auto simp: procesos_ok_def)
  have sin: "\<forall>x\<in>set cs. crp_pid x \<noteq> pid" "\<forall>x\<in>set ds. crp_pid x \<noteq> pid"
    using d(1) c(2) l by (auto simp: image_iff)
  have pc: "paginas_ok (heap s) c" using d(2) c(1) by blast
  have "distinct (crp_paginas c)"
    unfolding distinct_conv_nth using pc unfolding paginas_ok_def
    by (metis add_right_cancel of_nat_eq_iff option.inject)
  moreover have "heap s x \<noteq> None" if "x \<in> set (crp_paginas c)" for x
    using pc that by (auto simp: paginas_ok_def in_set_conv_nth)
  ultimately have fr: "free_pages_by_carpincho (crp_paginas c) (heap s) =
      Some (\<lambda>x. if x \<in> set (crp_paginas c) then None else heap s x)"
    by (intro liberar_paginas) auto
  define t where "t = s\<lparr>carpinchos_list := cs @ ds, heap := (\<lambda>x. if x \<in> set (crp_paginas c) then None else heap s x)\<rparr>"
  have "list_remove (carpinchos_list s) (indice_carpincho pid (carpinchos_list s) 0 (- 1)) = cs @ ds"
    using indice_carpincho_propio [OF sin(1) c(2) sin(2), of 0 "- 1"] unfolding l
    by (simp add: list_remove_def list_size_def)
  then have r: "memory_memfree_all E pid s = Some (EXITO, t)"
    using assms(2) fr by (simp add: memory_memfree_all_def t_def Let_def)
  have g: "get_carpincho t pid = None" using sin by (auto simp: get_carpincho_find list_find_None_iff t_def)
  have P: "p \<in> paginas_de s" using get_carpincho_paginas [OF assms(2,3)] .
  have pid: "pag_pid g = pid"
  proof -
    obtain k where "k < length (crp_paginas c)" "crp_paginas c ! k = p" using assms(3) by (auto simp: in_set_conv_nth)
    then show ?thesis using pc c(2) assms(4) by (fastforce simp: paginas_ok_def)
  qed
  have m: "ocupa (marcos_list s) (pag_marco g) pid (pag_pagina g)"
    using presente_ocupa [OF ok(2) P assms(4,5)] pid by simp
  let ?i = "nat (pag_marco g)"
  have i: "?i < length (marcos_list t)" "\<not> mrc_isFree (marcos_list t ! ?i)" "mrc_pid (marcos_list t ! ?i) = pid"
    using m by (auto simp: ocupa_def list_size_def t_def)
  have "paginas_ok (heap t) x" if x: "x \<in> set (carpinchos_list t)" for x
  proof -
    have xs: "x \<in> set (carpinchos_list s)" "crp_pid x \<noteq> crp_pid c" using x sin c(2) l by (auto simp: t_def)
    have "heap t (crp_paginas x ! k) = heap s (crp_paginas x ! k)" if k: "k < length (crp_paginas x)" for k
    proof -
      obtain f where f: "heap s (crp_paginas x ! k) = Some f" "pag_pid f = crp_pid x"
        using d(2) xs(1) k by (fastforce simp: paginas_ok_def)
      have "crp_paginas x ! k \<notin> set (crp_paginas c)"
      proof
        assume "crp_paginas x ! k \<in> set (crp_paginas c)"
        then obtain j where "j < length (crp_paginas c)" "crp_paginas c ! j = crp_paginas x ! k" by (auto simp: in_set_conv_nth)
        then have "pag_pid f = crp_pid c" using pc f(1) by (fastforce simp: paginas_ok_def)
        then show False using f(2) xs(2) by simp
      qed
      then show ?thesis by (simp add: t_def)
    qed
    then show ?thesis using d(2) xs(1) by (auto simp: paginas_ok_def)
  qed
  moreover have "crp_pid x \<noteq> pid" if "x \<in> set (carpinchos_list t)" for x using that sin by (auto simp: t_def)
  ultimately have "\<not> presencia_ok t" using sin_proceso_no_presente [OF _ i(1,2)] i(3) by auto
  then show ?thesis using r g i(2,3) by (auto simp: t_def)
qed

theorem final_pierde_marcos_witness:
  "\<exists>t. memory_memfree_all (entorno_ej ''LRU'') 1 memoria_ej = Some (EXITO, t) \<and> get_carpincho t 1 = None \<and>
    mrc_pid (marcos_list t ! 0) = 1 \<and> \<not> mrc_isFree (marcos_list t ! 0)"
proof -
  have "get_carpincho memoria_ej 1 = Some carpincho_ej" "0 \<in> set (crp_paginas carpincho_ej)"
    "heap memoria_ej 0 = Some (pagina_ej 1 1)" "pag_presencia (pagina_ej 1 1) \<noteq> 0" "pag_marco (pagina_ej 1 1) = 0"
    by (simp_all add: get_carpincho_find memoria_ej_def carpincho_ej_def pagina_ej_def)
  from final_pierde_marcos [OF inv_mem_ej this(1-4), of "''LRU''"] this(5) show ?thesis by auto
qed

end
