(* ===== verification/Memoria_Dump.thy ===== *)
theory Memoria_Dump
  imports Memoria_Servidor
begin

section \<open>Memoria: what the signals write\<close>

text \<open>
  The files and reports of \<^verbatim>\<open>signals.c\<close> and \<open>dump_marcos\<close>, as lists of lines; a line holds the values that are
  formatted into it. The name of the file, with date and hour, is left out.
\<close>

subsection \<open>The dump of the TLB\<close>

text \<open>A line names the entry, and what its state says; a state that is neither 0 nor 1 adds nothing.\<close>

datatype linea_tlb = Ocupado int int int int | Libre int | SinEstado int

definition linea_tlb :: "t_mensaje_dump \<Rightarrow> linea_tlb" where
  "linea_tlb m =
     (if dmp_estado m = 1 then Ocupado (dmp_entrada m) (dmp_carpincho_pid m) (dmp_pagina m) (dmp_marco m)
      else if dmp_estado m = 0 then Libre (dmp_entrada m) else SinEstado (dmp_entrada m))"

text \<open>With the debug switch on, item \<open>i\<close> of the TLB is printed beside message \<open>i\<close>: it must exist.\<close>

fun lineas_tlb :: "'s entorno \<Rightarrow> t_tlb list \<Rightarrow> t_mensaje_dump list \<Rightarrow> int \<Rightarrow> linea_tlb list option" where
  "lineas_tlb E ts [] i = Some []"
| "lineas_tlb E ts (m # ms) i =
     do { _ \<leftarrow> (if en_debug E then do { _ \<leftarrow> list_get ts i; Some () } else Some ());
          ls \<leftarrow> lineas_tlb E ts ms (i + 1);
          Some (linea_tlb m # ls) }"

definition dump :: "'s entorno \<Rightarrow> 's memoria \<Rightarrow> linea_tlb list option" where
  "dump E s = lineas_tlb E (tlb_list s) (mensajes_dump_list s) 0"

definition sig_handler_sig1 :: "'s entorno \<Rightarrow> 's memoria \<Rightarrow> linea_tlb list option" where
  "sig_handler_sig1 E s = dump E s"

subsection \<open>The report of hits and misses\<close>

text \<open>The totals, and pid, hits and misses of every process. The program ends then.\<close>

definition sig_handler_sigint :: "'s memoria \<Rightarrow> int \<times> int \<times> (int \<times> int \<times> int) list" where
  "sig_handler_sigint s =
     (tlb_hits_totales s, tlb_miss_totales s,
      map (\<lambda>c. (crp_pid c, crp_tlb_hits c, crp_tlb_miss c)) (carpinchos_list s))"

subsection \<open>The dump of the frames\<close>

text \<open>The expected pages of the two scenarios of the tests, printed when there are twelve frames; with another
  algorithm the array is not initialised.\<close>

definition end_pages :: "'s entorno \<Rightarrow> string list option" where
  "end_pages E =
     (if algoritmo_reemplazo_mmu (datosConfigMemoria E) = ''LRU''
      then Some [''C1P0'', ''C1P1'', ''C2P0'', ''C1P4'', ''C3P0'', ''C1P7'', ''C1P2'', ''C1P5'', ''C3P2'', ''C1P3'', ''C1P6'', ''C3P3'']
      else if es_m_clock E
      then Some [''C1P4'', ''C1P0'', ''C1P1'', ''C1P5'', ''C1P6'', ''C1P7'', ''C1P2'', ''C1P8'', ''C2P1'', ''C1P3'', ''C3P0'', ''C3P1'']
      else None)"

text \<open>A line: the frame, whether it is taken, process number, page, expected page, and of a taken frame the time
  stamp (LRU) or the three bits.\<close>

record linea_marco =
  lm_marco :: int
  lm_libre :: bool
  lm_carpincho :: int
  lm_pagina :: int
  lm_esperada :: "string option"
  lm_timestamp :: "int option"
  lm_bits :: "(bool \<times> bool \<times> bool) option"

definition linea_de_marco ::
  "'s entorno \<Rightarrow> 's memoria \<Rightarrow> string option \<Rightarrow> t_marco \<Rightarrow> linea_marco option" where
  "linea_de_marco E s esperada m =
     (if mrc_isFree m
      then Some \<lparr>lm_marco = mrc_marco m, lm_libre = True, lm_carpincho = mrc_pid m, lm_pagina = mrc_pagina m - 1,
                 lm_esperada = esperada, lm_timestamp = None, lm_bits = None\<rparr>
      else do { c \<leftarrow> get_carpincho s (mrc_pid m);
                r \<leftarrow> get_page_by_ints s (mrc_pid m) (mrc_pagina m);
                p \<leftarrow> r;
                g \<leftarrow> heap s p;
                let lru = algoritmo_reemplazo_mmu (datosConfigMemoria E) = ''LRU'';
                Some \<lparr>lm_marco = mrc_marco m, lm_libre = False, lm_carpincho = crp_numero c, lm_pagina = mrc_pagina m - 1,
                      lm_esperada = esperada,
                      lm_timestamp = (if lru then Some (pag_timestamp g) else None),
                      lm_bits = (if lru then None
                                 else Some (pag_presencia g \<noteq> 0, pag_uso g \<noteq> 0, pag_modif g \<noteq> 0))\<rparr> })"

fun lineas_marcos ::
  "'s entorno \<Rightarrow> 's memoria \<Rightarrow> string list option \<Rightarrow> int \<Rightarrow> t_marco list \<Rightarrow> linea_marco list option" where
  "lineas_marcos E s esperadas i [] = Some []"
| "lineas_marcos E s esperadas i (m # ms) =
     do { esperada \<leftarrow> (if list_size (marcos_list s) = 12
                     then do { es \<leftarrow> esperadas; e \<leftarrow> list_get es i; Some (Some e) } else Some None);
          l \<leftarrow> linea_de_marco E s esperada m;
          ls \<leftarrow> lineas_marcos E s esperadas (i + 1) ms;
          Some (l # ls) }"

text \<open>The list of frames itself is sorted: \<open>marcos\<close> is the global list.\<close>

definition dump_marcos :: "'s entorno \<Rightarrow> 's memoria \<Rightarrow> (linea_marco list \<times> 's memoria) option" where
  "dump_marcos E s =
     (let ms = list_sort_marco E (\<lambda>a b. mrc_marco a < mrc_marco b) (marcos_list s);
          s1 = s\<lparr>marcos_list := ms\<rparr>
      in do { ls \<leftarrow> lineas_marcos E s1 (end_pages E) 0 ms; Some (ls, s1) })"

subsection \<open>Properties\<close>

text \<open>The dump has one line per message; after the second signal it is empty.\<close>

lemma lineas_tlb_todas:
  assumes "\<not> en_debug E \<or> 0 \<le> i \<and> i + list_size ms \<le> list_size ts"
  shows "lineas_tlb E ts ms i = Some (map linea_tlb ms)"
  using assms
proof (induction ms arbitrary: i)
  case (Cons m ms)
  then have "lineas_tlb E ts ms (i + 1) = Some (map linea_tlb ms)" by (intro Cons.IH) (auto simp: list_size_def)
  then show ?case using Cons.prems by (auto simp: list_get_def list_size_def)
qed simp

lemma dump_mensajes:
  assumes "\<not> en_debug E \<or> list_size (mensajes_dump_list s) \<le> list_size (tlb_list s)"
  shows "sig_handler_sig1 E s = Some (map linea_tlb (mensajes_dump_list s))"
  using lineas_tlb_todas [of E 0 "mensajes_dump_list s" "tlb_list s"] assms by (auto simp: sig_handler_sig1_def dump_def)

lemma dump_tras_limpiar: "sig_handler_sig1 E (sig_handler_sig2 s) = Some []"
  by (simp add: sig_handler_sig1_def sig_handler_sig2_def clear_mensajes_dump_def dump_def)

lemma dump_desborda:
  assumes "en_debug E" "list_size (tlb_list s) < list_size (mensajes_dump_list s)"
  shows "sig_handler_sig1 E s = None"
proof -
  have "lineas_tlb E ts ms i = None" if "0 \<le> i" "i \<le> list_size ts" "list_size ts < i + list_size ms" for ts ms i
    using that
  proof (induction ms arbitrary: i)
    case (Cons m ms)
    show ?case
    proof (cases "i < list_size ts")
      case True
      then have "lineas_tlb E ts ms (i + 1) = None" using Cons by (intro Cons.IH) (auto simp: list_size_def)
      then show ?thesis by (simp split: Option.bind_split)
    next
      case False
      then have "list_get ts i = None" by (simp add: list_get_def)
      then show ?thesis using assms(1) by simp
    qed
  qed (simp add: list_size_def)
  then show ?thesis using assms(2) by (simp add: sig_handler_sig1_def dump_def list_size_def)
qed

end
