(* ===== verification/Kernel_Estado.thy ===== *)
theory Kernel_Estado
  imports Complex_Main Protocolo
begin

section \<open>Kernel: processes, queues and semaphores\<close>

text \<open>
  The state of the kernel (\<^verbatim>\<open>kernel/src/kernel.h\<close>, \<^verbatim>\<open>utils.h\<close>). A
  \<open>t_pcb*\<close> is an address: the same process stands in a queue and in a CPU, and a freed one is an
  address without a process. A POSIX semaphore is its counter; the mutexes only matter where one is
  locked twice. Printing and logging are left out.
\<close>


subsection \<open>Data\<close>

datatype state = NEW | READY | BLOCKED | EXEC | SUSPENDED | FINISHED

datatype statusCPU = FREE | BUSY

text \<open>
  \<open>semaforoRequerido\<close> is \<open>None\<close> while it is NULL or was never set: comparing it is undefined. A time
  stamp is the number its text spells. A \<open>float\<close> is the real number it holds.
\<close>

record t_pcb =
  pcb_socket :: int
  pcb_PID :: int
  pcb_semaforoRequerido :: "string option"
  pcb_IO_finished :: int
  pcb_status :: state
  pcb_timestamp_ready_in :: int
  pcb_timestamp_exec_in :: int
  pcb_timestamp_exec_out :: int
  pcb_proximaEstimacion :: real
  pcb_previaEstimacion :: real
  pcb_rafagaRealCPU :: real

record t_io =
  io_dispositivo :: string
  io_duracion :: int

record t_io_req =
  ior_PID :: int
  ior_nombre :: "char list"

text \<open>
  The field \<open>PID\<close> of \<open>t_sem_kernel\<close> is never used: the code that reads the owner of a semaphore takes
  the object for the larger \<open>semaforo\<close> of the protocol and reads behind its end.
\<close>

record t_sem_kernel =
  sk_nombre :: string
  sk_valor :: int

record t_cpu =
  cpu_estado :: statusCPU
  cpu_pcb :: "ptr option"
  cpu_semaforo :: nat
  cpu_carpincho :: "mate_instance option"

record t_config_kernel =
  estimacion_inicial :: int
  alfa :: real
  dispositivos_io :: "string list"
  duraciones_io :: "int list"
  grado_multiprogramacion :: nat
  grado_multiprocesamiento :: nat

record kernel =
  pcbs :: "ptr \<Rightarrow> t_pcb option"
  k_prox :: ptr
  processNew :: "ptr list"
  processReady :: "ptr list"
  processSuspendedBlocked :: "ptr list"
  processSuspendedReady :: "ptr list"
  processBlocked :: "ptr list"
  processExit :: "ptr list"
  cpusExec :: "t_cpu list"
  dispositivosIO :: "t_io list"
  colaIO :: "t_io_req list"
  semaforosKernel :: "t_sem_kernel list"
  procesosEnDeadlock :: "int list"
  PIDAnterior :: int
  ejecutar :: int
  uso :: int
  planificacion :: int
  puedeEntrarAlSistema :: nat
  procesoNuevo :: nat
  cantidadCarpinchosEnReady :: nat
  planificar :: nat
  planifMedianoPlazo :: nat
  ejecutarIO :: nat
  semFinalizarProceso :: nat
  suspendidoAReady :: nat
  m_colaSuspendedBlocked :: bool
  k_tiempo :: nat

text \<open>
  What the kernel is run with. \<open>redondeo\<close> and \<open>redondeo_doble\<close> round a real to the nearest
  \<open>float\<close> and \<open>double\<close>; \<open>reloj n\<close> is the number that the \<open>n\<close>-th call of
  \<open>temporal_get_string_time\<close> spells, the milliseconds of the current second; \<open>detras_sem\<close> is the word
  behind the object of a semaphore; \<open>dir_baja\<close> is an address cut to an \<open>int\<close>; \<open>basura_cpu\<close> is what
  the uninitialised pointer of \<open>buscarCPULibre\<close> shows; \<open>basura_pcb\<close> and \<open>basura_instancia\<close> are the
  contents of fresh memory; \<open>cuenta_cola\<close> is the size \<open>queue_size\<close> reads from a list that is not a
  queue; \<open>sigue_mem\<close> is what follows a buffer in memory.
\<close>

record entorno_kernel =
  datosConfigKernel :: t_config_kernel
  redondeo :: "real \<Rightarrow> real"
  redondeo_doble :: "real \<Rightarrow> real"
  reloj :: "nat \<Rightarrow> int"
  detras_sem :: "kernel \<Rightarrow> t_sem_kernel \<Rightarrow> int"
  dir_baja :: "ptr \<Rightarrow> int"
  basura_cpu :: "statusCPU option"
  basura_pcb :: "ptr \<Rightarrow> t_pcb"
  basura_instancia :: "kernel \<Rightarrow> mate_instance"
  cuenta_cola :: "kernel \<Rightarrow> int"
  sigue_mem :: "char list \<Rightarrow> char list"

subsection \<open>Basic operations\<close>

definition modifica_pcb :: "ptr \<Rightarrow> (t_pcb \<Rightarrow> t_pcb) \<Rightarrow> kernel \<Rightarrow> kernel option" where
  "modifica_pcb p f k = do { q \<leftarrow> pcbs k p; Some (k\<lparr>pcbs := (pcbs k)(p \<mapsto> f q)\<rparr>) }"

definition ahora :: "entorno_kernel \<Rightarrow> kernel \<Rightarrow> int \<times> kernel" where
  "ahora E k = (reloj E (k_tiempo k), k\<lparr>k_tiempo := Suc (k_tiempo k)\<rparr>)"

text \<open>A C string in a buffer; without a NUL reading it leaves the buffer.\<close>

definition texto :: "char list \<Rightarrow> string option" where
  "texto buf =
     (if CHR 0x00 \<in> set buf then Some (takeWhile (\<lambda>c. c \<noteq> CHR 0x00) buf) else None)"

text \<open>The conversion of a \<open>float\<close> to an \<open>int\<close> cuts towards 0.\<close>

definition trunca :: "real \<Rightarrow> int" where
  "trunca x = (if 0 \<le> x then \<lfloor>x\<rfloor> else \<lceil>x\<rceil>)"

definition create_pcb :: "entorno_kernel \<Rightarrow> int \<Rightarrow> mate_instance \<Rightarrow> kernel \<Rightarrow> ptr \<times> kernel" where
  "create_pcb E fd carpincho k =
     (let p = k_prox k;
          q = (basura_pcb E p)\<lparr>pcb_socket := fd, pcb_PID := mi_PID carpincho,
                pcb_semaforoRequerido := None,
                pcb_previaEstimacion := redondeo E (real_of_int (estimacion_inicial (datosConfigKernel E))),
                pcb_rafagaRealCPU := 0, pcb_status := NEW, pcb_IO_finished := 0\<rparr>
      in (p, k\<lparr>pcbs := (pcbs k)(p \<mapsto> q), k_prox := Suc p\<rparr>))"

definition crearCPUS :: "entorno_kernel \<Rightarrow> t_cpu list" where
  "crearCPUS E = replicate (grado_multiprocesamiento (datosConfigKernel E))
     \<lparr>cpu_estado = FREE, cpu_pcb = None, cpu_semaforo = 0, cpu_carpincho = None\<rparr>"

text \<open>The loop runs to the NULL behind the last device; a duration that is missing is NULL, which is
  converted.\<close>

fun crearIO :: "string list \<Rightarrow> int list \<Rightarrow> t_io list option" where
  "crearIO [] duraciones = Some []"
| "crearIO (d # ds) duraciones =
     do { n \<leftarrow> list_get duraciones 0;
          resto \<leftarrow> crearIO ds (tl duraciones);
          Some (\<lparr>io_dispositivo = d, io_duracion = n\<rparr> # resto) }"

text \<open>The state in which \<open>main\<close> starts to accept processes.\<close>

definition iniciar_kernel :: "entorno_kernel \<Rightarrow> kernel option" where
  "iniciar_kernel E =
     (let C = datosConfigKernel E
      in do { ds \<leftarrow> crearIO (dispositivos_io C) (duraciones_io C);
              Some \<lparr>pcbs = (\<lambda>_. None), k_prox = 0, processNew = [], processReady = [],
                processSuspendedBlocked = [], processSuspendedReady = [], processBlocked = [],
                processExit = [], cpusExec = crearCPUS E, dispositivosIO = ds, colaIO = [],
                semaforosKernel = [], procesosEnDeadlock = [], PIDAnterior = 0, ejecutar = 0,
                uso = 0, planificacion = 0, puedeEntrarAlSistema = grado_multiprogramacion C,
                procesoNuevo = 0, cantidadCarpinchosEnReady = 0, planificar = 1,
                planifMedianoPlazo = 0, ejecutarIO = 0, semFinalizarProceso = 0,
                suspendidoAReady = 0, m_colaSuspendedBlocked = False, k_tiempo = 0\<rparr> })"

text \<open>A new connection: the instance is read and its process enters the queue of new processes. Any
  other operation code is ignored.\<close>

definition aceptar_carpincho ::
  "entorno_kernel \<Rightarrow> int \<Rightarrow> char list \<Rightarrow> kernel \<Rightarrow> (kernel \<times> char list \<times> char list) option" where
  "aceptar_carpincho E fd entrada k =
     (if fd \<noteq> 0 \<and> fd \<noteq> - 1
      then do { (cod_op, e1) \<leftarrow> recibir_operacion entrada;
                if cod_op = PROCESS
                then do {
                  (c, e2, enviado) \<leftarrow> deserializar_instancia_kernel e1;
                  let (p, k1) = create_pcb E fd c (k\<lparr>planificacion := 0\<rparr>);
                  Some (k1\<lparr>processNew := processNew k1 @ [p], procesoNuevo := Suc (procesoNuevo k1)\<rparr>, enviado, e2) }
                else Some (k, [], e1) }
      else Some (k, [], entrada))"

end
