(* ===== verification/Kernel_Semaforos.thy ===== *)
theory Kernel_Semaforos
  imports Kernel_Estado
begin

section \<open>Kernel: the semaphores of the processes\<close>

text \<open>
  The four semaphore operations a process asks for, and what they do to the queues
  (\<^verbatim>\<open>kernel/src/kernel.c\<close>).
\<close>

subsection \<open>The list of semaphores\<close>

definition verificarExisteSem :: "kernel \<Rightarrow> string \<Rightarrow> int" where
  "verificarExisteSem k nombreSem =
     (case posicion (\<lambda>s. sk_nombre s = nombreSem) (semaforosKernel k) 0 of Some i \<Rightarrow> i | None \<Rightarrow> - 1)"

definition crearSemaforoKernel :: "string \<Rightarrow> int \<Rightarrow> kernel \<Rightarrow> kernel" where
  "crearSemaforoKernel nombre valor k =
     (if verificarExisteSem k nombre = - 1
      then k\<lparr>semaforosKernel := semaforosKernel k @ [\<lparr>sk_nombre = nombre, sk_valor = valor\<rparr>]\<rparr> else k)"

definition suma_valor :: "int \<Rightarrow> int \<Rightarrow> kernel \<Rightarrow> kernel" where
  "suma_valor position d k =
     k\<lparr>semaforosKernel := (semaforosKernel k)
        [nat position := (semaforosKernel k ! nat position)
           \<lparr>sk_valor := sk_valor (semaforosKernel k ! nat position) + d\<rparr>]\<rparr>"

definition restarSem :: "string \<Rightarrow> kernel \<Rightarrow> int \<times> kernel" where
  "restarSem unNombreSem k =
     (let position = verificarExisteSem k unNombreSem
      in if position \<noteq> - 1
         then if sk_valor (semaforosKernel k ! nat position) \<ge> 1
              then (0, suma_valor position (- 1) k) else (- 1, k)
         else (- 2, k))"

definition sumarSem :: "string \<Rightarrow> kernel \<Rightarrow> kernel" where
  "sumarSem unNombreSem k =
     (let position = verificarExisteSem k unNombreSem
      in if position \<noteq> - 1 then suma_valor position 1 k else k)"

text \<open>
  The processes that wait for a semaphore that is destroyed lose their number. \<open>list_replace\<close> is given
  the process as index and the index as element: nothing happens unless the address of the process,
  cut to an \<open>int\<close>, is an index of the list of semaphores, and then a number stands in the list as the
  address of a semaphore.
\<close>

fun reasignarProcesos :: "entorno_kernel \<Rightarrow> string \<Rightarrow> ptr list \<Rightarrow> kernel \<Rightarrow> kernel option" where
  "reasignarProcesos E unSemaforo [] k = Some k"
| "reasignarProcesos E unSemaforo (p # ps) k =
     do { q \<leftarrow> pcbs k p;
          s \<leftarrow> pcb_semaforoRequerido q;
          if s = unSemaforo
          then do { k1 \<leftarrow> modifica_pcb p (\<lambda>q. q\<lparr>pcb_PID := - 1\<rparr>) k;
                    _ \<leftarrow> exige (\<not> (0 \<le> dir_baja E p \<and> dir_baja E p < list_size (semaforosKernel k)));
                    reasignarProcesos E unSemaforo ps k1 }
          else reasignarProcesos E unSemaforo ps k }"

definition eliminarSemaforoKernel :: "entorno_kernel \<Rightarrow> string \<Rightarrow> kernel \<Rightarrow> kernel option" where
  "eliminarSemaforoKernel E nombre k =
     (let position = verificarExisteSem k nombre
      in if position \<noteq> - 1
         then reasignarProcesos E (sk_nombre (semaforosKernel k ! nat position)) (processBlocked k)
                (k\<lparr>semaforosKernel := list_remove (semaforosKernel k) position\<rparr>)
         else Some k)"

subsection \<open>Estimation of the next burst\<close>

text \<open>The cast binds to \<open>alfa\<close> alone.\<close>

definition estimacion :: "entorno_kernel \<Rightarrow> t_pcb \<Rightarrow> real" where
  "estimacion E q =
     (let r = redondeo E; a = alfa (datosConfigKernel E)
      in r (r (real_of_int (trunca a) * pcb_rafagaRealCPU q) + r (r (1 - a) * pcb_previaEstimacion q)))"

definition calcularEstimacion :: "entorno_kernel \<Rightarrow> ptr \<Rightarrow> kernel \<Rightarrow> kernel option" where
  "calcularEstimacion E p k = modifica_pcb p (\<lambda>q. q\<lparr>pcb_proximaEstimacion := estimacion E q\<rparr>) k"

subsection \<open>Waking a process\<close>

fun buscar_requerido :: "kernel \<Rightarrow> string \<Rightarrow> ptr list \<Rightarrow> int \<Rightarrow> int option option" where
  "buscar_requerido k nombre [] i = Some None"
| "buscar_requerido k nombre (p # ps) i =
     do { q \<leftarrow> pcbs k p;
          s \<leftarrow> pcb_semaforoRequerido q;
          if s = nombre then Some (Some i) else buscar_requerido k nombre ps (i + 1) }"

text \<open>A blocked process becomes ready; \<open>desbloquearPID\<close> does the same.\<close>

definition pasar_a_ready :: "entorno_kernel \<Rightarrow> int \<Rightarrow> kernel \<Rightarrow> kernel option" where
  "pasar_a_ready E j k =
     do { p \<leftarrow> list_get (processBlocked k) j;
          k1 \<leftarrow> modifica_pcb p (\<lambda>q. q\<lparr>pcb_status := READY\<rparr>)
                  (k\<lparr>processBlocked := list_remove (processBlocked k) j\<rparr>);
          k2 \<leftarrow> calcularEstimacion E p k1;
          Some (k2\<lparr>processReady := processReady k2 @ [p],
                   cantidadCarpinchosEnReady := Suc (cantidadCarpinchosEnReady k2)\<rparr>) }"

text \<open>
  A suspended process is added to \<open>processSuspendedReady\<close> with \<open>list_add\<close>, although it is a queue and
  not a list: undefined. The first process found is woken, whatever the value of the semaphore.
\<close>

definition desbloquearProcesoPorSemaforo :: "entorno_kernel \<Rightarrow> string \<Rightarrow> kernel \<Rightarrow> kernel option" where
  "desbloquearProcesoPorSemaforo E nombre k =
     do { r \<leftarrow> buscar_requerido k nombre (processSuspendedBlocked k) 0;
          (case r of
             Some _ \<Rightarrow> None
           | None \<Rightarrow>
               do { r2 \<leftarrow> buscar_requerido k nombre (processBlocked k) 0;
                    (case r2 of Some j \<Rightarrow> pasar_a_ready E j k | None \<Rightarrow> Some k) }) }"

subsection \<open>The request of a process\<close>

text \<open>The process leaves the CPU: its last burst is measured in milliseconds of the current second.\<close>

definition dejar_cpu :: "entorno_kernel \<Rightarrow> ptr \<Rightarrow> kernel \<Rightarrow> kernel option" where
  "dejar_cpu E p k =
     (let (t, k1) = ahora E k
      in modifica_pcb p (\<lambda>q. q\<lparr>pcb_status := BLOCKED, pcb_timestamp_exec_out := t,
            pcb_previaEstimacion := pcb_proximaEstimacion q,
            pcb_rafagaRealCPU := redondeo E (redondeo_doble E
              (real_of_int (t - pcb_timestamp_exec_in q) / 1000))\<rparr>) k1)"

text \<open>
  \<open>operacionesSemaforo\<close> for the process at address \<open>p\<close> and its instance: the state and the bytes sent.
  The answer is sent in every case, also to the process that has just been blocked. The local copy of
  the semaphore that the function makes is never used.
\<close>

definition operacionesSemaforo ::
  "entorno_kernel \<Rightarrow> ptr \<Rightarrow> mate_instance \<Rightarrow> kernel \<Rightarrow> (kernel \<times> char list) option" where
  "operacionesSemaforo E p c k =
     do { nombre \<leftarrow> texto (sem_nombre c);
          k1 \<leftarrow> modifica_pcb p (\<lambda>q. q\<lparr>pcb_semaforoRequerido := Some nombre\<rparr>) k;
          k2 \<leftarrow> (if sem_operacion c = INIT then Some (crearSemaforoKernel nombre (sem_valor c) k1)
                 else if sem_operacion c = WAIT
                 then let (resultado, k2) = restarSem nombre k1
                      in if resultado = - 1
                         then do { k3 \<leftarrow> dejar_cpu E p k2;
                                   Some (k3\<lparr>processBlocked := processBlocked k3 @ [p], ejecutar := 1\<rparr>) }
                         else Some k2
                 else if sem_operacion c = POST
                 then desbloquearProcesoPorSemaforo E nombre (sumarSem nombre k1)
                 else if sem_operacion c = DESTROY then eliminarSemaforoKernel E nombre k1
                 else Some k1);
          Some (k2, le32 0) }"

end
