(* ===== verification/Kernel_Deadlock.thy ===== *)
theory Kernel_Deadlock
  imports Kernel_Semaforos
begin

section \<open>Kernel: deadlock detection\<close>

text \<open>
  One turn of the thread \<open>chequearDeadlock\<close> (\<^verbatim>\<open>kernel/src/kernel.c\<close>). The owner of a semaphore
  is read from behind its object (\<open>detras_sem\<close>); writing it there is undefined.
\<close>

subsection \<open>Searches\<close>

text \<open>Both searches leave out the last element of their list.\<close>

fun buscar_pid :: "kernel \<Rightarrow> int \<Rightarrow> ptr list \<Rightarrow> ptr option option" where
  "buscar_pid k pid [] = Some None"
| "buscar_pid k pid (p # ps) =
     do { q \<leftarrow> pcbs k p; if pcb_PID q = pid then Some (Some p) else buscar_pid k pid ps }"

definition conseguirPcb :: "kernel \<Rightarrow> int \<Rightarrow> ptr option option" where
  "conseguirPcb k pid = buscar_pid k pid (butlast (processBlocked k))"

definition conseguirSemaforo :: "kernel \<Rightarrow> string option \<Rightarrow> t_sem_kernel option option" where
  "conseguirSemaforo k semNombre =
     (if butlast (semaforosKernel k) = [] then Some None
      else do { nombre \<leftarrow> semNombre;
                Some (list_find (\<lambda>s. sk_nombre s = nombre) (butlast (semaforosKernel k))) })"

subsection \<open>Recovery\<close>

definition sacarRecursos :: "entorno_kernel \<Rightarrow> int \<Rightarrow> kernel \<Rightarrow> kernel option" where
  "sacarRecursos E unPID k =
     do { _ \<leftarrow> exige (list_all (\<lambda>s. detras_sem E k s \<noteq> unPID) (semaforosKernel k)); Some k }"

text \<open>Removing the element at the index of a loop skips the one behind it. What stays and what passes:\<close>

fun pasan_a_ready :: "kernel \<Rightarrow> int \<Rightarrow> ptr list \<Rightarrow> (ptr list \<times> ptr list) option" where
  "pasan_a_ready k pid [] = Some ([], [])"
| "pasan_a_ready k pid (p # ps) =
     do { q \<leftarrow> pcbs k p;
          if pcb_PID q = pid
          then (case ps of
                  [] \<Rightarrow> Some ([], [p])
                | p2 # ps2 \<Rightarrow> do { (quedan, pasan) \<leftarrow> pasan_a_ready k pid ps2; Some (p2 # quedan, p # pasan) })
          else do { (quedan, pasan) \<leftarrow> pasan_a_ready k pid ps; Some (p # quedan, pasan) } }"

definition pasarDeBloqueadoAReady :: "int \<Rightarrow> kernel \<Rightarrow> kernel option" where
  "pasarDeBloqueadoAReady unPID k =
     do { (quedan, pasan) \<leftarrow> pasan_a_ready k unPID (processBlocked k);
          Some (k\<lparr>processBlocked := quedan, processReady := processReady k @ pasan\<rparr>) }"

text \<open>
  The bound of the loop is one short of the length of the list; the process is freed and its CPU may
  still hold its address.
\<close>

fun terminar_desde ::
  "entorno_kernel \<Rightarrow> int \<Rightarrow> ptr list \<Rightarrow> kernel \<Rightarrow> (ptr list \<times> kernel) option" where
  "terminar_desde E unPID [] k = Some ([], k)"
| "terminar_desde E unPID [p] k = Some ([p], k)"
| "terminar_desde E unPID (p # p2 # ps) k =
     do { q \<leftarrow> pcbs k p;
          if pcb_PID q = unPID
          then do { k1 \<leftarrow> sacarRecursos E unPID k;
                    (quedan, k2) \<leftarrow> terminar_desde E unPID ps (k1\<lparr>pcbs := (pcbs k1)(p := None)\<rparr>);
                    Some (p2 # quedan, k2) }
          else do { (quedan, k2) \<leftarrow> terminar_desde E unPID (p2 # ps) k; Some (p # quedan, k2) } }"

definition terminarProceso :: "entorno_kernel \<Rightarrow> int \<Rightarrow> kernel \<Rightarrow> kernel option" where
  "terminarProceso E unPID k =
     do { (quedan, k1) \<leftarrow> terminar_desde E unPID (processBlocked k) k;
          Some (k1\<lparr>processBlocked := quedan\<rparr>) }"

text \<open>\<open>list_replace\<close> is given the address of the process as index (see \<open>reasignarProcesos\<close>). The name is
  only ever NULL.\<close>

fun reasignarProceso :: "entorno_kernel \<Rightarrow> int \<Rightarrow> ptr list \<Rightarrow> kernel \<Rightarrow> kernel option" where
  "reasignarProceso E unPID [] k = Some k"
| "reasignarProceso E unPID (p # ps) k =
     do { q \<leftarrow> pcbs k p;
          if pcb_PID q = unPID
          then do { _ \<leftarrow> exige (\<not> (0 \<le> dir_baja E p \<and> dir_baja E p < list_size (processBlocked k)));
                    k1 \<leftarrow> modifica_pcb p (\<lambda>q. q\<lparr>pcb_semaforoRequerido := None\<rparr>) k;
                    reasignarProceso E unPID ps k1 }
          else reasignarProceso E unPID ps k }"

subsection \<open>Detection\<close>

text \<open>
  The walk from process to semaphore to owner. The list \<open>procesosEnDeadlock\<close> holds process numbers, and
  where the code takes one of them for a process it is dereferenced as an address. When the owner is in
  the list already, the elements before it are dropped and the greatest number of the rest is returned;
  the result of the recursive call is dropped, and the function ends with \<open>return -1\<close> behind the code that
  is commented out.
\<close>

fun desde_dueno :: "int \<Rightarrow> int list \<Rightarrow> int list" where
  "desde_dueno d [] = []"
| "desde_dueno d (x # xs) = (if x = d then x # xs else desde_dueno d xs)"

function comprobarDeadlock ::
  "entorno_kernel \<Rightarrow> int \<Rightarrow> kernel \<Rightarrow> (int \<times> kernel) option" where
  "comprobarDeadlock E PID k =
     do { r \<leftarrow> conseguirPcb k PID;
          case r of
            Some p \<Rightarrow>
              do { q \<leftarrow> pcbs k p;
                   sem \<leftarrow> conseguirSemaforo k (pcb_semaforoRequerido q);
                   case sem of
                     Some unSemaforo \<Rightarrow>
                       if pcb_PID q = detras_sem E k unSemaforo
                       then if procesosEnDeadlock k \<noteq> [] then None
                            else do { k1 \<leftarrow> pasarDeBloqueadoAReady (pcb_PID q) k; Some (0, k1) }
                       else if detras_sem E k unSemaforo \<in> set (procesosEnDeadlock k)
                       then let resto = desde_dueno (detras_sem E k unSemaforo) (procesosEnDeadlock k)
                            in Some (fold max resto (hd resto), k\<lparr>procesosEnDeadlock := resto\<rparr>)
                       else do { (_, k1) \<leftarrow> comprobarDeadlock E (detras_sem E k unSemaforo)
                                   (k\<lparr>procesosEnDeadlock := procesosEnDeadlock k @ [pcb_PID q],
                                      PIDAnterior := pcb_PID q\<rparr>);
                                 Some (- 1, k1) }
                   | None \<Rightarrow> do { k1 \<leftarrow> reasignarProceso E (pcb_PID q) (processBlocked k) k; Some (0, k1) } }
          | None \<Rightarrow> if length (procesosEnDeadlock k) \<ge> 2 then None else Some (0, k) }"
  by pat_completeness auto

text \<open>
  The walk ends: every process it comes to is blocked, and after the first step it is not in the list yet.
\<close>

definition pids_bloqueados :: "kernel \<Rightarrow> int set" where
  "pids_bloqueados k = {pcb_PID q |p q. p \<in> set (processBlocked k) \<and> pcbs k p = Some q}"

lemma finite_pids_bloqueados [simp]: "finite (pids_bloqueados k)"
proof -
  have "pids_bloqueados k \<subseteq> (\<lambda>p. pcb_PID (the (pcbs k p))) ` set (processBlocked k)"
    by (force simp: pids_bloqueados_def)
  then show ?thesis by (rule finite_subset) simp
qed

lemma buscar_pid_Some:
  "buscar_pid k pid ps = Some (Some p) \<Longrightarrow> p \<in> set ps \<and> (\<exists>q. pcbs k p = Some q \<and> pcb_PID q = pid)"
  by (induction ps) (auto simp: bind_eq_Some_conv split: if_splits)

lemma conseguirPcb_bloqueado:
  assumes "conseguirPcb k pid = Some (Some p)" "pcbs k p = Some q"
  shows "pcb_PID q = pid" "pid \<in> pids_bloqueados k"
  using assms buscar_pid_Some [of k pid "butlast (processBlocked k)" p]
  by (auto simp: conseguirPcb_def pids_bloqueados_def dest: in_set_butlastD)

definition resta_camino :: "int \<Rightarrow> kernel \<Rightarrow> nat" where
  "resta_camino pid k = 2 * card (pids_bloqueados k - set (procesosEnDeadlock k)) +
     (if pid \<in> set (procesosEnDeadlock k) then 1 else 0)"

lemma resta_camino_baja:
  assumes "pid \<in> pids_bloqueados k" "d \<noteq> pid" "d \<notin> set (procesosEnDeadlock k)"
  shows "resta_camino d (k\<lparr>procesosEnDeadlock := procesosEnDeadlock k @ [pid], PIDAnterior := a\<rparr>) < resta_camino pid k"
proof -
  let ?S = "pids_bloqueados k - set (procesosEnDeadlock k)"
  have e: "pids_bloqueados k - set (procesosEnDeadlock k @ [pid]) = ?S - {pid}" by auto
  have "card (?S - {pid}) < card ?S" if "pid \<notin> set (procesosEnDeadlock k)"
    using that assms(1) by (intro card_Diff1_less) auto
  moreover have "card (?S - {pid}) = card ?S" if "pid \<in> set (procesosEnDeadlock k)"
    using that by simp
  moreover have "pids_bloqueados (k\<lparr>procesosEnDeadlock := ds, PIDAnterior := a\<rparr>) = pids_bloqueados k" for ds
    by (simp add: pids_bloqueados_def)
  ultimately show ?thesis using assms(2,3) e by (auto simp: resta_camino_def)
qed

termination comprobarDeadlock
proof (relation "measure (\<lambda>(E, pid, k). resta_camino pid k)", goal_cases)
  case (2 E pid k r p q sem u)
  then have "pcb_PID q = pid" "pid \<in> pids_bloqueados k" using conseguirPcb_bloqueado by auto
  then show ?case using 2 resta_camino_baja by auto
qed simp

declare comprobarDeadlock.simps [simp del]

text \<open>
  One turn of \<open>chequearDeadlock\<close>; \<open>n\<close> bounds the turns of its loop, and the number of blocked processes
  is enough, because the loop never adds one.
\<close>

fun revisar_bloqueados :: "entorno_kernel \<Rightarrow> nat \<Rightarrow> int \<Rightarrow> kernel \<Rightarrow> kernel option" where
  "revisar_bloqueados E 0 i k = Some k"
| "revisar_bloqueados E (Suc n) i k =
     (if i < list_size (processBlocked k) - 1
      then do { p \<leftarrow> list_get (processBlocked k) i;
                q \<leftarrow> pcbs k p;
                (resultado, k1) \<leftarrow> comprobarDeadlock E (pcb_PID q) k;
                k2 \<leftarrow> (if resultado \<noteq> 0 then terminarProceso E resultado k1 else Some k1);
                revisar_bloqueados E n (i + 1) k2 }
      else Some k)"

definition chequearDeadlock :: "entorno_kernel \<Rightarrow> kernel \<Rightarrow> kernel option" where
  "chequearDeadlock E k =
     (if processBlocked k \<noteq> []
      then revisar_bloqueados E (length (processBlocked k)) 0 (k\<lparr>procesosEnDeadlock := []\<rparr>)
      else Some k)"

subsection \<open>What a walk conserves\<close>

text \<open>A preorder that the two repairs and the bookkeeping respect is respected by the whole walk.\<close>

lemma comprobarDeadlock_conserva:
  assumes libreta: "\<And>k ds. R k (k\<lparr>procesosEnDeadlock := ds\<rparr>)" "\<And>k ds a. R k (k\<lparr>procesosEnDeadlock := ds, PIDAnterior := a\<rparr>)"
    and refl: "\<And>k. R k k" and trans: "\<And>k k1 k2. R k k1 \<Longrightarrow> R k1 k2 \<Longrightarrow> R k k2"
    and pasar: "\<And>pid k k'. pasarDeBloqueadoAReady pid k = Some k' \<Longrightarrow> R k k'"
    and reasignar: "\<And>pid ps k k'. reasignarProceso E pid ps k = Some k' \<Longrightarrow> R k k'"
    and "comprobarDeadlock E pid k = Some (r, k')"
  shows "R k k'"
proof -
  show ?thesis
    using assms(6,7)
  proof (induction E pid k arbitrary: r k' rule: comprobarDeadlock.induct)
    case (1 E pid k)
    note paso = "1.prems"(2) [unfolded comprobarDeadlock.simps [of E pid k]]
    obtain x where x: "conseguirPcb k pid = Some x" using paso by (cases "conseguirPcb k pid") auto
    show ?case
    proof (cases x)
      case None
      then show ?thesis using paso x refl by (auto split: if_splits)
    next
      case (Some p)
      obtain q sem where q: "pcbs k p = Some q" "conseguirSemaforo k (pcb_semaforoRequerido q) = Some sem"
        using paso x Some by (auto simp: bind_eq_Some_conv)
      show ?thesis
      proof (cases sem)
        case None
        then show ?thesis using paso x Some q "1.prems"(1) by (auto simp: bind_eq_Some_conv)
      next
        case (Some u)
        let ?d = "detras_sem E k u"
        let ?k = "k\<lparr>procesosEnDeadlock := procesosEnDeadlock k @ [pcb_PID q], PIDAnterior := pcb_PID q\<rparr>"
        consider "pcb_PID q = ?d" | "pcb_PID q \<noteq> ?d" "?d \<in> set (procesosEnDeadlock k)"
          | "pcb_PID q \<noteq> ?d" "?d \<notin> set (procesosEnDeadlock k)" by blast
        then show ?thesis
        proof cases
          case 1
          then show ?thesis using paso x \<open>x = Some p\<close> q Some
            by (auto simp: bind_eq_Some_conv split: if_splits intro: pasar)
        next
          case 2
          then show ?thesis using paso x \<open>x = Some p\<close> q Some by (auto simp: Let_def libreta)
        next
          case 3
          then obtain z where z: "comprobarDeadlock E ?d ?k = Some (z, k')"
            using paso x \<open>x = Some p\<close> q Some by (auto simp: bind_eq_Some_conv)
          have "R ?k k'"
            by (rule "1.IH" [OF _ _ _ _ _ _ _ "1.prems"(1) z]) (use x \<open>x = Some p\<close> q Some 3 in auto)
          then show ?thesis using trans [OF libreta(2)] by blast
        qed
      qed
    qed
  qed
qed

text \<open>The list of blocked processes never grows.\<close>

lemma pasan_a_ready_longitud: "pasan_a_ready k pid ps = Some (qs, rs) \<Longrightarrow> length qs \<le> length ps"
proof (induction k pid ps arbitrary: qs rs rule: pasan_a_ready.induct)
  case (2 k pid p ps)
  obtain q where q: "pcbs k p = Some q" using "2.prems" by (auto simp: bind_eq_Some_conv)
  show ?case
  proof (cases "pcb_PID q = pid")
    case True
    then show ?thesis using "2.prems" "2.IH"(1) [OF q True] q
      by (fastforce simp: bind_eq_Some_conv split: list.splits)
  next
    case False
    then show ?thesis using "2.prems" "2.IH"(2) [OF q False] q by (auto simp: bind_eq_Some_conv)
  qed
qed simp

lemma terminar_desde_longitud: "terminar_desde E pid ps k = Some (qs, k') \<Longrightarrow> length qs \<le> length ps"
proof (induction E pid ps k arbitrary: qs rule: terminar_desde.induct)
  case (3 E pid p p2 ps k)
  obtain q where q: "pcbs k p = Some q" using "3.prems" by (auto simp: bind_eq_Some_conv)
  show ?case
  proof (cases "pcb_PID q = pid")
    case True
    then show ?thesis using "3.prems" "3.IH"(1) [OF q True] q by (fastforce simp: bind_eq_Some_conv)
  next
    case False
    then show ?thesis using "3.prems" "3.IH"(2) [OF q False] q by (auto simp: bind_eq_Some_conv)
  qed
qed simp_all

lemma reasignarProceso_bloqueados: "reasignarProceso E pid ps k = Some k' \<Longrightarrow> processBlocked k' = processBlocked k"
  by (induction ps arbitrary: k) (auto simp: bind_eq_Some_conv modifica_pcb_def split: if_splits)

lemma comprobarDeadlock_longitud:
  "comprobarDeadlock E pid k = Some (r, k') \<Longrightarrow> length (processBlocked k') \<le> length (processBlocked k)"
  by (erule comprobarDeadlock_conserva [where R = "\<lambda>k k'. length (processBlocked k') \<le> length (processBlocked k)", rotated -1])
    (auto simp: pasarDeBloqueadoAReady_def bind_eq_Some_conv reasignarProceso_bloqueados dest: pasan_a_ready_longitud)

lemma terminarProceso_longitud:
  "terminarProceso E pid k = Some k' \<Longrightarrow> length (processBlocked k') \<le> length (processBlocked k)"
  by (auto simp: terminarProceso_def bind_eq_Some_conv dest: terminar_desde_longitud)

text \<open>So the bound on the turns of the loop does not cut it off.\<close>

lemma revisar_bastante:
  assumes "nat (list_size (processBlocked k) - 1 - i) \<le> n" "nat (list_size (processBlocked k) - 1 - i) \<le> m"
  shows "revisar_bloqueados E n i k = revisar_bloqueados E m i k"
  using assms
proof (induction n arbitrary: m i k)
  case 0
  then show ?case by (cases m) auto
next
  case (Suc n)
  show ?case
  proof (cases "i < list_size (processBlocked k) - 1")
    case False
    then show ?thesis by (cases m) auto
  next
    case True
    then obtain m' where m: "m = Suc m'" using Suc.prems(2) by (cases m) auto
    have sigue: "revisar_bloqueados E n (i + 1) k2 = revisar_bloqueados E m' (i + 1) k2"
      if "length (processBlocked k2) \<le> length (processBlocked k)" for k2
      using that Suc.prems True m by (intro Suc.IH) (auto simp: list_size_def)
    have "revisar_bloqueados E n (i + 1) k2 = revisar_bloqueados E m' (i + 1) k2"
      if "comprobarDeadlock E pid k = Some (r, k1)"
        "(if r \<noteq> 0 then terminarProceso E r k1 else Some k1) = Some k2" for pid r k1 k2
    proof (rule sigue)
      have "length (processBlocked k2) \<le> length (processBlocked k1)"
        using that(2) terminarProceso_longitud by (auto split: if_splits)
      then show "length (processBlocked k2) \<le> length (processBlocked k)"
        using comprobarDeadlock_longitud [OF that(1)] by linarith
    qed
    then show ?thesis using True unfolding m by (auto intro!: bind_option_cong)
  qed
qed

lemma revisar_longitud:
  "revisar_bloqueados E n i k = Some k' \<Longrightarrow> length (processBlocked k') \<le> length (processBlocked k)"
proof (induction n arbitrary: i k)
  case (Suc n)
  show ?case
  proof (cases "i < list_size (processBlocked k) - 1")
    case True
    then obtain pid r k1 k2 where "comprobarDeadlock E pid k = Some (r, k1)"
      "(if r \<noteq> 0 then terminarProceso E r k1 else Some k1) = Some k2" "revisar_bloqueados E n (i + 1) k2 = Some k'"
      using Suc.prems by (auto simp: bind_eq_Some_conv)
    then have "length (processBlocked k1) \<le> length (processBlocked k)"
      "length (processBlocked k2) \<le> length (processBlocked k1)"
      "length (processBlocked k') \<le> length (processBlocked k2)"
      using comprobarDeadlock_longitud terminarProceso_longitud Suc.IH by (auto split: if_splits)
    then show ?thesis by linarith
  qed (use Suc.prems in simp)
qed simp

end
