(* ===== verification/Kernel_Planificacion.thy ===== *)
theory Kernel_Planificacion
  imports Kernel_Deadlock
begin

section \<open>Kernel: scheduling and devices\<close>

text \<open>
  The schedulers of \<^verbatim>\<open>kernel/src/kernel.c\<close>. Each thread is a loop around its semaphores; a
  definition here is the piece between two waits. How the pieces interleave is the relation of
  \<open>Kernel_Sistema\<close>.
\<close>

subsection \<open>Long term\<close>

text \<open>After \<open>sem_wait (&procesoNuevo)\<close>: whether the thread goes on to wait for a place.\<close>

definition plp_admite :: "kernel \<Rightarrow> bool" where
  "plp_admite k \<longleftrightarrow> processNew k \<noteq> [] \<and> processSuspendedReady k = []"

text \<open>After \<open>sem_wait (&puedeEntrarAlSistema)\<close>.\<close>

definition plp_mover :: "entorno_kernel \<Rightarrow> kernel \<Rightarrow> kernel option" where
  "plp_mover E k =
     (case processNew k of
        [] \<Rightarrow> None
      | p # ps \<Rightarrow>
          let (t, k1) = ahora E (k\<lparr>processNew := ps\<rparr>)
          in do { k2 \<leftarrow> modifica_pcb p (\<lambda>q. q\<lparr>pcb_timestamp_ready_in := t\<rparr>) k1;
                  Some (k2\<lparr>processReady := processReady k2 @ [p],
                           cantidadCarpinchosEnReady := Suc (cantidadCarpinchosEnReady k2)\<rparr>) })"

text \<open>When a CPU waits for its process the turn is given away a second time, before the pause and after it.\<close>

definition plp_cede :: "kernel \<Rightarrow> bool" where
  "plp_cede k \<longleftrightarrow> processReady k = [] \<or> uso k = 1"

definition plp_ceder :: "kernel \<Rightarrow> kernel" where
  "plp_ceder k = k\<lparr>planificacion := 0, planificar := Suc (planificar k)\<rparr>"

definition plp_retomar :: "kernel \<Rightarrow> kernel" where
  "plp_retomar k = k\<lparr>planificacion := planificacion k - 1, uso := 0\<rparr>"

subsection \<open>Choosing a CPU\<close>

text \<open>The first look goes through an uninitialised pointer. While no CPU is free the loop goes on.\<close>

fun primera_libre :: "t_cpu list \<Rightarrow> nat \<Rightarrow> nat \<Rightarrow> nat option" where
  "primera_libre cpus i 0 = None"
| "primera_libre [] i (Suc n) = None"
| "primera_libre (c # cs) i (Suc n) = (if cpu_estado c = FREE then Some i else primera_libre cs (Suc i) n)"

definition buscarCPULibre :: "entorno_kernel \<Rightarrow> kernel \<Rightarrow> nat option option" where
  "buscarCPULibre E k =
     do { estado \<leftarrow> basura_cpu E;
          if estado = FREE then Some None
          else do { i \<leftarrow> primera_libre (cpusExec k) 0 (grado_multiprocesamiento (datosConfigKernel E));
                    Some (Some i) } }"

definition asignarCPU :: "entorno_kernel \<Rightarrow> ptr \<Rightarrow> kernel \<Rightarrow> kernel option" where
  "asignarCPU E p k =
     do { r \<leftarrow> buscarCPULibre E k;
          case r of
            Some i \<Rightarrow>
              Some (k\<lparr>cpusExec := (cpusExec k)[i := (cpusExec k ! i)
                        \<lparr>cpu_estado := BUSY, cpu_pcb := Some p,
                         cpu_semaforo := Suc (cpu_semaforo (cpusExec k ! i))\<rparr>],
                      ejecutar := 0\<rparr>)
          | None \<Rightarrow> Some k }"

subsection \<open>Shortest job first\<close>

text \<open>The loop of \<open>elDeMenorSJF\<close> from index \<open>i\<close> on, with the least estimation and its index so far.\<close>

fun menor_estimacion ::
  "entorno_kernel \<Rightarrow> ptr list \<Rightarrow> nat \<Rightarrow> real \<Rightarrow> nat \<Rightarrow> kernel \<Rightarrow> (nat \<times> kernel) option" where
  "menor_estimacion E [] i minSJF minID k = Some (minID, k)"
| "menor_estimacion E (p # ps) i minSJF minID k =
     do { q \<leftarrow> pcbs k p;
          k1 \<leftarrow> (if pcb_rafagaRealCPU q = 0 then calcularEstimacion E p k else Some k);
          q1 \<leftarrow> pcbs k1 p;
          if pcb_proximaEstimacion q1 < minSJF
          then menor_estimacion E ps (Suc i) (pcb_proximaEstimacion q1) i k1
          else menor_estimacion E ps (Suc i) minSJF minID k1 }"

definition elDeMenorSJF :: "entorno_kernel \<Rightarrow> kernel \<Rightarrow> (ptr \<times> kernel) option" where
  "elDeMenorSJF E k =
     do { (minID, k1) \<leftarrow> menor_estimacion E (processReady k) 0 9999999 0 k;
          p \<leftarrow> list_get (processReady k1) (int minID);
          _ \<leftarrow> pcbs k1 p;
          Some (p, k1\<lparr>processReady := list_remove (processReady k1) (int minID)\<rparr>) }"

definition a_exec :: "entorno_kernel \<Rightarrow> ptr \<Rightarrow> kernel \<Rightarrow> kernel option" where
  "a_exec E p k =
     (let (t, k1) = ahora E k
      in modifica_pcb p (\<lambda>q. q\<lparr>pcb_status := EXEC, pcb_timestamp_exec_in := t\<rparr>) k1)"

text \<open>After both waits.\<close>

definition planificarPorSJFSinDesalojo :: "entorno_kernel \<Rightarrow> kernel \<Rightarrow> kernel option" where
  "planificarPorSJFSinDesalojo E k =
     (if planificacion k = 0
      then do { (p, k1) \<leftarrow> elDeMenorSJF E k; k2 \<leftarrow> a_exec E p k1; asignarCPU E p k2 }
      else Some (k\<lparr>planificacion := 0\<rparr>))"

subsection \<open>Highest response ratio next\<close>

definition calculoRR :: "entorno_kernel \<Rightarrow> ptr \<Rightarrow> kernel \<Rightarrow> (int \<times> kernel) option" where
  "calculoRR E p k =
     (let (t, k1) = ahora E k
      in do { q \<leftarrow> pcbs k1 p;
              _ \<leftarrow> exige (pcb_previaEstimacion q \<noteq> 0);
              let rr = trunca (redondeo E (1 + redondeo E
                (redondeo E (real_of_int (t - pcb_timestamp_ready_in q)) / pcb_previaEstimacion q)));
              _ \<leftarrow> exige (i32 rr = rr);
              Some (rr, k1) })"

fun mayor_rr ::
  "entorno_kernel \<Rightarrow> nat \<Rightarrow> int \<Rightarrow> ptr \<Rightarrow> kernel \<Rightarrow> (ptr \<times> kernel) option" where
  "mayor_rr E 0 i elegido k = Some (elegido, k)"
| "mayor_rr E (Suc n) i elegido k =
     do { p \<leftarrow> list_get (processReady k) i;
          (a, k1) \<leftarrow> calculoRR E p k;
          (b, k2) \<leftarrow> calculoRR E elegido k1;
          mayor_rr E n (i + 1) (if a > b then p else elegido) k2 }"

text \<open>\<open>queue_size\<close> of a list reads its first node as a list; an empty list has none.\<close>

definition elMayorRR :: "entorno_kernel \<Rightarrow> kernel \<Rightarrow> (ptr \<times> kernel) option" where
  "elMayorRR E k =
     do { p \<leftarrow> list_get (processReady k) 0; mayor_rr E (nat (cuenta_cola E k)) 0 p k }"

text \<open>After both waits. The process stays in the ready list and no CPU is told.\<close>

definition planificarPorHRRN :: "entorno_kernel \<Rightarrow> kernel \<Rightarrow> kernel option" where
  "planificarPorHRRN E k = do { (p, k1) \<leftarrow> elMayorRR E k; a_exec E p k1 }"

subsection \<open>Medium term\<close>

text \<open>
  After \<open>sem_wait (&planifMedianoPlazo)\<close>. The mutex is locked twice: a thread that suspends a process
  stops there, before it gives the place back. The flag says that it has stopped.
\<close>

definition planificadorMedianoPlazo :: "kernel \<Rightarrow> bool \<times> kernel" where
  "planificadorMedianoPlazo k =
     (if processReady k = [] \<and> processBlocked k \<noteq> [] \<and> processNew k \<noteq> []
      then (True, k\<lparr>processBlocked := butlast (processBlocked k),
                    processSuspendedBlocked := processSuspendedBlocked k @ [last (processBlocked k)],
                    m_colaSuspendedBlocked := True\<rparr>)
      else (False, k))"

subsection \<open>Devices\<close>

definition encolarIO :: "ptr \<Rightarrow> char list \<Rightarrow> kernel \<Rightarrow> kernel option" where
  "encolarIO p recurso k =
     do { q \<leftarrow> pcbs k p;
          Some (k\<lparr>colaIO := colaIO k @ [\<lparr>ior_PID = pcb_PID q, ior_nombre = recurso\<rparr>],
                  ejecutarIO := Suc (ejecutarIO k)\<rparr>) }"

text \<open>After \<open>sem_wait (&ejecutarIO)\<close>: the request and its burst, 0 for an unknown device. Without devices
  the name is not looked at.\<close>

definition io_tomar :: "kernel \<Rightarrow> (t_io_req \<times> int \<times> kernel) option" where
  "io_tomar k =
     (case colaIO k of
        [] \<Rightarrow> None
      | r # rs \<Rightarrow>
          if dispositivosIO k = [] then Some (r, 0, k\<lparr>colaIO := rs\<rparr>)
          else do { nombre \<leftarrow> texto (ior_nombre r);
                    Some (r, case list_find (\<lambda>d. io_dispositivo d = nombre) (dispositivosIO k) of
                               Some d \<Rightarrow> io_duracion d | None \<Rightarrow> 0, k\<lparr>colaIO := rs\<rparr>) })"

fun posicion_pid :: "kernel \<Rightarrow> int \<Rightarrow> ptr list \<Rightarrow> int \<Rightarrow> int option option" where
  "posicion_pid k pid [] i = Some None"
| "posicion_pid k pid (p # ps) i =
     do { q \<leftarrow> pcbs k p; if pcb_PID q = pid then Some (Some i) else posicion_pid k pid ps (i + 1) }"

text \<open>
  The process is looked for among the blocked ones and then among the suspended ones; there it is removed
  with the index of the first loop, which is the number of blocked processes, and goes nowhere. The
  mutex of the list is free only while no process has been suspended.
\<close>

definition desbloquearPID :: "entorno_kernel \<Rightarrow> int \<Rightarrow> kernel \<Rightarrow> kernel option" where
  "desbloquearPID E pid k =
     do { r \<leftarrow> posicion_pid k pid (processBlocked k) 0;
          case r of
            Some i \<Rightarrow> pasar_a_ready E i k
          | None \<Rightarrow>
              do { r2 \<leftarrow> posicion_pid k pid (processSuspendedBlocked k) 0;
                   case r2 of
                     Some j \<Rightarrow>
                       if m_colaSuspendedBlocked k then None
                       else Some (k\<lparr>processSuspendedBlocked :=
                                      list_remove (processSuspendedBlocked k) (list_size (processBlocked k)),
                                    suspendidoAReady := Suc (suspendidoAReady k)\<rparr>)
                   | None \<Rightarrow> Some k } }"

text \<open>One turn of \<open>planificadorIO\<close> after its wait; the burst only takes time.\<close>

definition planificadorIO :: "entorno_kernel \<Rightarrow> kernel \<Rightarrow> kernel option" where
  "planificadorIO E k = do { (r, rafaga, k1) \<leftarrow> io_tomar k; desbloquearPID E (ior_PID r) k1 }"

text \<open>No thread runs \<open>suspendidoAListo\<close>. One turn after its two waits.\<close>

definition suspendidoAListo :: "kernel \<Rightarrow> kernel option" where
  "suspendidoAListo k =
     (case processSuspendedReady k of
        [] \<Rightarrow> None
      | p # ps \<Rightarrow>
          let k1 = k\<lparr>processSuspendedReady := ps, processReady := processReady k @ [p]\<rparr>
          in Some (if ps = [] then k1\<lparr>procesoNuevo := procesoNuevo k1 + length (processNew k1)\<rparr> else k1))"

end
