(* ===== verification/Kernel_Cpu.thy ===== *)
theory Kernel_Cpu
  imports Kernel_Planificacion
begin

section \<open>Kernel: the CPUs and the end of a process\<close>

text \<open>
  \<open>ejecutarCarpincho\<close>, the loop of a CPU, in the pieces between which other threads run; the forwarding
  of memory requests; and \<open>finalizarProceso\<close>, which takes the processes that have ended
  (\<^verbatim>\<open>kernel/src/kernel.c\<close>).
\<close>

subsection \<open>Forwarding to the memory process\<close>

text \<open>
  \<open>mem\<close> are the bytes the memory process has sent; the message sent to it, the bytes sent to the
  process and what is left of \<open>mem\<close> are returned. A length below 0 is given to \<open>malloc\<close>. The reply of a
  read is printed as a string.
\<close>

definition reenviar_respuesta :: "int \<Rightarrow> char list \<Rightarrow> (char list \<times> char list) option" where
  "reenviar_respuesta tipoOp mem =
     (if tipoOp = MEMREAD
      then do { (unTamanio, m1) \<leftarrow> recibir_int mem;
                (bs, m2) \<leftarrow> recibir_bytes unTamanio m1;
                _ \<leftarrow> texto (le32 unTamanio @ bs);
                Some (le32 unTamanio @ bs, m2) }
      else recibir_bytes 4 mem)"

definition serializar_instancia_kernel ::
  "entorno_kernel \<Rightarrow> mate_instance \<Rightarrow> char list \<Rightarrow> (char list \<times> char list \<times> char list) option" where
  "serializar_instancia_kernel E c mem =
     do { magic \<leftarrow> serializar_mensaje (sigue_mem E) c;
          (respuesta, m) \<leftarrow> reenviar_respuesta (mem_tipoOp c) mem;
          Some (magic, respuesta, m) }"

subsection \<open>The loop of a CPU\<close>

definition cambia_cpu :: "nat \<Rightarrow> (t_cpu \<Rightarrow> t_cpu) \<Rightarrow> kernel \<Rightarrow> kernel" where
  "cambia_cpu i f k = k\<lparr>cpusExec := (cpusExec k)[i := f (cpusExec k ! i)]\<rparr>"

text \<open>After \<open>sem_wait (cpu->semaforoCPU)\<close>.\<close>

definition cpu_despertar :: "nat \<Rightarrow> kernel \<Rightarrow> kernel option" where
  "cpu_despertar i k =
     do { p \<leftarrow> cpu_pcb (cpusExec k ! i); _ \<leftarrow> pcbs k p; Some (k\<lparr>planificacion := 0\<rparr>) }"

text \<open>The test of the inner loop.\<close>

definition cpu_sigue :: "nat \<Rightarrow> kernel \<Rightarrow> bool option" where
  "cpu_sigue i k =
     do { p \<leftarrow> cpu_pcb (cpusExec k ! i); q \<leftarrow> pcbs k p; Some (pcb_status q = EXEC) }"

text \<open>Up to the wait for a message: the answer to a device request, sent when its process runs again.\<close>

definition cpu_esperar :: "nat \<Rightarrow> kernel \<Rightarrow> (kernel \<times> char list) option" where
  "cpu_esperar i k =
     do { p \<leftarrow> cpu_pcb (cpusExec k ! i);
          q \<leftarrow> pcbs k p;
          k1 \<leftarrow> modifica_pcb p (\<lambda>q. q\<lparr>pcb_IO_finished := 0\<rparr>) k;
          Some (k1\<lparr>uso := 1\<rparr>, if pcb_IO_finished q \<noteq> 0 then le32 0 else []) }"

definition terminar_carpincho :: "ptr \<Rightarrow> kernel \<Rightarrow> kernel option" where
  "terminar_carpincho p k =
     do { k1 \<leftarrow> modifica_pcb p (\<lambda>q. q\<lparr>pcb_status := FINISHED\<rparr>) k;
          Some (k1\<lparr>processExit := processExit k1 @ [p], semFinalizarProceso := Suc (semFinalizarProceso k1)\<rparr>) }"

text \<open>
  A message of the process. The flag says that it asked for a device and has not been put in the list of
  blocked processes yet. After a wrong operation code the socket is closed and the instance is read from
  it all the same; a type that is not known dereferences the socket number.
\<close>

definition cpu_atender ::
  "entorno_kernel \<Rightarrow> nat \<Rightarrow> char list \<Rightarrow> char list \<Rightarrow> kernel \<Rightarrow>
   (bool \<times> kernel \<times> char list \<times> char list \<times> char list \<times> char list) option" where
  "cpu_atender E i entrada mem k =
     do { p \<leftarrow> cpu_pcb (cpusExec k ! i);
          _ \<leftarrow> pcbs k p;
          (cod_op, e1) \<leftarrow> recibir_operacion entrada;
          _ \<leftarrow> exige (cod_op = PROCESS);
          (c, e2, bienvenida) \<leftarrow> deserializar_instancia_kernel e1;
          let k1 = cambia_cpu i (\<lambda>u. u\<lparr>cpu_carpincho := Some c\<rparr>) (k\<lparr>uso := 0\<rparr>);
          if mi_tipo c = MEMORIA
          then do { (magic, respuesta, m) \<leftarrow> serializar_instancia_kernel E c mem;
                    Some (False, k1, respuesta, magic, e2, m) }
          else if mi_tipo c = IO
          then do { k2 \<leftarrow> dejar_cpu E p k1; k3 \<leftarrow> encolarIO p (io_nombre c) k2; Some (True, k3, [], [], e2, mem) }
          else if mi_tipo c = SEMAFORO
          then do { (k2, respuesta) \<leftarrow> operacionesSemaforo E p c k1; Some (False, k2, respuesta, [], e2, mem) }
          else if mi_tipo c = FINALIZACION
          then do { k2 \<leftarrow> terminar_carpincho p k1; Some (False, k2, le32 0, [], e2, mem) }
          else None }"

definition cpu_bloquear :: "nat \<Rightarrow> kernel \<Rightarrow> kernel option" where
  "cpu_bloquear i k =
     do { p \<leftarrow> cpu_pcb (cpusExec k ! i);
          k1 \<leftarrow> modifica_pcb p (\<lambda>q. q\<lparr>pcb_IO_finished := 1\<rparr>) (k\<lparr>processBlocked := processBlocked k @ [p]\<rparr>);
          Some (k1\<lparr>ejecutar := 1\<rparr>) }"

text \<open>Behind the inner loop. The CPU keeps the address of its process.\<close>

definition cpu_salir :: "nat \<Rightarrow> kernel \<Rightarrow> kernel" where
  "cpu_salir i k =
     cambia_cpu i (\<lambda>u. u\<lparr>cpu_estado := FREE\<rparr>)
       (k\<lparr>planifMedianoPlazo := Suc (planifMedianoPlazo k), planificar := Suc (planificar k), planificacion := 0\<rparr>)"

subsection \<open>The end of a process\<close>

text \<open>The request that tells the memory process; its answer is never read.\<close>

definition instancia_final :: "entorno_kernel \<Rightarrow> int \<Rightarrow> kernel \<Rightarrow> mate_instance" where
  "instancia_final E unPID k =
     (let b = basura_instancia E k
      in b\<lparr>mi_tipo := MEMORIA, mi_estado := 5, mi_PID := unPID, sem_longitud := 1,
            sem_nombre := take 1 (sem_nombre b @ [CHR 0x00]), io_longitud := 1,
            io_nombre := take 1 (io_nombre b @ [CHR 0x00]), mem_size := 1,
            mem_valor := take 1 (mem_valor b @ [CHR 0x00]), mem_tipoOp := PROCESS_ENDED\<rparr>)"

definition finalizacionCarpincho :: "entorno_kernel \<Rightarrow> int \<Rightarrow> kernel \<Rightarrow> char list option" where
  "finalizacionCarpincho E unPID k = serializar_mensaje (sigue_mem E) (instancia_final E unPID k)"

text \<open>One turn of \<open>finalizarProceso\<close> after its wait.\<close>

definition finalizarProceso :: "entorno_kernel \<Rightarrow> kernel \<Rightarrow> (kernel \<times> char list) option" where
  "finalizarProceso E k =
     (case processExit k of
        [] \<Rightarrow> Some (k, [])
      | p # ps \<Rightarrow>
          do { q \<leftarrow> pcbs k p;
               k1 \<leftarrow> sacarRecursos E (pcb_PID q) (k\<lparr>processExit := ps\<rparr>);
               magic \<leftarrow> finalizacionCarpincho E (pcb_PID q) k1;
               Some (k1\<lparr>pcbs := (pcbs k1)(p := None), puedeEntrarAlSistema := Suc (puedeEntrarAlSistema k1)\<rparr>,
                     magic) })"

end
