(* ===== verification/Kernel_Sistema.thy ===== *)
theory Kernel_Sistema
  imports Kernel_Cpu
begin

section \<open>Kernel: the threads\<close>

text \<open>
  The threads of the kernel as a step relation. A step runs one thread from one wait to the next; what
  other threads can observe in between (a device request that is queued before its process is blocked,
  the pause of the long term scheduler) is a step of its own. The bytes of the sockets are arbitrary. The
  short term scheduler is shortest job first. The invariants are proved from the effect each piece has
  on the queues and counters.
\<close>

subsection \<open>Steps\<close>

datatype pc_cpu = Dormida | Cabeza | Esperando | Bloqueando
datatype pc_plp = PLP_Nuevo | PLP_Lugar | PLP_Ceder
datatype pc_pcp = PCP_Ready | PCP_Turno

record sistema =
  kern :: kernel
  pcs :: "pc_cpu list"
  plp :: pc_plp
  pcp :: pc_pcp
  pmp_sigue :: bool
  io_actual :: "t_io_req option"

definition sistema_inicial :: "entorno_kernel \<Rightarrow> sistema option" where
  "sistema_inicial E =
     do { k \<leftarrow> iniciar_kernel E;
          Some \<lparr>kern = k, pcs = replicate (length (cpusExec k)) Dormida, plp = PLP_Nuevo,
                pcp = PCP_Ready, pmp_sigue = True, io_actual = None\<rparr> }"

inductive paso :: "entorno_kernel \<Rightarrow> sistema \<Rightarrow> sistema \<Rightarrow> bool" for E where
  llegada: "aceptar_carpincho E fd entrada (kern S) = Some (k, enviado, resto) \<Longrightarrow> paso E S (S\<lparr>kern := k\<rparr>)"
| plp_nuevo: "plp S = PLP_Nuevo \<Longrightarrow> procesoNuevo (kern S) = Suc n \<Longrightarrow>
    paso E S (S\<lparr>kern := (kern S)\<lparr>procesoNuevo := n\<rparr>,
                plp := if plp_admite (kern S) then PLP_Lugar else PLP_Nuevo\<rparr>)"
| plp_lugar: "plp S = PLP_Lugar \<Longrightarrow> puedeEntrarAlSistema (kern S) = Suc n \<Longrightarrow>
    plp_mover E ((kern S)\<lparr>puedeEntrarAlSistema := n\<rparr>) = Some k \<Longrightarrow>
    paso E S (if plp_cede k then S\<lparr>kern := plp_ceder k, plp := PLP_Ceder\<rparr>
              else S\<lparr>kern := k, plp := PLP_Nuevo\<rparr>)"
| plp_pausa: "plp S = PLP_Ceder \<Longrightarrow> paso E S (S\<lparr>kern := plp_retomar (kern S), plp := PLP_Nuevo\<rparr>)"
| pcp_ready: "pcp S = PCP_Ready \<Longrightarrow> cantidadCarpinchosEnReady (kern S) = Suc n \<Longrightarrow>
    paso E S (S\<lparr>kern := (kern S)\<lparr>cantidadCarpinchosEnReady := n\<rparr>, pcp := PCP_Turno\<rparr>)"
| pcp_turno: "pcp S = PCP_Turno \<Longrightarrow> planificar (kern S) = Suc n \<Longrightarrow>
    planificarPorSJFSinDesalojo E ((kern S)\<lparr>planificar := n\<rparr>) = Some k \<Longrightarrow>
    paso E S (S\<lparr>kern := k, pcp := PCP_Ready\<rparr>)"
| cpu_despierta: "i < length (pcs S) \<Longrightarrow> pcs S ! i = Dormida \<Longrightarrow>
    cpu_semaforo (cpusExec (kern S) ! i) = Suc n \<Longrightarrow>
    cpu_despertar i (cambia_cpu i (\<lambda>u. u\<lparr>cpu_semaforo := n\<rparr>) (kern S)) = Some k \<Longrightarrow>
    paso E S (S\<lparr>kern := k, pcs := (pcs S)[i := Cabeza]\<rparr>)"
| cpu_escucha: "i < length (pcs S) \<Longrightarrow> pcs S ! i = Cabeza \<Longrightarrow> cpu_sigue i (kern S) = Some True \<Longrightarrow>
    cpu_esperar i (kern S) = Some (k, enviado) \<Longrightarrow>
    paso E S (S\<lparr>kern := k, pcs := (pcs S)[i := Esperando]\<rparr>)"
| cpu_sale: "i < length (pcs S) \<Longrightarrow> pcs S ! i = Cabeza \<Longrightarrow> cpu_sigue i (kern S) = Some False \<Longrightarrow>
    paso E S (S\<lparr>kern := cpu_salir i (kern S), pcs := (pcs S)[i := Dormida]\<rparr>)"
| cpu_mensaje: "i < length (pcs S) \<Longrightarrow> pcs S ! i = Esperando \<Longrightarrow>
    cpu_atender E i entrada mem (kern S) = Some (pendiente, k, enviado, magic, resto, m) \<Longrightarrow>
    paso E S (S\<lparr>kern := k, pcs := (pcs S)[i := if pendiente then Bloqueando else Cabeza]\<rparr>)"
| cpu_bloquea: "i < length (pcs S) \<Longrightarrow> pcs S ! i = Bloqueando \<Longrightarrow> cpu_bloquear i (kern S) = Some k \<Longrightarrow>
    paso E S (S\<lparr>kern := k, pcs := (pcs S)[i := Cabeza]\<rparr>)"
| fin: "semFinalizarProceso (kern S) = Suc n \<Longrightarrow>
    finalizarProceso E ((kern S)\<lparr>semFinalizarProceso := n\<rparr>) = Some (k, magic) \<Longrightarrow> paso E S (S\<lparr>kern := k\<rparr>)"
| pmp: "pmp_sigue S \<Longrightarrow> planifMedianoPlazo (kern S) = Suc n \<Longrightarrow>
    planificadorMedianoPlazo ((kern S)\<lparr>planifMedianoPlazo := n\<rparr>) = (atascado, k) \<Longrightarrow>
    paso E S (S\<lparr>kern := k, pmp_sigue := \<not> atascado\<rparr>)"
| io_toma: "io_actual S = None \<Longrightarrow> ejecutarIO (kern S) = Suc n \<Longrightarrow>
    io_tomar ((kern S)\<lparr>ejecutarIO := n\<rparr>) = Some (r, rafaga, k) \<Longrightarrow>
    paso E S (S\<lparr>kern := k, io_actual := Some r\<rparr>)"
| io_fin: "io_actual S = Some r \<Longrightarrow> desbloquearPID E (ior_PID r) (kern S) = Some k \<Longrightarrow>
    paso E S (S\<lparr>kern := k, io_actual := None\<rparr>)"
| deadlock: "chequearDeadlock E (kern S) = Some k \<Longrightarrow> paso E S (S\<lparr>kern := k\<rparr>)"

abbreviation alcanza :: "entorno_kernel \<Rightarrow> sistema \<Rightarrow> sistema \<Rightarrow> bool" where
  "alcanza E \<equiv> (paso E)\<^sup>*\<^sup>*"

subsection \<open>Frames of the operations\<close>

text \<open>What the operations on processes leave alone: the CPUs, the turn and the counters.\<close>

definition turno :: "kernel \<Rightarrow> t_cpu list \<times> nat \<times> int" where
  "turno k = (cpusExec k, planificar k, planificacion k)"

definition colas :: "kernel \<Rightarrow> ptr list \<times> nat \<times> ptr list \<times> nat \<times> ptr list" where
  "colas k = (processNew k, procesoNuevo k, processExit k, semFinalizarProceso k, processSuspendedReady k)"

definition dispositivos :: "kernel \<Rightarrow> t_io_req list \<times> nat" where
  "dispositivos k = (colaIO k, ejecutarIO k)"

lemmas vistas = turno_def colas_def dispositivos_def

definition quieto :: "kernel \<Rightarrow> kernel \<Rightarrow> bool" where
  "quieto k k' \<longleftrightarrow> turno k' = turno k \<and> colas k' = colas k \<and> dispositivos k' = dispositivos k"

text \<open>The ready list may only grow by as many processes as are announced, or more.\<close>

definition anuncia :: "kernel \<Rightarrow> kernel \<Rightarrow> bool" where
  "anuncia k k' \<longleftrightarrow> length (processReady k) + cantidadCarpinchosEnReady k'
      \<le> length (processReady k') + cantidadCarpinchosEnReady k \<and>
    cantidadCarpinchosEnReady k \<le> cantidadCarpinchosEnReady k'"

definition manso :: "kernel \<Rightarrow> kernel \<Rightarrow> bool" where
  "manso k k' \<longleftrightarrow> quieto k k' \<and> anuncia k k'"

lemma manso_refl [simp]: "manso k k"
  by (simp add: manso_def quieto_def anuncia_def)

lemma manso_trans [trans]: "manso k k1 \<Longrightarrow> manso k1 k2 \<Longrightarrow> manso k k2"
  by (auto simp: manso_def quieto_def anuncia_def)

lemma manso_modifica_pcb: "modifica_pcb p f k = Some k' \<Longrightarrow> manso k k'"
  by (auto simp: modifica_pcb_def manso_def quieto_def anuncia_def vistas bind_eq_Some_conv)

lemma manso_calcular: "calcularEstimacion E p k = Some k' \<Longrightarrow> manso k k'"
  by (simp add: calcularEstimacion_def manso_modifica_pcb)

lemma manso_semaforos: "manso k (k\<lparr>semaforosKernel := ss\<rparr>)"
  by (simp add: manso_def quieto_def anuncia_def vistas)

lemma manso_bloqueados: "manso k (k\<lparr>processBlocked := ps\<rparr>)"
  by (simp add: manso_def quieto_def anuncia_def vistas)

lemma manso_crear: "manso k (crearSemaforoKernel nombre v k)"
  by (simp add: crearSemaforoKernel_def manso_semaforos)

lemma manso_restar: "restarSem nombre k = (r, k') \<Longrightarrow> manso k k'"
  by (auto simp: restarSem_def suma_valor_def Let_def manso_semaforos split: if_splits)

lemma manso_sumar: "manso k (sumarSem nombre k)"
  by (simp add: sumarSem_def suma_valor_def Let_def manso_semaforos)

lemma manso_reasignarProcesos: "reasignarProcesos E nombre ps k = Some k' \<Longrightarrow> manso k k'"
proof (induction ps arbitrary: k)
  case (Cons p ps)
  then show ?case
    by (auto simp: bind_eq_Some_conv split: if_splits intro: manso_trans [OF manso_modifica_pcb])
qed simp

lemma manso_eliminar: "eliminarSemaforoKernel E nombre k = Some k' \<Longrightarrow> manso k k'"
  by (auto simp: eliminarSemaforoKernel_def Let_def split: if_splits
      intro: manso_trans [OF manso_semaforos manso_reasignarProcesos])

lemma manso_pasar_a_ready:
  assumes "pasar_a_ready E j k = Some k'"
  shows "manso k k'"
proof -
  obtain p k1 k2 where m: "modifica_pcb p (\<lambda>q. q\<lparr>pcb_status := READY\<rparr>)
      (k\<lparr>processBlocked := list_remove (processBlocked k) j\<rparr>) = Some k1"
    "calcularEstimacion E p k1 = Some k2"
    and k': "k' = k2\<lparr>processReady := processReady k2 @ [p],
                   cantidadCarpinchosEnReady := Suc (cantidadCarpinchosEnReady k2)\<rparr>"
    using assms by (auto simp: pasar_a_ready_def bind_eq_Some_conv)
  have "manso k k2"
    by (rule manso_trans [OF manso_trans [OF manso_bloqueados manso_modifica_pcb [OF m(1)]] manso_calcular [OF m(2)]])
  moreover have "manso k2 k'" by (simp add: k' manso_def quieto_def anuncia_def vistas)
  ultimately show ?thesis by (rule manso_trans)
qed

lemma manso_desbloquear: "desbloquearProcesoPorSemaforo E nombre k = Some k' \<Longrightarrow> manso k k'"
  by (auto simp: desbloquearProcesoPorSemaforo_def bind_eq_Some_conv split: option.splits
      intro: manso_pasar_a_ready)

lemma manso_desbloquearPID:
  assumes "desbloquearPID E pid k = Some k'"
  shows "manso k k'"
proof -
  have "manso k (k\<lparr>processSuspendedBlocked := ps, suspendidoAReady := n\<rparr>)" for ps n
    by (simp add: manso_def quieto_def anuncia_def vistas)
  then show ?thesis
    using assms
    by (auto simp: desbloquearPID_def bind_eq_Some_conv split: option.splits if_splits intro: manso_pasar_a_ready)
qed

lemma manso_dejar_cpu:
  assumes "dejar_cpu E p k = Some k'"
  shows "manso k k'"
proof -
  have "manso k (k\<lparr>k_tiempo := n\<rparr>)" for n by (simp add: manso_def quieto_def anuncia_def vistas)
  then show ?thesis
    using assms by (auto simp: dejar_cpu_def ahora_def Let_def intro: manso_trans [OF _ manso_modifica_pcb])
qed

lemma manso_operacionesSemaforo:
  assumes "operacionesSemaforo E p c k = Some (k', enviado)"
  shows "manso k k'"
proof -
  have b: "manso k (k\<lparr>processBlocked := ps, ejecutar := 1\<rparr>)" for k ps
    by (simp add: manso_def quieto_def anuncia_def vistas)
  obtain nombre k1 where k1: "modifica_pcb p (\<lambda>q. q\<lparr>pcb_semaforoRequerido := Some nombre\<rparr>) k = Some k1"
    and k2: "(if sem_operacion c = INIT then Some (crearSemaforoKernel nombre (sem_valor c) k1)
                 else if sem_operacion c = WAIT
                 then let (resultado, k2) = restarSem nombre k1
                      in if resultado = - 1
                         then do { k3 \<leftarrow> dejar_cpu E p k2;
                                   Some (k3\<lparr>processBlocked := processBlocked k3 @ [p], ejecutar := 1\<rparr>) }
                         else Some k2
                 else if sem_operacion c = POST
                 then desbloquearProcesoPorSemaforo E nombre (sumarSem nombre k1)
                 else if sem_operacion c = DESTROY then eliminarSemaforoKernel E nombre k1
                 else Some k1) = Some k'"
    using assms by (auto simp: operacionesSemaforo_def bind_eq_Some_conv)
  have "manso k1 k'"
    using k2 manso_crear manso_sumar
    by (auto simp: bind_eq_Some_conv split: if_splits prod.splits intro: manso_eliminar
        intro: manso_trans [OF manso_restar manso_trans [OF manso_dejar_cpu b]]
        intro: manso_trans [OF manso_sumar manso_desbloquear] dest: manso_restar)
  then show ?thesis by (rule manso_trans [OF manso_modifica_pcb [OF k1]])
qed

text \<open>The deadlock thread only moves processes from blocked to ready, frees blocked ones and clears what
  they wait for.\<close>

lemma manso_pasarDeBloqueadoAReady: "pasarDeBloqueadoAReady pid k = Some k' \<Longrightarrow> manso k k'"
  by (auto simp: pasarDeBloqueadoAReady_def bind_eq_Some_conv manso_def quieto_def anuncia_def vistas)

lemma manso_sacarRecursos: "sacarRecursos E pid k = Some k' \<Longrightarrow> k' = k"
  by (auto simp: sacarRecursos_def bind_eq_Some_conv)

lemma manso_terminar_desde: "terminar_desde E pid ps k = Some (qs, k') \<Longrightarrow> manso k k'"
proof (induction E pid ps k arbitrary: qs rule: terminar_desde.induct)
  case (3 E pid p p2 ps k)
  have l: "manso k (k\<lparr>pcbs := h\<rparr>)" for h by (simp add: manso_def quieto_def anuncia_def vistas)
  obtain q where q: "pcbs k p = Some q" using "3.prems" by (auto simp: bind_eq_Some_conv)
  show ?case
  proof (cases "pcb_PID q = pid")
    case True
    then obtain k1 rs where "sacarRecursos E pid k = Some k1"
      "terminar_desde E pid ps (k1\<lparr>pcbs := (pcbs k1)(p := None)\<rparr>) = Some (rs, k')"
      using "3.prems" q by (auto simp: bind_eq_Some_conv)
    then show ?thesis using "3.IH"(1) [OF q True] manso_sacarRecursos manso_trans [OF l] by blast
  next
    case False
    then show ?thesis using "3.prems" "3.IH"(2) [OF q False] q by (auto simp: bind_eq_Some_conv)
  qed
qed simp_all

lemma manso_terminarProceso: "terminarProceso E pid k = Some k' \<Longrightarrow> manso k k'"
  by (auto simp: terminarProceso_def bind_eq_Some_conv intro: manso_trans [OF manso_terminar_desde manso_bloqueados])

lemma manso_reasignarProceso: "reasignarProceso E pid ps k = Some k' \<Longrightarrow> manso k k'"
proof (induction ps arbitrary: k)
  case (Cons p ps)
  then show ?case
    by (auto simp: bind_eq_Some_conv split: if_splits intro: manso_trans [OF manso_modifica_pcb])
qed simp

lemma manso_comprobarDeadlock: "comprobarDeadlock E pid k = Some (r, k') \<Longrightarrow> manso k k'"
  by (erule comprobarDeadlock_conserva [where R = manso, rotated -1])
    (auto simp: manso_def quieto_def anuncia_def vistas
      dest: manso_pasarDeBloqueadoAReady manso_reasignarProceso intro: manso_trans)

lemma manso_revisar: "revisar_bloqueados E n i k = Some k' \<Longrightarrow> manso k k'"
proof (induction n arbitrary: i k)
  case (Suc n)
  show ?case
  proof (cases "i < list_size (processBlocked k) - 1")
    case True
    then obtain pid r k1 k2 where "comprobarDeadlock E pid k = Some (r, k1)"
      "(if r \<noteq> 0 then terminarProceso E r k1 else Some k1) = Some k2" "revisar_bloqueados E n (i + 1) k2 = Some k'"
      using Suc.prems by (auto simp: bind_eq_Some_conv)
    then have "manso k k1" "manso k1 k2" "manso k2 k'"
      using manso_comprobarDeadlock manso_terminarProceso Suc.IH by (auto split: if_splits)
    then show ?thesis by (blast intro: manso_trans)
  qed (use Suc.prems in simp)
qed simp

lemma manso_chequearDeadlock:
  assumes "chequearDeadlock E k = Some k'"
  shows "manso k k'"
proof -
  have "manso k (k\<lparr>procesosEnDeadlock := ds\<rparr>)" for ds
    by (simp add: manso_def quieto_def anuncia_def vistas)
  then show ?thesis
    using assms by (auto simp: chequearDeadlock_def split: if_splits intro: manso_trans [OF _ manso_revisar])
qed

subsection \<open>Producers and consumers\<close>

text \<open>
  A counting semaphore and the queue it announces: no step may announce more than it adds, nor take more
  than it has paid for. Then whoever gets past the semaphore finds an element.
\<close>

locale productor_consumidor =
  fixes mueve :: "'s \<Rightarrow> 's \<Rightarrow> bool" and cuenta :: "'s \<Rightarrow> nat" and cola :: "'s \<Rightarrow> nat"
  assumes paga: "mueve s t \<Longrightarrow> cuenta t + cola s \<le> cola t + cuenta s"
begin

lemma alcanza_paga: "mueve\<^sup>*\<^sup>* s t \<Longrightarrow> cuenta t + cola s \<le> cola t + cuenta s"
proof (induction rule: rtranclp_induct)
  case (step t u)
  then show ?case using paga [of t u] by linarith
qed simp

lemma nunca_vacia: "mueve\<^sup>*\<^sup>* s t \<Longrightarrow> cuenta s \<le> cola s \<Longrightarrow> cuenta t \<le> cola t"
  using alcanza_paga [of s t] by linarith

end

definition cuadra :: "kernel \<Rightarrow> kernel \<Rightarrow> bool" where
  "cuadra k k' \<longleftrightarrow>
     procesoNuevo k' + length (processNew k) \<le> length (processNew k') + procesoNuevo k \<and>
     cantidadCarpinchosEnReady k' + length (processReady k)
       \<le> length (processReady k') + cantidadCarpinchosEnReady k \<and>
     semFinalizarProceso k' + length (processExit k) \<le> length (processExit k') + semFinalizarProceso k \<and>
     ejecutarIO k' + length (colaIO k) \<le> length (colaIO k') + ejecutarIO k"

lemma cuadra_trans: "cuadra k k1 \<Longrightarrow> cuadra k1 k2 \<Longrightarrow> cuadra k k2"
  unfolding cuadra_def by linarith

lemma manso_cuadra: "manso k k' \<Longrightarrow> cuadra k k'"
  by (auto simp: cuadra_def manso_def quieto_def anuncia_def vistas)

lemma cuadra_aceptar: "aceptar_carpincho E fd entrada k = Some (k', enviado, resto) \<Longrightarrow> cuadra k k'"
  by (auto simp: aceptar_carpincho_def create_pcb_def Let_def bind_eq_Some_conv cuadra_def split: if_splits)

lemma cuadra_atender:
  assumes "cpu_atender E i entrada mem k = Some (b, k', x)"
  shows "cuadra k k'"
proof -
  have c: "cuadra k (cambia_cpu i f (k\<lparr>uso := 0\<rparr>))" for f by (simp add: cambia_cpu_def cuadra_def)
  have e: "cuadra k1 k2" if "encolarIO p r k1 = Some k2" for p r k1 k2
    using that by (auto simp: encolarIO_def bind_eq_Some_conv cuadra_def)
  have f: "cuadra k1 k2" if "terminar_carpincho p k1 = Some k2" for p k1 k2
    using that by (auto simp: terminar_carpincho_def modifica_pcb_def bind_eq_Some_conv cuadra_def)
  show ?thesis
    using assms c
    by (auto simp: cpu_atender_def bind_eq_Some_conv Let_def split: if_splits
        intro: cuadra_trans [OF c cuadra_trans [OF manso_cuadra [OF manso_dejar_cpu] e]]
        intro: cuadra_trans [OF c manso_cuadra [OF manso_operacionesSemaforo]] intro: cuadra_trans [OF c f])
qed

end
