(* ===== verification/Kernel_Invariante.thy ===== *)
theory Kernel_Invariante
  imports Kernel_Sistema
begin

section \<open>Kernel: invariants of the threads\<close>

text \<open>
  Every counting semaphore of the kernel that announces an element of a queue pays for it
  (\<open>productor_consumidor\<close>, interpreted for the four of them), a CPU is given a process only while it has
  none, and the turn of the short term scheduler is never lost.
\<close>

subsection \<open>Effects of the remaining operations\<close>

lemma plp_mover_efecto:
  assumes "plp_mover E k = Some k'"
  shows "\<exists>p. processNew k = p # processNew k' \<and> processReady k' = processReady k @ [p] \<and>
    cantidadCarpinchosEnReady k' = Suc (cantidadCarpinchosEnReady k) \<and> turno k' = turno k \<and>
    dispositivos k' = dispositivos k \<and> procesoNuevo k' = procesoNuevo k \<and> processExit k' = processExit k \<and>
    semFinalizarProceso k' = semFinalizarProceso k \<and> processSuspendedReady k' = processSuspendedReady k"
  using assms
  by (auto simp: plp_mover_def ahora_def Let_def modifica_pcb_def bind_eq_Some_conv vistas split: list.splits)

lemma menor_estimacion_efecto:
  "menor_estimacion E ps i m j k = Some (r, k') \<Longrightarrow>
    manso k k' \<and> processReady k' = processReady k \<and>
    cantidadCarpinchosEnReady k' = cantidadCarpinchosEnReady k \<and> (r = j \<or> (i \<le> r \<and> r < i + length ps))"
proof (induction ps arbitrary: i m j k)
  case (Cons p ps)
  obtain q k1 q1 where q: "pcbs k p = Some q" and q1: "pcbs k1 p = Some q1"
    and k1: "(if pcb_rafagaRealCPU q = 0 then calcularEstimacion E p k else Some k) = Some k1"
    and r: "(if pcb_proximaEstimacion q1 < m then menor_estimacion E ps (Suc i) (pcb_proximaEstimacion q1) i k1
          else menor_estimacion E ps (Suc i) m j k1) = Some (r, k')"
    using Cons.prems by (auto simp: bind_eq_Some_conv)
  have m: "manso k k1" "processReady k1 = processReady k"
    "cantidadCarpinchosEnReady k1 = cantidadCarpinchosEnReady k"
    using k1 manso_calcular [of E p k k1]
    by (auto split: if_splits simp: calcularEstimacion_def modifica_pcb_def bind_eq_Some_conv)
  from r have "manso k1 k' \<and> processReady k' = processReady k1 \<and>
    cantidadCarpinchosEnReady k' = cantidadCarpinchosEnReady k1 \<and>
    (r = j \<or> (i \<le> r \<and> r < i + length (p # ps)))"
    by (cases "pcb_proximaEstimacion q1 < m") (auto dest!: Cons.IH)
  then show ?case using m manso_trans [OF m(1)] by auto
qed simp

lemma list_remove_length: "0 \<le> i \<Longrightarrow> i < list_size xs \<Longrightarrow> Suc (length (list_remove xs i)) = length xs"
  by (auto simp: list_remove_def list_size_def)

text \<open>A process is dispatched to a CPU, or the turn is used up without one.\<close>

definition despachado :: "ptr \<Rightarrow> nat \<Rightarrow> kernel \<Rightarrow> kernel \<Rightarrow> bool" where
  "despachado p i k k' \<longleftrightarrow>
     Suc (length (processReady k')) = length (processReady k) \<and> i < length (cpusExec k) \<and>
     cpu_estado (cpusExec k ! i) = FREE \<and>
     cpusExec k' = (cpusExec k)[i := (cpusExec k ! i)\<lparr>cpu_estado := BUSY, cpu_pcb := Some p,
       cpu_semaforo := Suc (cpu_semaforo (cpusExec k ! i))\<rparr>] \<and>
     planificar k' = planificar k \<and> planificacion k' = planificacion k \<and>
     cantidadCarpinchosEnReady k' = cantidadCarpinchosEnReady k \<and>
     colas k' = colas k \<and> dispositivos k' = dispositivos k"

lemma primera_libre_Some:
  "primera_libre cs i n = Some j \<Longrightarrow> i \<le> j \<and> j - i < length cs \<and> cpu_estado (cs ! (j - i)) = FREE"
proof (induction cs i n rule: primera_libre.induct)
  case (3 c cs i n)
  show ?case
  proof (cases "cpu_estado c = FREE")
    case False
    then have "Suc i \<le> j" "j - Suc i < length cs" "cpu_estado (cs ! (j - Suc i)) = FREE" using 3 by auto
    moreover from this have "j - i = Suc (j - Suc i)" by simp
    ultimately show ?thesis by auto
  qed (use 3 in auto)
qed simp_all

lemma sjf_efecto:
  assumes "planificarPorSJFSinDesalojo E k = Some k'" "basura_cpu E \<noteq> Some FREE" "planificacion k = 0"
  shows "\<exists>p i. despachado p i k k'"
proof -
  obtain p k1 k2 where e: "elDeMenorSJF E k = Some (p, k1)" "a_exec E p k1 = Some k2" "asignarCPU E p k2 = Some k'"
    using assms(1,3) by (auto simp: planificarPorSJFSinDesalojo_def bind_eq_Some_conv)
  obtain m k0 where m: "menor_estimacion E (processReady k) 0 9999999 0 k = Some (m, k0)"
    "list_get (processReady k0) (int m) = Some p"
    "k1 = k0\<lparr>processReady := list_remove (processReady k0) (int m)\<rparr>"
    using e(1) by (auto simp: elDeMenorSJF_def bind_eq_Some_conv)
  note me = menor_estimacion_efecto [OF m(1)]
  have r: "Suc (length (processReady k1)) = length (processReady k)"
    using m(2,3) me by (simp add: list_remove_length listas)
  have k1: "turno k1 = turno k" "colas k1 = colas k" "dispositivos k1 = dispositivos k"
    "cantidadCarpinchosEnReady k1 = cantidadCarpinchosEnReady k"
    using me m(3) by (auto simp: manso_def quieto_def vistas)
  have k2: "turno k2 = turno k1" "colas k2 = colas k1" "dispositivos k2 = dispositivos k1"
    "cantidadCarpinchosEnReady k2 = cantidadCarpinchosEnReady k1" "processReady k2 = processReady k1"
    using e(2) by (auto simp: a_exec_def ahora_def Let_def modifica_pcb_def bind_eq_Some_conv vistas)
  obtain i where i: "primera_libre (cpusExec k2) 0 (grado_multiprocesamiento (datosConfigKernel E)) = Some i"
    "k' = k2\<lparr>cpusExec := (cpusExec k2)[i := (cpusExec k2 ! i)\<lparr>cpu_estado := BUSY, cpu_pcb := Some p,
       cpu_semaforo := Suc (cpu_semaforo (cpusExec k2 ! i))\<rparr>], ejecutar := 0\<rparr>"
    using e(3) assms(2) by (auto simp: asignarCPU_def buscarCPULibre_def bind_eq_Some_conv split: if_splits)
  have "cpusExec k2 = cpusExec k" "planificar k2 = planificar k" "planificacion k2 = planificacion k"
    using k1(1) k2(1) by (auto simp: turno_def)
  then have "despachado p i k k'"
    using primera_libre_Some [OF i(1)] i(2) r k1 k2
    by (simp add: despachado_def vistas)
  then show ?thesis by blast
qed

lemma io_tomar_efecto:
  assumes "io_tomar k = Some (r, n, k')"
  shows "k' = k\<lparr>colaIO := tl (colaIO k)\<rparr> \<and> colaIO k \<noteq> []"
  using assms by (auto simp: io_tomar_def bind_eq_Some_conv split: list.splits if_splits)

lemma finalizar_efecto:
  assumes "finalizarProceso E k = Some (k', magic)"
  shows "turno k' = turno k \<and> dispositivos k' = dispositivos k \<and> processReady k' = processReady k \<and>
    cantidadCarpinchosEnReady k' = cantidadCarpinchosEnReady k \<and>
    colas k' = (processNew k, procesoNuevo k, tl (processExit k), semFinalizarProceso k, processSuspendedReady k)"
  using assms
  by (cases "processExit k") (auto simp: finalizarProceso_def bind_eq_Some_conv vistas dest!: manso_sacarRecursos)

subsection \<open>The announcing semaphores\<close>

definition nuevos :: "sistema \<Rightarrow> nat" where
  "nuevos S = procesoNuevo (kern S) + (if plp S = PLP_Lugar then 1 else 0)"

definition listos :: "sistema \<Rightarrow> nat" where
  "listos S = cantidadCarpinchosEnReady (kern S) + (if pcp S = PCP_Turno then 1 else 0)"

definition debe :: "sistema \<Rightarrow> sistema \<Rightarrow> bool" where
  "debe S T \<longleftrightarrow>
     nuevos T + length (processNew (kern S)) \<le> length (processNew (kern T)) + nuevos S \<and>
     listos T + length (processReady (kern S)) \<le> length (processReady (kern T)) + listos S \<and>
     semFinalizarProceso (kern T) + length (processExit (kern S))
       \<le> length (processExit (kern T)) + semFinalizarProceso (kern S) \<and>
     ejecutarIO (kern T) + length (colaIO (kern S)) \<le> length (colaIO (kern T)) + ejecutarIO (kern S)"

lemma debe_cuadra: "cuadra (kern S) (kern T) \<Longrightarrow> plp T = plp S \<Longrightarrow> pcp T = pcp S \<Longrightarrow> debe S T"
  by (simp add: debe_def cuadra_def nuevos_def listos_def)

lemma sjf_cuadra:
  assumes "planificarPorSJFSinDesalojo E k = Some k'"
  shows "length (processReady k) \<le> Suc (length (processReady k')) \<and> colas k' = colas k \<and>
    dispositivos k' = dispositivos k \<and> cantidadCarpinchosEnReady k' = cantidadCarpinchosEnReady k"
proof (cases "planificacion k = 0")
  case True
  then obtain p k1 k2 where e: "elDeMenorSJF E k = Some (p, k1)" "a_exec E p k1 = Some k2" "asignarCPU E p k2 = Some k'"
    using assms by (auto simp: planificarPorSJFSinDesalojo_def bind_eq_Some_conv)
  obtain m k0 where m: "menor_estimacion E (processReady k) 0 9999999 0 k = Some (m, k0)"
    "k1 = k0\<lparr>processReady := list_remove (processReady k0) (int m)\<rparr>"
    using e(1) by (auto simp: elDeMenorSJF_def bind_eq_Some_conv)
  note me = menor_estimacion_efecto [OF m(1)]
  have r: "length (processReady k) \<le> Suc (length (processReady k1))"
    using m(2) me by (auto simp: list_remove_def list_size_def)
  have k1: "colas k1 = colas k" "dispositivos k1 = dispositivos k"
    "cantidadCarpinchosEnReady k1 = cantidadCarpinchosEnReady k"
    using me m(2) by (auto simp: manso_def quieto_def vistas)
  have k2: "colas k2 = colas k1" "dispositivos k2 = dispositivos k1"
    "cantidadCarpinchosEnReady k2 = cantidadCarpinchosEnReady k1" "processReady k2 = processReady k1"
    using e(2) by (auto simp: a_exec_def ahora_def Let_def modifica_pcb_def bind_eq_Some_conv vistas)
  have "colas k' = colas k2" "dispositivos k' = dispositivos k2" "processReady k' = processReady k2"
    "cantidadCarpinchosEnReady k' = cantidadCarpinchosEnReady k2"
    using e(3) by (auto simp: asignarCPU_def bind_eq_Some_conv vistas split: option.splits)
  then show ?thesis using r k1 k2 by simp
qed (use assms in \<open>auto simp: planificarPorSJFSinDesalojo_def vistas\<close>)

lemma cuadra_actualiza [simp]:
  "cuadra k (cambia_cpu i f k)" "cuadra k (k\<lparr>planificacion := x\<rparr>)" "cuadra k (k\<lparr>uso := x\<rparr>)"
  "cuadra k (k\<lparr>ejecutar := x\<rparr>)" "cuadra k (k\<lparr>processBlocked := ps\<rparr>)" "cuadra k (k\<lparr>planifMedianoPlazo := n\<rparr>)"
  by (simp_all add: cuadra_def cambia_cpu_def)

lemma pasos_pagan:
  assumes "paso E S T"
  shows "debe S T"
  using assms
proof cases
  case (plp_lugar n k)
  then show ?thesis using plp_mover_efecto [OF plp_lugar(4)]
    by (auto simp: debe_def nuevos_def listos_def plp_ceder_def vistas)
next
  case (pcp_turno n k)
  then show ?thesis using sjf_cuadra [OF pcp_turno(4)]
    by (auto simp: debe_def nuevos_def listos_def vistas)
next
  case (fin n k magic)
  then show ?thesis using finalizar_efecto [OF fin(3)]
    by (auto simp: debe_def nuevos_def listos_def vistas)
next
  case (io_toma n r rafaga k)
  then show ?thesis using io_tomar_efecto [OF io_toma(4)]
    by (auto simp: debe_def nuevos_def listos_def)
next
  case (pmp n atascado k)
  then show ?thesis
    by (auto simp: debe_def nuevos_def listos_def planificadorMedianoPlazo_def split: if_splits)
next
  case (cpu_despierta i n k)
  have "cuadra (kern S) k"
    using cpu_despierta(5) by (auto simp: cpu_despertar_def bind_eq_Some_conv cuadra_def cambia_cpu_def)
  then show ?thesis using cpu_despierta(1) by (auto intro: debe_cuadra)
next
  case (cpu_escucha i k enviado)
  have "cuadra (kern S) k"
    using cpu_escucha(5) by (auto simp: cpu_esperar_def modifica_pcb_def bind_eq_Some_conv cuadra_def)
  then show ?thesis using cpu_escucha(1) by (auto intro: debe_cuadra)
next
  case (cpu_bloquea i k)
  have "cuadra (kern S) k"
    using cpu_bloquea(4) by (auto simp: cpu_bloquear_def modifica_pcb_def bind_eq_Some_conv cuadra_def)
  then show ?thesis using cpu_bloquea(1) by (auto intro: debe_cuadra)
next
  case (llegada fd entrada k enviado resto)
  then show ?thesis using cuadra_aceptar by (auto intro!: debe_cuadra)
next
  case (cpu_mensaje i entrada mem pendiente k enviado magic resto m)
  then show ?thesis using cuadra_atender [OF cpu_mensaje(4)] by (auto intro!: debe_cuadra)
next
  case (io_fin r k)
  then show ?thesis using manso_desbloquearPID by (auto intro!: debe_cuadra manso_cuadra)
next
  case (deadlock k)
  then show ?thesis using manso_chequearDeadlock by (auto intro!: debe_cuadra manso_cuadra)
qed (auto simp: debe_def nuevos_def listos_def plp_retomar_def plp_admite_def cpu_salir_def cambia_cpu_def)

interpretation cola_nuevos: productor_consumidor "paso E" nuevos "\<lambda>S. length (processNew (kern S))" for E
  by unfold_locales (use pasos_pagan in \<open>simp add: debe_def\<close>)

interpretation cola_listos: productor_consumidor "paso E" listos "\<lambda>S. length (processReady (kern S))" for E
  by unfold_locales (use pasos_pagan in \<open>simp add: debe_def\<close>)

interpretation cola_exit: productor_consumidor "paso E" "\<lambda>S. semFinalizarProceso (kern S)"
    "\<lambda>S. length (processExit (kern S))" for E
  by unfold_locales (use pasos_pagan in \<open>simp add: debe_def\<close>)

interpretation cola_io: productor_consumidor "paso E" "\<lambda>S. ejecutarIO (kern S)" "\<lambda>S. length (colaIO (kern S))" for E
  by unfold_locales (use pasos_pagan in \<open>simp add: debe_def\<close>)

subsection \<open>The CPUs and the turn\<close>

text \<open>A free CPU sleeps and has not been told to run; a busy one either sleeps and has been told once, or
  runs.\<close>

definition cpu_ok :: "pc_cpu \<Rightarrow> t_cpu \<Rightarrow> bool" where
  "cpu_ok c u \<longleftrightarrow>
     (if cpu_estado u = FREE then c = Dormida \<and> cpu_semaforo u = 0
      else cpu_semaforo u = (if c = Dormida then 1 else 0))"

definition inv_cpus :: "sistema \<Rightarrow> bool" where
  "inv_cpus S \<longleftrightarrow> list_all2 cpu_ok (pcs S) (cpusExec (kern S))"

definition ocupadas :: "t_cpu list \<Rightarrow> nat" where
  "ocupadas us = length (filter (\<lambda>u. cpu_estado u = BUSY) us)"

definition inv_turno :: "sistema \<Rightarrow> bool" where
  "inv_turno S \<longleftrightarrow>
     1 + (if planificacion (kern S) \<noteq> 0 then 1 else 0) + (if plp S = PLP_Ceder then 1 else 0)
       \<le> planificar (kern S) + ocupadas (cpusExec (kern S))"

lemma ocupadas_update:
  "i < length us \<Longrightarrow> ocupadas (us[i := u]) + (if cpu_estado (us ! i) = BUSY then 1 else 0) =
    ocupadas us + (if cpu_estado u = BUSY then 1 else 0)"
proof (induction us arbitrary: i)
  case (Cons v us)
  then show ?case by (cases i) (auto simp: ocupadas_def)
qed simp

lemma ocupadas_igual [simp]:
  "i < length us \<Longrightarrow> cpu_estado u = cpu_estado (us ! i) \<Longrightarrow> ocupadas (us[i := u]) = ocupadas us"
  using ocupadas_update [of i us u] by (auto split: if_splits)

lemma inv_cpus_largo: "inv_cpus S \<Longrightarrow> length (cpusExec (kern S)) = length (pcs S)"
  by (auto simp: inv_cpus_def dest: list_all2_lengthD)

lemma inv_cpus_nth: "inv_cpus S \<Longrightarrow> i < length (pcs S) \<Longrightarrow> cpu_ok (pcs S ! i) (cpusExec (kern S) ! i)"
  by (auto simp: inv_cpus_def list_all2_conv_all_nth)

lemma inv_cpus_update:
  assumes "inv_cpus S" "cpusExec k = (cpusExec (kern S))[i := u]" "i < length (pcs S) \<Longrightarrow> cpu_ok c u"
  shows "inv_cpus (S\<lparr>kern := k, pcs := (pcs S)[i := c]\<rparr>)"
  using assms by (cases "i < length (pcs S)") (auto simp: inv_cpus_def list_all2_conv_all_nth nth_list_update)

text \<open>Both invariants only look at the turn and at the program counters.\<close>

definition ordenado :: "sistema \<Rightarrow> bool" where
  "ordenado S \<longleftrightarrow> inv_cpus S \<and> inv_turno S"

lemma ordenado_mismo:
  assumes "ordenado S" "turno (kern T) = turno (kern S)" "pcs T = pcs S" "plp T = PLP_Ceder \<longrightarrow> plp S = PLP_Ceder"
  shows "ordenado T"
  using assms by (auto simp: ordenado_def inv_cpus_def inv_turno_def turno_def split: if_splits)

lemma ordenado_cpu:
  assumes "ordenado S" "i < length (pcs S)" "cpusExec k = (cpusExec (kern S))[i := u]"
    "cpu_estado u = cpu_estado (cpusExec (kern S) ! i)" "cpu_ok c u"
    "planificar k = planificar (kern S)" "planificacion k = planificacion (kern S) \<or> planificacion k = 0"
  shows "ordenado (S\<lparr>kern := k, pcs := (pcs S)[i := c]\<rparr>)"
  using assms inv_cpus_update [of S k i u c] inv_cpus_largo [of S]
  by (auto simp: ordenado_def inv_turno_def split: if_splits)

lemma turno_aceptar:
  "aceptar_carpincho E fd entrada k = Some (k', enviado, resto) \<Longrightarrow>
    cpusExec k' = cpusExec k \<and> planificar k' = planificar k \<and> (planificacion k' = planificacion k \<or> planificacion k' = 0)"
  by (auto simp: aceptar_carpincho_def create_pcb_def Let_def bind_eq_Some_conv split: if_splits)

lemma turno_atender:
  assumes "cpu_atender E i entrada mem k = Some (b, k', x)"
  shows "\<exists>c. turno k' = turno (cambia_cpu i (\<lambda>u. u\<lparr>cpu_carpincho := Some c\<rparr>) k)"
proof -
  have u: "turno (cambia_cpu i f (k\<lparr>uso := 0\<rparr>)) = turno (cambia_cpu i f k)" for f
    by (simp add: cambia_cpu_def vistas)
  have m: "turno k2 = turno k1" if "manso k1 k2" for k1 k2 using that by (simp add: manso_def quieto_def)
  have e: "turno k2 = turno k1" if "encolarIO p r k1 = Some k2" for p r k1 k2
    using that by (auto simp: encolarIO_def bind_eq_Some_conv vistas)
  have f: "turno k2 = turno k1" if "terminar_carpincho p k1 = Some k2" for p k1 k2
    using that by (auto simp: terminar_carpincho_def modifica_pcb_def bind_eq_Some_conv vistas)
  show ?thesis
    using assms
    by (auto simp: cpu_atender_def bind_eq_Some_conv Let_def u split: if_splits
        dest!: m [OF manso_dejar_cpu] m [OF manso_operacionesSemaforo] e f)
qed

lemma ordenado_despacha:
  assumes "ordenado S" "despachado p i ((kern S)\<lparr>planificar := n\<rparr>) k"
    "planificar (kern S) = Suc n" "planificacion (kern S) = 0"
  shows "ordenado (S\<lparr>kern := k\<rparr>)"
proof -
  let ?u = "(cpusExec (kern S) ! i)\<lparr>cpu_estado := BUSY, cpu_pcb := Some p,
     cpu_semaforo := Suc (cpu_semaforo (cpusExec (kern S) ! i))\<rparr>"
  note d = assms(2) [unfolded despachado_def]
  have l: "i < length (pcs S)" using d assms(1) inv_cpus_largo by (auto simp: ordenado_def)
  have o: "cpu_ok (pcs S ! i) (cpusExec (kern S) ! i)" using inv_cpus_nth [OF _ l] assms(1) by (simp add: ordenado_def)
  have "inv_cpus (S\<lparr>kern := k, pcs := (pcs S)[i := pcs S ! i]\<rparr>)"
    using assms(1) d o by (intro inv_cpus_update [of S k i ?u]) (auto simp: ordenado_def cpu_ok_def)
  then have "inv_cpus (S\<lparr>kern := k\<rparr>)" by (simp add: inv_cpus_def)
  moreover have "ocupadas (cpusExec k) = Suc (ocupadas (cpusExec (kern S)))"
    using ocupadas_update [of i "cpusExec (kern S)" ?u] d by simp
  then have "inv_turno (S\<lparr>kern := k\<rparr>)" using d assms(1,3,4) by (auto simp: ordenado_def inv_turno_def split: if_splits)
  ultimately show ?thesis by (simp add: ordenado_def)
qed

lemma ordenado_turno:
  assumes "ordenado S" "planificar (kern S) = Suc n"
    "planificarPorSJFSinDesalojo E ((kern S)\<lparr>planificar := n\<rparr>) = Some k" "basura_cpu E \<noteq> Some FREE"
  shows "ordenado (S\<lparr>kern := k\<rparr>)"
proof (cases "planificacion (kern S) = 0")
  case True
  then show ?thesis using sjf_efecto [OF assms(3,4)] ordenado_despacha [OF assms(1) _ assms(2)] by auto
next
  case False
  then have "k = (kern S)\<lparr>planificar := n, planificacion := 0\<rparr>"
    using assms(3) by (simp add: planificarPorSJFSinDesalojo_def)
  then show ?thesis using assms(1,2) False by (auto simp: ordenado_def inv_turno_def inv_cpus_def split: if_splits)
qed

text \<open>The steps of a CPU.\<close>

lemma ordenado_cpu_ok: "ordenado S \<Longrightarrow> i < length (pcs S) \<Longrightarrow> cpu_ok (pcs S ! i) (cpusExec (kern S) ! i)"
  by (simp add: ordenado_def inv_cpus_nth)

lemma ordenado_despierta:
  assumes "ordenado S" "i < length (pcs S)" "pcs S ! i = Dormida" "cpu_semaforo (cpusExec (kern S) ! i) = Suc n"
    "cpu_despertar i (cambia_cpu i (\<lambda>u. u\<lparr>cpu_semaforo := n\<rparr>) (kern S)) = Some k"
  shows "ordenado (S\<lparr>kern := k, pcs := (pcs S)[i := Cabeza]\<rparr>)"
proof -
  have k: "k = cambia_cpu i (\<lambda>u. u\<lparr>cpu_semaforo := n\<rparr>) (kern S)\<lparr>planificacion := 0\<rparr>"
    using assms(5) by (auto simp: cpu_despertar_def bind_eq_Some_conv)
  have "cpu_ok Cabeza ((cpusExec (kern S) ! i)\<lparr>cpu_semaforo := n\<rparr>)"
    using ordenado_cpu_ok [OF assms(1,2)] assms(3,4) by (auto simp: cpu_ok_def split: if_splits)
  then show ?thesis using assms(1,2) by (auto simp: k cambia_cpu_def intro!: ordenado_cpu)
qed

lemma ordenado_avanza:
  assumes "ordenado S" "i < length (pcs S)" "pcs S ! i \<noteq> Dormida" "c \<noteq> Dormida"
    "turno k = turno (cambia_cpu i f (kern S))"
    "cpu_estado (f (cpusExec (kern S) ! i)) = cpu_estado (cpusExec (kern S) ! i)"
    "cpu_semaforo (f (cpusExec (kern S) ! i)) = cpu_semaforo (cpusExec (kern S) ! i)"
  shows "ordenado (S\<lparr>kern := k, pcs := (pcs S)[i := c]\<rparr>)"
proof -
  have "cpu_ok c (f (cpusExec (kern S) ! i))"
    using ordenado_cpu_ok [OF assms(1,2)] assms(3,4,6,7) by (auto simp: cpu_ok_def split: if_splits)
  then show ?thesis using assms(1,2,5,6) by (auto simp: vistas cambia_cpu_def intro!: ordenado_cpu)
qed

lemma ordenado_sale:
  assumes "ordenado S" "i < length (pcs S)" "pcs S ! i = Cabeza"
  shows "ordenado (S\<lparr>kern := cpu_salir i (kern S), pcs := (pcs S)[i := Dormida]\<rparr>)" (is "ordenado ?T")
proof -
  let ?u = "(cpusExec (kern S) ! i)\<lparr>cpu_estado := FREE\<rparr>"
  have "cpu_ok Dormida ?u" "cpu_estado (cpusExec (kern S) ! i) = BUSY"
    using ordenado_cpu_ok [OF assms(1,2)] assms(3) by (auto simp: cpu_ok_def split: if_splits intro: statusCPU.exhaust)
  moreover have l: "i < length (cpusExec (kern S))" using inv_cpus_largo assms(1,2) by (simp add: ordenado_def)
  ultimately have "inv_cpus ?T" "ocupadas (cpusExec (kern ?T)) + 1 = ocupadas (cpusExec (kern S))"
    using assms(1) ocupadas_update [OF l, of ?u]
    by (auto simp: ordenado_def cpu_salir_def cambia_cpu_def intro!: inv_cpus_update)
  then show ?thesis using assms(1)
    by (auto simp: ordenado_def inv_turno_def cpu_salir_def cambia_cpu_def split: if_splits)
qed

lemma cambia_cpu_id: "turno (cambia_cpu i (\<lambda>u. u) k) = turno k"
  by (simp add: cambia_cpu_def vistas)

lemma paso_ordenado:
  assumes "paso E S T" "ordenado S" "basura_cpu E \<noteq> Some FREE"
  shows "ordenado T"
  using assms(1)
proof cases
  case (llegada fd entrada k enviado resto)
  then show ?thesis using turno_aceptar [OF llegada(2)] assms(2)
    by (auto simp: ordenado_def inv_cpus_def inv_turno_def split: if_splits)
next
  case (plp_lugar n k)
  then show ?thesis using plp_mover_efecto [OF plp_lugar(4)] assms(2)
    by (auto simp: ordenado_def inv_cpus_def inv_turno_def plp_ceder_def vistas split: if_splits)
next
  case plp_pausa
  then show ?thesis using assms(2)
    by (auto simp: ordenado_def inv_cpus_def inv_turno_def plp_retomar_def split: if_splits)
next
  case (pcp_turno n k)
  then show ?thesis
    using ordenado_mismo [OF ordenado_turno [OF assms(2) pcp_turno(3,4) assms(3)]] by simp
next
  case (cpu_despierta i n k)
  then show ?thesis using ordenado_despierta [OF assms(2)] by simp
next
  case (cpu_escucha i k enviado)
  have "turno k = turno (kern S)"
    using cpu_escucha(5) by (auto simp: cpu_esperar_def modifica_pcb_def bind_eq_Some_conv vistas)
  then show ?thesis
    using cpu_escucha(1-3) ordenado_avanza [OF assms(2), where f = "\<lambda>u. u"] by (simp add: cambia_cpu_id)
next
  case (cpu_sale i)
  then show ?thesis using ordenado_sale [OF assms(2)] by simp
next
  case (cpu_mensaje i entrada mem pendiente k enviado magic resto m)
  obtain c where k: "turno k = turno (cambia_cpu i (\<lambda>u. u\<lparr>cpu_carpincho := Some c\<rparr>) (kern S))"
    using turno_atender [OF cpu_mensaje(4)] by blast
  show ?thesis using cpu_mensaje(1-3) ordenado_avanza [OF assms(2) _ _ _ k] by simp
next
  case (cpu_bloquea i k)
  have "turno k = turno (kern S)"
    using cpu_bloquea(4) by (auto simp: cpu_bloquear_def modifica_pcb_def bind_eq_Some_conv vistas)
  then show ?thesis
    using cpu_bloquea(1-3) ordenado_avanza [OF assms(2), where f = "\<lambda>u. u"] by (simp add: cambia_cpu_id)
next
  case (fin n k magic)
  show ?thesis using finalizar_efecto [OF fin(3)] fin(1) by (intro ordenado_mismo [OF assms(2)]) (auto simp: vistas)
next
  case (pmp n atascado k)
  then show ?thesis by (intro ordenado_mismo [OF assms(2)])
      (auto simp: planificadorMedianoPlazo_def vistas split: if_splits)
next
  case (io_toma n r rafaga k)
  then show ?thesis using io_tomar_efecto [OF io_toma(4)] by (intro ordenado_mismo [OF assms(2)]) (auto simp: vistas)
next
  case (io_fin r k)
  then show ?thesis using manso_desbloquearPID [OF io_fin(3)]
    by (intro ordenado_mismo [OF assms(2)]) (auto simp: manso_def quieto_def)
next
  case (deadlock k)
  then show ?thesis using manso_chequearDeadlock [OF deadlock(2)]
    by (intro ordenado_mismo [OF assms(2)]) (auto simp: manso_def quieto_def)
qed (auto intro!: ordenado_mismo [OF assms(2)] simp: vistas split: if_splits)

lemma alcanza_ordenado:
  assumes "alcanza E S T" "ordenado S" "basura_cpu E \<noteq> Some FREE"
  shows "ordenado T"
  using assms by (induction rule: rtranclp_induct) (auto intro: paso_ordenado)

lemma inicial_ordenado:
  assumes "sistema_inicial E = Some S"
  shows "ordenado S"
  using assms
  by (auto simp: sistema_inicial_def iniciar_kernel_def crearCPUS_def Let_def bind_eq_Some_conv ordenado_def
      inv_cpus_def inv_turno_def cpu_ok_def list_all2_conv_all_nth)

end
