(* ===== verification/Kernel_Propiedades.thy ===== *)
theory Kernel_Propiedades
  imports Kernel_Invariante
begin

section \<open>Kernel: properties\<close>

text \<open>
  The theorems about the kernel, and the small system they are applied to: one CPU, one device, one
  place.
\<close>

subsection \<open>A concrete kernel\<close>

definition instancia_k :: "int \<Rightarrow> mate_instance" where
  "instancia_k tipo =
     \<lparr>mi_tipo = tipo, sem_operacion = 0, sem_longitud = 2, sem_valor = 0, sem_nombre = ''s'' @ [CHR 0x00],
      mi_PID = 7, mi_estado = 0, mem_size = 1, mem_valor = [CHR 0x00], mem_addr = 9, mem_tipoOp = 0,
      io_longitud = 1, io_nombre = [CHR 0x00]\<rparr>"

definition pcb_k :: "int \<Rightarrow> t_pcb" where
  "pcb_k pid =
     \<lparr>pcb_socket = 5, pcb_PID = pid, pcb_semaforoRequerido = None, pcb_IO_finished = 0, pcb_status = EXEC,
      pcb_timestamp_ready_in = 0, pcb_timestamp_exec_in = 0, pcb_timestamp_exec_out = 0,
      pcb_proximaEstimacion = 1, pcb_previaEstimacion = 1, pcb_rafagaRealCPU = 0\<rparr>"

definition entorno_k :: entorno_kernel where
  "entorno_k =
     \<lparr>datosConfigKernel = \<lparr>estimacion_inicial = 1000, alfa = 1 / 2, dispositivos_io = [''disco''],
        duraciones_io = [20], grado_multiprogramacion = 1, grado_multiprocesamiento = 1\<rparr>,
      redondeo = (\<lambda>x. x), redondeo_doble = (\<lambda>x. x), reloj = (\<lambda>n. int n), detras_sem = (\<lambda>_ _. 33),
      dir_baja = (\<lambda>_. - 1), basura_cpu = Some BUSY, basura_pcb = (\<lambda>_. pcb_k 0),
      basura_instancia = (\<lambda>_. instancia_k 0), cuenta_cola = (\<lambda>_. 0), sigue_mem = (\<lambda>_. [])\<rparr>"

definition kernel_k :: kernel where
  "kernel_k =
     \<lparr>pcbs = [0 \<mapsto> pcb_k 7, 1 \<mapsto> pcb_k 8], k_prox = 2, processNew = [], processReady = [],
      processSuspendedBlocked = [], processSuspendedReady = [], processBlocked = [], processExit = [],
      cpusExec = [\<lparr>cpu_estado = BUSY, cpu_pcb = Some 0, cpu_semaforo = 0, cpu_carpincho = None\<rparr>],
      dispositivosIO = [\<lparr>io_dispositivo = ''disco'', io_duracion = 20\<rparr>], colaIO = [],
      semaforosKernel = [\<lparr>sk_nombre = ''s'', sk_valor = 0\<rparr>], procesosEnDeadlock = [], PIDAnterior = 0,
      ejecutar = 0, uso = 0, planificacion = 0, puedeEntrarAlSistema = 0, procesoNuevo = 0,
      cantidadCarpinchosEnReady = 0, planificar = 0, planifMedianoPlazo = 0, ejecutarIO = 0,
      semFinalizarProceso = 0, suspendidoAReady = 0, m_colaSuspendedBlocked = False, k_tiempo = 0\<rparr>"

lemmas ejemplo_k_defs = instancia_k_def pcb_k_def entorno_k_def kernel_k_def

subsection \<open>Threads\<close>

lemma cuentas_pagadas:
  assumes "sistema_inicial E = Some S0" "alcanza E S0 S"
  shows "nuevos S \<le> length (processNew (kern S))" "listos S \<le> length (processReady (kern S))"
    "semFinalizarProceso (kern S) \<le> length (processExit (kern S))" "ejecutarIO (kern S) \<le> length (colaIO (kern S))"
proof -
  have i: "nuevos S0 = 0" "listos S0 = 0" "semFinalizarProceso (kern S0) = 0" "ejecutarIO (kern S0) = 0"
    using assms(1)
    by (auto simp: sistema_inicial_def iniciar_kernel_def Let_def bind_eq_Some_conv nuevos_def listos_def)
  then show "nuevos S \<le> length (processNew (kern S))" "listos S \<le> length (processReady (kern S))"
    "semFinalizarProceso (kern S) \<le> length (processExit (kern S))" "ejecutarIO (kern S) \<le> length (colaIO (kern S))"
    using cola_nuevos.nunca_vacia [OF assms(2)] cola_listos.nunca_vacia [OF assms(2)]
      cola_exit.nunca_vacia [OF assms(2)] cola_io.nunca_vacia [OF assms(2)]
    by simp_all
qed


lemma inicial_ej: "\<exists>S. sistema_inicial entorno_k = Some S"
  by (simp add: sistema_inicial_def iniciar_kernel_def entorno_k_def list_get_def list_size_def)

lemma bien_formada_ej: "tipo \<in> {0, 1, 2, 3, 4} \<Longrightarrow> bien_formada (instancia_k tipo)"
  by (auto simp: bien_formada_def enteros_int_def instancia_k_def list_size_def)

lemma aceptar_bien_formada:
  assumes "bien_formada c" "0 < fd"
  shows "aceptar_carpincho E fd (le32 PROCESS @ cuerpo_de c @ resto) k =
    (let (p, k1) = create_pcb E fd c (k\<lparr>planificacion := 0\<rparr>)
     in Some (k1\<lparr>processNew := processNew k1 @ [p], procesoNuevo := Suc (procesoNuevo k1)\<rparr>,
              if mi_tipo c = INICIALIZACION then le32 0 else [], resto))"
  using assms mensaje_bien_formado(2) [OF assms(1), of resto]
  by (simp add: aceptar_carpincho_def recibir_operacion_def deserializar_instancia_kernel_def Let_def split_beta)

lemma llegada_ej:
  "\<exists>S0 S. sistema_inicial entorno_k = Some S0 \<and> alcanza entorno_k S0 S \<and> procesoNuevo (kern S) = 1 \<and>
    planificar (kern S) = 1"
proof -
  obtain S0 where S0: "sistema_inicial entorno_k = Some S0" using inicial_ej ..
  have s: "procesoNuevo (kern S0) = 0" "planificar (kern S0) = 1"
    using S0 by (auto simp: sistema_inicial_def iniciar_kernel_def Let_def bind_eq_Some_conv)
  obtain k where k: "aceptar_carpincho entorno_k 5 (le32 PROCESS @ cuerpo_de (instancia_k 3)) (kern S0) =
      Some (k, le32 0, [])" "procesoNuevo k = 1" "planificar k = 1"
    using aceptar_bien_formada [OF bien_formada_ej, of 3 5 entorno_k "[]" "kern S0"] s
    by (auto simp: create_pcb_def Let_def instancia_k_def)
  have "alcanza entorno_k S0 (S0\<lparr>kern := k\<rparr>)" using paso.llegada [OF k(1)] by blast
  then show ?thesis using S0 k(2,3) by fastforce
qed




subsection \<open>Shortest job first\<close>

text \<open>The estimation the scheduler compares: a fresh one when no burst was measured.\<close>

definition valor_sjf :: "entorno_kernel \<Rightarrow> kernel \<Rightarrow> ptr \<Rightarrow> real" where
  "valor_sjf E k p = (case pcbs k p of
     Some q \<Rightarrow> if pcb_rafagaRealCPU q = 0 then estimacion E q else pcb_proximaEstimacion q | None \<Rightarrow> 0)"

lemma estimacion_proxima [simp]: "estimacion E (q\<lparr>pcb_proximaEstimacion := x\<rparr>) = estimacion E q"
  by (simp add: estimacion_def)

lemma valor_calcular:
  assumes "calcularEstimacion E p k = Some k'"
  shows "(\<forall>x. (pcbs k' x = None) = (pcbs k x = None)) \<and>
    (pcb_rafagaRealCPU (the (pcbs k p)) = 0 \<longrightarrow> valor_sjf E k' = valor_sjf E k)"
  using assms
  by (auto simp: calcularEstimacion_def modifica_pcb_def bind_eq_Some_conv valor_sjf_def fun_eq_iff
      split: if_splits)

lemma menor_estimacion_ok:
  assumes "\<forall>p\<in>set ps. pcbs k p \<noteq> None"
  shows "\<exists>r k'. menor_estimacion E ps i m j k = Some (r, k') \<and> valor_sjf E k' = valor_sjf E k \<and>
    (\<forall>x. (pcbs k' x = None) = (pcbs k x = None)) \<and>
    (if \<forall>p\<in>set ps. m \<le> valor_sjf E k p then r = j
     else i \<le> r \<and> r < i + length ps \<and> valor_sjf E k (ps ! (r - i)) < m \<and>
       (\<forall>p\<in>set ps. valor_sjf E k (ps ! (r - i)) \<le> valor_sjf E k p))"
  using assms
proof (induction ps arbitrary: i m j k)
  case (Cons p ps)
  obtain q where q: "pcbs k p = Some q" using Cons.prems by auto
  obtain k1 where k1: "(if pcb_rafagaRealCPU q = 0 then calcularEstimacion E p k else Some k) = Some k1"
    using q by (cases "pcb_rafagaRealCPU q = 0") (auto simp: calcularEstimacion_def modifica_pcb_def)
  have v: "valor_sjf E k1 = valor_sjf E k" "\<And>x. (pcbs k1 x = None) = (pcbs k x = None)"
    using k1 valor_calcular [of E p k k1] q by (auto split: if_splits)
  obtain q1 where q1: "pcbs k1 p = Some q1" using v(2) [of p] q by (cases "pcbs k1 p") auto
  have e: "pcb_proximaEstimacion q1 = valor_sjf E k p"
    using k1 q q1
    by (auto simp: valor_sjf_def calcularEstimacion_def modifica_pcb_def split: if_splits)
  have live: "\<forall>p\<in>set ps. pcbs k1 p \<noteq> None" using Cons.prems v(2) by auto
  let ?v = "valor_sjf E k"
  have eq: "menor_estimacion E (p # ps) i m j k =
      (if ?v p < m then menor_estimacion E ps (Suc i) (?v p) i k1 else menor_estimacion E ps (Suc i) m j k1)"
    using q k1 q1 e by simp
  show ?case
  proof (cases "?v p < m")
    case True
    obtain r k' where r: "menor_estimacion E ps (Suc i) (?v p) i k1 = Some (r, k')" "valor_sjf E k' = ?v"
      "\<forall>x. (pcbs k' x = None) = (pcbs k1 x = None)"
      and c: "if \<forall>x\<in>set ps. ?v p \<le> ?v x then r = i
        else Suc i \<le> r \<and> r < Suc i + length ps \<and> ?v (ps ! (r - Suc i)) < ?v p \<and>
          (\<forall>x\<in>set ps. ?v (ps ! (r - Suc i)) \<le> ?v x)"
      using Cons.IH [OF live, of "Suc i" "?v p" i] unfolding v(1) by blast
    have "\<not> (\<forall>x\<in>set (p # ps). m \<le> ?v x)" using True by auto
    moreover have "i \<le> r \<and> r < i + length (p # ps) \<and> ?v ((p # ps) ! (r - i)) < m \<and>
       (\<forall>x\<in>set (p # ps). ?v ((p # ps) ! (r - i)) \<le> ?v x)"
    proof (cases "\<forall>x\<in>set ps. ?v p \<le> ?v x")
      case False
      then have "r - i = Suc (r - Suc i)" using c by (auto split: if_splits)
      then show ?thesis using c False True by (auto split: if_splits)
    qed (use c True in auto)
    ultimately show ?thesis using eq True r v(2) by auto
  next
    case False
    obtain r k' where r: "menor_estimacion E ps (Suc i) m j k1 = Some (r, k')" "valor_sjf E k' = ?v"
      "\<forall>x. (pcbs k' x = None) = (pcbs k1 x = None)"
      and c: "if \<forall>x\<in>set ps. m \<le> ?v x then r = j
        else Suc i \<le> r \<and> r < Suc i + length ps \<and> ?v (ps ! (r - Suc i)) < m \<and>
          (\<forall>x\<in>set ps. ?v (ps ! (r - Suc i)) \<le> ?v x)"
      using Cons.IH [OF live, of "Suc i" m j] unfolding v(1) by blast
    show ?thesis
    proof (cases "\<forall>x\<in>set ps. m \<le> ?v x")
      case True
      then show ?thesis using c eq False r v(2) by auto
    next
      case F: False
      then have c': "Suc i \<le> r" "r < Suc i + length ps" "?v (ps ! (r - Suc i)) < m"
        "\<forall>x\<in>set ps. ?v (ps ! (r - Suc i)) \<le> ?v x" using c by argo+
      then have n: "(p # ps) ! (r - i) = ps ! (r - Suc i)" by (simp add: nth_Cons')
      have f: "\<not> (\<forall>x\<in>set (p # ps). m \<le> ?v x)" using F by auto
      have "menor_estimacion E (p # ps) i m j k = Some (r, k')" using eq False r(1) by simp
      moreover have "i \<le> r \<and> r < i + length (p # ps) \<and> ?v ((p # ps) ! (r - i)) < m \<and>
         (\<forall>x\<in>set (p # ps). ?v ((p # ps) ! (r - i)) \<le> ?v x)"
        unfolding n using c' False by auto
      ultimately show ?thesis using f r(2,3) v(2) by (intro exI [of _ r] exI [of _ k']) auto
    qed
  qed
qed simp

text \<open>C20. Shortest job first. With at least one ready process and no freed one among them,
  \<open>elDeMenorSJF\<close> takes exactly one process out of the ready list, at some index, and when some estimation
  is below 9999999 no ready process has a smaller one than the process taken. An estimation of 9999999 or
  more is never compared: when all are, the first process is taken.\<close>

theorem sjf_elige_menor:
  assumes "processReady k \<noteq> []" "\<forall>p\<in>set (processReady k). pcbs k p \<noteq> None"
  shows "\<exists>m k'. m < length (processReady k) \<and> elDeMenorSJF E k = Some (processReady k ! m, k') \<and>
    processReady k' = take m (processReady k) @ drop (Suc m) (processReady k) \<and>
    ((\<exists>p\<in>set (processReady k). valor_sjf E k p < 9999999) \<longrightarrow>
      (\<forall>p\<in>set (processReady k). valor_sjf E k (processReady k ! m) \<le> valor_sjf E k p)) \<and>
    ((\<forall>p\<in>set (processReady k). 9999999 \<le> valor_sjf E k p) \<longrightarrow> m = 0)"
proof -
  let ?ps = "processReady k"
  obtain m k1 where m: "menor_estimacion E ?ps 0 9999999 0 k = Some (m, k1)"
    "\<forall>x. (pcbs k1 x = None) = (pcbs k x = None)"
    and c: "if \<forall>p\<in>set ?ps. 9999999 \<le> valor_sjf E k p then m = 0
     else 0 \<le> m \<and> m < 0 + length ?ps \<and> valor_sjf E k (?ps ! (m - 0)) < 9999999 \<and>
       (\<forall>p\<in>set ?ps. valor_sjf E k (?ps ! (m - 0)) \<le> valor_sjf E k p)"
    using menor_estimacion_ok [OF assms(2), of E 0 9999999 0] by blast
  have l: "m < length ?ps" using c assms(1) by (auto split: if_splits)
  have r: "processReady k1 = ?ps" using menor_estimacion_efecto [OF m(1)] by blast
  obtain q where q: "pcbs k1 (?ps ! m) = Some q" using m(2) assms(2) l nth_mem by fastforce
  have "elDeMenorSJF E k = Some (?ps ! m, k1\<lparr>processReady := take m ?ps @ drop (Suc m) ?ps\<rparr>)"
    using m(1) l q by (simp add: elDeMenorSJF_def r list_get_nat list_remove_def list_size_def)
  then show ?thesis using l c by (auto split: if_splits intro!: exI [of _ m])
qed

theorem sjf_elige_menor_witness:
  "\<exists>k'. elDeMenorSJF entorno_k (kernel_k\<lparr>processReady := [0, 1],
      pcbs := [0 \<mapsto> pcb_k 7, 1 \<mapsto> (pcb_k 8)\<lparr>pcb_previaEstimacion := 1 / 4\<rparr>]\<rparr>) = Some (1, k') \<and>
    processReady k' = [0]"
proof -
  define k where "k = kernel_k\<lparr>processReady := [0, 1],
      pcbs := [0 \<mapsto> pcb_k 7, 1 \<mapsto> (pcb_k 8)\<lparr>pcb_previaEstimacion := 1 / 4\<rparr>]\<rparr>"
  have v: "valor_sjf entorno_k k 0 = 1 / 2" "valor_sjf entorno_k k 1 = 1 / 8"
    and r: "processReady k = [0, 1]" "\<forall>p\<in>set (processReady k). pcbs k p \<noteq> None"
    by (simp_all add: valor_sjf_def estimacion_def k_def ejemplo_k_defs Let_def)
  have ne: "processReady k \<noteq> []" by (simp add: r)
  obtain m k' where m: "m < length (processReady k)" "elDeMenorSJF entorno_k k = Some (processReady k ! m, k')"
    "processReady k' = take m (processReady k) @ drop (Suc m) (processReady k)"
    and o: "(\<exists>p\<in>set (processReady k). valor_sjf entorno_k k p < 9999999) \<longrightarrow>
      (\<forall>p\<in>set (processReady k). valor_sjf entorno_k k (processReady k ! m) \<le> valor_sjf entorno_k k p)"
    using sjf_elige_menor [OF ne r(2), of entorno_k] by blast
  have "m \<noteq> 0" by (rule notI) (use o v r(1) in auto)
  then have "m = 1" using m(1) r(1) by auto
  then show ?thesis using m(2,3) r(1) unfolding k_def [symmetric] by simp
qed

text \<open>The estimation never looks at the measured burst. The cast of \<open>calcularEstimacion\<close> binds to
  \<open>alfa\<close> alone, so for every weight from 0 up to but not including 1 the burst is multiplied by 0.\<close>

lemma estimacion_ignora_rafaga:
  assumes "0 \<le> alfa (datosConfigKernel E)" "alfa (datosConfigKernel E) < 1"
  shows "estimacion E (q\<lparr>pcb_rafagaRealCPU := x\<rparr>) = estimacion E q \<and>
    estimacion E q = redondeo E (redondeo E 0 + redondeo E
      (redondeo E (1 - alfa (datosConfigKernel E)) * pcb_previaEstimacion q))"
proof -
  have "trunca (alfa (datosConfigKernel E)) = 0" using assms by (simp add: trunca_def floor_eq_iff)
  then show ?thesis by (simp add: estimacion_def Let_def)
qed

text \<open>Highest response ratio next runs nothing: a turn of \<open>planificarPorHRRN\<close> leaves the chosen process in
  the ready list and tells no CPU, although it marks the process as running.\<close>

lemma hrrn_no_despacha:
  assumes "planificarPorHRRN E k = Some k'"
  shows "processReady k' = processReady k \<and> cpusExec k' = cpusExec k \<and>
    (\<exists>p\<in>set (processReady k). \<exists>q. pcbs k' p = Some q \<and> pcb_status q = EXEC)"
proof -
  have rr: "pcbs k1 = pcbs k \<and> processReady k1 = processReady k \<and> cpusExec k1 = cpusExec k"
    if "calculoRR E p k = Some (r, k1)" for p k r k1
    using that by (auto simp: calculoRR_def ahora_def Let_def bind_eq_Some_conv)
  have m: "processReady k1 = processReady k \<and> cpusExec k1 = cpusExec k \<and> (p = e \<or> p \<in> set (processReady k))"
    if "mayor_rr E n i e k = Some (p, k1)" for n i e k p k1
    using that
  proof (induction n arbitrary: i e k)
    case (Suc n)
    obtain p' a ka b kb where "list_get (processReady k) i = Some p'" "calculoRR E p' k = Some (a, ka)"
      "calculoRR E e ka = Some (b, kb)" "mayor_rr E n (i + 1) (if a > b then p' else e) kb = Some (p, k1)"
      using Suc.prems by (auto simp: bind_eq_Some_conv)
    with Suc.IH [OF this(4)] rr list_get_mem [of "processReady k" i p'] show ?case by (auto split: if_splits)
  qed simp
  obtain e p k1 where e: "list_get (processReady k) 0 = Some e"
    "mayor_rr E (nat (cuenta_cola E k)) 0 e k = Some (p, k1)" "a_exec E p k1 = Some k'"
    using assms by (auto simp: planificarPorHRRN_def elMayorRR_def bind_eq_Some_conv)
  have "p \<in> set (processReady k)" using m [OF e(2)] list_get_mem [OF e(1)] by auto
  moreover have "processReady k' = processReady k1 \<and> cpusExec k' = cpusExec k1 \<and>
      (\<exists>q. pcbs k' p = Some q \<and> pcb_status q = EXEC)"
    using e(3) by (auto simp: a_exec_def ahora_def Let_def modifica_pcb_def bind_eq_Some_conv)
  ultimately show ?thesis using m [OF e(2)] by auto
qed

subsection \<open>Semaphores\<close>

lemma posicion_nombre:
  assumes "semaforosKernel k = ss @ s # ts" "\<forall>x\<in>set ss. sk_nombre x \<noteq> sk_nombre s"
  shows "verificarExisteSem k (sk_nombre s) = int (length ss)"
  using posicion_append [of ss "\<lambda>x. sk_nombre x = sk_nombre s" s ts 0] assms
  by (simp add: verificarExisteSem_def)

text \<open>The processes of a list wait for other semaphores.\<close>

definition esperan_otro :: "kernel \<Rightarrow> string \<Rightarrow> ptr list \<Rightarrow> bool" where
  "esperan_otro k nombre ps \<longleftrightarrow>
     (\<forall>p\<in>set ps. \<exists>q s. pcbs k p = Some q \<and> pcb_semaforoRequerido q = Some s \<and> s \<noteq> nombre)"

lemma esperan_otro_Cons [simp]:
  "esperan_otro k nombre (p # ps) \<longleftrightarrow>
    (\<exists>q s. pcbs k p = Some q \<and> pcb_semaforoRequerido q = Some s \<and> s \<noteq> nombre) \<and> esperan_otro k nombre ps"
  "esperan_otro k nombre []"
  by (auto simp: esperan_otro_def)

lemma buscar_requerido_append:
  "esperan_otro k nombre as \<Longrightarrow>
    buscar_requerido k nombre (as @ bs) i = buscar_requerido k nombre bs (i + int (length as))"
  by (induction as arbitrary: i) (auto simp: add.assoc)

lemma buscar_requerido_ninguno:
  "esperan_otro k nombre as \<Longrightarrow> buscar_requerido k nombre as i = Some None"
  using buscar_requerido_append [of k nombre as "[]" i] by simp

text \<open>A wait that blocks is answered all the same: with the semaphore at 0 the process is taken off
  the CPU and put in the list of blocked processes, the value stays, and the answer 0 goes out, so the
  process goes on as if it held the semaphore.\<close>

lemma wait_responde_al_bloqueado:
  assumes "sem_operacion c = WAIT" "texto (sem_nombre c) = Some (sk_nombre s)" "pcbs k p = Some q"
    and "semaforosKernel k = ss @ s # ts" "\<forall>x\<in>set ss. sk_nombre x \<noteq> sk_nombre s" "sk_valor s < 1"
  shows "\<exists>k' q'. operacionesSemaforo E p c k = Some (k', le32 0) \<and>
    processBlocked k' = processBlocked k @ [p] \<and> semaforosKernel k' = semaforosKernel k \<and>
    pcbs k' p = Some q' \<and> pcb_status q' = BLOCKED \<and> pcb_semaforoRequerido q' = Some (sk_nombre s)"
proof -
  let ?k = "k\<lparr>pcbs := (pcbs k)(p \<mapsto> q\<lparr>pcb_semaforoRequerido := Some (sk_nombre s)\<rparr>)\<rparr>"
  have "verificarExisteSem ?k (sk_nombre s) = int (length ss)" using assms(4,5) by (intro posicion_nombre) simp_all
  then have "restarSem (sk_nombre s) ?k = (- 1, ?k)"
    using assms(4,6) by (simp add: restarSem_def Let_def)
  then show ?thesis
    using assms(1-3)
    by (simp add: operacionesSemaforo_def modifica_pcb_def dejar_cpu_def ahora_def Let_def)
qed

text \<open>C32. A post counts twice. It increments the semaphore and wakes the first process that waits for it,
  but the woken process does not take what was posted: the value stays one too high, and the next wait
  passes as well.\<close>

theorem post_cuenta_dos_veces:
  assumes "sem_operacion c = POST" "texto (sem_nombre c) = Some (sk_nombre s)" "pcbs k p = Some q"
    and "semaforosKernel k = ss @ s # ts" "\<forall>x\<in>set ss. sk_nombre x \<noteq> sk_nombre s"
    and "esperan_otro k (sk_nombre s) (processSuspendedBlocked k)" "p \<notin> set (processSuspendedBlocked k)"
    and "processBlocked k = as @ w # bs" "esperan_otro k (sk_nombre s) as" "p \<notin> set as" "p \<noteq> w"
    and "pcbs k w = Some qw" "pcb_semaforoRequerido qw = Some (sk_nombre s)"
  shows "\<exists>k'. operacionesSemaforo E p c k = Some (k', le32 0) \<and>
    processBlocked k' = as @ bs \<and> processReady k' = processReady k @ [w] \<and>
    cantidadCarpinchosEnReady k' = Suc (cantidadCarpinchosEnReady k) \<and>
    semaforosKernel k' = ss @ s\<lparr>sk_valor := sk_valor s + 1\<rparr> # ts"
proof -
  let ?n = "sk_nombre s"
  let ?k = "k\<lparr>pcbs := (pcbs k)(p \<mapsto> q\<lparr>pcb_semaforoRequerido := Some ?n\<rparr>)\<rparr>"
  let ?k1 = "?k\<lparr>semaforosKernel := ss @ s\<lparr>sk_valor := sk_valor s + 1\<rparr> # ts\<rparr>"
  have "verificarExisteSem ?k ?n = int (length ss)" using assms(4,5) by (intro posicion_nombre) simp_all
  then have s: "sumarSem ?n ?k = ?k1"
    using assms(4) by (simp add: sumarSem_def suma_valor_def Let_def list_update_append)
  have o: "esperan_otro ?k1 ?n ps" if "esperan_otro k ?n ps" "p \<notin> set ps" for ps
    using that by (auto simp: esperan_otro_def)
  have "buscar_requerido ?k1 ?n (processSuspendedBlocked ?k1) 0 = Some None"
    using buscar_requerido_ninguno [OF o [OF assms(6,7)]] by simp
  moreover have "buscar_requerido ?k1 ?n (processBlocked ?k1) 0 = Some (Some (int (length as)))"
    using buscar_requerido_append [OF o [OF assms(9,10)], of "w # bs" 0] assms(8,11,12,13) by simp
  ultimately have d: "desbloquearProcesoPorSemaforo E ?n ?k1 = pasar_a_ready E (int (length as)) ?k1"
    by (simp add: desbloquearProcesoPorSemaforo_def)
  have "list_get (as @ w # bs) (int (length as)) = Some w" by (simp add: list_get_def list_size_def)
  moreover have "list_remove (as @ w # bs) (int (length as)) = as @ bs" by (simp add: list_remove_def list_size_def)
  ultimately show ?thesis
    using assms(1-3,8,11,12) s d
    by (simp add: operacionesSemaforo_def modifica_pcb_def pasar_a_ready_def calcularEstimacion_def)
qed

theorem post_cuenta_dos_veces_witness:
  "\<exists>k'. operacionesSemaforo entorno_k 0 (instancia_k 2\<lparr>sem_operacion := 2\<rparr>)
      (kernel_k\<lparr>processBlocked := [1], pcbs := [0 \<mapsto> pcb_k 7,
         1 \<mapsto> (pcb_k 8)\<lparr>pcb_semaforoRequerido := Some ''s''\<rparr>]\<rparr>) = Some (k', le32 0) \<and>
    processReady k' = [1] \<and> semaforosKernel k' = [\<lparr>sk_nombre = ''s'', sk_valor = 1\<rparr>]"
proof -
  define k where "k = kernel_k\<lparr>processBlocked := [1], pcbs := [0 \<mapsto> pcb_k 7,
         1 \<mapsto> (pcb_k 8)\<lparr>pcb_semaforoRequerido := Some ''s''\<rparr>]\<rparr>"
  have "\<exists>k'. operacionesSemaforo entorno_k 0 (instancia_k 2\<lparr>sem_operacion := 2\<rparr>) k = Some (k', le32 0) \<and>
    processBlocked k' = [] @ [] \<and> processReady k' = processReady k @ [1] \<and>
    cantidadCarpinchosEnReady k' = Suc (cantidadCarpinchosEnReady k) \<and>
    semaforosKernel k' = [] @ \<lparr>sk_nombre = ''s'', sk_valor = 0\<rparr>
      \<lparr>sk_valor := sk_valor \<lparr>sk_nombre = ''s'', sk_valor = 0\<rparr> + 1\<rparr> # []"
    by (rule post_cuenta_dos_veces [where q = "pcb_k 7" and qw = "(pcb_k 8)\<lparr>pcb_semaforoRequerido := Some ''s''\<rparr>"])
      (simp_all add: k_def instancia_k_def kernel_k_def texto_def)
  then show ?thesis by (auto simp: k_def kernel_k_def)
qed

text \<open>Destroying a semaphore wakes nobody. The semaphore goes, and every blocked process that waited for
  it stays blocked and is renumbered -1: neither a post nor the end of a device request finds it again.\<close>

lemma destruir_no_despierta:
  assumes "semaforosKernel k = ss @ s # ts" "\<forall>x\<in>set ss. sk_nombre x \<noteq> sk_nombre s"
    and "\<forall>p\<in>set (processBlocked k). dir_baja E p < 0 \<or> int (length ss + length ts) \<le> dir_baja E p"
    and "\<forall>p\<in>set (processBlocked k). \<exists>q n. pcbs k p = Some q \<and> pcb_semaforoRequerido q = Some n"
  shows "\<exists>k'. eliminarSemaforoKernel E (sk_nombre s) k = Some k' \<and> semaforosKernel k' = ss @ ts \<and>
    processBlocked k' = processBlocked k \<and> processReady k' = processReady k \<and>
    (\<forall>p\<in>set (processBlocked k). \<exists>q q'. pcbs k p = Some q \<and> pcbs k' p = Some q' \<and>
       pcb_PID q' = (if pcb_semaforoRequerido q = Some (sk_nombre s) then - 1 else pcb_PID q))"
proof -
  let ?n = "sk_nombre s"
  have r: "\<exists>k'. reasignarProcesos E ?n ps k = Some k' \<and> semaforosKernel k' = semaforosKernel k \<and>
      processBlocked k' = processBlocked k \<and> processReady k' = processReady k \<and>
      (\<forall>x. pcbs k' x = (if x \<in> set ps then map_option (\<lambda>q. if pcb_semaforoRequerido q = Some ?n
                          then q\<lparr>pcb_PID := - 1\<rparr> else q) (pcbs k x) else pcbs k x))"
    if "semaforosKernel k = ss @ ts" "\<forall>p\<in>set ps. dir_baja E p < 0 \<or> int (length ss + length ts) \<le> dir_baja E p"
      "\<forall>p\<in>set ps. \<exists>q n. pcbs k p = Some q \<and> pcb_semaforoRequerido q = Some n" for ps k
    using that
  proof (induction ps arbitrary: k)
    case (Cons p ps)
    obtain q n where q: "pcbs k p = Some q" "pcb_semaforoRequerido q = Some n" using Cons.prems(3) by auto
    have e: "\<not> (0 \<le> dir_baja E p \<and> dir_baja E p < list_size (semaforosKernel k))"
      using Cons.prems(1,2) by (auto simp: list_size_def)
    let ?k = "if n = ?n then k\<lparr>pcbs := (pcbs k)(p \<mapsto> q\<lparr>pcb_PID := - 1\<rparr>)\<rparr> else k"
    have "reasignarProcesos E ?n (p # ps) k = reasignarProcesos E ?n ps ?k"
      using q e by (simp add: modifica_pcb_def)
    moreover have "\<forall>x\<in>set ps. \<exists>q n. pcbs ?k x = Some q \<and> pcb_semaforoRequerido q = Some n"
      using Cons.prems(3) q by auto
    ultimately show ?case using Cons.IH [of ?k] Cons.prems(1,2) q by fastforce
  qed simp
  let ?k = "k\<lparr>semaforosKernel := ss @ ts\<rparr>"
  have "verificarExisteSem k ?n = int (length ss)" using assms(1,2) by (intro posicion_nombre)
  moreover have "list_remove (ss @ s # ts) (int (length ss)) = ss @ ts" by (simp add: list_remove_def list_size_def)
  ultimately have "eliminarSemaforoKernel E ?n k = reasignarProcesos E ?n (processBlocked k) ?k"
    using assms(1) by (simp add: eliminarSemaforoKernel_def Let_def)
  moreover obtain k' where k': "reasignarProcesos E ?n (processBlocked k) ?k = Some k'"
    "semaforosKernel k' = semaforosKernel ?k \<and> processBlocked k' = processBlocked ?k \<and> processReady k' = processReady ?k"
    "\<forall>x. pcbs k' x = (if x \<in> set (processBlocked k) then map_option (\<lambda>q. if pcb_semaforoRequerido q = Some ?n
                          then q\<lparr>pcb_PID := - 1\<rparr> else q) (pcbs ?k x) else pcbs ?k x)"
    using r [of ?k "processBlocked k"] assms(3,4) by auto
  ultimately show ?thesis using assms(4) k' by (intro exI [of _ k']) fastforce
qed

end
