(* ===== verification/Memoria_Respuestas.thy ===== *)
theory Memoria_Respuestas
  imports Memoria_Servidor Memoria_Allocs_Correcto
begin

section \<open>Memoria: the types of messages and answers\<close>

text \<open>
  C has no types on the wire. What \<open>deserializar_instancia\<close> builds from any bytes is an instance whose fields are
  \<open>int\<close>s and whose buffers have the lengths it declares, and what the memory process answers has the shape the
  reader of that operation expects, except for a refused read.
\<close>

lemma recibir_int_i32: "recibir_int e = Some (x, e') \<Longrightarrow> i32 x = x"
  by (auto simp: recibir_int_def bind_eq_Some_conv)

lemma recibir_bytes_longitud: "recibir_bytes n e = Some (bs, e') \<Longrightarrow> list_size bs = n"
  by (auto simp: recibir_bytes_def list_size_def split: if_splits)

lemma recibida_bien_formada:
  assumes "deserializar_instancia e = Some (c, resto)"
  shows "bien_formada c"
  using assms unfolding deserializar_instancia_def
  by (elim bind_eq_Some_conv [THEN iffD1, elim_format] exE conjE, clarsimp simp: bind_eq_Some_conv)
    (simp add: bien_formada_def enteros_int_def recibir_int_i32 recibir_bytes_longitud)

lemma bien_formada_tamanio:
  assumes "bien_formada c"
  shows "u32 (mem_size c) = mem_size c" "i32 (mem_size c) = mem_size c"
proof -
  have n: "0 \<le> mem_size c" and i: "i32 (mem_size c) = mem_size c"
    using assms by (auto simp: bien_formada_def enteros_int_def list_size_def)
  have "i32 (mem_size c) < 2147483648" by (simp add: i32_def)
  then have "mem_size c < 2147483648" unfolding i .
  then show "u32 (mem_size c) = mem_size c" "i32 (mem_size c) = mem_size c" using n by simp_all
qed

lemma leer_acciones_longitud:
  "leer_acciones E pid as buffer previo s = Some (b, t) \<Longrightarrow> list_size b = list_size buffer"
proof (induction as arbitrary: buffer previo s)
  case (Cons a as)
  then show ?case
    by (auto simp: Let_def bind_eq_Some_conv list_size_def dest!: copia_bytes_length)
qed simp

lemma memread_longitud: "memory_memread E pid pos n buffer s = Some (r, b, t) \<Longrightarrow> list_size b = list_size buffer"
  by (auto simp: memory_memread_def bind_eq_Some_conv dest: leer_acciones_longitud split: option.splits if_splits)

lemma atender_forma:
  assumes "bien_formada c" "mi_tipo c = MEMORIA" "mem_tipoOp c \<in> {MEMALLOC, MEMFREE, MEMREAD, MEMWRITE}"
    "atender E basura c s = Some (t, r)"
  obtains "mem_tipoOp c \<noteq> MEMREAD" "length r = 4"
  | "mem_tipoOp c = MEMREAD" "r = le32 MATE_READ_FAULT"
  | bs where "mem_tipoOp c = MEMREAD" "r = le32 (mem_size c) @ bs" "list_size bs = mem_size c"
proof (cases "mem_tipoOp c = MEMREAD")
  case True
  note n = bien_formada_tamanio(1) [OF assms(1)]
  have "atender_memread E basura c s = Some (t, r)" using assms(2,4) True by (simp add: atender_def)
  then obtain x b s1 where "memory_memread E (mi_PID c) (u32 (mem_addr c)) (mem_size c) (map basura [0..<nat (mem_size c)]) s =
      Some (x, b, s1)" and r: "r = (if x = EXITO then le32 (mem_size c) @ b else le32 MATE_READ_FAULT)"
    unfolding atender_memread_def Let_def n by (auto simp: bind_eq_Some_conv)
  then have "list_size b = mem_size c"
    using memread_longitud assms(1) by (fastforce simp: bien_formada_def list_size_def)
  then show ?thesis using that(2,3) True r by (cases "x = EXITO") auto
next
  case False
  have "length r = 4" using assms(2-4) False
    by (auto simp: atender_def atender_memalloc_def atender_memfree_def atender_memwrite_def bind_eq_Some_conv
        split: if_splits)
  then show ?thesis using that(1) False by blast
qed

text \<open>C25. Messages and answers are well typed. Whatever bytes arrive, the instance built from them has \<open>int\<close>
  fields and buffers of the lengths it declares, so it can be sent on and read back unchanged. What the memory
  process answers to one of the four memory operations is read by \<open>respuesta_memoria\<close> of the library to its last
  byte and not beyond, except for a refused read, whose code is not a length.\<close>

theorem respuesta_tipada:
  assumes "deserializar_instancia entrada = Some (c, resto)" "atender E basura c s = Some (t, r)"
    and "mi_tipo c = MEMORIA" "mem_tipoOp c \<in> {MEMALLOC, MEMFREE, MEMREAD, MEMWRITE}"
  shows "bien_formada c \<and> (mem_tipoOp c = MEMREAD \<and> r = le32 MATE_READ_FAULT \<or>
    respuesta_memoria (mem_tipoOp c) (r @ mas) = Some (Puntero r, mas))"
proof -
  have b: "bien_formada c" using recibida_bien_formada [OF assms(1)] .
  note n = bien_formada_tamanio(2) [OF b]
  from atender_forma [OF b assms(3,4,2)] show ?thesis
  proof cases
    case 1
    then have "recibir_bytes 4 (r @ mas) = Some (r, mas)" by (intro recibir_bytes_append) (simp add: list_size_def)
    then show ?thesis using 1 b by (simp add: respuesta_memoria_def)
  next
    case (3 bs)
    then have "recibir_bytes (mem_size c) (bs @ mas) = Some (bs, mas)" by (intro recibir_bytes_append) simp
    then show ?thesis using 3(1,2) b n by (simp add: respuesta_memoria_def)
  qed (use b in blast)
qed

theorem respuesta_tipada_witness:
  "atender (entorno_alloc 0) (\<lambda>_. CHR 0x00) instancia_ejemplo (memoria_alloc []) = Some (memoria_alloc [], le32 (- 7)) \<and>
    respuesta_memoria MEMWRITE (le32 (- 7) @ ''xyz'') = Some (Puntero (le32 (- 7)), ''xyz'')"
proof -
  have d: "deserializar_instancia (cuerpo_de instancia_ejemplo @ []) = Some (instancia_ejemplo, [])"
    using mensaje_bien_formado(2) [OF bien_formada_ejemplo] .
  have "get_carpincho (memoria_alloc []) (mi_PID instancia_ejemplo) = None"
    by (simp add: memoria_alloc_def carpincho_alloc_def get_carpincho_def instancia_ejemplo_def)
  moreover have o: "mi_tipo instancia_ejemplo = MEMORIA" "mem_tipoOp instancia_ejemplo = MEMWRITE" "\<not> en_debug (entorno_alloc 0)"
    by (simp_all add: instancia_ejemplo_def entorno_alloc_def)
  ultimately have a: "atender (entorno_alloc 0) (\<lambda>_. CHR 0x00) instancia_ejemplo (memoria_alloc []) =
      Some (memoria_alloc [], le32 (- 7))"
    by (simp add: atender_def atender_memwrite_def memory_memwrite_def imprimir_marcos_def)
  from respuesta_tipada [OF d this o(1), of "''xyz''"] a o(2) show ?thesis by simp
qed

end
