(* ===== verification/Sistema_Completo.thy ===== *)
theory Sistema_Completo
  imports Kernel_Propiedades Memoria_Respuestas
begin

section \<open>Library, kernel and memory process together\<close>

text \<open>
  A memory request goes from the library (\<open>Protocolo\<close>) to a CPU of the kernel (\<open>Kernel_Cpu\<close>), from there to
  the memory process (\<open>Memoria_Servidor\<close>), and the answer goes back the same way. The properties here take
  one program's input for another one's output.
\<close>

subsection \<open>Requests\<close>

text \<open>What the memory process does with the message of an instance is \<open>atender\<close>.\<close>

lemma servidor_atiende:
  assumes "bien_formada c"
  shows "recibirOperaciones EM basura (le32 PROCESS @ cuerpo_de c) s =
    (case atender EM basura c s of None \<Rightarrow> None | Some (s1, enviado) \<Rightarrow> Some (s1, enviado, []))"
  using mensaje_bien_formado(2) [OF assms, of "[]"]
  by (simp add: recibirOperaciones_def recibir_operacion_def server_procesar_mensaje_def split: option.split)

text \<open>What a CPU does with it.\<close>

lemma cpu_reenvia:
  assumes "bien_formada c" "mi_tipo c = MEMORIA" "cpu_pcb (cpusExec k ! i) = Some p" "pcbs k p = Some q"
  shows "cpu_atender E i (le32 PROCESS @ cuerpo_de c @ resto) mem k =
    (case reenviar_respuesta (mem_tipoOp c) mem of None \<Rightarrow> None
     | Some (respuesta, m) \<Rightarrow> Some (False, cambia_cpu i (\<lambda>u. u\<lparr>cpu_carpincho := Some c\<rparr>) (k\<lparr>uso := 0\<rparr>),
         respuesta, le32 PROCESS @ cuerpo_de c, resto, m))"
  using mensaje_bien_formado [OF assms(1)] assms(2-4)
  by (simp add: cpu_atender_def recibir_operacion_def deserializar_instancia_kernel_def
      serializar_instancia_kernel_def split: option.split)

lemma cuatro_bytes: "length r = 4 \<Longrightarrow> recibir_bytes 4 (r @ m) = Some (r, m)"
  by (rule recibir_bytes_append) (simp add: list_size_def)

lemma reenvia_cuatro:
  "length r = 4 \<Longrightarrow> op \<noteq> MEMREAD \<Longrightarrow> reenviar_respuesta op (r @ m) = Some (r, m)"
  by (simp add: reenviar_respuesta_def cuatro_bytes)

text \<open>The data of a read are printed as a string, which needs a byte 0 somewhere: lengths below \<open>2 ^ 24\<close> have one.\<close>

lemma char_of_nat_0: "CHR 0x00 = char_of (0 :: nat)"
  by (simp add: char_of_def)

lemma texto_longitud: "0 \<le> n \<Longrightarrow> n < 16777216 \<Longrightarrow> texto (le32 n @ bs) \<noteq> None"
  using char_of_nat_0 by (simp add: texto_def le32_def)

lemma reenvia_lectura:
  assumes "0 \<le> n" "n < 16777216" "list_size bs = n"
  shows "reenviar_respuesta MEMREAD ((le32 n @ bs) @ m) = Some (le32 n @ bs, m)"
proof -
  obtain x where "texto (le32 n @ bs) = Some x" using texto_longitud [OF assms(1,2)] by blast
  moreover have "recibir_bytes n (bs @ m) = Some (bs, m)" by (rule recibir_bytes_append) (simp add: assms(3))
  ultimately show ?thesis using assms(1,2) by (simp add: reenviar_respuesta_def)
qed

lemma peticion_cruza:
  assumes "bien_formada c" "mi_tipo c = MEMORIA" "mem_tipoOp c \<in> {MEMALLOC, MEMFREE, MEMREAD, MEMWRITE}"
    and "mem_tipoOp c = MEMREAD \<Longrightarrow> respuesta \<noteq> le32 MATE_READ_FAULT \<and> mem_size c < 16777216"
    and "cpu_pcb (cpusExec k ! i) = Some p" "pcbs k p = Some q"
    and "atender EM basura c s = Some (s1, respuesta)"
  shows "\<exists>m. serializar_instancia sigue c respuesta = Some (m, Puntero respuesta, []) \<and>
    recibirOperaciones EM basura m s = Some (s1, respuesta, []) \<and>
    cpu_atender E i m respuesta k =
      Some (False, cambia_cpu i (\<lambda>u. u\<lparr>cpu_carpincho := Some c\<rparr>) (k\<lparr>uso := 0\<rparr>), respuesta, m, [], [])"
proof -
  let ?m = "le32 PROCESS @ cuerpo_de c"
  have n: "i32 (mem_size c) = mem_size c" "0 \<le> mem_size c"
    using bien_formada_tamanio(2) [OF assms(1)] assms(1) by (simp_all add: bien_formada_def list_size_def)
  have r: "respuesta_memoria (mem_tipoOp c) respuesta = Some (Puntero respuesta, []) \<and>
    reenviar_respuesta (mem_tipoOp c) (respuesta @ []) = Some (respuesta, [])"
    using atender_forma [OF assms(1-3,7)]
  proof cases
    case 1
    then show ?thesis
      using cuatro_bytes [OF 1(2), of "[]"] reenvia_cuatro [OF 1(2), of _ "[]"] by (simp add: respuesta_memoria_def)
  next
    case (3 bs)
    then have "recibir_bytes (mem_size c) (bs @ []) = Some (bs, [])" by (intro recibir_bytes_append) simp
    then show ?thesis using 3 n assms(4) reenvia_lectura [of "mem_size c" bs "[]"] by (simp add: respuesta_memoria_def)
  qed (use assms(4) in blast)
  then have "serializar_instancia sigue c respuesta = Some (?m, Puntero respuesta, [])"
    using mensaje_bien_formado(1) [OF assms(1)] assms(2) by (simp add: serializar_instancia_def)
  moreover have "recibirOperaciones EM basura ?m s = Some (s1, respuesta, [])"
    using assms(7) by (simp add: servidor_atiende [OF assms(1)])
  moreover have "cpu_atender E i (?m @ []) (respuesta @ []) k =
      Some (False, cambia_cpu i (\<lambda>u. u\<lparr>cpu_carpincho := Some c\<rparr>) (k\<lparr>uso := 0\<rparr>), respuesta, ?m, [], [])"
    using cpu_reenvia [OF assms(1,2,5,6), of E "[]" "respuesta @ []"] r by simp
  ultimately show ?thesis by auto
qed


definition peticion_ej :: mate_instance where
  "peticion_ej = (instancia_k 0)\<lparr>mi_PID := 5, mem_tipoOp := MEMFREE\<rparr>"

lemma bien_formada_peticion: "bien_formada (peticion_ej\<lparr>mem_tipoOp := op\<rparr>)" if "op \<in> {0, 1, 2, 3, 4}"
  using that by (auto simp: bien_formada_def enteros_int_def peticion_ej_def instancia_k_def list_size_def)

lemma sin_proceso_ej: "get_carpincho (memoria_alloc []) 5 = None"
  by (simp add: memoria_alloc_def carpincho_alloc_def get_carpincho_def)

lemma sin_debug_ej: "imprimir_marcos (entorno_alloc 0) s = Some s"
  by (simp add: imprimir_marcos_def entorno_alloc_def)


text \<open>C37. A refused read stops the kernel. When a process that the memory process does not know asks for a
  read, nothing changes there and the answer is the code -6; the kernel takes it for the length of the
  data that follows, and the CPU that forwards the request has no defined outcome.\<close>

theorem lectura_rechazada_detiene:
  assumes "bien_formada c" "mi_tipo c = MEMORIA" "mem_tipoOp c = MEMREAD"
    and "get_carpincho s (mi_PID c) = None" "\<not> en_debug EM"
    and "cpu_pcb (cpusExec k ! i) = Some p" "pcbs k p = Some q"
  shows "\<exists>m. serializar_mensaje sigue c = Some m \<and>
    recibirOperaciones EM basura m s = Some (s, le32 (- 6), []) \<and>
    cpu_atender E i m (le32 (- 6) @ mem) k = None"
proof -
  have "atender EM basura c s = Some (s, le32 (- 6))"
    using assms(2-5) by (simp add: atender_def atender_memread_def memory_memread_def imprimir_marcos_def Let_def)
  then have "recibirOperaciones EM basura (le32 PROCESS @ cuerpo_de c) s = Some (s, le32 (- 6), [])"
    by (simp add: servidor_atiende [OF assms(1)])
  moreover have "reenviar_respuesta MEMREAD (le32 (- 6) @ mem) = None"
    by (simp add: reenviar_respuesta_def recibir_bytes_def)
  ultimately show ?thesis
    using cpu_reenvia [OF assms(1,2,6,7), of E "[]" "le32 (- 6) @ mem"] mensaje_bien_formado(1) [OF assms(1)] assms(3)
    by simp
qed

theorem lectura_rechazada_detiene_witness:
  "\<exists>m. recibirOperaciones (entorno_alloc 0) (\<lambda>_. CHR 0x00) m (memoria_alloc []) =
      Some (memoria_alloc [], le32 (- 6), []) \<and> cpu_atender entorno_k 0 m (le32 (- 6)) kernel_k = None"
proof -
  let ?c = "peticion_ej\<lparr>mem_tipoOp := MEMREAD\<rparr>"
  have b: "bien_formada ?c" by (rule bien_formada_peticion) simp
  have k: "cpu_pcb (cpusExec kernel_k ! 0) = Some 0" "pcbs kernel_k 0 = Some (pcb_k 7)" by (simp_all add: kernel_k_def)
  have h: "mi_tipo ?c = MEMORIA" "mem_tipoOp ?c = MEMREAD" "get_carpincho (memoria_alloc []) (mi_PID ?c) = None"
    "\<not> en_debug (entorno_alloc 0)"
    using sin_proceso_ej by (simp_all add: peticion_ej_def instancia_k_def entorno_alloc_def)
  show ?thesis using lectura_rechazada_detiene [OF b h k, of "\<lambda>_. []" "\<lambda>_. CHR 0x00" entorno_k "[]"] by auto
qed

lemma bien_formada_final:
  assumes "enteros_int (basura_instancia E k)" "i32 pid = pid"
  shows "bien_formada (instancia_final E pid k)"
proof -
  have "list_size (take 1 (xs @ [x])) = 1" for xs and x :: char by (cases xs) (simp_all add: list_size_def)
  then show ?thesis using assms by (simp add: bien_formada_def enteros_int_def instancia_final_def Let_def)
qed

text \<open>C36. After a process has ended every answer belongs to the request before. \<open>finalizarProceso\<close> tells the
  memory process and gives the place back, but does not read the four bytes it answers. They are the
  code of the end of the process, and the next request of any process gets them as its answer, while its
  own answer stays on the connection for the one after it.\<close>

theorem final_desfasa_respuestas:
  assumes "processExit k = p # ps" "pcbs k p = Some q" "finalizarProceso E k = Some (k1, magic)"
    and "enteros_int (basura_instancia E (k\<lparr>processExit := ps\<rparr>))" "i32 (pcb_PID q) = pcb_PID q"
    and "recibirOperaciones EM basura magic s = Some (s1, r, resto)"
    and "bien_formada c" "mi_tipo c = MEMORIA" "mem_tipoOp c \<noteq> MEMREAD"
    and "cpu_pcb (cpusExec k2 ! i) = Some w" "pcbs k2 w = Some qw"
  shows "puedeEntrarAlSistema k1 = Suc (puedeEntrarAlSistema k) \<and> (r = le32 9 \<or> r = le32 (- 9)) \<and>
    (\<exists>k3 m. cpu_atender E i (le32 PROCESS @ cuerpo_de c) (r @ respuesta) k2 = Some (False, k3, r, m, [], respuesta))"
proof -
  let ?k = "k\<lparr>processExit := ps\<rparr>"
  let ?c = "instancia_final E (pcb_PID q) ?k"
  have b: "bien_formada ?c" using assms(4,5) by (simp add: bien_formada_final)
  have f: "puedeEntrarAlSistema k1 = Suc (puedeEntrarAlSistema k)" "magic = le32 PROCESS @ cuerpo_de ?c"
    using assms(1-3) mensaje_bien_formado(1) [OF b]
    by (auto simp: finalizarProceso_def finalizacionCarpincho_def bind_eq_Some_conv dest!: manso_sacarRecursos)
  have "atender EM basura ?c s = Some (s1, r)"
    using assms(6) f(2) by (auto simp: servidor_atiende [OF b] split: option.splits)
  then have "atender_finalizacion EM ?c s = Some (s1, r)" by (simp add: atender_def instancia_final_def Let_def)
  then have r: "r = le32 9 \<or> r = le32 (- 9)"
    by (auto simp: atender_finalizacion_def bind_eq_Some_conv split: if_splits)
  then have "length r = 4" by auto
  from reenvia_cuatro [OF this assms(9), of respuesta] show ?thesis
    using cpu_reenvia [OF assms(7,8,10,11), of E "[]" "r @ respuesta"] f(1) r by simp
qed

theorem final_desfasa_respuestas_witness:
  "\<exists>k1 magic. finalizarProceso entorno_k (kernel_k\<lparr>processExit := [1]\<rparr>) = Some (k1, magic) \<and>
    recibirOperaciones (entorno_alloc 0) (\<lambda>_. CHR 0x00) magic (memoria_alloc []) = Some (memoria_alloc [], le32 (- 9), []) \<and>
    (\<exists>k3 m. cpu_atender entorno_k 0 (le32 PROCESS @ cuerpo_de peticion_ej) (le32 (- 9) @ le32 5) k1 =
       Some (False, k3, le32 (- 9), m, [], le32 5))"
proof -
  let ?k = "kernel_k\<lparr>processExit := [1]\<rparr>"
  have b: "bien_formada peticion_ej" using bien_formada_peticion [of 1] by (simp add: peticion_ej_def)
  let ?c = "instancia_final entorno_k 8 kernel_k"
  have g: "enteros_int (basura_instancia entorno_k (?k\<lparr>processExit := []\<rparr>))" "?k\<lparr>processExit := []\<rparr> = kernel_k"
    by (simp_all add: ejemplo_k_defs enteros_int_def)
  have bf: "bien_formada ?c" using bien_formada_final g by simp
  obtain k1 where f: "finalizarProceso entorno_k ?k = Some (k1, le32 PROCESS @ cuerpo_de ?c)"
    and k1: "cpu_pcb (cpusExec k1 ! 0) = Some 0" "pcbs k1 0 = Some (pcb_k 7)"
    using mensaje_bien_formado(1) [OF bf]
    by (simp add: finalizarProceso_def sacarRecursos_def finalizacionCarpincho_def kernel_k_def entorno_k_def pcb_k_def)
  have "get_carpincho (memoria_alloc []) 8 = None"
    by (simp add: memoria_alloc_def carpincho_alloc_def get_carpincho_def)
  then have "atender (entorno_alloc 0) (\<lambda>_. CHR 0x00) ?c (memoria_alloc []) = Some (memoria_alloc [], le32 (- 9))"
    by (simp add: atender_def atender_finalizacion_def memory_memfree_all_def instancia_final_def Let_def sin_debug_ej)
  then have s: "recibirOperaciones (entorno_alloc 0) (\<lambda>_. CHR 0x00) (le32 PROCESS @ cuerpo_de ?c) (memoria_alloc []) =
      Some (memoria_alloc [], le32 (- 9), [])"
    by (simp add: servidor_atiende [OF bf])
  have "\<exists>k3 m. cpu_atender entorno_k 0 (le32 PROCESS @ cuerpo_de peticion_ej) (le32 (- 9) @ le32 5) k1 =
       Some (False, k3, le32 (- 9), m, [], le32 5)"
  proof -
    have h: "processExit ?k = 1 # []" "pcbs ?k 1 = Some (pcb_k 8)" "i32 (pcb_PID (pcb_k 8)) = pcb_PID (pcb_k 8)"
      "mi_tipo peticion_ej = MEMORIA" "mem_tipoOp peticion_ej \<noteq> MEMREAD"
      by (simp_all add: kernel_k_def pcb_k_def peticion_ej_def instancia_k_def)
    show ?thesis using final_desfasa_respuestas [OF h(1,2) f g(1) h(3) s b h(4,5) k1, of "le32 5"] by blast
  qed
  then show ?thesis using f s by blast
qed

end
