(* ===== verification/Memoria_Plana.thy ===== *)
theory Memoria_Plana
  imports Memoria_Rangos
begin

section \<open>Memoria: the flat memory of a process\<close>

text \<open>
  While its pages are in memory, the memory of a process is one array of bytes, the pages in order. A write to a
  range that touches one or two pages replaces exactly the range, in one process only, and a read returns it. With
  three pages the code takes the bytes of the third one from the wrong place.
\<close>

subsection \<open>An access to a present page\<close>

definition bytes_de :: "'s entorno \<Rightarrow> 's memoria \<Rightarrow> ptr \<Rightarrow> char list" where
  "bytes_de E s p = (case heap s p of Some g \<Rightarrow> bytes_marco E s (pag_marco g) | None \<Rightarrow> [])"

definition presente_en :: "'s memoria \<Rightarrow> ptr \<Rightarrow> bool" where
  "presente_en s p \<longleftrightarrow> (\<exists>g. heap s p = Some g \<and> pag_presencia g \<noteq> 0)"

text \<open>Everything but the bytes of \<open>p\<close> is as before.\<close>

definition salvo_bytes :: "'s entorno \<Rightarrow> ptr \<Rightarrow> 's memoria \<Rightarrow> 's memoria \<Rightarrow> bool" where
  "salvo_bytes E p s t \<longleftrightarrow> inv_mem E t \<and> procesos_de t = procesos_de s \<and> swamp t = swamp s \<and>
     (\<forall>q\<in>paginas_de s. presente_en t q = presente_en s q) \<and>
     (\<forall>q\<in>paginas_de s. presente_en s q \<longrightarrow> q \<noteq> p \<longrightarrow> bytes_de E t q = bytes_de E s q)"

lemma presente_marco_unico:
  assumes "inv_mem E s" "p \<in> paginas_de s" "q \<in> paginas_de s" "p \<noteq> q" "heap s p = Some g" "pag_presencia g \<noteq> 0"
    "heap s q = Some f" "pag_presencia f \<noteq> 0"
  shows "0 \<le> pag_marco f \<and> pag_marco f \<noteq> pag_marco g"
proof -
  have "presencia_ok s" using assms(1) by (simp add: inv_mem_def)
  then show ?thesis
    using presente_ocupa [OF _ assms(3,7,8)] marcos_distintos [OF assms(1-5,7,6,8)] by (auto simp: ocupa_def)
qed

lemma longitud_presente:
  assumes "inv_mem E s" "p \<in> paginas_de s" "presente_en s p"
  shows "list_size (bytes_de E s p) = tam_pag E"
proof -
  obtain g where g: "heap s p = Some g" "pag_presencia g \<noteq> 0" using assms(3) by (auto simp: presente_en_def)
  have ok: "presencia_ok s" "marcos_ok E s" using assms(1) by (auto simp: inv_mem_def)
  have "ocupa (marcos_list s) (pag_marco g) (pag_pid g) (pag_pagina g)" using presente_ocupa [OF ok(1) assms(2) g] .
  then show ?thesis using length_bytes_marco [OF ok(2)] g by (simp add: bytes_de_def ocupa_def)
qed

lemma buscar_presente:
  assumes inv: "inv_mem E s" and srt: "ordena (list_sort_tlb E)" and p: "p \<in> paginas_de s" "heap s p = Some g"
    "pag_presencia g \<noteq> 0"
  obtains s1 t where "tocar_tlb_lru E g s = Some s1" "obtener_marco_para_pagina E p s1 = Some (pag_marco g, t)"
    "acceso_ok E p (pag_marco g) t" "datos t = datos s" "inv_mem E t"
proof -
  obtain s1 where s1: "tocar_tlb_lru E g s = Some s1" "datos s1 = datos s" "inv_mem E s1"
    using tocar_tlb_lru_ok [OF inv] .
  have q: "p \<in> paginas_de s1" "heap s1 p = Some g"
    using p datos_paginas_de [OF s1(2)] datos_eqD(3) [OF s1(2)] by simp_all
  obtain t where t: "obtener_marco_para_pagina E p s1 = Some (pag_marco g, t)" "datos t = datos s1" "inv_mem E t"
    "pagina_is_in_tlb t g"
    using obtener_marco_presente [OF s1(3) srt q p(3)] .
  have "p \<in> paginas_de t" "heap t p = Some g" using q datos_paginas_de [OF t(2)] datos_eqD(3) [OF t(2)] by simp_all
  from acceso_presente(1) [OF t(3) this p(3) t(4)] show thesis using that [OF s1(1) t(1)] t(2,3) s1(2) by simp
qed

lemma tras_acceso_salvo:
  assumes inv: "inv_mem E s" and p: "p \<in> paginas_de s" "heap s p = Some g" "pag_presencia g \<noteq> 0"
    and d: "datos t = datos s" and u: "tras_acceso E p (pag_marco g) t u" "procesos_de u = procesos_de s"
    and b: "\<forall>j. 0 \<le> j \<and> j \<noteq> pag_marco g \<longrightarrow> bytes_marco E u j = bytes_marco E t j"
  shows "salvo_bytes E p s u" "bytes_de E u p = bytes_marco E u (pag_marco g)" "presente_en u p"
proof -
  have h: "heap t = heap s" "CACHE t = CACHE s" "swamp t = swamp s" using datos_eqD(1,3,5) [OF d] by simp_all
  obtain g' where g': "heap u p = Some g'" "pag_presencia g' = 1" "pag_marco g' = pag_marco g"
    using u(1) by (auto simp: tras_acceso_def)
  have o: "heap u q = heap s q" if "q \<noteq> p" for q using u(1) h(1) that by (simp add: tras_acceso_def)
  show "bytes_de E u p = bytes_marco E u (pag_marco g)" "presente_en u p"
    using g' by (simp_all add: bytes_de_def presente_en_def)
  have "presente_en u q = presente_en s q" if "q \<in> paginas_de s" for q
    using o [of q] g'(1,2) p by (cases "q = p") (auto simp: presente_en_def)
  moreover have "bytes_de E u q = bytes_de E s q" if q: "q \<in> paginas_de s" "presente_en s q" "q \<noteq> p" for q
  proof -
    obtain f where f: "heap s q = Some f" "pag_presencia f \<noteq> 0" using q(2) by (auto simp: presente_en_def)
    then have "0 \<le> pag_marco f \<and> pag_marco f \<noteq> pag_marco g"
      using presente_marco_unico [OF inv p(1) q(1) _ p(2,3)] q(3) by auto
    then have "bytes_marco E u (pag_marco f) = bytes_marco E s (pag_marco f)"
      using b h(2) by (simp add: bytes_marco_def)
    then show ?thesis using f o [OF q(3)] by (simp add: bytes_de_def)
  qed
  ultimately show "salvo_bytes E p s u" using u h(3) by (auto simp: salvo_bytes_def tras_acceso_def)
qed

lemma escribir_presente:
  assumes inv: "inv_mem E s" and srt: "ordena (list_sort_tlb E)" and p: "p \<in> paginas_de s" "presente_en s p"
    and r: "0 \<le> off" "off + n \<le> tam_pag E" "list_size bs = n"
  obtains t where "escribir_en_pagina E p bs n off s = Some (0, t)" "salvo_bytes E p s t"
    "bytes_de E t p = take (nat off) (bytes_de E s p) @ bs @ drop (nat (off + n)) (bytes_de E s p)"
proof -
  obtain g where g: "heap s p = Some g" "pag_presencia g \<noteq> 0" using p(2) by (auto simp: presente_en_def)
  obtain s1 t where t: "tocar_tlb_lru E g s = Some s1" "obtener_marco_para_pagina E p s1 = Some (pag_marco g, t)"
    "acceso_ok E p (pag_marco g) t" "datos t = datos s" "inv_mem E t"
    using buscar_presente [OF inv srt p(1) g] .
  from escribir_en_pagina_tras [OF g(1) t(1,2,3) r] obtain u where u:
    "escribir_en_pagina E p bs n off s = Some (0, u)" "tras_acceso E p (pag_marco g) t u"
    "bytes_marco E u (pag_marco g) = take (nat off) (bytes_marco E t (pag_marco g)) @ bs @
       drop (nat (off + n)) (bytes_marco E t (pag_marco g))"
    "\<forall>j. 0 \<le> j \<and> j \<noteq> pag_marco g \<longrightarrow> bytes_marco E u j = bytes_marco E t j" .
  note sv = tras_acceso_salvo [OF inv p(1) g t(4) u(2) procesos_escribir [OF u(1)] u(4)]
  have "bytes_marco E t (pag_marco g) = bytes_de E s p"
    using datos_eqD(1) [OF t(4)] g by (simp add: bytes_de_def bytes_marco_def)
  then show thesis using that [OF u(1) sv(1)] sv(2) u(3) by simp
qed

lemma leer_presente:
  assumes inv: "inv_mem E s" and srt: "ordena (list_sort_tlb E)" and p: "p \<in> paginas_de s" "presente_en s p"
    and r: "0 \<le> off" "0 \<le> n" "off + n \<le> tam_pag E"
  obtains t where "leer_en_pagina E p n off s = Some (Some (take (nat n) (drop (nat off) (bytes_de E s p))), t)"
    "salvo_bytes E p s t" "bytes_de E t p = bytes_de E s p"
proof -
  obtain g where g: "heap s p = Some g" "pag_presencia g \<noteq> 0" using p(2) by (auto simp: presente_en_def)
  obtain s1 t where t: "tocar_tlb_lru E g s = Some s1" "obtener_marco_para_pagina E p s1 = Some (pag_marco g, t)"
    "acceso_ok E p (pag_marco g) t" "datos t = datos s" "inv_mem E t"
    using buscar_presente [OF inv srt p(1) g] .
  from leer_en_pagina_tras [OF g(1) t(1,2,3) r] obtain u where u:
    "leer_en_pagina E p n off s = Some (Some (take (nat n) (drop (nat off) (bytes_marco E t (pag_marco g)))), u)"
    "tras_acceso E p (pag_marco g) t u" "CACHE u = CACHE t" .
  have b: "bytes_marco E u j = bytes_marco E t j" for j using u(3) by (simp add: bytes_marco_def)
  note sv = tras_acceso_salvo [OF inv p(1) g t(4) u(2) procesos_leer [OF u(1)]]
  have "bytes_marco E t (pag_marco g) = bytes_de E s p"
    using datos_eqD(1) [OF t(4)] g by (simp add: bytes_de_def bytes_marco_def)
  then show thesis using that [of u] sv b u(1) by simp
qed

subsection \<open>The flat memory\<close>

definition plana :: "'s entorno \<Rightarrow> 's memoria \<Rightarrow> ptr list \<Rightarrow> char list" where
  "plana E s ps = concat (map (bytes_de E s) ps)"

text \<open>\<open>bs\<close> over the bytes of \<open>xs\<close> from \<open>i\<close> on.\<close>

definition pega :: "nat \<Rightarrow> 'a list \<Rightarrow> 'a list \<Rightarrow> 'a list" where
  "pega i bs xs = take i xs @ bs @ drop (i + length bs) xs"

lemma length_pega [simp]: "i + length bs \<le> length xs \<Longrightarrow> length (pega i bs xs) = length xs"
  by (simp add: pega_def)

lemma length_concat_igual: "\<forall>x\<in>set xs. length (f x) = T \<Longrightarrow> length (concat (map f xs)) = length xs * T"
  by (induction xs) auto

lemma concat_pega:
  assumes "\<forall>x\<in>set xs. length (f x) = T" "j < length xs" "distinct xs" "off + length bs \<le> T"
  shows "concat (map (f(xs ! j := pega off bs (f (xs ! j)))) xs) = pega (j * T + off) bs (concat (map f xs))"
  using assms
proof (induction xs arbitrary: j)
  case (Cons x xs)
  show ?case
  proof (cases j)
    case 0
    have m: "map (f(x := y)) xs = map f xs" for y using Cons.prems(3) by auto
    show ?thesis using 0 Cons.prems(1,4) by (simp add: m pega_def del: fun_upd_apply) simp
  next
    case (Suc i)
    have "xs ! i \<noteq> x" using Suc Cons.prems(2,3) by auto
    moreover have "concat (map (f(xs ! i := pega off bs (f (xs ! i)))) xs) = pega (i * T + off) bs (concat (map f xs))"
      by (rule Cons.IH) (use Cons.prems Suc in auto)
    moreover have "length (f x) = T" using Cons.prems(1) by simp
    ultimately show ?thesis using Suc by (auto simp: pega_def add.assoc simp del: fun_upd_apply) (simp_all add: fun_upd_other)
  qed
qed simp

lemma concat_trozo:
  assumes "\<forall>x\<in>set xs. length (f x) = T" "j < length xs" "off + n \<le> T"
  shows "take n (drop (j * T + off) (concat (map f xs))) = take n (drop off (f (xs ! j)))"
  using assms
proof (induction xs arbitrary: j)
  case (Cons x xs)
  then show ?case by (cases j) (auto simp: add.assoc)
qed simp

text \<open>What the code does with the pieces: each one is looked for behind the last one only.\<close>

fun pega_pedazos :: "int \<Rightarrow> char list \<Rightarrow> int \<Rightarrow> (int \<times> int \<times> int) list \<Rightarrow> char list \<Rightarrow> char list" where
  "pega_pedazos T valor previo [] m = m"
| "pega_pedazos T valor previo ((q, off, k) # pz) m =
     pega_pedazos T valor k pz (pega (nat (q * T + off)) (take (nat k) (drop (nat previo) valor)) m)"

fun lee_pedazos :: "int \<Rightarrow> char list \<Rightarrow> (int \<times> int \<times> int) list \<Rightarrow> int \<Rightarrow> char list \<Rightarrow> char list" where
  "lee_pedazos T m [] previo buffer = buffer"
| "lee_pedazos T m ((q, off, k) # pz) previo buffer =
     lee_pedazos T m pz k (pega (nat previo) (take (nat k) (drop (nat (q * T + off)) m)) buffer)"

text \<open>The pages \<open>ps\<close> of process \<open>pid\<close> are all in memory.\<close>

definition en_memoria :: "'s entorno \<Rightarrow> 's memoria \<Rightarrow> int \<Rightarrow> ptr list \<Rightarrow> bool" where
  "en_memoria E s pid ps \<longleftrightarrow> inv_mem E s \<and> (\<forall>p\<in>set ps. presente_en s p) \<and> list_size ps < 2147483648 \<and>
     (\<exists>c. get_carpincho s pid = Some c \<and> crp_paginas c = ps)"

text \<open>Only the bytes of the pages \<open>ps\<close> change.\<close>

definition salvo_proceso :: "'s entorno \<Rightarrow> ptr list \<Rightarrow> 's memoria \<Rightarrow> 's memoria \<Rightarrow> bool" where
  "salvo_proceso E ps s t \<longleftrightarrow> inv_mem E t \<and> procesos_de t = procesos_de s \<and> swamp t = swamp s \<and>
     (\<forall>q\<in>paginas_de s. presente_en t q = presente_en s q) \<and>
     (\<forall>q\<in>paginas_de s. presente_en s q \<longrightarrow> q \<notin> set ps \<longrightarrow> bytes_de E t q = bytes_de E s q)"

lemma salvo_proceso_refl: "inv_mem E s \<Longrightarrow> salvo_proceso E ps s s"
  by (simp add: salvo_proceso_def)

lemma salvo_bytes_proceso: "salvo_bytes E p s t \<Longrightarrow> p \<in> set ps \<Longrightarrow> salvo_proceso E ps t u \<Longrightarrow> salvo_proceso E ps s u"
  using paginas_de_procesos [of t] paginas_de_procesos [of s] by (auto simp: salvo_bytes_def salvo_proceso_def)

lemma en_memoria_salvo:
  assumes "en_memoria E s pid ps" "salvo_bytes E p s t"
  shows "en_memoria E t pid ps"
proof -
  obtain c where c: "get_carpincho s pid = Some c" "crp_paginas c = ps" using assms(1) by (auto simp: en_memoria_def)
  have "procesos_de t = procesos_de s" using assms(2) by (simp add: salvo_bytes_def)
  from get_carpincho_procesos [OF this c(1)] obtain c' where "get_carpincho t pid = Some c'" "crp_paginas c' = ps"
    using c(2) by auto
  moreover have "presente_en t p" if "p \<in> set ps" for p
    using assms get_carpincho_paginas [OF c(1)] c(2) that by (auto simp: en_memoria_def salvo_bytes_def)
  ultimately show ?thesis using assms by (auto simp: en_memoria_def salvo_bytes_def)
qed

lemma en_memoria_pagina:
  assumes "en_memoria E s pid ps" "0 \<le> q" "q < list_size ps"
  shows "\<exists>c. get_carpincho s pid = Some c \<and> list_get (crp_paginas c) (i32 q) = Some (ps ! nat q)"
    "ps ! nat q \<in> set ps" "ps ! nat q \<in> paginas_de s" "presente_en s (ps ! nat q)" "inv_mem E s"
proof -
  obtain c where c: "get_carpincho s pid = Some c" "crp_paginas c = ps" using assms(1) by (auto simp: en_memoria_def)
  have "i32 q = q" using assms by (simp add: en_memoria_def)
  then show "\<exists>c. get_carpincho s pid = Some c \<and> list_get (crp_paginas c) (i32 q) = Some (ps ! nat q)"
    using c assms(2,3) by (auto simp: list_get_def list_size_def)
  show m: "ps ! nat q \<in> set ps" using assms(2,3) by (simp add: list_size_def)
  then show "ps ! nat q \<in> paginas_de s" using get_carpincho_paginas [OF c(1)] c(2) by simp
  show "presente_en s (ps ! nat q)" "inv_mem E s" using assms(1) m by (simp_all add: en_memoria_def)
qed

lemma en_memoria_longitudes:
  assumes "en_memoria E s pid ps"
  shows "\<forall>p\<in>set ps. length (bytes_de E s p) = nat (tam_pag E)" "distinct ps" "0 < tam_pag E"
proof -
  obtain c where c: "get_carpincho s pid = Some c" "crp_paginas c = ps" using assms by (auto simp: en_memoria_def)
  have ok: "inv_mem E s" using assms by (simp add: en_memoria_def)
  show "\<forall>p\<in>set ps. length (bytes_de E s p) = nat (tam_pag E)"
    using longitud_presente [OF ok] get_carpincho_paginas [OF c(1)] c(2) assms
    by (fastforce simp: en_memoria_def list_size_def)
  show "0 < tam_pag E" using ok by (simp add: inv_mem_def marcos_ok_def)
  have "paginas_ok (heap s) c" using ok get_carpinchoD [OF c(1)] by (auto simp: inv_mem_def procesos_ok_def)
  then have "i = j" if "i < length ps" "j < length ps" "ps ! i = ps ! j" for i j
    using that c(2) unfolding paginas_ok_def by (metis add_right_cancel of_nat_eq_iff option.inject)
  then show "distinct ps" unfolding distinct_conv_nth by blast
qed

lemma pega_nat:
  assumes "0 \<le> off" "list_size bs = n"
  shows "take (nat off) xs @ bs @ drop (nat (off + n)) xs = pega (nat off) bs xs"
  using assms by (auto simp: pega_def list_size_def nat_add_distrib)

lemma indice_plano: "0 \<le> q \<Longrightarrow> 0 \<le> off \<Longrightarrow> 0 < T \<Longrightarrow> nat (q * T + off) = nat q * nat T + nat off"
  by (simp add: nat_add_distrib nat_mult_distrib)

lemma plana_escrita:
  assumes em: "en_memoria E s pid ps" and q: "0 \<le> q" "q < list_size ps" "0 \<le> off" "off + list_size v \<le> tam_pag E"
    and t: "salvo_bytes E (ps ! nat q) s t" "bytes_de E t (ps ! nat q) = pega (nat off) v (bytes_de E s (ps ! nat q))"
  shows "plana E t ps = pega (nat (q * tam_pag E + off)) v (plana E s ps)"
proof -
  note l = en_memoria_longitudes [OF em]
  let ?p = "ps ! nat q"
  obtain c where c: "get_carpincho s pid = Some c" "crp_paginas c = ps" using em by (auto simp: en_memoria_def)
  have "bytes_de E t x = ((bytes_de E s)(?p := pega (nat off) v (bytes_de E s ?p))) x" if "x \<in> set ps" for x
    using t em get_carpincho_paginas [OF c(1)] c(2) that by (auto simp: salvo_bytes_def en_memoria_def)
  then have "plana E t ps = concat (map ((bytes_de E s)(?p := pega (nat off) v (bytes_de E s ?p))) ps)"
    unfolding plana_def by (intro arg_cong [of _ _ concat] map_cong refl)
  also have "\<dots> = pega (nat q * nat (tam_pag E) + nat off) v (plana E s ps)"
    unfolding plana_def by (rule concat_pega [OF l(1) _ l(2)]) (use q l(3) in \<open>auto simp: list_size_def\<close>)
  finally show ?thesis using indice_plano [OF q(1,3) l(3)] by simp
qed

lemma escribir_plana:
  assumes srt: "ordena (list_sort_tlb E)"
    and "en_memoria E s pid ps" "pedazos_ok (tam_pag E) (list_size ps) (list_size valor) previo pz"
  shows "\<exists>t. escribir_acciones E pid (map accion pz) valor previo s = Some t \<and> salvo_proceso E ps s t \<and>
    plana E t ps = pega_pedazos (tam_pag E) valor previo pz (plana E s ps)"
  using assms(2,3)
proof (induction pz arbitrary: s previo)
  case Nil
  then show ?case using salvo_proceso_refl by (auto simp: en_memoria_def)
next
  case (Cons z pz)
  obtain q off k where z: "z = (q, off, k)" by (cases z)
  have o: "0 \<le> q" "q < list_size ps" "0 \<le> off" "0 < k" "off + k \<le> tam_pag E" "0 \<le> previo" "previo + k \<le> list_size valor"
    "pedazos_ok (tam_pag E) (list_size ps) (list_size valor) k pz"
    using Cons.prems(2) z by auto
  note p = en_memoria_pagina [OF Cons.prems(1) o(1,2)]
  let ?v = "take (nat k) (drop (nat previo) valor)" and ?p = "ps ! nat q"
  have v: "lee_bytes valor previo k = Some ?v" "list_size ?v = k"
    using o by (simp_all add: lee_bytes_def list_size_def)
  obtain t where t: "escribir_en_pagina E ?p ?v k off s = Some (0, t)" "salvo_bytes E ?p s t"
    "bytes_de E t ?p = take (nat off) (bytes_de E s ?p) @ ?v @ drop (nat (off + k)) (bytes_de E s ?p)"
    using escribir_presente [OF p(5) srt p(3,4) o(3,5) v(2)] .
  have b: "bytes_de E t ?p = pega (nat off) ?v (bytes_de E s ?p)" using t(3) pega_nat [OF o(3) v(2)] by simp
  have "off + list_size ?v \<le> tam_pag E" using v(2) o(5) by simp
  note pl = plana_escrita [OF Cons.prems(1) o(1-3) this t(2) b]
  from Cons.IH [OF en_memoria_salvo [OF Cons.prems(1) t(2)] o(8)] obtain u where
    u: "escribir_acciones E pid (map accion pz) valor k t = Some u" "salvo_proceso E ps t u"
    "plana E u ps = pega_pedazos (tam_pag E) valor k pz (plana E t ps)" by blast
  obtain c where c: "get_carpincho s pid = Some c" "list_get (crp_paginas c) (i32 q) = Some ?p" using p(1) by blast
  have "escribir_acciones E pid (map accion (z # pz)) valor previo s = Some u"
    using c v(1) t(1) u(1) o(4) by (simp add: z accion_simps)
  then show ?case using salvo_bytes_proceso [OF t(2) p(2) u(2)] u(3) pl z by simp
qed

lemma plana_igual:
  assumes "en_memoria E s pid ps" "salvo_bytes E p s t" "bytes_de E t p = bytes_de E s p"
  shows "plana E t ps = plana E s ps"
proof -
  obtain c where c: "get_carpincho s pid = Some c" "crp_paginas c = ps" using assms(1) by (auto simp: en_memoria_def)
  have "bytes_de E t x = bytes_de E s x" if "x \<in> set ps" for x
    using assms get_carpincho_paginas [OF c(1)] c(2) that by (cases "x = p") (auto simp: salvo_bytes_def en_memoria_def)
  then show ?thesis unfolding plana_def by (intro arg_cong [of _ _ concat] map_cong refl)
qed

lemma leer_plana:
  assumes srt: "ordena (list_sort_tlb E)"
    and "en_memoria E s pid ps" "pedazos_ok (tam_pag E) (list_size ps) (list_size buffer) previo pz"
  shows "\<exists>t. leer_acciones E pid (map accion pz) buffer previo s =
      Some (lee_pedazos (tam_pag E) (plana E s ps) pz previo buffer, t) \<and>
    salvo_proceso E ps s t \<and> plana E t ps = plana E s ps"
  using assms(2,3)
proof (induction pz arbitrary: s previo buffer)
  case Nil
  then show ?case using salvo_proceso_refl by (auto simp: en_memoria_def)
next
  case (Cons z pz)
  obtain q off k where z: "z = (q, off, k)" by (cases z)
  have o: "0 \<le> q" "q < list_size ps" "0 \<le> off" "0 < k" "off + k \<le> tam_pag E" "0 \<le> previo" "previo + k \<le> list_size buffer"
    "pedazos_ok (tam_pag E) (list_size ps) (list_size buffer) k pz"
    using Cons.prems(2) z by auto
  note p = en_memoria_pagina [OF Cons.prems(1) o(1,2)]
  note l = en_memoria_longitudes [OF Cons.prems(1)]
  let ?p = "ps ! nat q"
  let ?v = "take (nat k) (drop (nat off) (bytes_de E s ?p))"
  obtain t where t: "leer_en_pagina E ?p k off s = Some (Some ?v, t)" "salvo_bytes E ?p s t" "bytes_de E t ?p = bytes_de E s ?p"
    using leer_presente [OF p(5) srt p(3,4) o(3) _ o(5)] o(4) by auto
  have "take (nat k) (drop (nat q * nat (tam_pag E) + nat off) (plana E s ps)) = ?v"
    unfolding plana_def by (rule concat_trozo [OF l(1)]) (use o l(3) in \<open>auto simp: list_size_def\<close>)
  then have v: "take (nat k) (drop (nat (q * tam_pag E + off)) (plana E s ps)) = ?v"
    using indice_plano [OF o(1,3) l(3)] by simp
  have lv: "list_size ?v = k" using l(1) p(2) o(3-5) by (simp add: list_size_def)
  have b: "copia_bytes buffer previo ?v = Some (pega (nat previo) ?v buffer)"
    using o(6,7) lv by (simp add: copia_bytes_def pega_def)
  have "nat previo + length ?v \<le> length buffer" using o(4,6,7) lv by (simp add: list_size_def)
  then have lb: "list_size (pega (nat previo) ?v buffer) = list_size buffer" unfolding list_size_def by (simp only: length_pega)
  note pl = plana_igual [OF Cons.prems(1) t(2,3)]
  have "pedazos_ok (tam_pag E) (list_size ps) (list_size (pega (nat previo) ?v buffer)) k pz" unfolding lb by (fact o(8))
  from Cons.IH [OF en_memoria_salvo [OF Cons.prems(1) t(2)] this] obtain u where
    u: "leer_acciones E pid (map accion pz) (pega (nat previo) ?v buffer) k t =
      Some (lee_pedazos (tam_pag E) (plana E t ps) pz k (pega (nat previo) ?v buffer), u)"
    "salvo_proceso E ps t u" "plana E u ps = plana E t ps" by blast
  obtain c where c: "get_carpincho s pid = Some c" "list_get (crp_paginas c) (i32 q) = Some ?p" using p(1) by blast
  have "leer_acciones E pid (map accion (z # pz)) buffer previo s =
      leer_acciones E pid (map accion pz) (pega (nat previo) ?v buffer) k t"
    using c b t(1) o(4) by (simp add: z accion_simps)
  moreover have "lee_pedazos (tam_pag E) (plana E s ps) (z # pz) previo buffer =
      lee_pedazos (tam_pag E) (plana E s ps) pz k (pega (nat previo) ?v buffer)"
    using v by (simp add: z)
  ultimately show ?case using u pl salvo_bytes_proceso [OF t(2) p(2) u(2)] by metis
qed

subsection \<open>Ranges of one, two and three pages\<close>

lemma posicion_en_pagina:
  fixes pos T :: int
  defines "k \<equiv> T - pos mod T"
  shows "pos div T * T + pos mod T = pos" "(pos div T + 1) * T = pos + k" "(pos div T + 2) * T = pos + k + T"
  using div_mult_mod_eq [of pos T] by (auto simp only: k_def distrib_right)

lemma pedazos_una: "0 < n \<Longrightarrow> 0 < T \<Longrightarrow> pos mod T + n \<le> T \<Longrightarrow> pedazos T pos n = [(pos div T, pos mod T, n)]"
  using pedazos_Cons [of n T n pos] by (simp add: pedazos_Nil)

lemma pedazos_siguiente:
  assumes "0 < T" "T < pos mod T + n"
  shows "pedazos T pos n = (pos div T, pos mod T, T - pos mod T) # pedazos T (pos + (T - pos mod T)) (n - (T - pos mod T))"
    "(pos + (T - pos mod T)) div T = pos div T + 1" "(pos + (T - pos mod T)) mod T = 0"
proof -
  have "pos mod T < T" using assms(1) by simp
  then have "0 < n" "T - pos mod T = min n (T - pos mod T)" using assms(2) by auto
  from pedazos_Cons [OF this(1) assms(1) this(2)]
  show "pedazos T pos n = (pos div T, pos mod T, T - pos mod T) # pedazos T (pos + (T - pos mod T)) (n - (T - pos mod T))" .
  have "pos + (T - pos mod T) = T * (pos div T) + T" using mult_div_mod_eq [of T pos] by linarith
  then have e: "pos + (T - pos mod T) = T * (pos div T + 1)" by (simp add: distrib_left)
  show "(pos + (T - pos mod T)) div T = pos div T + 1" "(pos + (T - pos mod T)) mod T = 0"
    unfolding e using assms(1) by simp_all
qed

lemma pega_pega:
  "i + length a + length b \<le> length m \<Longrightarrow> pega (i + length a) b (pega i a m) = pega i (a @ b) m"
  by (simp add: pega_def ac_simps)

lemma pega_tres:
  assumes "i + length a + length b + length c \<le> length m"
  shows "pega (i + length a + length b) c (pega (i + length a) b (pega i a m)) = pega i ((a @ b) @ c) m"
  using pega_pega [of i a b m] pega_pega [of i "a @ b" c m] assms by (simp add: add.assoc)

lemma pega_dos:
  assumes "i + n \<le> length m" "k \<le> n" "length v = n"
  shows "pega (i + k) (drop k v) (pega i (take k v) m) = pega i v m"
  using pega_pega [of i "take k v" "drop k v" m] assms by simp

lemma pega_pedazos_dos:
  assumes "0 < T" "0 \<le> pos" "0 < n" "pos mod T + n \<le> 2 * T" "list_size valor = n" "pos + n \<le> list_size m"
  shows "pega_pedazos T valor 0 (pedazos T pos n) m = pega (nat pos) valor m"
proof (cases "pos mod T + n \<le> T")
  case True
  have "pos div T * T + pos mod T = pos" by (rule posicion_en_pagina(1))
  then show ?thesis using pedazos_una [OF assms(3,1) True] assms(3,5) by (simp add: list_size_def)
next
  case False
  define k where "k = T - pos mod T"
  have k: "0 < k" "k < n" using assms(1) False by (simp_all add: k_def)
  note sig = pedazos_siguiente [OF assms(1), of pos n, folded k_def]
  have "pedazos T (pos + k) (n - k) = [(pos div T + 1, 0, n - k)]"
    using pedazos_una [of "n - k" T "pos + k"] sig(2,3) False k assms(1,4) by (simp add: k_def)
  then have p: "pedazos T pos n = [(pos div T, pos mod T, k), (pos div T + 1, 0, n - k)]" using sig(1) False by simp
  note i = posicion_en_pagina [of pos T, folded k_def]
  have "take (nat (n - k)) (drop (nat k) valor) = drop (nat k) valor" using assms(5) k by (simp add: list_size_def)
  moreover have "nat (pos + k) = nat pos + nat k" using assms(2) k by (simp add: nat_add_distrib)
  moreover have "pega (nat pos + nat k) (drop (nat k) valor) (pega (nat pos) (take (nat k) valor) m) = pega (nat pos) valor m"
    by (rule pega_dos [of _ "nat n"]) (use assms k in \<open>auto simp: list_size_def\<close>)
  ultimately show ?thesis using p i k by simp
qed

lemma lee_pedazos_dos:
  assumes "0 < T" "0 \<le> pos" "0 < n" "pos mod T + n \<le> 2 * T" "list_size buffer = n" "pos + n \<le> list_size m"
  shows "lee_pedazos T m (pedazos T pos n) 0 buffer = take (nat n) (drop (nat pos) m)"
proof (cases "pos mod T + n \<le> T")
  case True
  have "pos div T * T + pos mod T = pos" by (rule posicion_en_pagina(1))
  then show ?thesis using pedazos_una [OF assms(3,1) True] assms by (simp add: list_size_def pega_def)
next
  case False
  define k where "k = T - pos mod T"
  have k: "0 < k" "k < n" using assms(1) False by (simp_all add: k_def)
  note sig = pedazos_siguiente [OF assms(1), of pos n, folded k_def]
  have "pedazos T (pos + k) (n - k) = [(pos div T + 1, 0, n - k)]"
    using pedazos_una [of "n - k" T "pos + k"] sig(2,3) False k assms(1,4) by (simp add: k_def)
  then have p: "pedazos T pos n = [(pos div T, pos mod T, k), (pos div T + 1, 0, n - k)]" using sig(1) False by simp
  note i = posicion_en_pagina [of pos T, folded k_def]
  let ?v = "take (nat n) (drop (nat pos) m)"
  have lv: "length ?v = nat n" using assms(2,3,6) by (simp add: list_size_def)
  have "nat (pos + k) = nat pos + nat k" using assms(2) k by (simp add: nat_add_distrib)
  then have "take (nat (n - k)) (drop (nat (pos + k)) m) = drop (nat k) ?v"
    using k by (simp add: drop_take nat_diff_distrib add.commute)
  moreover have "take (nat k) (drop (nat pos) m) = take (nat k) ?v" using k by simp
  moreover have "pega (0 + nat k) (drop (nat k) ?v) (pega 0 (take (nat k) ?v) buffer) = pega 0 ?v buffer"
    by (rule pega_dos [of _ "nat n"]) (use assms(3,5) k lv in \<open>auto simp: list_size_def\<close>)
  moreover have "pega 0 ?v buffer = ?v" using lv assms(5) by (simp add: pega_def list_size_def)
  ultimately show ?thesis using p i k by simp
qed

lemma pega_pedazos_tres:
  assumes "0 < T" "0 \<le> pos" "2 * T < pos mod T + n" "pos mod T + n \<le> 3 * T" "list_size valor = n" "pos + n \<le> list_size m"
  defines "k \<equiv> T - pos mod T"
  shows "pega_pedazos T valor 0 (pedazos T pos n) m =
    pega (nat pos) (take (nat (k + T)) valor @ take (nat (n - k - T)) (drop (nat T) valor)) m"
proof -
  have r: "0 \<le> pos mod T" "pos mod T < T" using assms(1) by simp_all
  have k: "0 < k" "k \<le> T" "k + T < n" "n - k - T \<le> T" using r assms(3,4) by (simp_all add: k_def)
  note sig = pedazos_siguiente [OF assms(1), of pos n, folded k_def]
  note sig2 = pedazos_siguiente [OF assms(1), of "pos + k" "n - k"]
  have "(pos + k) mod T = 0" "(pos + k) div T = pos div T + 1" using sig(2,3) assms(1,3) by auto
  moreover have "pedazos T (pos + k + T) (n - k - T) = [(pos div T + 2, 0, n - k - T)]"
    using pedazos_una [of "n - k - T" T "pos + k + T"] sig2(2,3) calculation k assms(1) by simp
  ultimately have p: "pedazos T pos n = [(pos div T, pos mod T, k), (pos div T + 1, 0, T), (pos div T + 2, 0, n - k - T)]"
    using sig(1) sig2(1) k assms(1,3) r by simp
  note i = posicion_en_pagina [of pos T, folded k_def]
  let ?a = "take (nat k) valor" and ?b = "take (nat T) (drop (nat k) valor)" and ?c = "take (nat (n - k - T)) (drop (nat T) valor)"
  have l: "length ?a = nat k" "length ?b = nat T" "length ?c = nat (n - k - T)" "length m \<ge> nat pos + nat n"
    using assms(2,5,6) k by (simp_all add: list_size_def)
  have ns: "nat (pos + k) = nat pos + length ?a" "nat (pos + k + T) = nat pos + length ?a + length ?b"
    unfolding l(1,2) using assms(1,2) k by (simp_all add: nat_add_distrib)
  have "nat pos + length ?a + length ?b + length ?c \<le> length m" unfolding l(1-3) using l(4) k assms(1) by linarith
  note j = pega_tres [OF this]
  have ab: "?a @ ?b = take (nat (k + T)) valor" using k assms(1) by (simp add: nat_add_distrib take_add)
  have "pega_pedazos T valor 0 (pedazos T pos n) m =
      pega (nat (pos + k + T)) ?c (pega (nat (pos + k)) ?b (pega (nat pos) ?a m))"
    by (simp add: p i)
  then show ?thesis unfolding ns j ab .
qed

subsection \<open>The two messages\<close>

lemma escribir_rango:
  assumes "ordena (list_sort_tlb E)" "en_memoria E s pid (crp_paginas c)" "get_carpincho s pid = Some c"
    "dentro_de E c a pos n" "list_size valor = n"
  shows "\<exists>t. memory_memwrite E pid pos n valor s = Some (EXITO, t) \<and> salvo_proceso E (crp_paginas c) s t \<and>
    plana E t (crp_paginas c) =
      pega_pedazos (tam_pag E) valor 0 (pedazos (tam_pag E) pos n) (plana E s (crp_paginas c))"
proof -
  have l: "0 \<le> (0 :: int)" "0 + n \<le> list_size valor" using assms(5) by simp_all
  note pz = dentro_pedazos [OF assms(4) l]
  obtain t where t: "escribir_acciones E pid (armar_acciones E pos [0..<nat n] []) valor 0 s = Some t"
    "salvo_proceso E (crp_paginas c) s t"
    "plana E t (crp_paginas c) =
      pega_pedazos (tam_pag E) valor 0 (pedazos (tam_pag E) pos n) (plana E s (crp_paginas c))"
    using escribir_plana [OF assms(1,2) pz(2)] pz(1) by auto
  obtain k where k: "obtener_alloc_de_un_carpincho c pos = Some k" "list_get (crp_allocs c) k = Some a"
    using dentro_bloque [OF assms(4)] by blast
  have "i32 n = n" using dentro_limites [OF assms(4)] assms(4) by (simp add: dentro_de_def)
  then have "memory_memwrite E pid pos n valor s = Some (EXITO, t)"
    using assms(3) k t(1) dentro_valida [OF assms(4)] dentro_no_supera [OF assms(4)]
    by (simp add: memory_memwrite_def Let_def)
  then show ?thesis using t(2,3) by blast
qed

lemma longitud_plana:
  assumes "en_memoria E s pid ps"
  shows "list_size (plana E s ps) = list_size ps * tam_pag E"
  using length_concat_igual [OF en_memoria_longitudes(1) [OF assms]] en_memoria_longitudes(3) [OF assms]
  by (simp add: plana_def list_size_def)

lemma dentro_plana:
  assumes "en_memoria E s pid (crp_paginas c)" "dentro_de E c a pos n"
  shows "0 < tam_pag E" "0 \<le> pos" "0 < n" "pos + n \<le> list_size (plana E s (crp_paginas c))"
  using dentro_limites [OF assms(2)] assms(2) longitud_plana [OF assms(1)] by (auto simp: dentro_de_def)

lemma memwrite_rango:
  assumes "ordena (list_sort_tlb E)" "en_memoria E s pid (crp_paginas c)" "get_carpincho s pid = Some c"
    and "dentro_de E c a pos n" "pos mod tam_pag E + n \<le> 2 * tam_pag E" "list_size valor = n"
  shows "\<exists>t. memory_memwrite E pid pos n valor s = Some (EXITO, t) \<and> salvo_proceso E (crp_paginas c) s t \<and>
    plana E t (crp_paginas c) = pega (nat pos) valor (plana E s (crp_paginas c))"
  using escribir_rango [OF assms(1-4,6)] pega_pedazos_dos [OF dentro_plana(1-3) [OF assms(2,4)] assms(5,6)
      dentro_plana(4) [OF assms(2,4)]]
  by simp

lemma memread_rango:
  assumes "ordena (list_sort_tlb E)" "en_memoria E s pid (crp_paginas c)" "get_carpincho s pid = Some c"
    and "dentro_de E c a pos n" "pos mod tam_pag E + n \<le> 2 * tam_pag E" "list_size buffer = n"
  shows "\<exists>t. memory_memread E pid pos n buffer s =
      Some (EXITO, take (nat n) (drop (nat pos) (plana E s (crp_paginas c))), t) \<and>
    salvo_proceso E (crp_paginas c) s t \<and> plana E t (crp_paginas c) = plana E s (crp_paginas c)"
proof -
  have l: "0 \<le> (0 :: int)" "0 + n \<le> list_size buffer" using assms(6) by simp_all
  note pz = dentro_pedazos [OF assms(4) l]
  note d = dentro_plana [OF assms(2,4)]
  obtain t where t: "leer_acciones E pid (armar_acciones E pos [0..<nat n] []) buffer 0 s =
      Some (take (nat n) (drop (nat pos) (plana E s (crp_paginas c))), t)"
    "salvo_proceso E (crp_paginas c) s t" "plana E t (crp_paginas c) = plana E s (crp_paginas c)"
    using leer_plana [OF assms(1,2) pz(2)] pz(1) lee_pedazos_dos [OF d(1-3) assms(5,6) d(4)] by auto
  have "i32 n = n" using dentro_limites [OF assms(4)] d(3) by simp
  then have "memory_memread E pid pos n buffer s =
      Some (EXITO, take (nat n) (drop (nat pos) (plana E s (crp_paginas c))), t)"
    using assms(3) t(1) dentro_valida [OF assms(4)] by (simp add: memory_memread_def)
  then show ?thesis using t(2,3) by blast
qed

text \<open>C6. A write is a write into the flat memory of the process. With the pages of the process in memory, a
  MEMWRITE of a range inside a block that touches one or two pages succeeds and replaces exactly the bytes of the
  range: no other byte of the process changes, and no byte of any other process, nor the swap.\<close>

theorem memwrite_plana:
  assumes "ordena (list_sort_tlb E)" "en_memoria E s pid (crp_paginas c)" "get_carpincho s pid = Some c"
    and "dentro_de E c a pos n" "pos mod tam_pag E + n \<le> 2 * tam_pag E" "list_size valor = n"
  shows "\<exists>t. memory_memwrite E pid pos n valor s = Some (EXITO, t) \<and> salvo_proceso E (crp_paginas c) s t \<and>
    plana E t (crp_paginas c) = pega (nat pos) valor (plana E s (crp_paginas c))"
  using assms by (rule memwrite_rango)

text \<open>C7. A read is a read of the flat memory of the process. Under the same conditions MEMREAD succeeds, fills the
  buffer with exactly the bytes of the range and changes no byte of any process.\<close>

theorem memread_plana:
  assumes "ordena (list_sort_tlb E)" "en_memoria E s pid (crp_paginas c)" "get_carpincho s pid = Some c"
    and "dentro_de E c a pos n" "pos mod tam_pag E + n \<le> 2 * tam_pag E" "list_size buffer = n"
  shows "\<exists>t. memory_memread E pid pos n buffer s =
      Some (EXITO, take (nat n) (drop (nat pos) (plana E s (crp_paginas c))), t) \<and>
    salvo_proceso E (crp_paginas c) s t \<and> plana E t (crp_paginas c) = plana E s (crp_paginas c)"
  using assms by (rule memread_rango)

text \<open>C31. Over three pages the write is wrong. The bytes of each page are taken from behind those of the page before,
  counted from the start of the value: the third page gets the bytes of the value from one page size on, not
  those behind the second piece, and the tail of the value is never stored; MEMWRITE reports success.\<close>

theorem tres_paginas:
  assumes "ordena (list_sort_tlb E)" "en_memoria E s pid (crp_paginas c)" "get_carpincho s pid = Some c"
    and "dentro_de E c a pos n" "2 * tam_pag E < pos mod tam_pag E + n" "pos mod tam_pag E + n \<le> 3 * tam_pag E"
    and "list_size valor = n" "k = tam_pag E - pos mod tam_pag E"
  shows "\<exists>t. memory_memwrite E pid pos n valor s = Some (EXITO, t) \<and>
    plana E t (crp_paginas c) =
      pega (nat pos) (take (nat (k + tam_pag E)) valor @ take (nat (n - k - tam_pag E)) (drop (nat (tam_pag E)) valor))
        (plana E s (crp_paginas c))"
  unfolding assms(8)
  using escribir_rango [OF assms(1-4,7)] pega_pedazos_tres [OF dentro_plana(1,2) [OF assms(2,4)] assms(5-7)
      dentro_plana(4) [OF assms(2,4)]]
  by auto

text \<open>Five pages of four bytes, all in memory, and one block of eleven bytes over four of them.\<close>

definition entorno_plano :: "unit entorno" where
  "entorno_plano =
     \<lparr>datosConfigMemoria =
        \<lparr>tamanio = 20, tamanio_pagina = 4, tipo_asignacion = ''FIJA'', algoritmo_reemplazo_mmu = ''LRU'',
         cantida_entradas_tlb = 1, algoritmo_reemplazo_tlb = ''FIFO'', debug = False, marcos_por_carpincho = 5\<rparr>,
      list_sort_pagina = orden_insercion, list_sort_marco = orden_insercion, list_sort_tlb = orden_insercion,
      basura_pagina = (\<lambda>_. \<lparr>pag_marco = 0, pag_pid = 0, pag_pagina = 0, pag_presencia = 0, pag_uso = 0,
         pag_modif = 0, pag_carp_num = 0, pag_timestamp = 0\<rparr>),
      basura_tlb = (\<lambda>_. 0), resto_heap = (\<lambda>_. [CHR 0x00]), srv_escribir = (\<lambda>_ _ _ _. None),
      srv_leer = (\<lambda>_ _ _. None), srv_puede_escribir = (\<lambda>_ _ _. None)\<rparr>"

definition carpincho_plano :: t_carpincho where
  "carpincho_plano = \<lparr>crp_pid = 1, crp_tlb_hits = 0, crp_tlb_miss = 0, crp_stack_pointer = 0,
     crp_paginas = [0, 1, 2, 3, 4], crp_allocs = [crear_alloc 0 11 False], crp_numero = 1\<rparr>"

definition memoria_plana :: "unit memoria" where
  "memoria_plana =
     \<lparr>CACHE = replicate 20 CHR ''.'', cantidad_maxima_marcos = 5,
      marcos_list = map (\<lambda>i. \<lparr>mrc_marco = i, mrc_isFree = False, mrc_pagina = i + 1, mrc_pid = 1\<rparr>) [0, 1, 2, 3, 4],
      carpinchos_list = [carpincho_plano], contador_carpinchos = 1, contador_timestamp = 1,
      contador_timestamp_tlb = 1, algoritm_stack_pointer = 0, tlb_fifo_pointer = 0,
      tlb_list = [\<lparr>tlb_entrada = 0, tlb_pid = 0, tlb_pagina = 0, tlb_marco = - 1, tlb_timestamp = 0\<rparr>],
      mensajes_dump_list = [], tlb_hits_totales = 0, tlb_miss_totales = 0,
      heap = (\<lambda>p. if p < 5 then Some \<lparr>pag_marco = int p, pag_pid = 1, pag_pagina = int p + 1, pag_presencia = 1,
         pag_uso = 0, pag_modif = 0, pag_carp_num = 1, pag_timestamp = 0\<rparr> else None),
      prox_ptr = 5, swamp = ()\<rparr>"

lemmas plano_defs = entorno_plano_def carpincho_plano_def memoria_plana_def

lemma plano_inv: "inv_mem entorno_plano memoria_plana"
  by (simp add: inv_mem_def marcos_ok_def tlb_ok_def item_ok_def procesos_ok_def paginas_ok_def presencia_ok_def
      paginas_de_def ocupa_def list_size_def less_Suc_eq numeral_eq_Suc plano_defs)

lemma plano_ej:
  "ordena (list_sort_tlb entorno_plano)" "tam_pag entorno_plano = 4"
  "get_carpincho memoria_plana 1 = Some carpincho_plano"  "crp_paginas carpincho_plano = [0, 1, 2, 3, 4]"
  "plana entorno_plano memoria_plana (crp_paginas carpincho_plano) = replicate 20 CHR ''.''"
  by (simp_all add: plano_defs get_carpincho_def plana_def bytes_de_def bytes_marco_def numeral_eq_Suc)

lemma plano_en_memoria: "en_memoria entorno_plano memoria_plana 1 (crp_paginas carpincho_plano)"
  using plano_inv plano_ej(3) by (simp add: en_memoria_def) (simp add: plano_defs presente_en_def list_size_def)

lemma plano_dentro: "0 < n \<Longrightarrow> n \<le> 11 \<Longrightarrow> dentro_de entorno_plano carpincho_plano (crear_alloc 0 11 False) 9 n"
  by (simp add: dentro_de_def plano_defs crear_alloc_def list_size_def)

lemma bytes_ej:
  "pega (nat 9) ''abcde'' (replicate 20 CHR ''.'') = ''.........abcde......''"
  "take (nat 5) (drop (nat 9) (replicate 20 CHR ''.'')) = ''.....''"
  "pega (nat 9) (take (nat (3 + 4)) ''abcdefghij'' @ take (nat (10 - 3 - 4)) (drop (nat 4) ''abcdefghij''))
     (replicate 20 CHR ''.'') = ''.........abcdefgefg.''"
  "list_size ''abcde'' = 5" "list_size ''abcdefghij'' = 10"
  by code_simp+

theorem memwrite_plana_witness:
  "\<exists>t. memory_memwrite entorno_plano 1 9 5 ''abcde'' memoria_plana = Some (EXITO, t) \<and>
    plana entorno_plano t (crp_paginas carpincho_plano) = ''.........abcde......''"
proof -
  have "9 mod tam_pag entorno_plano + 5 \<le> 2 * tam_pag entorno_plano" by (simp add: plano_ej(2))
  from memwrite_plana [OF plano_ej(1) plano_en_memoria plano_ej(3) plano_dentro this bytes_ej(4)]
  show ?thesis unfolding plano_ej(5) bytes_ej(1) by auto
qed

theorem memread_plana_witness:
  "\<exists>t. memory_memread entorno_plano 1 9 5 ''abcde'' memoria_plana = Some (EXITO, ''.....'', t)"
proof -
  have "9 mod tam_pag entorno_plano + 5 \<le> 2 * tam_pag entorno_plano" by (simp add: plano_ej(2))
  from memread_plana [OF plano_ej(1) plano_en_memoria plano_ej(3) plano_dentro this bytes_ej(4)]
  show ?thesis unfolding plano_ej(5) bytes_ej(2) by auto
qed

theorem tres_paginas_witness:
  "\<exists>t. memory_memwrite entorno_plano 1 9 10 ''abcdefghij'' memoria_plana = Some (EXITO, t) \<and>
    plana entorno_plano t (crp_paginas carpincho_plano) = ''.........abcdefgefg.''"
proof -
  have "2 * tam_pag entorno_plano < 9 mod tam_pag entorno_plano + 10" "9 mod tam_pag entorno_plano + 10 \<le> 3 * tam_pag entorno_plano"
    "3 = tam_pag entorno_plano - 9 mod tam_pag entorno_plano" by (simp_all add: plano_ej(2))
  from tres_paginas [OF plano_ej(1) plano_en_memoria plano_ej(3) plano_dentro this(1,2) bytes_ej(5) this(3)]
  show ?thesis unfolding plano_ej(5) plano_ej(2) bytes_ej(3) by auto
qed

end
