(* ===== verification/Sistema_Plano.thy ===== *)
theory Sistema_Plano
  imports Sistema_Completo Memoria_Plana
begin

section \<open>A write and a read from end to end\<close>

text \<open>
  The flat memory of a process (\<open>Memoria_Plana\<close>) seen from its program: a write and a read travel from the library
  through a CPU of the kernel to the memory process and back.
\<close>

lemma en_memoria_proceso:
  assumes "en_memoria E s pid (crp_paginas c)" "get_carpincho s pid = Some c" "salvo_proceso E (crp_paginas c) s t"
  obtains d where "get_carpincho t pid = Some d" "crp_paginas d = crp_paginas c" "crp_allocs d = crp_allocs c"
    "en_memoria E t pid (crp_paginas d)"
proof -
  obtain d where d: "get_carpincho t pid = Some d" "crp_paginas d = crp_paginas c" "crp_allocs d = crp_allocs c"
    using get_carpincho_procesos [of t s] assms(2,3) unfolding salvo_proceso_def by metis
  have "presente_en t p" if "p \<in> set (crp_paginas c)" for p
    using assms(1,3) get_carpincho_paginas [OF assms(2)] that by (auto simp: en_memoria_def salvo_proceso_def)
  then have "en_memoria E t pid (crp_paginas d)" using assms d by (auto simp: en_memoria_def salvo_proceso_def)
  then show thesis using that d by blast
qed

text \<open>What a program exchanges with the other programs: the request \<open>c\<close> is sent, carried out with answer \<open>r\<close>, and
  the answer is returned.\<close>

definition cruza ::
  "entorno_kernel \<Rightarrow> nat \<Rightarrow> kernel \<Rightarrow> 's entorno \<Rightarrow> mate_instance \<Rightarrow> 's memoria \<Rightarrow> 's memoria \<Rightarrow> char list \<Rightarrow> bool" where
  "cruza EK i k E c s t r \<longleftrightarrow>
     (\<exists>m k'. serializar_instancia (\<lambda>_. []) c r = Some (m, Puntero r, []) \<and>
        cpu_atender EK i m r k = Some (False, k', r, m, [], []) \<and>
        recibirOperaciones E (\<lambda>_. CHR 0x00) m s = Some (t, r, []))"

lemma cruza_peticion:
  assumes "bien_formada c" "mi_tipo c = MEMORIA" "mem_tipoOp c \<in> {MEMALLOC, MEMFREE, MEMREAD, MEMWRITE}"
    "mem_tipoOp c = MEMREAD \<Longrightarrow> r \<noteq> le32 MATE_READ_FAULT \<and> mem_size c < 16777216"
    "cpu_pcb (cpusExec k ! i) = Some p" "pcbs k p = Some q"
    "atender E (\<lambda>_. CHR 0x00) c s = Some (t, r)"
  shows "cruza EK i k E c s t r"
  using peticion_cruza [OF assms, of "\<lambda>_. []" EK] by (auto simp: cruza_def)

lemma lectura_no_rechazada: "list_size bs = n \<Longrightarrow> 0 < n \<Longrightarrow> le32 n @ bs \<noteq> le32 x"
  by (auto simp: list_size_def dest: arg_cong [of _ _ length])


definition escritura_plana :: mate_instance where
  "escritura_plana = instancia_ejemplo\<lparr>mi_PID := 1, mem_addr := 9, mem_size := 5, mem_valor := ''abcde''\<rparr>"


end
