(* ===== verification/Kernel_Paquetes.thy ===== *)
theory Kernel_Paquetes
  imports Kernel_Estado
begin

section \<open>Kernel and library: packets\<close>

text \<open>
  The packets of \<^verbatim>\<open>utils.c\<close>: the library builds and sends them, the kernel (and the swap server, with the same
  code) receives them. A packet is an operation code, a length, and values that each carry their own length.
\<close>

abbreviation (input) MENSAJE :: int where "MENSAJE \<equiv> 0"
abbreviation (input) PAQUETE :: int where "PAQUETE \<equiv> 1"

record t_buffer =
  buf_size :: int
  buf_stream :: "char list"

record t_paquete =
  codigo_operacion :: int
  paq_buffer :: t_buffer

subsection \<open>Sending\<close>

definition crear_buffer :: t_buffer where
  "crear_buffer = \<lparr>buf_size = 0, buf_stream = []\<rparr>"

definition crear_paquete :: t_paquete where
  "crear_paquete = \<lparr>codigo_operacion = PAQUETE, paq_buffer = crear_buffer\<rparr>"

text \<open>\<open>basura i\<close> is byte \<open>i\<close> of the fresh buffer; writing behind its end is undefined.\<close>

definition serializar_paquete :: "(nat \<Rightarrow> char) \<Rightarrow> t_paquete \<Rightarrow> int \<Rightarrow> char list option" where
  "serializar_paquete basura p bytes =
     do { let n = buf_size (paq_buffer p);
          datos \<leftarrow> lee_bytes (buf_stream (paq_buffer p)) 0 n;
          copia_bytes (map basura [0..<nat bytes]) 0 (le32 (codigo_operacion p) @ le32 n @ datos) }"

definition agregar_a_paquete :: "t_paquete \<Rightarrow> char list \<Rightarrow> int \<Rightarrow> t_paquete option" where
  "agregar_a_paquete p valor tamanio =
     do { let b = paq_buffer p;
          viejo \<leftarrow> lee_bytes (buf_stream b) 0 (buf_size b);
          nuevo \<leftarrow> lee_bytes valor 0 tamanio;
          Some (p\<lparr>paq_buffer := \<lparr>buf_size = i32 (buf_size b + tamanio + 4),
                                buf_stream = viejo @ le32 tamanio @ nuevo\<rparr>\<rparr>) }"

definition enviar_paquete :: "(nat \<Rightarrow> char) \<Rightarrow> t_paquete \<Rightarrow> char list option" where
  "enviar_paquete basura p = serializar_paquete basura p (i32 (buf_size (paq_buffer p) + 2 * 4))"

definition enviar_mensaje :: "(nat \<Rightarrow> char) \<Rightarrow> string \<Rightarrow> char list option" where
  "enviar_mensaje basura mensaje =
     (let n = i32 (list_size mensaje + 1);
          p = \<lparr>codigo_operacion = MENSAJE, paq_buffer = \<lparr>buf_size = n, buf_stream = mensaje @ [CHR 0x00]\<rparr>\<rparr>
      in serializar_paquete basura p (i32 (n + 2 * 4)))"

text \<open>\<open>leidos\<close> are the contents of the buffer of 100 bytes after each \<open>fgets\<close>.\<close>

fun agregar_lineas :: "char list list \<Rightarrow> t_paquete \<Rightarrow> t_paquete option" where
  "agregar_lineas [] p = Some p"
| "agregar_lineas (leido # leidos) p = do { q \<leftarrow> agregar_a_paquete p leido 100; agregar_lineas leidos q }"

definition paquete :: "(nat \<Rightarrow> char) \<Rightarrow> char list list \<Rightarrow> char list option" where
  "paquete basura leidos = do { p \<leftarrow> agregar_lineas leidos crear_paquete; enviar_paquete basura p }"

subsection \<open>Receiving\<close>

definition recibir_buffer :: "char list \<Rightarrow> (char list \<times> char list) option" where
  "recibir_buffer entrada = do { (n, e) \<leftarrow> recibir_int entrada; recibir_bytes n e }"

text \<open>The text that is logged, and the bytes left.\<close>

definition recibir_mensaje :: "char list \<Rightarrow> (string \<times> char list) option" where
  "recibir_mensaje entrada = do { (buffer, e) \<leftarrow> recibir_buffer entrada; t \<leftarrow> texto buffer; Some (t, e) }"

text \<open>The loop of \<open>recibir_paquete\<close> on the rest of the buffer: reading behind its end is undefined.\<close>

function recibir_valores :: "char list \<Rightarrow> char list list option" where
  "recibir_valores b =
     (if b = [] then Some []
      else do { (tamanio, b1) \<leftarrow> recibir_int b;
                (valor, b2) \<leftarrow> recibir_bytes tamanio b1;
                valores \<leftarrow> recibir_valores b2;
                Some (valor # valores) })"
  by pat_completeness auto
termination
  by (relation "measure length") (auto simp: recibir_int_def recibir_bytes_def bind_eq_Some_conv list_size_def split: if_splits)

declare recibir_valores.simps [simp del]

definition recibir_paquete :: "char list \<Rightarrow> (char list list \<times> char list) option" where
  "recibir_paquete entrada =
     do { (buffer, e) \<leftarrow> recibir_buffer entrada; valores \<leftarrow> recibir_valores buffer; Some (valores, e) }"

subsection \<open>The handshake\<close>

text \<open>The bytes a side sends, and the bytes left to it. The client returns the socket whatever it is answered.\<close>

definition esperar_cliente :: "char list \<Rightarrow> (char list \<times> char list) option" where
  "esperar_cliente entrada =
     do { (handshake, e) \<leftarrow> recibir_int entrada; Some (le32 (if handshake = 1 then 0 else - 1), e) }"

definition crear_conexion :: "char list \<Rightarrow> (char list \<times> char list) option" where
  "crear_conexion entrada = do { (_, e) \<leftarrow> recibir_int entrada; Some (le32 1, e) }"

subsection \<open>Properties\<close>

fun agregar_valores :: "char list list \<Rightarrow> t_paquete \<Rightarrow> t_paquete option" where
  "agregar_valores [] p = Some p"
| "agregar_valores (v # vs) p = do { q \<leftarrow> agregar_a_paquete p v (list_size v); agregar_valores vs q }"

definition con_longitud :: "char list \<Rightarrow> char list" where
  "con_longitud v = le32 (list_size v) @ v"

lemma lee_bytes_entero: "lee_bytes xs 0 (list_size xs) = Some xs"
  using lee_bytes_todo [of xs "[]"] by simp

lemma enviado_recibido:
  assumes "list_size b + 8 < 2147483648"
  shows "serializar_paquete basura \<lparr>codigo_operacion = cod, paq_buffer = \<lparr>buf_size = list_size b, buf_stream = b\<rparr>\<rparr>
      (i32 (list_size b + 2 * 4)) = Some (le32 cod @ le32 (list_size b) @ b)"
    and "recibir_buffer (le32 (list_size b) @ b @ resto) = Some (b, resto)"
proof -
  have l: "0 \<le> list_size b" "i32 (list_size b) = list_size b" "i32 (list_size b + 8) = list_size b + 8"
    using assms by (simp_all add: list_size_def)
  then have "copia_bytes (map basura [0..<nat (list_size b + 8)]) 0 (le32 cod @ le32 (list_size b) @ b) =
      Some (le32 cod @ le32 (list_size b) @ b)"
    by (simp add: copia_bytes_def list_size_def)
  then show "serializar_paquete basura \<lparr>codigo_operacion = cod, paq_buffer = \<lparr>buf_size = list_size b, buf_stream = b\<rparr>\<rparr>
      (i32 (list_size b + 2 * 4)) = Some (le32 cod @ le32 (list_size b) @ b)"
    using l by (simp add: serializar_paquete_def lee_bytes_entero)
  show "recibir_buffer (le32 (list_size b) @ b @ resto) = Some (b, resto)"
    using l(2) by (simp add: recibir_buffer_def recibir_bytes_lee)
qed

lemma agregar_valores_stream:
  assumes "buf_size (paq_buffer p) = list_size (buf_stream (paq_buffer p))"
    and "list_size (buf_stream (paq_buffer p) @ concat (map con_longitud vs)) < 2147483648"
  shows "agregar_valores vs p = Some (p\<lparr>paq_buffer :=
    \<lparr>buf_size = list_size (buf_stream (paq_buffer p) @ concat (map con_longitud vs)),
     buf_stream = buf_stream (paq_buffer p) @ concat (map con_longitud vs)\<rparr>\<rparr>)"
  using assms
proof (induction vs arbitrary: p)
  case (Cons v vs)
  let ?s = "buf_stream (paq_buffer p)"
  let ?q = "p\<lparr>paq_buffer := \<lparr>buf_size = list_size (?s @ con_longitud v), buf_stream = ?s @ con_longitud v\<rparr>\<rparr>"
  have "list_size (?s @ con_longitud v) < 2147483648" using Cons.prems(2) by (simp add: list_size_def)
  then have "i32 (list_size ?s + list_size v + 4) = list_size (?s @ con_longitud v)"
    by (simp add: con_longitud_def list_size_def)
  then have "agregar_a_paquete p v (list_size v) = Some ?q"
    using Cons.prems(1) by (simp add: agregar_a_paquete_def lee_bytes_entero con_longitud_def Let_def)
  moreover have "agregar_valores vs ?q = Some (?q\<lparr>paq_buffer :=
    \<lparr>buf_size = list_size (buf_stream (paq_buffer ?q) @ concat (map con_longitud vs)),
     buf_stream = buf_stream (paq_buffer ?q) @ concat (map con_longitud vs)\<rparr>\<rparr>)"
    by (rule Cons.IH) (use Cons.prems in simp_all)
  ultimately show ?case by simp
qed simp

lemma recibir_valores_concat:
  assumes "\<forall>v\<in>set vs. list_size v < 2147483648"
  shows "recibir_valores (concat (map con_longitud vs)) = Some vs"
  using assms
proof (induction vs)
  case (Cons v vs)
  have "recibir_int (con_longitud v @ x) = Some (list_size v, v @ x)" for x
    using Cons.prems by (simp add: con_longitud_def list_size_def)
  moreover have "con_longitud v \<noteq> []" by (simp add: con_longitud_def le32_def)
  ultimately show ?case
    using Cons by (subst recibir_valores.simps) (simp add: recibir_bytes_lee)
qed (simp add: recibir_valores.simps)

text \<open>C26. Round trip of packets. Values of any number and any length, added one by one to a new packet and sent, are
  what the receiver gets, as long as the whole packet is shorter than 2 GB: the operation code announces a packet,
  the loop of \<open>recibir_paquete\<close> ends exactly at the end of the buffer, and no byte behind it is consumed.\<close>

theorem paquete_ida_y_vuelta:
  assumes "list_size (concat (map con_longitud vs)) + 8 < 2147483648"
  shows "\<exists>p m e. agregar_valores vs crear_paquete = Some p \<and> enviar_paquete basura p = Some m \<and>
    recibir_operacion (m @ resto) = Some (PAQUETE, e) \<and> recibir_paquete e = Some (vs, resto)"
proof -
  let ?b = "concat (map con_longitud vs)"
  have p: "agregar_valores vs crear_paquete =
      Some \<lparr>codigo_operacion = PAQUETE, paq_buffer = \<lparr>buf_size = list_size ?b, buf_stream = ?b\<rparr>\<rparr>"
    using agregar_valores_stream [of crear_paquete vs] assms
    by (simp add: crear_paquete_def crear_buffer_def list_size_def)
  have l: "0 \<le> list_size ?b" "list_size ?b < 2147483640" using assms by (simp_all add: list_size_def)
  note m = enviado_recibido(1) [OF assms, of basura PAQUETE] enviado_recibido(2) [OF assms, of resto]
  have "list_size v < 2147483648" if "v \<in> set vs" for v
  proof -
    have "length (con_longitud v) \<le> length ?b" using that by (induction vs) auto
    then show ?thesis using l by (simp add: con_longitud_def list_size_def)
  qed
  then have "recibir_paquete (le32 (list_size ?b) @ ?b @ resto) = Some (vs, resto)"
    using m(2) recibir_valores_concat [of vs] by (simp add: recibir_paquete_def)
  then show ?thesis using p m(1) by (simp add: recibir_operacion_def enviar_paquete_def)
qed

theorem paquete_ida_y_vuelta_witness:
  "\<exists>p m e. agregar_valores [''uno'', [], ''dos''] crear_paquete = Some p \<and> enviar_paquete (\<lambda>_. CHR 0x00) p = Some m \<and>
    recibir_operacion (m @ ''xyz'') = Some (PAQUETE, e) \<and> recibir_paquete e = Some ([''uno'', [], ''dos''], ''xyz'')"
  by (rule paquete_ida_y_vuelta) (simp add: con_longitud_def list_size_def)

text \<open>A message arrives as the text that was sent, when it has no byte 0.\<close>

lemma mensaje_ida_y_vuelta:
  assumes "list_size mensaje + 9 < 2147483648" "CHR 0x00 \<notin> set mensaje"
  shows "\<exists>m e. enviar_mensaje basura mensaje = Some m \<and> recibir_operacion (m @ resto) = Some (MENSAJE, e) \<and>
    recibir_mensaje e = Some (mensaje, resto)"
proof -
  define b where "b = mensaje @ [CHR 0x00]"
  have l: "list_size b = list_size mensaje + 1" "list_size b + 8 < 2147483648" "i32 (list_size mensaje + 1) = list_size b"
    using assms(1) by (simp_all add: b_def list_size_def)
  note m = enviado_recibido(1) [OF l(2), of basura MENSAJE] enviado_recibido(2) [OF l(2), of resto]
  have "texto b = Some mensaje" using assms(2) by (simp add: texto_def takeWhile_append b_def)
  then have "recibir_mensaje (le32 (list_size b) @ b @ resto) = Some (mensaje, resto)" using m(2) by (simp add: recibir_mensaje_def)
  moreover have "enviar_mensaje basura mensaje = Some (le32 MENSAJE @ le32 (list_size b) @ b)"
    using m(1) unfolding enviar_mensaje_def Let_def l(3) b_def [symmetric] by simp
  ultimately show ?thesis by (simp add: recibir_operacion_def)
qed

text \<open>Two sides that connect agree, and the client would go on if they did not.\<close>

lemma handshake_aceptado: "esperar_cliente (le32 1) = Some (le32 0, []) \<and> crear_conexion (le32 0) = Some (le32 1, [])"
  by (simp add: esperar_cliente_def crear_conexion_def)

lemma handshake_ignorado: "crear_conexion (le32 x @ resto) = Some (le32 1, resto)"
  by (simp add: crear_conexion_def)

end
