(* ===== verification/Kernel_Fallos.thy ===== *)
theory Kernel_Fallos
  imports Kernel_Propiedades
begin

section \<open>Kernel: deadlock recovery, devices and suspension\<close>

text \<open>
  What the deadlock thread does to processes that wait for the only semaphore, what is lost when a device
  finishes early, and how far the medium term scheduler gets.
\<close>

subsection \<open>Deadlock detection\<close>

lemma buscar_pid_vivo:
  "\<forall>p\<in>set ps. pcbs k p \<noteq> None \<Longrightarrow>
    \<exists>r. buscar_pid k pid ps = Some r \<and>
      (case r of None \<Rightarrow> \<forall>p\<in>set ps. \<forall>q. pcbs k p = Some q \<longrightarrow> pcb_PID q \<noteq> pid
       | Some p \<Rightarrow> p \<in> set ps \<and> (\<exists>q. pcbs k p = Some q \<and> pcb_PID q = pid))"
proof (induction ps)
  case (Cons p ps)
  then obtain q where "pcbs k p = Some q" by auto
  with Cons show ?case by (cases "pcb_PID q = pid") (auto split: option.splits)
qed simp

text \<open>Everybody with the number forgets what it waits for.\<close>

definition olvida :: "int \<Rightarrow> ptr list \<Rightarrow> kernel \<Rightarrow> kernel" where
  "olvida pid ps k = k\<lparr>pcbs := (\<lambda>x. if x \<in> set ps
     then map_option (\<lambda>q. if pcb_PID q = pid then q\<lparr>pcb_semaforoRequerido := None\<rparr> else q) (pcbs k x) else pcbs k x)\<rparr>"

lemma reasignarProceso_olvida:
  assumes "\<forall>p\<in>set ps. pcbs k p \<noteq> None"
    and "\<forall>p\<in>set ps. dir_baja E p < 0 \<or> list_size (processBlocked k) \<le> dir_baja E p"
  shows "reasignarProceso E pid ps k = Some (olvida pid ps k)"
  using assms
proof (induction ps arbitrary: k)
  case Nil
  then show ?case by (simp add: olvida_def)
next
  case (Cons p ps)
  obtain q where q: "pcbs k p = Some q" using Cons.prems(1) by auto
  let ?k = "if pcb_PID q = pid then k\<lparr>pcbs := (pcbs k)(p \<mapsto> q\<lparr>pcb_semaforoRequerido := None\<rparr>)\<rparr> else k"
  have "reasignarProceso E pid (p # ps) k = reasignarProceso E pid ps ?k"
    using q Cons.prems(2) by (auto simp: modifica_pcb_def exige_def)
  also have "\<dots> = Some (olvida pid ps ?k)" using Cons.prems by (intro Cons.IH) auto
  also have "olvida pid ps ?k = olvida pid (p # ps) k"
    using q by (auto simp: olvida_def fun_eq_iff map_option_case split: option.splits)
  finally show ?case .
qed

lemma comprobar_sin_semaforo:
  assumes "length (semaforosKernel k) \<le> 1" "\<forall>p\<in>set (processBlocked k). pcbs k p \<noteq> None"
    and "\<forall>p\<in>set (processBlocked k). dir_baja E p < 0 \<or> list_size (processBlocked k) \<le> dir_baja E p"
    and "p \<in> set (butlast (processBlocked k))" "pcbs k p = Some q"
  shows "comprobarDeadlock E (pcb_PID q) k = Some (0, olvida (pcb_PID q) (processBlocked k) k)"
proof -
  have "\<forall>p\<in>set (butlast (processBlocked k)). pcbs k p \<noteq> None" using assms(2) in_set_butlastD by fast
  from buscar_pid_vivo [OF this, of "pcb_PID q"] obtain r where r: "conseguirPcb k (pcb_PID q) = Some r"
    "case r of None \<Rightarrow> \<forall>x\<in>set (butlast (processBlocked k)). \<forall>y. pcbs k x = Some y \<longrightarrow> pcb_PID y \<noteq> pcb_PID q
       | Some p \<Rightarrow> \<exists>y. pcbs k p = Some y \<and> pcb_PID y = pcb_PID q"
    by (auto simp: conseguirPcb_def split: option.splits)
  then obtain p' q' where p': "conseguirPcb k (pcb_PID q) = Some (Some p')" "pcbs k p' = Some q'" "pcb_PID q' = pcb_PID q"
    using assms(4,5) by (cases r) auto
  have "butlast (semaforosKernel k) = []" using assms(1) by (cases "semaforosKernel k") auto
  then have "conseguirSemaforo k n = Some None" for n by (simp add: conseguirSemaforo_def)
  then show ?thesis
    using p' reasignarProceso_olvida [OF assms(2,3), of "pcb_PID q"]
    by (subst comprobarDeadlock.simps) simp
qed

text \<open>The processes in front of the list no longer wait for anything, and no process waits again.\<close>

definition olvidados :: "kernel \<Rightarrow> kernel \<Rightarrow> int \<Rightarrow> int \<Rightarrow> bool" where
  "olvidados k k' i j \<longleftrightarrow>
     processBlocked k' = processBlocked k \<and> semaforosKernel k' = semaforosKernel k \<and>
     processSuspendedBlocked k' = processSuspendedBlocked k \<and>
     (\<forall>p\<in>set (processBlocked k). \<forall>q. pcbs k p = Some q \<longrightarrow>
        (\<exists>q'. pcbs k' p = Some q' \<and> (pcb_semaforoRequerido q' = None \<or> q' = q))) \<and>
     (\<forall>m. i \<le> int m \<and> int m < j \<and> int m < list_size (processBlocked k) - 1 \<longrightarrow>
        (\<exists>q'. pcbs k' (processBlocked k ! m) = Some q' \<and> pcb_semaforoRequerido q' = None))"

lemma revisar_olvida:
  assumes "length (semaforosKernel k) \<le> 1" "\<forall>p\<in>set (processBlocked k). pcbs k p \<noteq> None"
    and "\<forall>p\<in>set (processBlocked k). dir_baja E p < 0 \<or> list_size (processBlocked k) \<le> dir_baja E p"
    and "0 \<le> i"
  shows "\<exists>k'. revisar_bloqueados E n i k = Some k' \<and> olvidados k k' i (i + int n)"
  using assms
proof (induction n arbitrary: i k)
  case 0
  then show ?case by (auto simp: olvidados_def)
next
  case (Suc n)
  show ?case
  proof (cases "i < list_size (processBlocked k) - 1")
    case False
    then show ?thesis using Suc.prems by (auto simp: olvidados_def)
  next
    case True
    let ?bs = "processBlocked k"
    let ?p = "?bs ! nat i"
    have l: "nat i < length ?bs - 1" using True Suc.prems(4) by (auto simp: list_size_def)
    have g: "list_get ?bs i = Some ?p" using True Suc.prems(4) by (simp add: list_get_def)
    have "butlast ?bs ! nat i = ?p" using l by (simp add: nth_butlast)
    moreover have "nat i < length (butlast ?bs)" using l by simp
    ultimately have pb: "?p \<in> set (butlast ?bs)" using nth_mem by metis
    have ps: "?p \<in> set ?bs" using l by simp
    obtain q where q: "pcbs k ?p = Some q" using Suc.prems(2) ps by auto
    let ?k = "olvida (pcb_PID q) ?bs k"
    have c: "comprobarDeadlock E (pcb_PID q) k = Some (0, ?k)"
      using comprobar_sin_semaforo [OF Suc.prems(1-3) pb q] .
    then have e: "revisar_bloqueados E (Suc n) i k = revisar_bloqueados E n (i + 1) ?k"
      using True g q by simp
    obtain k' where k': "revisar_bloqueados E n (i + 1) ?k = Some k'" "olvidados ?k k' (i + 1) (i + 1 + int n)"
      using Suc.IH [of ?k "i + 1"] Suc.prems by (auto simp: olvida_def)
    have here: "\<exists>q'. pcbs ?k ?p = Some q' \<and> pcb_semaforoRequerido q' = None"
      using q ps by (simp add: olvida_def)
    have step: "\<exists>q'. pcbs ?k p = Some q' \<and> (pcb_semaforoRequerido q' = None \<or> q' = qq)"
      if "p \<in> set ?bs" "pcbs k p = Some qq" for p qq
      using that by (auto simp: olvida_def)
    have "olvidados k k' i (i + int (Suc n))"
      unfolding olvidados_def
    proof (intro conjI ballI allI impI)
      show "processBlocked k' = ?bs" "semaforosKernel k' = semaforosKernel k"
        "processSuspendedBlocked k' = processSuspendedBlocked k"
        using k'(2) by (simp_all add: olvidados_def olvida_def)
      fix p qq assume "p \<in> set ?bs" "pcbs k p = Some qq"
      then show "\<exists>q'. pcbs k' p = Some q' \<and> (pcb_semaforoRequerido q' = None \<or> q' = qq)"
        using step k'(2) by (fastforce simp: olvidados_def olvida_def)
    next
      fix m assume m: "i \<le> int m \<and> int m < i + int (Suc n) \<and> int m < list_size ?bs - 1"
      show "\<exists>q'. pcbs k' (?bs ! m) = Some q' \<and> pcb_semaforoRequerido q' = None"
      proof (cases "int m = i")
        case True
        then have "?bs ! m = ?p" by auto
        then show ?thesis using here ps k'(2) by (fastforce simp: olvidados_def olvida_def)
      next
        case False
        then have "i + 1 \<le> int m \<and> int m < i + 1 + int n \<and> int m < list_size (processBlocked ?k) - 1"
          using m by (auto simp: olvida_def)
        then show ?thesis using k'(2) by (auto simp: olvidados_def olvida_def)
      qed
    qed
    then show ?thesis using e k'(1) by auto
  qed
qed

text \<open>C33. Deadlock detection stops the kernel. The search for a semaphore leaves out the last one of the
  list, so with a single semaphore every blocked process but the last is found to wait for none and
  what it waits for is set to NULL. The next post of any process compares that NULL and has no defined
  outcome.\<close>

theorem deadlock_borra_espera:
  assumes "length (semaforosKernel k) \<le> 1" "2 \<le> length (processBlocked k)"
    and "\<forall>p\<in>set (processBlocked k). pcbs k p \<noteq> None"
    and "\<forall>p\<in>set (processBlocked k). dir_baja E p < 0 \<or> list_size (processBlocked k) \<le> dir_baja E p"
    and "processSuspendedBlocked k = []"
  shows "\<exists>k'. chequearDeadlock E k = Some k' \<and> processBlocked k' = processBlocked k \<and>
    (\<forall>p\<in>set (butlast (processBlocked k)). \<exists>q. pcbs k' p = Some q \<and> pcb_semaforoRequerido q = None) \<and>
    (\<forall>nombre. desbloquearProcesoPorSemaforo E nombre k' = None)"
proof -
  let ?bs = "processBlocked k" and ?k = "k\<lparr>procesosEnDeadlock := []\<rparr>"
  obtain k' where k': "revisar_bloqueados E (length ?bs) 0 ?k = Some k'" "olvidados ?k k' 0 (0 + int (length ?bs))"
    using revisar_olvida [of ?k E 0 "length ?bs"] assms(1,3,4) by auto
  have n: "\<exists>q. pcbs k' (?bs ! m) = Some q \<and> pcb_semaforoRequerido q = None" if "m < length ?bs - 1" for m
  proof -
    have "0 \<le> int m \<and> int m < 0 + int (length ?bs) \<and> int m < list_size (processBlocked ?k) - 1"
      using that by (auto simp: list_size_def)
    then show ?thesis using k'(2) by (auto simp: olvidados_def)
  qed
  have "\<exists>q. pcbs k' p = Some q \<and> pcb_semaforoRequerido q = None" if pb: "p \<in> set (butlast ?bs)" for p
  proof -
    obtain m where "m < length ?bs - 1" "p = butlast ?bs ! m" using pb unfolding in_set_conv_nth by auto
    then show ?thesis using n [of m] by (simp add: nth_butlast)
  qed
  moreover have "chequearDeadlock E k = Some k'" using assms(2) k'(1) by (auto simp: chequearDeadlock_def)
  moreover have b: "processBlocked k' = ?bs" "processSuspendedBlocked k' = []"
    using k'(2) assms(5) by (simp_all add: olvidados_def)
  moreover have "desbloquearProcesoPorSemaforo E nombre k' = None" for nombre
  proof -
    obtain p ps where p: "?bs = p # ps" using assms(2) by (cases ?bs) auto
    moreover from p have "ps \<noteq> []" using assms(2) by auto
    ultimately obtain q where "pcbs k' p = Some q" "pcb_semaforoRequerido q = None" using n [of 0] by auto
    then show ?thesis using b p by (simp add: desbloquearProcesoPorSemaforo_def)
  qed
  ultimately show ?thesis by auto
qed

theorem deadlock_borra_espera_witness:
  "\<exists>k'. chequearDeadlock entorno_k (kernel_k\<lparr>processBlocked := [0, 1],
      pcbs := [0 \<mapsto> (pcb_k 7)\<lparr>pcb_semaforoRequerido := Some ''s''\<rparr>,
               1 \<mapsto> (pcb_k 8)\<lparr>pcb_semaforoRequerido := Some ''s''\<rparr>]\<rparr>) = Some k' \<and>
    desbloquearProcesoPorSemaforo entorno_k ''s'' k' = None"
  using deadlock_borra_espera [of "kernel_k\<lparr>processBlocked := [0, 1],
      pcbs := [0 \<mapsto> (pcb_k 7)\<lparr>pcb_semaforoRequerido := Some ''s''\<rparr>,
               1 \<mapsto> (pcb_k 8)\<lparr>pcb_semaforoRequerido := Some ''s''\<rparr>]\<rparr>" entorno_k]
  by (force simp: kernel_k_def entorno_k_def)

text \<open>C28. A turn of deadlock detection ends by itself. The walk from process to owner is total, the list of
  blocked processes never grows, and the number of blocked processes bounds the turns of the loop: any
  larger bound gives the same turn, so the bound of \<open>chequearDeadlock\<close> never cuts it off.\<close>

theorem revision_completa:
  assumes "length (processBlocked k) \<le> n"
  shows "chequearDeadlock E k =
      (if processBlocked k = [] then Some k else revisar_bloqueados E n 0 (k\<lparr>procesosEnDeadlock := []\<rparr>)) \<and>
    (\<forall>k'. chequearDeadlock E k = Some k' \<longrightarrow> length (processBlocked k') \<le> length (processBlocked k))"
proof -
  have "revisar_bloqueados E (length (processBlocked k)) 0 (k\<lparr>procesosEnDeadlock := []\<rparr>) =
      revisar_bloqueados E n 0 (k\<lparr>procesosEnDeadlock := []\<rparr>)"
    using assms by (intro revisar_bastante) (auto simp: list_size_def)
  then have e: "chequearDeadlock E k =
      (if processBlocked k = [] then Some k else revisar_bloqueados E n 0 (k\<lparr>procesosEnDeadlock := []\<rparr>))"
    by (simp add: chequearDeadlock_def)
  then show ?thesis using revisar_longitud [of E n 0 "k\<lparr>procesosEnDeadlock := []\<rparr>"] by (auto split: if_splits)
qed

theorem revision_completa_witness:
  "chequearDeadlock entorno_k (kernel_k\<lparr>processBlocked := [0, 1],
      pcbs := [0 \<mapsto> (pcb_k 7)\<lparr>pcb_semaforoRequerido := Some ''s''\<rparr>,
               1 \<mapsto> (pcb_k 8)\<lparr>pcb_semaforoRequerido := Some ''s''\<rparr>]\<rparr>) =
    revisar_bloqueados entorno_k 5 0 (kernel_k\<lparr>processBlocked := [0, 1],
      pcbs := [0 \<mapsto> (pcb_k 7)\<lparr>pcb_semaforoRequerido := Some ''s''\<rparr>,
               1 \<mapsto> (pcb_k 8)\<lparr>pcb_semaforoRequerido := Some ''s''\<rparr>],
      procesosEnDeadlock := []\<rparr>)"
  using revision_completa [of "kernel_k\<lparr>processBlocked := [0, 1],
      pcbs := [0 \<mapsto> (pcb_k 7)\<lparr>pcb_semaforoRequerido := Some ''s''\<rparr>,
               1 \<mapsto> (pcb_k 8)\<lparr>pcb_semaforoRequerido := Some ''s''\<rparr>]\<rparr>" 5 entorno_k] by simp

subsection \<open>Devices\<close>

lemma posicion_pid_ninguno:
  "\<forall>p\<in>set ps. \<exists>q. pcbs k p = Some q \<and> pcb_PID q \<noteq> pid \<Longrightarrow> posicion_pid k pid ps i = Some None"
  by (induction ps arbitrary: i) auto

text \<open>C34. A device that finishes early loses its process. A CPU queues the request of its process before it
  puts the process in the list of blocked processes. When the thread of the devices serves the request in
  between, it finds nobody to wake; afterwards the process is blocked, the queue of requests is empty and
  nothing announces it.\<close>

theorem io_pierde_proceso:
  assumes "cpu_pcb (cpusExec k ! i) = Some p" "pcbs k p = Some q"
    and "encolarIO p recurso k = Some k1" "colaIO k = []" "ejecutarIO k = 0" "texto recurso = Some nombre"
    and "\<forall>x\<in>set (processBlocked k @ processSuspendedBlocked k). \<exists>y. pcbs k x = Some y \<and> pcb_PID y \<noteq> pcb_PID q"
  shows "\<exists>k2 k3. planificadorIO E (k1\<lparr>ejecutarIO := 0\<rparr>) = Some k2 \<and> cpu_bloquear i k2 = Some k3 \<and>
    processBlocked k3 = processBlocked k @ [p] \<and> processReady k3 = processReady k \<and>
    colaIO k3 = [] \<and> ejecutarIO k3 = 0"
proof -
  have k1: "k1 = k\<lparr>colaIO := [\<lparr>ior_PID = pcb_PID q, ior_nombre = recurso\<rparr>], ejecutarIO := 1\<rparr>"
    using assms(2-5) by (auto simp: encolarIO_def)
  let ?k = "k\<lparr>colaIO := [], ejecutarIO := 0\<rparr>"
  obtain r where "io_tomar (k1\<lparr>ejecutarIO := 0\<rparr>) = Some (\<lparr>ior_PID = pcb_PID q, ior_nombre = recurso\<rparr>, r, ?k)"
    using assms(6) by (cases "dispositivosIO k = []") (simp_all add: io_tomar_def k1)
  moreover have "posicion_pid ?k (pcb_PID q) (processBlocked ?k) 0 = Some None"
    "posicion_pid ?k (pcb_PID q) (processSuspendedBlocked ?k) 0 = Some None"
    using assms(7) by (auto intro!: posicion_pid_ninguno)
  ultimately have "planificadorIO E (k1\<lparr>ejecutarIO := 0\<rparr>) = Some ?k"
    by (simp add: planificadorIO_def desbloquearPID_def)
  moreover have "cpu_bloquear i ?k = Some (?k\<lparr>processBlocked := processBlocked k @ [p],
      pcbs := (pcbs k)(p \<mapsto> q\<lparr>pcb_IO_finished := 1\<rparr>), ejecutar := 1\<rparr>)"
    using assms(1,2) by (simp add: cpu_bloquear_def modifica_pcb_def)
  ultimately show ?thesis by simp
qed

theorem io_pierde_proceso_witness:
  "\<exists>k1 k2 k3. encolarIO 0 (''disco'' @ [CHR 0x00]) kernel_k = Some k1 \<and>
    planificadorIO entorno_k (k1\<lparr>ejecutarIO := 0\<rparr>) = Some k2 \<and> cpu_bloquear 0 k2 = Some k3 \<and>
    processBlocked k3 = [0] \<and> colaIO k3 = []"
proof -
  have "\<exists>k1. encolarIO 0 (''disco'' @ [CHR 0x00]) kernel_k = Some k1" by (simp add: encolarIO_def kernel_k_def)
  then obtain k1 where k1: "encolarIO 0 (''disco'' @ [CHR 0x00]) kernel_k = Some k1" ..
  have "\<exists>k2 k3. planificadorIO entorno_k (k1\<lparr>ejecutarIO := 0\<rparr>) = Some k2 \<and> cpu_bloquear 0 k2 = Some k3 \<and>
    processBlocked k3 = processBlocked kernel_k @ [0] \<and> processReady k3 = processReady kernel_k \<and>
    colaIO k3 = [] \<and> ejecutarIO k3 = 0"
    by (rule io_pierde_proceso [OF _ _ k1, of 0 "pcb_k 7" "''disco''"]) (simp_all add: kernel_k_def texto_def)
  then show ?thesis using k1 by (auto simp: kernel_k_def)
qed

subsection \<open>Suspension\<close>

lemma pmp_no_vuelve: "paso E S T \<Longrightarrow> pmp_sigue T \<Longrightarrow> pmp_sigue S"
  by (cases rule: paso.cases) (auto split: if_splits)



end
