(* ===== verification/Kernel_Ejecutable.thy ===== *)
theory Kernel_Ejecutable
  imports Kernel_Propiedades
begin

section \<open>Kernel: runs\<close>

text \<open>
  The step relation as a function of the thread that runs, with the bytes it receives, so that runs can be
  computed.
\<close>

datatype accion =
    Llegada int "char list" | PlpNuevo | PlpLugar | PlpPausa | PcpReady | PcpTurno
  | Despierta nat | Escucha nat | Sale nat | Mensaje nat "char list" "char list" | Bloquea nat
  | Fin | Pmp | IoToma | IoFin | Deadlock

definition baja :: "nat \<Rightarrow> nat option" where
  "baja n = (if n = 0 then None else Some (n - 1))"

definition en_cpu :: "nat \<Rightarrow> pc_cpu \<Rightarrow> sistema \<Rightarrow> unit option" where
  "en_cpu i c S = exige (i < length (pcs S) \<and> pcs S ! i = c)"

fun da_paso :: "entorno_kernel \<Rightarrow> accion \<Rightarrow> sistema \<Rightarrow> sistema option" where
  "da_paso E (Llegada fd entrada) S =
     do { (k, _, _) \<leftarrow> aceptar_carpincho E fd entrada (kern S); Some (S\<lparr>kern := k\<rparr>) }"
| "da_paso E PlpNuevo S =
     do { _ \<leftarrow> exige (plp S = PLP_Nuevo);
          n \<leftarrow> baja (procesoNuevo (kern S));
          Some (S\<lparr>kern := (kern S)\<lparr>procesoNuevo := n\<rparr>, plp := if plp_admite (kern S) then PLP_Lugar else PLP_Nuevo\<rparr>) }"
| "da_paso E PlpLugar S =
     do { _ \<leftarrow> exige (plp S = PLP_Lugar);
          n \<leftarrow> baja (puedeEntrarAlSistema (kern S));
          k \<leftarrow> plp_mover E ((kern S)\<lparr>puedeEntrarAlSistema := n\<rparr>);
          Some (if plp_cede k then S\<lparr>kern := plp_ceder k, plp := PLP_Ceder\<rparr> else S\<lparr>kern := k, plp := PLP_Nuevo\<rparr>) }"
| "da_paso E PlpPausa S =
     do { _ \<leftarrow> exige (plp S = PLP_Ceder); Some (S\<lparr>kern := plp_retomar (kern S), plp := PLP_Nuevo\<rparr>) }"
| "da_paso E PcpReady S =
     do { _ \<leftarrow> exige (pcp S = PCP_Ready);
          n \<leftarrow> baja (cantidadCarpinchosEnReady (kern S));
          Some (S\<lparr>kern := (kern S)\<lparr>cantidadCarpinchosEnReady := n\<rparr>, pcp := PCP_Turno\<rparr>) }"
| "da_paso E PcpTurno S =
     do { _ \<leftarrow> exige (pcp S = PCP_Turno);
          n \<leftarrow> baja (planificar (kern S));
          k \<leftarrow> planificarPorSJFSinDesalojo E ((kern S)\<lparr>planificar := n\<rparr>);
          Some (S\<lparr>kern := k, pcp := PCP_Ready\<rparr>) }"
| "da_paso E (Despierta i) S =
     do { _ \<leftarrow> en_cpu i Dormida S;
          n \<leftarrow> baja (cpu_semaforo (cpusExec (kern S) ! i));
          k \<leftarrow> cpu_despertar i (cambia_cpu i (\<lambda>u. u\<lparr>cpu_semaforo := n\<rparr>) (kern S));
          Some (S\<lparr>kern := k, pcs := (pcs S)[i := Cabeza]\<rparr>) }"
| "da_paso E (Escucha i) S =
     do { _ \<leftarrow> en_cpu i Cabeza S;
          sigue \<leftarrow> cpu_sigue i (kern S);
          _ \<leftarrow> exige sigue;
          (k, _) \<leftarrow> cpu_esperar i (kern S);
          Some (S\<lparr>kern := k, pcs := (pcs S)[i := Esperando]\<rparr>) }"
| "da_paso E (Sale i) S =
     do { _ \<leftarrow> en_cpu i Cabeza S;
          sigue \<leftarrow> cpu_sigue i (kern S);
          _ \<leftarrow> exige (\<not> sigue);
          Some (S\<lparr>kern := cpu_salir i (kern S), pcs := (pcs S)[i := Dormida]\<rparr>) }"
| "da_paso E (Mensaje i entrada mem) S =
     do { _ \<leftarrow> en_cpu i Esperando S;
          (pendiente, k, _) \<leftarrow> cpu_atender E i entrada mem (kern S);
          Some (S\<lparr>kern := k, pcs := (pcs S)[i := if pendiente then Bloqueando else Cabeza]\<rparr>) }"
| "da_paso E (Bloquea i) S =
     do { _ \<leftarrow> en_cpu i Bloqueando S;
          k \<leftarrow> cpu_bloquear i (kern S);
          Some (S\<lparr>kern := k, pcs := (pcs S)[i := Cabeza]\<rparr>) }"
| "da_paso E Fin S =
     do { n \<leftarrow> baja (semFinalizarProceso (kern S));
          (k, _) \<leftarrow> finalizarProceso E ((kern S)\<lparr>semFinalizarProceso := n\<rparr>);
          Some (S\<lparr>kern := k\<rparr>) }"
| "da_paso E Pmp S =
     do { _ \<leftarrow> exige (pmp_sigue S);
          n \<leftarrow> baja (planifMedianoPlazo (kern S));
          let (atascado, k) = planificadorMedianoPlazo ((kern S)\<lparr>planifMedianoPlazo := n\<rparr>);
          Some (S\<lparr>kern := k, pmp_sigue := \<not> atascado\<rparr>) }"
| "da_paso E IoToma S =
     do { _ \<leftarrow> exige (io_actual S = None);
          n \<leftarrow> baja (ejecutarIO (kern S));
          (r, _, k) \<leftarrow> io_tomar ((kern S)\<lparr>ejecutarIO := n\<rparr>);
          Some (S\<lparr>kern := k, io_actual := Some r\<rparr>) }"
| "da_paso E IoFin S =
     do { r \<leftarrow> io_actual S;
          k \<leftarrow> desbloquearPID E (ior_PID r) (kern S);
          Some (S\<lparr>kern := k, io_actual := None\<rparr>) }"
| "da_paso E Deadlock S = do { k \<leftarrow> chequearDeadlock E (kern S); Some (S\<lparr>kern := k\<rparr>) }"

fun ejecuta :: "entorno_kernel \<Rightarrow> accion list \<Rightarrow> sistema \<Rightarrow> sistema option" where
  "ejecuta E [] S = Some S"
| "ejecuta E (a # as) S = do { T \<leftarrow> da_paso E a S; ejecuta E as T }"

lemma baja_Some [simp]: "baja n = Some m \<longleftrightarrow> n = Suc m"
  by (cases n) (auto simp: baja_def)

lemma exige_Some: "exige b = Some x \<longleftrightarrow> b"
  by (simp add: exige_def)

lemmas da_paso_eqs = bind_eq_Some_conv en_cpu_def exige_Some Let_def

lemma da_paso_paso:
  assumes "da_paso E a S = Some T"
  shows "paso E S T"
proof (cases a)
  case Pmp
  then show ?thesis using assms
    by (cases "planificadorMedianoPlazo ((kern S)\<lparr>planifMedianoPlazo := planifMedianoPlazo (kern S) - 1\<rparr>)")
      (auto simp: da_paso_eqs intro: paso.pmp)
qed (use assms in \<open>auto simp: da_paso_eqs split del: if_split intro: paso.intros\<close>)

text \<open>The relation and the function are the same semantics.\<close>

lemma paso_da_paso:
  assumes "paso E S T"
  shows "\<exists>a. da_paso E a S = Some T"
  using assms
proof cases
  case (llegada fd entrada k enviado resto)
  then show ?thesis by (intro exI [of _ "Llegada fd entrada"]) simp
next
  case (plp_nuevo n)
  then show ?thesis by (intro exI [of _ PlpNuevo]) (simp add: da_paso_eqs)
next
  case (plp_lugar n k)
  then show ?thesis by (intro exI [of _ PlpLugar]) (simp add: da_paso_eqs)
next
  case plp_pausa
  then show ?thesis by (intro exI [of _ PlpPausa]) (simp add: da_paso_eqs)
next
  case (pcp_ready n)
  then show ?thesis by (intro exI [of _ PcpReady]) (simp add: da_paso_eqs)
next
  case (pcp_turno n k)
  then show ?thesis by (intro exI [of _ PcpTurno]) (simp add: da_paso_eqs)
next
  case (cpu_despierta i n k)
  then show ?thesis by (intro exI [of _ "Despierta i"]) (simp add: da_paso_eqs)
next
  case (cpu_escucha i k enviado)
  then show ?thesis by (intro exI [of _ "Escucha i"]) (simp add: da_paso_eqs)
next
  case (cpu_sale i)
  then show ?thesis by (intro exI [of _ "Sale i"]) (simp add: da_paso_eqs)
next
  case (cpu_mensaje i entrada mem pendiente k enviado magic resto m)
  then show ?thesis by (intro exI [of _ "Mensaje i entrada mem"]) (simp add: da_paso_eqs)
next
  case (cpu_bloquea i k)
  then show ?thesis by (intro exI [of _ "Bloquea i"]) (simp add: da_paso_eqs)
next
  case (fin n k magic)
  then show ?thesis by (intro exI [of _ Fin]) (simp add: da_paso_eqs)
next
  case (pmp n atascado k)
  then show ?thesis by (intro exI [of _ Pmp]) (simp add: da_paso_eqs)
next
  case (io_toma n r rafaga k)
  then show ?thesis by (intro exI [of _ IoToma]) (simp add: da_paso_eqs)
next
  case (io_fin r k)
  then show ?thesis by (intro exI [of _ IoFin]) (simp add: da_paso_eqs)
next
  case (deadlock k)
  then show ?thesis by (intro exI [of _ Deadlock]) (simp add: da_paso_eqs)
qed

lemma ejecuta_alcanza: "ejecuta E as S = Some T \<Longrightarrow> alcanza E S T"
  by (induction as arbitrary: S) (auto simp: bind_eq_Some_conv intro: converse_rtranclp_into_rtranclp da_paso_paso)

lemma alcanza_ejecuta: "alcanza E S T \<Longrightarrow> \<exists>as. ejecuta E as S = Some T"
proof (induction rule: converse_rtranclp_induct)
  case base
  show ?case by (rule exI [of _ "[]"]) simp
next
  case (step S U)
  then obtain a as where "da_paso E a S = Some U" "ejecuta E as U = Some T" using paso_da_paso by blast
  then show ?case by (intro exI [of _ "a # as"]) simp
qed

lemma alcanza_equivale: "alcanza E S T \<longleftrightarrow> (\<exists>as. ejecuta E as S = Some T)"
  using ejecuta_alcanza alcanza_ejecuta by blast

text \<open>The request of process \<open>pid\<close> with a type and an operation, as bytes.\<close>

definition pide :: "int \<Rightarrow> int \<Rightarrow> int \<Rightarrow> char list" where
  "pide pid tipo op = le32 PROCESS @ cuerpo_de ((instancia_k tipo)\<lparr>mi_PID := pid, sem_operacion := op\<rparr>)"

end
