(* ===== verification/Kernel_Reparto.thy ===== *)
theory Kernel_Reparto
  imports Kernel_Invariante "HOL-Library.Multiset"
begin

section \<open>Kernel: moving processes\<close>

text \<open>
  The operations of the threads only move processes between the queues, as a multiset; none makes room in the
  system, frees a process that stays in a queue, or starts one.
\<close>

subsection \<open>Moving processes\<close>

definition en_colas :: "kernel \<Rightarrow> ptr list" where
  "en_colas k = processNew k @ processReady k @ processBlocked k @ processSuspendedBlocked k @
     processSuspendedReady k @ processExit k"

definition estado_de :: "kernel \<Rightarrow> ptr \<Rightarrow> state option" where
  "estado_de k p = map_option pcb_status (pcbs k p)"

text \<open>The processes that have entered the system and stand in a queue, with the places that are left.\<close>

definition cupo :: "kernel \<Rightarrow> nat" where
  "cupo k = length (processReady k) + length (processBlocked k) + length (processSuspendedBlocked k) +
     length (processSuspendedReady k) + length (processExit k) + puedeEntrarAlSistema k"

text \<open>No process is added to a queue, no place is made, only processes in queues change their state, none starts to execute, and those
  that stay in a queue are not freed, if none stood in two places.\<close>

definition reparte :: "kernel \<Rightarrow> kernel \<Rightarrow> bool" where
  "reparte k k' \<longleftrightarrow>
     mset (en_colas k') \<subseteq># mset (en_colas k) \<and>
     (\<forall>p. p \<notin> set (en_colas k) \<longrightarrow> estado_de k' p = estado_de k p) \<and>
     (\<forall>p. estado_de k' p = Some EXEC \<longrightarrow> estado_de k p = Some EXEC) \<and>
     (distinct (en_colas k) \<longrightarrow> (\<forall>p\<in>set (en_colas k'). estado_de k p \<noteq> None \<longrightarrow> estado_de k' p \<noteq> None)) \<and>
     k_prox k' = k_prox k \<and> cpusExec k' = cpusExec k \<and> cupo k' \<le> cupo k"

lemmas reparte_defs = reparte_def en_colas_def estado_de_def cupo_def

lemma reparte_refl [simp]: "reparte k k"
  by (simp add: reparte_def)

lemma distinct_submset:
  assumes "mset xs \<subseteq># mset ys" "distinct ys"
  shows "distinct xs"
proof -
  have "count (mset xs) x = (if x \<in> set xs then 1 else 0)" for x
  proof (cases "x \<in> set xs")
    case True
    then have "x \<in> set ys" using assms(1) by (metis mset_subset_eqD set_mset_mset)
    then have "count (mset ys) x = 1" using assms(2) by (simp add: distinct_count_atmost_1)
    moreover have "0 < count (mset xs) x" using True by (simp add: count_greater_zero_iff)
    ultimately have "count (mset xs) x = 1" using mset_subset_eq_count [OF assms(1), of x] by linarith
    then show ?thesis using True by simp
  qed simp
  then show ?thesis by (simp add: distinct_count_atmost_1)
qed

lemma reparte_trans [trans]:
  assumes "reparte k k1" "reparte k1 k2"
  shows "reparte k k2"
proof -
  have "set (en_colas k1) \<subseteq> set (en_colas k)" "set (en_colas k2) \<subseteq> set (en_colas k1)"
    using assms by (metis reparte_def set_mset_mset set_mset_mono)+
  moreover have "distinct (en_colas k) \<Longrightarrow> distinct (en_colas k1)"
    using assms(1) by (auto simp: reparte_def intro: distinct_submset)
  ultimately show ?thesis using assms by (auto simp: reparte_def intro: subset_mset.order_trans)
qed

lemma reparte_igual:
  assumes "en_colas k' = en_colas k" "\<forall>p. estado_de k' p = estado_de k p" "k_prox k' = k_prox k" "cpusExec k' = cpusExec k"
    "cupo k' \<le> cupo k"
  shows "reparte k k'"
  using assms by (simp add: reparte_def)

lemma reparte_campos [simp]:
  "reparte k (k\<lparr>semaforosKernel := ss\<rparr>)" "reparte k (k\<lparr>procesosEnDeadlock := ds\<rparr>)"
  "reparte k (k\<lparr>procesosEnDeadlock := ds, PIDAnterior := a\<rparr>)" "reparte k (k\<lparr>k_tiempo := n\<rparr>)"
  "reparte k (k\<lparr>planificacion := x\<rparr>)" "reparte k (k\<lparr>uso := x\<rparr>)" "reparte k (k\<lparr>ejecutar := x\<rparr>)"
  "reparte k (k\<lparr>procesoNuevo := n\<rparr>)" "reparte k (k\<lparr>planificar := n\<rparr>)"
  "reparte k (k\<lparr>cantidadCarpinchosEnReady := n\<rparr>)" "reparte k (k\<lparr>semFinalizarProceso := n\<rparr>)"
  "reparte k (k\<lparr>planifMedianoPlazo := n\<rparr>)" "reparte k (k\<lparr>ejecutarIO := n\<rparr>)" "reparte k (k\<lparr>colaIO := rs\<rparr>)"
  by (rule reparte_igual; simp add: en_colas_def estado_de_def cupo_def)+

lemma reparte_modifica:
  assumes "modifica_pcb p f k = Some k'" "\<And>q. pcb_status (f q) = pcb_status q"
  shows "reparte k k'"
  using assms by (intro reparte_igual) (auto simp: modifica_pcb_def bind_eq_Some_conv en_colas_def estado_de_def cupo_def)

lemma mset_list_remove: "list_get xs j = Some p \<Longrightarrow> mset xs = add_mset p (mset (list_remove xs j))"
proof -
  assume "list_get xs j = Some p"
  then have j: "nat j < length xs" "0 \<le> j" "xs ! nat j = p" by (auto simp: list_get_def list_size_def split: if_splits)
  then have "xs = take (nat j) xs @ p # drop (Suc (nat j)) xs" using id_take_nth_drop by blast
  then have "mset xs = add_mset p (mset (take (nat j) xs @ drop (Suc (nat j)) xs))"
    by (metis mset_append mset.simps(2) union_mset_add_mset_right)
  then show ?thesis using j by (simp add: list_remove_def list_size_def)
qed

lemma list_remove_mset: "mset (list_remove xs j) \<subseteq># mset xs"
proof (cases "0 \<le> j \<and> j < list_size xs")
  case True
  then have "list_get xs j = Some (xs ! nat j)" by (simp add: list_get_def)
  then show ?thesis using mset_list_remove by fastforce
qed (auto simp: list_remove_def)

lemma length_submset: "mset xs \<subseteq># mset ys \<Longrightarrow> length xs \<le> length ys"
  by (metis size_mset size_mset_mono)

lemma length_list_remove: "list_get xs j = Some p \<Longrightarrow> length xs = Suc (length (list_remove xs j))"
  using mset_list_remove [of xs j p] by (metis size_add_mset size_mset)

subsection \<open>The operations\<close>

lemma reparte_crear: "reparte k (crearSemaforoKernel nombre v k)"
  by (simp add: crearSemaforoKernel_def)

lemma reparte_restar: "restarSem nombre k = (r, k') \<Longrightarrow> reparte k k'"
  by (auto simp: restarSem_def suma_valor_def Let_def split: if_splits)

lemma reparte_sumar: "reparte k (sumarSem nombre k)"
  by (simp add: sumarSem_def suma_valor_def Let_def)

lemma reparte_reasignarProcesos: "reasignarProcesos E nombre ps k = Some k' \<Longrightarrow> reparte k k'"
proof (induction ps arbitrary: k)
  case (Cons p ps)
  then show ?case
    by (auto simp: bind_eq_Some_conv split: if_splits intro: reparte_trans [OF reparte_modifica])
qed simp

lemma reparte_eliminar: "eliminarSemaforoKernel E nombre k = Some k' \<Longrightarrow> reparte k k'"
  by (auto simp: eliminarSemaforoKernel_def Let_def split: if_splits
      intro: reparte_trans [OF reparte_campos(1) reparte_reasignarProcesos])

lemma reparte_calcular: "calcularEstimacion E p k = Some k' \<Longrightarrow> reparte k k'"
  by (auto simp: calcularEstimacion_def intro: reparte_modifica)

lemma reparte_pasar_a_ready:
  assumes "pasar_a_ready E j k = Some k'"
  shows "reparte k k'"
proof -
  obtain p k1 k2 where p: "list_get (processBlocked k) j = Some p"
    and k1: "modifica_pcb p (\<lambda>q. q\<lparr>pcb_status := READY\<rparr>) (k\<lparr>processBlocked := list_remove (processBlocked k) j\<rparr>) = Some k1"
    and k2: "calcularEstimacion E p k1 = Some k2"
    and k': "k' = k2\<lparr>processReady := processReady k2 @ [p],
                   cantidadCarpinchosEnReady := Suc (cantidadCarpinchosEnReady k2)\<rparr>"
    using assms by (auto simp: pasar_a_ready_def bind_eq_Some_conv)
  have "p \<in> set (processBlocked k)" using p by (auto simp: list_get_def list_size_def split: if_splits)
  then show ?thesis
    using k1 k2 k' mset_list_remove [OF p] length_list_remove [OF p]
    by (auto simp: reparte_defs modifica_pcb_def calcularEstimacion_def bind_eq_Some_conv split: if_splits)
qed

lemma reparte_desbloquear: "desbloquearProcesoPorSemaforo E nombre k = Some k' \<Longrightarrow> reparte k k'"
  by (auto simp: desbloquearProcesoPorSemaforo_def bind_eq_Some_conv split: option.splits
      intro: reparte_pasar_a_ready)

lemma reparte_desbloquearPID:
  assumes "desbloquearPID E pid k = Some k'"
  shows "reparte k k'"
proof -
  have "reparte k (k\<lparr>processSuspendedBlocked := list_remove (processSuspendedBlocked k) j, suspendidoAReady := n\<rparr>)" for j n
    by (simp add: reparte_defs list_remove_mset length_submset)
  then show ?thesis
    using assms
    by (auto simp: desbloquearPID_def bind_eq_Some_conv split: option.splits if_splits intro: reparte_pasar_a_ready)
qed

lemma pasan_a_ready_mset: "pasan_a_ready k pid ps = Some (qs, rs) \<Longrightarrow> mset qs + mset rs = mset ps"
proof (induction k pid ps arbitrary: qs rs rule: pasan_a_ready.induct)
  case (2 k pid p ps)
  obtain q where q: "pcbs k p = Some q" using "2.prems" by (auto simp: bind_eq_Some_conv)
  show ?case
  proof (cases "pcb_PID q = pid")
    case True
    then show ?thesis using "2.prems" "2.IH"(1) [OF q True] q
      by (fastforce simp: bind_eq_Some_conv split: list.splits)
  next
    case False
    then show ?thesis using "2.prems" "2.IH"(2) [OF q False] q by (auto simp: bind_eq_Some_conv)
  qed
qed simp

lemma reparte_pasarDeBloqueadoAReady:
  assumes "pasarDeBloqueadoAReady pid k = Some k'"
  shows "reparte k k'"
proof -
  obtain qs rs where "pasan_a_ready k pid (processBlocked k) = Some (qs, rs)"
    and k': "k' = k\<lparr>processBlocked := qs, processReady := processReady k @ rs\<rparr>"
    using assms by (auto simp: pasarDeBloqueadoAReady_def bind_eq_Some_conv)
  from pasan_a_ready_mset [OF this(1)] have m: "mset (processBlocked k) = mset qs + mset rs" ..
  then have "length (processBlocked k) = length qs + length rs" by (metis size_mset size_union)
  then show ?thesis using m by (simp add: k' reparte_defs)
qed

text \<open>The processes that are freed are taken out of the list.\<close>

lemma terminar_desde_efecto:
  "terminar_desde E pid ps k = Some (qs, k') \<Longrightarrow>
    \<exists>h. k' = k\<lparr>pcbs := h\<rparr> \<and> mset qs \<subseteq># mset ps \<and> (\<forall>p. h p = pcbs k p \<or> h p = None \<and> p \<in> set ps) \<and>
      (distinct ps \<longrightarrow> (\<forall>p\<in>set qs. h p = pcbs k p))"
proof (induction E pid ps k arbitrary: qs rule: terminar_desde.induct)
  case (1 E pid k)
  then show ?case by (intro exI [of _ "pcbs k"]) simp
next
  case (2 E pid p k)
  then show ?case by (intro exI [of _ "pcbs k"]) simp
next
  case (3 E pid p p2 ps k)
  obtain q where q: "pcbs k p = Some q" using "3.prems" by (auto simp: bind_eq_Some_conv)
  show ?case
  proof (cases "pcb_PID q = pid")
    case True
    then obtain k1 rs where k1: "sacarRecursos E pid k = Some k1"
      "terminar_desde E pid ps (k1\<lparr>pcbs := (pcbs k1)(p := None)\<rparr>) = Some (rs, k')" "qs = p2 # rs"
      using "3.prems" q by (auto simp: bind_eq_Some_conv)
    have "k1 = k" using manso_sacarRecursos [OF k1(1)] .
    with "3.IH"(1) [OF q True k1(1,2)] obtain h where h: "k' = k\<lparr>pcbs := h\<rparr>" "mset rs \<subseteq># mset ps"
      "\<forall>x. h x = ((pcbs k)(p := None)) x \<or> h x = None \<and> x \<in> set ps"
      "distinct ps \<Longrightarrow> \<forall>x\<in>set rs. h x = ((pcbs k)(p := None)) x" by auto
    have "set rs \<subseteq> set ps" using h(2) by (metis set_mset_mset set_mset_mono)
    moreover from h(2) have "mset rs \<subseteq># add_mset p (mset ps)" by (rule subset_mset.order_trans) simp
    moreover have "h p2 = pcbs k p2" if "distinct (p # p2 # ps)"
      using h(3) [rule_format, of p2] that by auto
    ultimately show ?thesis using h k1(3) by (intro exI [of _ h]) (auto split: if_splits)
  next
    case False
    then obtain rs where rs: "terminar_desde E pid (p2 # ps) k = Some (rs, k')" "qs = p # rs"
      using "3.prems" q by (auto simp: bind_eq_Some_conv)
    with "3.IH"(2) [OF q False] obtain h where "k' = k\<lparr>pcbs := h\<rparr>" "mset rs \<subseteq># mset (p2 # ps)"
      "\<forall>x. h x = pcbs k x \<or> h x = None \<and> x \<in> set (p2 # ps)"
      "distinct (p2 # ps) \<longrightarrow> (\<forall>x\<in>set rs. h x = pcbs k x)" by blast
    moreover have "h p = pcbs k p" if "distinct (p # p2 # ps)"
      using calculation(3) [rule_format, of p] that by auto
    ultimately show ?thesis using rs(2) by (intro exI [of _ h]) auto
  qed
qed

lemma reparte_terminarProceso:
  assumes "terminarProceso E pid k = Some k'"
  shows "reparte k k'"
proof -
  obtain qs k1 where t: "terminar_desde E pid (processBlocked k) k = Some (qs, k1)" "k' = k1\<lparr>processBlocked := qs\<rparr>"
    using assms by (auto simp: terminarProceso_def bind_eq_Some_conv)
  then obtain h where h: "k' = k\<lparr>pcbs := h, processBlocked := qs\<rparr>" "mset qs \<subseteq># mset (processBlocked k)"
    "\<forall>p. h p = pcbs k p \<or> h p = None \<and> p \<in> set (processBlocked k)"
    "distinct (processBlocked k) \<longrightarrow> (\<forall>p\<in>set qs. h p = pcbs k p)"
    using terminar_desde_efecto [OF t(1)] by auto
  have "estado_de k' p = estado_de k p \<or> estado_de k' p = None \<and> p \<in> set (processBlocked k)" for p
    using h(1) h(3) [rule_format, of p] by (auto simp: estado_de_def)
  then have "(\<forall>p. p \<notin> set (en_colas k) \<longrightarrow> estado_de k' p = estado_de k p) \<and>
      (\<forall>p. estado_de k' p = Some EXEC \<longrightarrow> estado_de k p = Some EXEC)"
    by (metis Un_iff en_colas_def option.distinct(1) set_append)
  moreover have "estado_de k' p = estado_de k p" if "distinct (en_colas k)" "p \<in> set (en_colas k')" for p
    using h(1) h(3) [rule_format, of p] h(4) that by (auto simp: en_colas_def estado_de_def)
  moreover have "cupo k' \<le> cupo k" using length_submset [OF h(2)] by (simp add: h(1) cupo_def)
  ultimately show ?thesis using h(1,2) by (simp add: reparte_def) (simp add: en_colas_def)
qed

lemma reparte_reasignarProceso: "reasignarProceso E pid ps k = Some k' \<Longrightarrow> reparte k k'"
proof (induction ps arbitrary: k)
  case (Cons p ps)
  then show ?case
    by (auto simp: bind_eq_Some_conv split: if_splits intro: reparte_trans [OF reparte_modifica])
qed simp

lemma reparte_comprobarDeadlock: "comprobarDeadlock E pid k = Some (r, k') \<Longrightarrow> reparte k k'"
  by (erule comprobarDeadlock_conserva [where R = reparte, rotated -1])
    (auto dest: reparte_pasarDeBloqueadoAReady reparte_reasignarProceso intro: reparte_trans)

lemma reparte_revisar: "revisar_bloqueados E n i k = Some k' \<Longrightarrow> reparte k k'"
proof (induction n arbitrary: i k)
  case (Suc n)
  show ?case
  proof (cases "i < list_size (processBlocked k) - 1")
    case True
    then obtain pid r k1 k2 where "comprobarDeadlock E pid k = Some (r, k1)"
      "(if r \<noteq> 0 then terminarProceso E r k1 else Some k1) = Some k2" "revisar_bloqueados E n (i + 1) k2 = Some k'"
      using Suc.prems by (auto simp: bind_eq_Some_conv)
    then have "reparte k k1" "reparte k1 k2" "reparte k2 k'"
      using reparte_comprobarDeadlock reparte_terminarProceso Suc.IH by (auto split: if_splits)
    then show ?thesis by (blast intro: reparte_trans)
  qed (use Suc.prems in simp)
qed simp

lemma reparte_chequearDeadlock: "chequearDeadlock E k = Some k' \<Longrightarrow> reparte k k'"
  by (auto simp: chequearDeadlock_def split: if_splits intro: reparte_trans [OF reparte_campos(2) reparte_revisar])

lemma reparte_plp_mover:
  assumes "plp_mover E (k\<lparr>puedeEntrarAlSistema := n\<rparr>) = Some k'" "puedeEntrarAlSistema k = Suc n"
  shows "reparte k k'"
  using assms
  by (auto simp: plp_mover_def ahora_def Let_def modifica_pcb_def bind_eq_Some_conv reparte_defs split: list.splits if_splits)

lemma reparte_mediano:
  assumes "planificadorMedianoPlazo k = (b, k')"
  shows "reparte k k'"
proof (cases "processReady k = [] \<and> processBlocked k \<noteq> [] \<and> processNew k \<noteq> []")
  case True
  have "mset (processBlocked k) = add_mset (last (processBlocked k)) (mset (butlast (processBlocked k)))"
    using True by (metis append_butlast_last_id mset_append mset.simps union_mset_add_mset_right add.right_neutral)
  then show ?thesis using assms True by (auto simp: planificadorMedianoPlazo_def reparte_defs)
qed (use assms in \<open>auto simp: planificadorMedianoPlazo_def\<close>)

lemma reparte_finalizar:
  assumes "finalizarProceso E k = Some (k', magic)"
  shows "reparte k k'"
  using assms
  by (auto simp: finalizarProceso_def bind_eq_Some_conv reparte_defs split: list.splits if_splits dest!: manso_sacarRecursos)

subsection \<open>A process that leaves its CPU\<close>

definition sale :: "ptr \<Rightarrow> kernel \<Rightarrow> kernel \<Rightarrow> bool" where
  "sale p k k' \<longleftrightarrow>
     mset (en_colas k') = add_mset p (mset (en_colas k)) \<and> (\<forall>x. x \<noteq> p \<longrightarrow> estado_de k' x = estado_de k x) \<and>
     estado_de k' p \<notin> {None, Some EXEC} \<and> k_prox k' = k_prox k \<and> cpusExec k' = cpusExec k \<and>
     cupo k' = Suc (cupo k)"

lemma sale_terminar: "terminar_carpincho p k = Some k' \<Longrightarrow> sale p k k'"
  by (auto simp: terminar_carpincho_def modifica_pcb_def bind_eq_Some_conv sale_def en_colas_def estado_de_def cupo_def)

lemma sale_bloquear:
  "cpu_bloquear i k = Some k' \<Longrightarrow> cpu_pcb (cpusExec k ! i) = Some p \<Longrightarrow> estado_de k p \<noteq> Some EXEC \<Longrightarrow> sale p k k'"
  by (auto simp: cpu_bloquear_def modifica_pcb_def bind_eq_Some_conv sale_def en_colas_def estado_de_def cupo_def)

lemma dejar_cpu_efecto:
  assumes "dejar_cpu E p k = Some k'"
  shows "en_colas k' = en_colas k" "\<forall>x. x \<noteq> p \<longrightarrow> estado_de k' x = estado_de k x" "estado_de k' p = Some BLOCKED"
    "k_prox k' = k_prox k" "cpusExec k' = cpusExec k" "cupo k' = cupo k"
  using assms by (auto simp: dejar_cpu_def ahora_def Let_def modifica_pcb_def bind_eq_Some_conv en_colas_def estado_de_def cupo_def)

lemma cupo_bloqueada: "cupo (k\<lparr>processBlocked := processBlocked k @ [p], ejecutar := x\<rparr>) = Suc (cupo k)"
  by (simp add: cupo_def)

lemma colas_bloqueada: "mset (en_colas (k\<lparr>processBlocked := processBlocked k @ [p], ejecutar := x\<rparr>)) = add_mset p (mset (en_colas k))"
  by (simp add: en_colas_def)

lemma estado_bloqueada: "estado_de (k\<lparr>processBlocked := ps, ejecutar := x\<rparr>) = estado_de k"
  by (simp add: estado_de_def fun_eq_iff)

lemma operacionesSemaforo_efecto:
  assumes "operacionesSemaforo E p c k = Some (k', enviado)"
  shows "\<exists>k1. reparte k k1 \<and> (k' = k1 \<or> sale p k1 k')"
proof -
  obtain nombre k1 where k1: "modifica_pcb p (\<lambda>q. q\<lparr>pcb_semaforoRequerido := Some nombre\<rparr>) k = Some k1"
    and k2: "(if sem_operacion c = INIT then Some (crearSemaforoKernel nombre (sem_valor c) k1)
                 else if sem_operacion c = WAIT
                 then let (resultado, k2) = restarSem nombre k1
                      in if resultado = - 1
                         then do { k3 \<leftarrow> dejar_cpu E p k2;
                                   Some (k3\<lparr>processBlocked := processBlocked k3 @ [p], ejecutar := 1\<rparr>) }
                         else Some k2
                 else if sem_operacion c = POST
                 then desbloquearProcesoPorSemaforo E nombre (sumarSem nombre k1)
                 else if sem_operacion c = DESTROY then eliminarSemaforoKernel E nombre k1
                 else Some k1) = Some k'"
    using assms by (auto simp: operacionesSemaforo_def bind_eq_Some_conv)
  have r: "reparte k k1" by (rule reparte_modifica [OF k1]) simp
  have s: "sale p k2 (k3\<lparr>processBlocked := processBlocked k3 @ [p], ejecutar := 1\<rparr>)" if "dejar_cpu E p k2 = Some k3" for k2 k3
    using dejar_cpu_efecto [OF that] by (simp add: sale_def estado_bloqueada colas_bloqueada cupo_bloqueada)
  have "reparte k1 k' \<or> (\<exists>k2. reparte k1 k2 \<and> sale p k2 k')"
  proof (cases "sem_operacion c = WAIT")
    case True
    then show ?thesis using k2 reparte_restar [of nombre k1] s
      by (auto simp: bind_eq_Some_conv split: if_splits prod.splits)
  next
    case False
    then have "reparte k1 k'" using k2 reparte_crear reparte_trans [OF reparte_sumar reparte_desbloquear]
      by (auto split: if_splits intro: reparte_eliminar)
    then show ?thesis ..
  qed
  then show ?thesis using reparte_trans [OF r] by blast
qed

end
