(* ===== verification/Kernel_Exclusion.thy ===== *)
theory Kernel_Exclusion
  imports Kernel_Ejecutable Kernel_Reparto
begin

section \<open>Kernel: one process, one place\<close>

text \<open>
  With one CPU a process stands in at most one queue, and the process that executes stands in none. The
  degree of multiprogramming is respected, and the schedulers never follow a dead address. With two CPUs both may
  run one process.
\<close>

subsection \<open>The invariant of one CPU\<close>

definition de_cpu :: "pc_cpu \<Rightarrow> kernel \<Rightarrow> ptr \<Rightarrow> bool" where
  "de_cpu c k p \<longleftrightarrow> p < k_prox k \<and> (c = Esperando \<longrightarrow> estado_de k p = Some EXEC) \<and>
     (c = Bloqueando \<longrightarrow> p \<notin> set (en_colas k) \<and> estado_de k p \<notin> {None, Some EXEC})"

text \<open>Whether the CPU holds a process that stands in no queue.\<close>

definition ocupado :: "pc_cpu \<Rightarrow> kernel \<Rightarrow> nat" where
  "ocupado c k = (if c = Bloqueando \<or> (\<exists>p. estado_de k p = Some EXEC) then 1 else 0)"

definition exclusivo :: "nat \<Rightarrow> pc_cpu \<Rightarrow> kernel \<Rightarrow> bool" where
  "exclusivo g c k \<longleftrightarrow>
     distinct (en_colas k) \<and>
     (\<forall>p\<in>set (en_colas k). p < k_prox k \<and> estado_de k p \<notin> {None, Some EXEC}) \<and>
     (\<forall>p. estado_de k p = Some EXEC \<longrightarrow> cpu_pcb (cpusExec k ! 0) = Some p \<and> cpu_estado (cpusExec k ! 0) = BUSY) \<and>
     (\<forall>p. cpu_pcb (cpusExec k ! 0) = Some p \<longrightarrow> de_cpu c k p) \<and>
     cupo k + ocupado c k \<le> g"

lemma exclusivoD:
  assumes "exclusivo g c k"
  shows "distinct (en_colas k)" "p \<in> set (en_colas k) \<Longrightarrow> p < k_prox k"
    "p \<in> set (en_colas k) \<Longrightarrow> estado_de k p \<notin> {None, Some EXEC}"
    "estado_de k p = Some EXEC \<Longrightarrow> cpu_pcb (cpusExec k ! 0) = Some p"
    "estado_de k p = Some EXEC \<Longrightarrow> cpu_estado (cpusExec k ! 0) = BUSY"
    "cpu_pcb (cpusExec k ! 0) = Some p \<Longrightarrow> de_cpu c k p"
    "cupo k + ocupado c k \<le> g"
  using assms by (auto simp only: exclusivo_def)

lemma exclusivoI:
  assumes "distinct (en_colas k)" "\<And>p. p \<in> set (en_colas k) \<Longrightarrow> p < k_prox k \<and> estado_de k p \<notin> {None, Some EXEC}"
    "\<And>p. estado_de k p = Some EXEC \<Longrightarrow> cpu_pcb (cpusExec k ! 0) = Some p \<and> cpu_estado (cpusExec k ! 0) = BUSY"
    "\<And>p. cpu_pcb (cpusExec k ! 0) = Some p \<Longrightarrow> de_cpu c k p" "cupo k + ocupado c k \<le> g"
  shows "exclusivo g c k"
  using assms by (auto simp only: exclusivo_def)

lemma exclusivo_vista:
  assumes "exclusivo g c k" "en_colas k' = en_colas k" "estado_de k' = estado_de k" "k_prox k' = k_prox k"
    "cpu_pcb (cpusExec k' ! 0) = cpu_pcb (cpusExec k ! 0)" "cpu_estado (cpusExec k' ! 0) = cpu_estado (cpusExec k ! 0)"
    "cupo k' \<le> cupo k"
  shows "exclusivo g c k'"
proof -
  have "cupo k' + ocupado c k' \<le> g" using exclusivoD(7) [OF assms(1)] assms(7) unfolding ocupado_def assms(3) by linarith
  with assms(1) show ?thesis unfolding exclusivo_def de_cpu_def assms(2-6) by blast
qed

lemma exclusivo_pc: "exclusivo g c k \<Longrightarrow> d \<in> {Cabeza, Dormida} \<Longrightarrow> exclusivo g d k"
  using exclusivoD(7) [of g c k] by (intro exclusivoI) (auto dest: exclusivoD simp: de_cpu_def ocupado_def split: if_splits)

lemma exclusivo_no_en_cola: "exclusivo g c k \<Longrightarrow> estado_de k p = Some EXEC \<Longrightarrow> p \<notin> set (en_colas k)"
  using exclusivoD(3) by fastforce

lemma exclusivo_reparte:
  assumes "exclusivo g c k" "reparte k k'"
  shows "exclusivo g c k'"
proof (rule exclusivoI)
  note r = assms(2) [unfolded reparte_def]
  have sub: "set (en_colas k') \<subseteq> set (en_colas k)" using r by (metis set_mset_mset set_mset_mono)
  show "distinct (en_colas k')" using r distinct_submset exclusivoD(1) [OF assms(1)] by blast
  show "p < k_prox k' \<and> estado_de k' p \<notin> {None, Some EXEC}" if "p \<in> set (en_colas k')" for p
    using that sub r exclusivoD(1) [OF assms(1)] exclusivoD(2,3) [OF assms(1), of p] by auto
  show "cpu_pcb (cpusExec k' ! 0) = Some p \<and> cpu_estado (cpusExec k' ! 0) = BUSY" if "estado_de k' p = Some EXEC" for p
  proof -
    have "estado_de k p = Some EXEC" using that r by blast
    then show ?thesis using r exclusivoD(4,5) [OF assms(1)] by simp
  qed
  show "de_cpu c k' p" if "cpu_pcb (cpusExec k' ! 0) = Some p" for p
  proof -
    have d: "de_cpu c k p" using that r exclusivoD(6) [OF assms(1)] by simp
    moreover have "p \<notin> set (en_colas k)" if "c = Esperando \<or> c = Bloqueando"
      using d that exclusivo_no_en_cola [OF assms(1)] by (auto simp: de_cpu_def)
    ultimately show ?thesis using r sub by (auto simp: de_cpu_def)
  qed
  have "ocupado c k' \<le> ocupado c k" using r by (auto simp: ocupado_def)
  then show "cupo k' + ocupado c k' \<le> g" using exclusivoD(7) [OF assms(1)] r by linarith
qed

lemma exclusivo_sale:
  assumes "exclusivo g c k" "sale p k k'" "cpu_pcb (cpusExec k ! 0) = Some p" "p \<notin> set (en_colas k)"
    "c = Bloqueando \<or> estado_de k p = Some EXEC"
  shows "exclusivo g Cabeza k'"
proof (rule exclusivoI)
  note s = assms(2) [unfolded sale_def]
  have p: "p < k_prox k" using exclusivoD(6) [OF assms(1,3)] by (simp add: de_cpu_def)
  have m: "set (en_colas k') = insert p (set (en_colas k))" using s by (metis set_mset_add_mset_insert set_mset_mset)
  have "mset (en_colas k') = mset (p # en_colas k)" using s by simp
  then show "distinct (en_colas k')"
    using mset_eq_imp_distinct_iff assms(4) exclusivoD(1) [OF assms(1)] by fastforce
  show "x < k_prox k' \<and> estado_de k' x \<notin> {None, Some EXEC}" if "x \<in> set (en_colas k')" for x
    using that m s p exclusivoD(2,3) [OF assms(1), of x] by (cases "x = p") auto
  show "cpu_pcb (cpusExec k' ! 0) = Some x \<and> cpu_estado (cpusExec k' ! 0) = BUSY" if "estado_de k' x = Some EXEC" for x
    using that s exclusivoD(4,5) [OF assms(1), of x] by (cases "x = p") auto
  show "de_cpu Cabeza k' x" if "cpu_pcb (cpusExec k' ! 0) = Some x" for x
    using that s p assms(3) by (simp add: de_cpu_def)
  have "estado_de k' x \<noteq> Some EXEC" for x
    using s exclusivoD(4) [OF assms(1), of x] assms(3) by (cases "x = p") auto
  then have "ocupado Cabeza k' = 0" "ocupado c k = 1" using assms(5) by (auto simp: ocupado_def)
  then show "cupo k' + ocupado Cabeza k' \<le> g" using exclusivoD(7) [OF assms(1)] s by simp
qed

subsection \<open>The steps\<close>

lemma exclusivo_llega:
  assumes "exclusivo g c k" "aceptar_carpincho E fd entrada k = Some (k', enviado, resto)"
  shows "exclusivo g c k'"
proof (cases "k' = k")
  case False
  then obtain q b where q: "k' = k\<lparr>planificacion := 0, pcbs := (pcbs k)(k_prox k \<mapsto> q), k_prox := Suc (k_prox k),
      processNew := processNew k @ [k_prox k], procesoNuevo := b\<rparr>" "pcb_status q = NEW"
    using assms(2) by (auto simp: aceptar_carpincho_def create_pcb_def Let_def bind_eq_Some_conv split: if_splits)
  have e: "estado_de k' x = (if x = k_prox k then Some NEW else estado_de k x)" for x by (simp add: q estado_de_def)
  have m: "mset (en_colas k') = mset (k_prox k # en_colas k)" by (simp add: q en_colas_def)
  then have s: "set (en_colas k') = insert (k_prox k) (set (en_colas k))" by (metis list.simps(15) mset_eq_setD)
  have k: "k_prox k' = Suc (k_prox k)" "cpusExec k' = cpusExec k" by (simp_all add: q)
  note D = exclusivoD [OF assms(1)]
  have "k_prox k \<notin> set (en_colas k)" using D(2) by blast
  then have "distinct (en_colas k')" using mset_eq_imp_distinct_iff [OF m] D(1) by simp
  then show ?thesis
  proof (rule exclusivoI)
    show "x < k_prox k' \<and> estado_de k' x \<notin> {None, Some EXEC}" if "x \<in> set (en_colas k')" for x
      using that D(2,3) [of x] by (auto simp: s k e)
    show "cpu_pcb (cpusExec k' ! 0) = Some x \<and> cpu_estado (cpusExec k' ! 0) = BUSY" if "estado_de k' x = Some EXEC" for x
      using that D(4,5) [of x] by (auto simp: k e split: if_splits)
    show "de_cpu c k' x" if "cpu_pcb (cpusExec k' ! 0) = Some x" for x
      using that D(6) [of x] by (auto simp: k e s de_cpu_def)
    have "estado_de k (k_prox k) \<noteq> Some EXEC" using D(4) [of "k_prox k"] D(6) [of "k_prox k"] by (simp add: de_cpu_def) metis
    then have "(estado_de k' x = Some EXEC) = (estado_de k x = Some EXEC)" for x by (simp add: e)
    then have "ocupado c k' = ocupado c k" by (simp add: ocupado_def)
    then show "cupo k' + ocupado c k' \<le> g" using D(7) by (simp add: q cupo_def)
  qed
qed (use assms in simp)

lemma reparte_menor_estimacion: "menor_estimacion E ps i m j k = Some (r, k') \<Longrightarrow> reparte k k'"
proof (induction ps arbitrary: i m j k)
  case (Cons p ps)
  then show ?case
    by (auto simp: bind_eq_Some_conv split: if_splits intro: reparte_trans [OF reparte_calcular])
qed simp

text \<open>A process is taken out of the ready list and given to the only CPU, which was free.\<close>

lemma exclusivo_despacha:
  assumes "exclusivo g c k" "planificarPorSJFSinDesalojo E k = Some k'" "planificacion k = 0" "basura_cpu E \<noteq> Some FREE"
    and "length (cpusExec k) = 1" "c = Dormida"
  shows "exclusivo g c k'"
proof -
  obtain p k1 k2 where e: "elDeMenorSJF E k = Some (p, k1)" "a_exec E p k1 = Some k2" "asignarCPU E p k2 = Some k'"
    using assms(2,3) by (auto simp: planificarPorSJFSinDesalojo_def bind_eq_Some_conv)
  obtain m k0 where m: "menor_estimacion E (processReady k) 0 9999999 0 k = Some (m, k0)"
    "list_get (processReady k0) (int m) = Some p"
    "k1 = k0\<lparr>processReady := list_remove (processReady k0) (int m)\<rparr>"
    using e(1) by (auto simp: elDeMenorSJF_def bind_eq_Some_conv)
  note r = reparte_menor_estimacion [OF m(1)]
  note D = exclusivoD [OF exclusivo_reparte [OF assms(1) r]]
  have cs: "cpusExec k0 = cpusExec k" using r by (simp add: reparte_def)
  obtain i where i: "primera_libre (cpusExec k2) 0 (grado_multiprocesamiento (datosConfigKernel E)) = Some i"
    "k' = k2\<lparr>cpusExec := (cpusExec k2)[i := (cpusExec k2 ! i)\<lparr>cpu_estado := BUSY, cpu_pcb := Some p,
       cpu_semaforo := Suc (cpu_semaforo (cpusExec k2 ! i))\<rparr>], ejecutar := 0\<rparr>"
    using e(3) assms(4) by (auto simp: asignarCPU_def buscarCPULibre_def bind_eq_Some_conv split: if_splits)
  obtain q n t where k2: "k2 = k1\<lparr>k_tiempo := n, pcbs := (pcbs k1)(p \<mapsto> q\<lparr>pcb_status := EXEC, pcb_timestamp_exec_in := t\<rparr>)\<rparr>"
    using e(2) by (auto simp: a_exec_def ahora_def Let_def modifica_pcb_def bind_eq_Some_conv)
  have cpu: "cpusExec k2 = cpusExec k0" using k2 m(3) by simp
  then have z: "i = 0" "cpu_estado (cpusExec k0 ! 0) = FREE" using primera_libre_Some [OF i(1)] cs assms(5) by auto
  have nadie: "estado_de k0 x \<noteq> Some EXEC" for x using D(5) z(2) by force
  have ms: "mset (en_colas k0) = mset (p # en_colas k')"
    using mset_list_remove [OF m(2)] by (simp add: en_colas_def i(2) k2 m(3))
  then have s: "set (en_colas k0) = insert p (set (en_colas k'))" by (metis list.simps(15) mset_eq_setD)
  have d: "distinct (p # en_colas k')" using mset_eq_imp_distinct_iff [OF ms] D(1) by simp
  have es: "estado_de k' x = (if x = p then Some EXEC else estado_de k0 x)" for x by (simp add: i(2) k2 m(3) estado_de_def)
  have kp: "k_prox k' = k_prox k0" by (simp add: i(2) k2 m(3))
  have "Suc (cupo k') = cupo k0" using length_list_remove [OF m(2)] by (simp add: cupo_def i(2) k2 m(3))
  then have cu: "cupo k' + ocupado c k' \<le> g" using D(7) by (simp add: ocupado_def)
  have "cpu_pcb (cpusExec k' ! 0) = Some p" "cpu_estado (cpusExec k' ! 0) = BUSY"
    using z(1) cpu cs assms(5) by (simp_all add: i(2))
  then show ?thesis
    using d nadie s D(2,3) assms(6) cu by (intro exclusivoI) (auto simp: es kp de_cpu_def split: if_splits)
qed

definition con_instancia :: "mate_instance \<Rightarrow> kernel \<Rightarrow> kernel" where
  "con_instancia c k = cambia_cpu 0 (\<lambda>u. u\<lparr>cpu_carpincho := Some c\<rparr>) (k\<lparr>uso := 0\<rparr>)"

lemma cpu_atender_casos:
  assumes "cpu_atender E 0 entrada mem k = Some (b, k', x)"
  shows "\<exists>p c. cpu_pcb (cpusExec k ! 0) = Some p \<and>
    (\<not> b \<and> k' = con_instancia c k \<or>
     b \<and> (\<exists>k2. dejar_cpu E p (con_instancia c k) = Some k2 \<and> encolarIO p (io_nombre c) k2 = Some k') \<or>
     \<not> b \<and> (\<exists>r. operacionesSemaforo E p c (con_instancia c k) = Some (k', r)) \<or>
     \<not> b \<and> terminar_carpincho p (con_instancia c k) = Some k')"
  using assms unfolding cpu_atender_def Let_def con_instancia_def [symmetric]
  by (auto simp: bind_eq_Some_conv split: if_splits)

lemma exclusivo_atiende:
  assumes "exclusivo g Esperando k" "cpu_atender E 0 entrada mem k = Some (b, k', x)" "cpusExec k \<noteq> []"
  shows "exclusivo g (if b then Bloqueando else Cabeza) k'"
proof -
  obtain p c where p: "cpu_pcb (cpusExec k ! 0) = Some p"
    and k: "\<not> b \<and> k' = con_instancia c k \<or> b \<and> (\<exists>k2. dejar_cpu E p (con_instancia c k) = Some k2 \<and> encolarIO p (io_nombre c) k2 = Some k') \<or>
      \<not> b \<and> (\<exists>r. operacionesSemaforo E p c (con_instancia c k) = Some (k', r)) \<or>
      \<not> b \<and> terminar_carpincho p (con_instancia c k) = Some k'"
    using cpu_atender_casos [OF assms(2)] by blast
  define k1 where "k1 = con_instancia c k"
  have ex: "exclusivo g Esperando k1"
    using assms(3) by (intro exclusivo_vista [OF assms(1)]) (simp_all add: k1_def con_instancia_def cambia_cpu_def en_colas_def estado_de_def fun_eq_iff cupo_def)
  have p1: "cpu_pcb (cpusExec k1 ! 0) = Some p" using p assms(3) by (simp add: k1_def con_instancia_def cambia_cpu_def)
  have exec: "estado_de k1 p = Some EXEC" using exclusivoD(6) [OF ex p1] by (simp add: de_cpu_def)
  note nc = exclusivo_no_en_cola [OF ex exec]
  note k = k [folded k1_def]
  consider "b = False" "k' = k1" | k2 where "b = True" "dejar_cpu E p k1 = Some k2" "encolarIO p (io_nombre c) k2 = Some k'"
    | r where "b = False" "operacionesSemaforo E p c k1 = Some (k', r)" | "b = False" "terminar_carpincho p k1 = Some k'"
    using k by blast
  then show ?thesis
  proof cases
    case 1
    then show ?thesis using exclusivo_pc [OF ex] by simp
  next
    case 2
    note f = dejar_cpu_efecto [OF 2(2)]
    have io: "en_colas k' = en_colas k2" "estado_de k' = estado_de k2" "k_prox k' = k_prox k2" "cpusExec k' = cpusExec k2"
      "cupo k' = cupo k2"
      using 2(3) by (auto simp: encolarIO_def bind_eq_Some_conv en_colas_def estado_de_def fun_eq_iff cupo_def)
    note D = exclusivoD [OF ex]
    have "exclusivo g Bloqueando k'"
    proof (rule exclusivoI)
      show "distinct (en_colas k')" using io f D(1) by simp
      show "x < k_prox k' \<and> estado_de k' x \<notin> {None, Some EXEC}" if "x \<in> set (en_colas k')" for x
        using that io f D(2,3) [of x] nc by (cases "x = p") auto
      show "cpu_pcb (cpusExec k' ! 0) = Some x \<and> cpu_estado (cpusExec k' ! 0) = BUSY" if "estado_de k' x = Some EXEC" for x
        using that io f D(4,5) [of x] by (cases "x = p") auto
      show "de_cpu Bloqueando k' x" if "cpu_pcb (cpusExec k' ! 0) = Some x" for x
        using that io f p1 D(6) [OF p1] nc by (auto simp: de_cpu_def)
      have "ocupado Bloqueando k' = ocupado Esperando k1" using exec by (auto simp: ocupado_def)
      then show "cupo k' + ocupado Bloqueando k' \<le> g" using D(7) io f by simp
    qed
    then show ?thesis using 2(1) by simp
  next
    case 3
    obtain k2 where k2: "reparte k1 k2" "k' = k2 \<or> sale p k2 k'" using operacionesSemaforo_efecto [OF 3(2)] by blast
    have e2: "exclusivo g Esperando k2" using exclusivo_reparte [OF ex k2(1)] .
    have p2: "cpu_pcb (cpusExec k2 ! 0) = Some p" using p1 k2(1) by (simp add: reparte_def)
    have "estado_de k2 p = Some EXEC" using exclusivoD(6) [OF e2 p2] by (simp add: de_cpu_def)
    then show ?thesis
      using 3(1) k2(2) exclusivo_pc [OF e2] exclusivo_sale [OF e2 _ p2] exclusivo_no_en_cola [OF e2] by auto
  next
    case 4
    then show ?thesis using exclusivo_sale [OF ex sale_terminar p1 nc] exec by simp
  qed
qed

definition un_cpu :: "nat \<Rightarrow> sistema \<Rightarrow> bool" where
  "un_cpu g S \<longleftrightarrow> ordenado S \<and> length (pcs S) = 1 \<and> exclusivo g (pcs S ! 0) (kern S)"

lemma un_cpu_cpus: "un_cpu g S \<Longrightarrow> length (cpusExec (kern S)) = 1"
  using inv_cpus_largo by (simp add: un_cpu_def ordenado_def)

lemma paso_largo: "paso E S T \<Longrightarrow> length (pcs T) = length (pcs S)"
  by (auto elim!: paso.cases)

lemma reparte_campo_despues:
  "reparte (k\<lparr>semFinalizarProceso := n\<rparr>) k' \<Longrightarrow> reparte k k'" "reparte (k\<lparr>planifMedianoPlazo := n\<rparr>) k' \<Longrightarrow> reparte k k'"
  "reparte k (plp_ceder k)" "reparte k (plp_retomar k)"
  by (rule reparte_trans [OF reparte_campos(11)] reparte_trans [OF reparte_campos(12)]; simp)+
    (rule reparte_igual; simp add: plp_ceder_def plp_retomar_def en_colas_def estado_de_def cupo_def)+

text \<open>The steps of the CPU itself.\<close>

lemma exclusivo_despierta:
  assumes "exclusivo g c k" "cpu_despertar 0 (cambia_cpu 0 (\<lambda>u. u\<lparr>cpu_semaforo := n\<rparr>) k) = Some k'" "length (cpusExec k) = 1"
  shows "exclusivo g Cabeza k'"
proof -
  have "k' = cambia_cpu 0 (\<lambda>u. u\<lparr>cpu_semaforo := n\<rparr>) k\<lparr>planificacion := 0\<rparr>"
    using assms(2) by (auto simp: cpu_despertar_def bind_eq_Some_conv)
  then show ?thesis using assms(3)
    by (intro exclusivo_vista [OF exclusivo_pc [OF assms(1), of Cabeza]])
      (simp_all add: cambia_cpu_def en_colas_def estado_de_def fun_eq_iff cupo_def)
qed

lemma cpu_sigue_estado:
  "cpu_sigue i k = Some b \<Longrightarrow> \<exists>p. cpu_pcb (cpusExec k ! i) = Some p \<and> (b \<longleftrightarrow> estado_de k p = Some EXEC)"
  by (auto simp: cpu_sigue_def estado_de_def bind_eq_Some_conv)

lemma exclusivo_escucha:
  assumes "exclusivo g c k" "cpu_sigue 0 k = Some True" "cpu_esperar 0 k = Some (k', enviado)"
  shows "exclusivo g Esperando k'"
proof -
  obtain p where p: "cpu_pcb (cpusExec k ! 0) = Some p" "estado_de k p = Some EXEC" using cpu_sigue_estado [OF assms(2)] by auto
  have v: "en_colas k' = en_colas k" "estado_de k' = estado_de k" "k_prox k' = k_prox k" "cpusExec k' = cpusExec k"
    "cupo k' = cupo k"
    using assms(3) by (auto simp: cpu_esperar_def modifica_pcb_def bind_eq_Some_conv en_colas_def estado_de_def fun_eq_iff cupo_def)
  have "de_cpu Esperando k p" using exclusivoD(6) [OF assms(1) p(1)] p(2) by (simp add: de_cpu_def)
  moreover have "ocupado Esperando k = ocupado c k" using p(2) by (auto simp: ocupado_def)
  ultimately have "exclusivo g Esperando k" using exclusivoD [OF assms(1)] p(1) by (intro exclusivoI) auto
  then show ?thesis by (rule exclusivo_vista) (simp_all add: v)
qed

lemma exclusivo_salir:
  assumes "exclusivo g c k" "cpu_sigue 0 k = Some False" "length (cpusExec k) = 1"
  shows "exclusivo g Dormida (cpu_salir 0 k)"
proof -
  obtain p where p: "cpu_pcb (cpusExec k ! 0) = Some p" "estado_de k p \<noteq> Some EXEC" using cpu_sigue_estado [OF assms(2)] by auto
  have nadie: "estado_de k x \<noteq> Some EXEC" for x using exclusivoD(4) [OF assms(1), of x] p by auto
  have v: "cupo (cpu_salir 0 k) = cupo k" "en_colas (cpu_salir 0 k) = en_colas k" "estado_de (cpu_salir 0 k) x = estado_de k x"
    "k_prox (cpu_salir 0 k) = k_prox k" "cpu_pcb (cpusExec (cpu_salir 0 k) ! 0) = Some p" for x
    using assms(3) p(1) by (simp_all add: cpu_salir_def cambia_cpu_def en_colas_def estado_de_def cupo_def)
  show ?thesis
    using exclusivoD(1-3) [OF assms(1)] exclusivoD(6) [OF assms(1) p(1)] exclusivoD(7) [OF assms(1)] nadie
    by (intro exclusivoI) (auto simp: v de_cpu_def ocupado_def)
qed

lemma exclusivo_bloquea:
  assumes "exclusivo g Bloqueando k" "cpu_bloquear 0 k = Some k'"
  shows "exclusivo g Cabeza k'"
proof -
  obtain p where p: "cpu_pcb (cpusExec k ! 0) = Some p" using assms(2) by (auto simp: cpu_bloquear_def bind_eq_Some_conv)
  show ?thesis using exclusivoD(6) [OF assms(1) p] exclusivo_sale [OF assms(1) sale_bloquear [OF assms(2) p] p]
    by (simp add: de_cpu_def)
qed

lemma exclusivo_turno:
  assumes "un_cpu g S" "planificarPorSJFSinDesalojo E ((kern S)\<lparr>planificar := n\<rparr>) = Some k" "basura_cpu E \<noteq> Some FREE"
  shows "exclusivo g (pcs S ! 0) k"
proof -
  let ?k = "(kern S)\<lparr>planificar := n\<rparr>"
  have e: "exclusivo g (pcs S ! 0) ?k"
    using exclusivo_reparte [OF _ reparte_campos(9)] assms(1) by (simp add: un_cpu_def)
  show ?thesis
  proof (cases "planificacion (kern S) = 0")
    case True
    obtain p i where d: "despachado p i ?k k" using sjf_efecto [OF assms(2,3)] True by auto
    then have "cpu_estado (cpusExec (kern S) ! 0) = FREE" using un_cpu_cpus [OF assms(1)] by (auto simp: despachado_def)
    moreover have "cpu_ok (pcs S ! 0) (cpusExec (kern S) ! 0)"
      using assms(1) inv_cpus_nth [of S 0] by (simp add: un_cpu_def ordenado_def)
    ultimately have "pcs S ! 0 = Dormida" by (simp add: cpu_ok_def)
    then show ?thesis using exclusivo_despacha [OF e assms(2) _ assms(3)] True un_cpu_cpus [OF assms(1)] by simp
  next
    case False
    then have "k = ?k\<lparr>planificacion := 0\<rparr>" using assms(2) by (simp add: planificarPorSJFSinDesalojo_def)
    then show ?thesis using exclusivo_reparte [OF e reparte_campos(5)] by simp
  qed
qed

text \<open>Every step of a thread.\<close>

lemma paso_exclusivo:
  assumes "paso E S T" "un_cpu g S" "basura_cpu E \<noteq> Some FREE"
  shows "exclusivo g (pcs T ! 0) (kern T)"
  using assms(1)
proof cases
  note ex = assms(2) [unfolded un_cpu_def, THEN conjunct2, THEN conjunct2] and cpus = un_cpu_cpus [OF assms(2)]
  have un: "i < length (pcs S) \<Longrightarrow> i = 0" for i using assms(2) by (simp add: un_cpu_def)
  {
    case (llegada fd entrada k enviado resto)
    then show ?thesis using exclusivo_llega [OF ex llegada(2)] by simp
  next
    case (plp_nuevo n)
    then show ?thesis using exclusivo_reparte [OF ex reparte_campos(8)] by simp
  next
    case (plp_lugar n k)
    have "reparte (kern S) k" using reparte_plp_mover [OF plp_lugar(4,3)] .
    then show ?thesis
      using exclusivo_reparte [OF ex] reparte_trans [OF _ reparte_campo_despues(3), of "kern S" k] plp_lugar(1) by simp
  next
    case plp_pausa
    then show ?thesis using exclusivo_reparte [OF ex reparte_campo_despues(4)] by simp
  next
    case (pcp_ready n)
    then show ?thesis using exclusivo_reparte [OF ex reparte_campos(10)] by simp
  next
    case (pcp_turno n k)
    then show ?thesis using exclusivo_turno [OF assms(2) pcp_turno(4) assms(3)] by simp
  next
    case (cpu_despierta i n k)
    then show ?thesis using un [OF cpu_despierta(2)] exclusivo_despierta [OF ex _ cpus] by simp
  next
    case (cpu_escucha i k enviado)
    then show ?thesis using un [OF cpu_escucha(2)] exclusivo_escucha [OF ex] by simp
  next
    case (cpu_sale i)
    then show ?thesis using un [OF cpu_sale(2)] exclusivo_salir [OF ex _ cpus] by simp
  next
    case (cpu_mensaje i entrada mem pendiente k enviado magic resto m)
    have i: "i = 0" using un cpu_mensaje(2) .
    moreover have "exclusivo g Esperando (kern S)" using ex cpu_mensaje(3) i by simp
    moreover have "cpusExec (kern S) \<noteq> []" using cpus by auto
    ultimately show ?thesis using exclusivo_atiende cpu_mensaje(1,2,4) by simp
  next
    case (cpu_bloquea i k)
    then show ?thesis using un [OF cpu_bloquea(2)] exclusivo_bloquea [of g "kern S" k] ex by simp
  next
    case (fin n k magic)
    then show ?thesis using exclusivo_reparte [OF ex reparte_campo_despues(1) [OF reparte_finalizar [OF fin(3)]]] by simp
  next
    case (pmp n atascado k)
    then show ?thesis using exclusivo_reparte [OF ex reparte_campo_despues(2) [OF reparte_mediano [OF pmp(4)]]] by simp
  next
    case (io_toma n r rafaga k)
    have "reparte (kern S) k" using io_tomar_efecto [OF io_toma(4)]
      by (intro reparte_igual) (simp_all add: en_colas_def estado_de_def cupo_def)
    then show ?thesis using exclusivo_reparte [OF ex] io_toma(1) by simp
  next
    case (io_fin r k)
    then show ?thesis using exclusivo_reparte [OF ex reparte_desbloquearPID] by simp
  next
    case (deadlock k)
    then show ?thesis using exclusivo_reparte [OF ex reparte_chequearDeadlock] by simp
  }
qed

lemma alcanza_un_cpu:
  assumes "alcanza E S T" "un_cpu g S" "basura_cpu E \<noteq> Some FREE"
  shows "un_cpu g T"
  using assms by (induction rule: rtranclp_induct) (auto intro: paso_exclusivo simp: un_cpu_def paso_largo dest: paso_ordenado)

lemma inicial_un_cpu:
  assumes "sistema_inicial E = Some S" "grado_multiprocesamiento (datosConfigKernel E) = 1"
  shows "un_cpu (grado_multiprogramacion (datosConfigKernel E)) S"
proof -
  have "exclusivo (grado_multiprogramacion (datosConfigKernel E)) (pcs S ! 0) (kern S)" "length (pcs S) = 1"
    using assms by (auto simp: sistema_inicial_def iniciar_kernel_def crearCPUS_def Let_def bind_eq_Some_conv
        exclusivo_def en_colas_def estado_de_def cupo_def ocupado_def)
  then show ?thesis using inicial_ordenado [OF assms(1)] by (simp add: un_cpu_def)
qed

lemma alcanza_exclusivo:
  assumes "sistema_inicial E = Some S0" "alcanza E S0 S" "grado_multiprocesamiento (datosConfigKernel E) = 1"
    and "basura_cpu E \<noteq> Some FREE"
  shows "exclusivo (grado_multiprogramacion (datosConfigKernel E)) (pcs S ! 0) (kern S)"
  using alcanza_un_cpu [OF assms(2) inicial_un_cpu [OF assms(1,3)] assms(4)] by (simp add: un_cpu_def)


text \<open>Two processes in a kernel with one CPU: the second becomes ready while the first executes.\<close>

definition corrida_una :: "accion list" where
  "corrida_una =
     [Llegada 5 (pide 7 INICIALIZACION 0), PlpNuevo, PlpLugar, PcpReady, PcpTurno, Despierta 0,
      Llegada 6 (pide 8 INICIALIZACION 0), Escucha 0, Mensaje 0 (pide 7 SEMAFORO INIT) [], Escucha 0]"

lemma corrida_una_ok:
  "case sistema_inicial entorno_k of None \<Rightarrow> False | Some S0 \<Rightarrow>
    (case ejecuta entorno_k corrida_una S0 of None \<Rightarrow> False | Some S \<Rightarrow>
      processNew (kern S) = [1] \<and> map_option pcb_status (pcbs (kern S) 0) = Some EXEC \<and>
      \<not> m_colaSuspendedBlocked (kern S))"
  by code_simp




subsection \<open>The schedulers with one CPU\<close>

lemma posicion_pid_definida: "\<forall>p\<in>set ps. pcbs k p \<noteq> None \<Longrightarrow> \<exists>r. posicion_pid k pid ps i = Some r"
  by (induction ps arbitrary: i) auto

lemma posicion_pid_dentro:
  "posicion_pid k pid ps i = Some (Some j) \<Longrightarrow> i \<le> j \<and> j < i + list_size ps"
proof (induction ps arbitrary: i)
  case (Cons p ps)
  show ?case using Cons.prems Cons.IH [of "i + 1"] by (auto simp: bind_eq_Some_conv list_size_def split: if_splits)
qed simp

lemma pasar_a_ready_definido:
  assumes "0 \<le> j" "j < list_size (processBlocked k)" "\<forall>p\<in>set (processBlocked k). pcbs k p \<noteq> None"
  shows "pasar_a_ready E j k \<noteq> None"
proof -
  have "list_get (processBlocked k) j = Some (processBlocked k ! nat j)" using assms(1,2) by (simp add: list_get_def)
  moreover have "processBlocked k ! nat j \<in> set (processBlocked k)" using assms(1,2) by (simp add: list_size_def)
  then obtain q where "pcbs k (processBlocked k ! nat j) = Some q" using assms(3) by blast
  ultimately show ?thesis by (simp add: pasar_a_ready_def modifica_pcb_def calcularEstimacion_def)
qed

lemma desbloquearPID_definido:
  assumes "\<forall>p\<in>set (en_colas k). pcbs k p \<noteq> None" "\<not> m_colaSuspendedBlocked k"
  shows "desbloquearPID E pid k \<noteq> None"
proof -
  have b: "\<forall>p\<in>set (processBlocked k). pcbs k p \<noteq> None" "\<forall>p\<in>set (processSuspendedBlocked k). pcbs k p \<noteq> None"
    using assms(1) by (auto simp: en_colas_def)
  obtain r r2 where r: "posicion_pid k pid (processBlocked k) 0 = Some r" "posicion_pid k pid (processSuspendedBlocked k) 0 = Some r2"
    using posicion_pid_definida [OF b(1)] posicion_pid_definida [OF b(2)] by metis
  show ?thesis
  proof (cases r)
    case (Some j)
    then show ?thesis using r(1) posicion_pid_dentro [of k pid "processBlocked k" 0 j] pasar_a_ready_definido [OF _ _ b(1), of j E]
      by (simp add: desbloquearPID_def)
  next
    case None
    then show ?thesis using r assms(2) by (cases r2) (simp_all add: desbloquearPID_def)
  qed
qed

lemma elDeMenorSJF_definido:
  assumes "processReady k \<noteq> []" "\<forall>p\<in>set (processReady k). pcbs k p \<noteq> None"
  shows "\<exists>p k1. elDeMenorSJF E k = Some (p, k1) \<and> pcbs k1 p \<noteq> None \<and> cpusExec k1 = cpusExec k"
proof -
  obtain r k1 where r: "menor_estimacion E (processReady k) 0 9999999 0 k = Some (r, k1)"
    "\<forall>x. (pcbs k1 x = None) = (pcbs k x = None)"
    using menor_estimacion_ok [OF assms(2), of E 0 9999999 0] by metis
  have k1: "processReady k1 = processReady k" "r < length (processReady k)" "cpusExec k1 = cpusExec k"
    using menor_estimacion_efecto [OF r(1)] assms(1) reparte_menor_estimacion [OF r(1)] by (auto simp: reparte_def)
  then have "pcbs k1 (processReady k ! r) \<noteq> None" using r(2) assms(2) by (metis nth_mem)
  then show ?thesis using r(1) k1 by (auto simp: elDeMenorSJF_def list_get_def list_size_def)
qed

lemma planificar_definido:
  assumes "processReady k \<noteq> []" "\<forall>p\<in>set (processReady k). pcbs k p \<noteq> None" "basura_cpu E = Some BUSY"
    and "grado_multiprocesamiento (datosConfigKernel E) = 1" "cpusExec k = [u]" "cpu_estado u = FREE"
  shows "planificarPorSJFSinDesalojo E k \<noteq> None"
proof -
  obtain p k1 q where "elDeMenorSJF E k = Some (p, k1)" "pcbs k1 p = Some q" "cpusExec k1 = [u]"
    using elDeMenorSJF_definido [OF assms(1,2), of E] assms(5) by auto
  then show ?thesis using assms(3,4,6)
    by (simp add: planificarPorSJFSinDesalojo_def a_exec_def ahora_def modifica_pcb_def asignarCPU_def
        buscarCPULibre_def Let_def numeral_eq_Suc)
qed



text \<open>The CPU is not a scheduler: when its process ends, the thread that takes the ended processes away may free it
  before the CPU tests its state once more.\<close>

definition corrida_final :: "accion list" where
  "corrida_final = corrida_una @ [Mensaje 0 (pide 7 FINALIZACION 0) [], Fin]"

lemma cpu_lee_liberado:
  "case sistema_inicial entorno_k of None \<Rightarrow> False | Some S0 \<Rightarrow>
    (case ejecuta entorno_k corrida_final S0 of None \<Rightarrow> False | Some S \<Rightarrow>
      pcs S = [Cabeza] \<and> map cpu_pcb (cpusExec (kern S)) = [Some 0] \<and> pcbs (kern S) 0 = None \<and> cpu_sigue 0 (kern S) = None)"
  by code_simp

subsection \<open>Two CPUs\<close>

definition entorno_dos :: entorno_kernel where
  "entorno_dos = entorno_k\<lparr>datosConfigKernel := (datosConfigKernel entorno_k)
     \<lparr>grado_multiprogramacion := 2, grado_multiprocesamiento := 2\<rparr>\<rparr>"

text \<open>Process 7 waits for a semaphore, and its CPU has not looked at its state again. Process 8 posts and ends, and
  its CPU is given process 7, which executes. The first CPU looks now.\<close>

definition corrida_dos :: "accion list" where
  "corrida_dos =
     [Llegada 5 (pide 7 INICIALIZACION 0), PlpNuevo, PlpLugar, PcpReady, PcpTurno, Despierta 0, Escucha 0,
      Llegada 6 (pide 8 INICIALIZACION 0), PlpNuevo, PlpLugar, PcpReady, PcpTurno, Despierta 1, Escucha 1,
      Mensaje 0 (pide 7 SEMAFORO INIT) [], Escucha 0, Mensaje 0 (pide 7 SEMAFORO WAIT) [],
      Mensaje 1 (pide 8 SEMAFORO POST) [], Escucha 1, Mensaje 1 (pide 8 FINALIZACION 0) [], Sale 1,
      PcpReady, PcpTurno, Despierta 1, Escucha 1, Escucha 0]"

text \<open>Then process 7 takes the semaphore, and waits for it twice, once through each CPU.\<close>

definition corrida_tres :: "accion list" where
  "corrida_tres =
     [Mensaje 0 (pide 7 SEMAFORO WAIT) [], Escucha 0, Mensaje 0 (pide 7 SEMAFORO WAIT) [],
      Mensaje 1 (pide 7 SEMAFORO WAIT) []]"

lemma corrida_dos_ok:
  "case sistema_inicial entorno_dos of None \<Rightarrow> False | Some S0 \<Rightarrow>
    (case ejecuta entorno_dos corrida_dos S0 of None \<Rightarrow> False | Some S \<Rightarrow>
      pcs S = [Esperando, Esperando] \<and> map cpu_pcb (cpusExec (kern S)) = [Some 0, Some 0] \<and>
      map_option pcb_status (pcbs (kern S) 0) = Some EXEC \<and>
      (case ejecuta entorno_dos corrida_tres S of None \<Rightarrow> False | Some T \<Rightarrow> processBlocked (kern T) = [0, 0]))"
  by code_simp


end
