(* ===== verification/Configuracion.thy ===== *)
theory Configuracion
  imports Memoria_Estado Swamp Kernel_Planificacion
begin

section \<open>Configuration files\<close>

text \<open>
  What the three programs read at their start (\<^verbatim>\<open>lib.c\<close> of \<^verbatim>\<open>memoria\<close>, \<^verbatim>\<open>kernel\<close> and \<^verbatim>\<open>swamp-v2\<close>). A file is
  what \<open>config_create\<close> of the commons library makes of it: the text of each key, and how that library splits the
  text of an array. The text of a key that is missing is NULL. Fields that are only printed or name an address are
  left out, but their keys are asked for where a number is read from them.
\<close>

record archivo_config =
  valor_de :: "string \<Rightarrow> string option"
  arreglo_de :: "string \<Rightarrow> string list"

subsection \<open>Numbers\<close>

definition es_digito :: "char \<Rightarrow> bool" where
  "es_digito c \<longleftrightarrow> 48 \<le> (of_char c :: nat) \<and> (of_char c :: nat) \<le> 57"

fun digitos :: "int \<Rightarrow> string \<Rightarrow> int" where
  "digitos n [] = n"
| "digitos n (c # cs) = (if es_digito c then digitos (10 * n + (of_char c - 48)) cs else n)"

text \<open>The GNU library reads 64 bits, with saturation, and keeps the lower 32 of them.\<close>

definition saturado :: "int \<Rightarrow> int" where
  "saturado n = max (- (2 ^ 63)) (min n (2 ^ 63 - 1))"

definition atoi :: "string \<Rightarrow> int" where
  "atoi t =
     (case dropWhile (\<lambda>c. c \<in> set '' '' \<or> 9 \<le> (of_char c :: nat) \<and> (of_char c :: nat) \<le> 13) t of
        [] \<Rightarrow> 0
      | c # cs \<Rightarrow> if c = CHR ''-'' then i32 (saturado (- digitos 0 cs))
                  else if c = CHR ''+'' then i32 (saturado (digitos 0 cs)) else i32 (saturado (digitos 0 (c # cs))))"

definition config_get_string_value :: "archivo_config \<Rightarrow> string \<Rightarrow> string option" where
  "config_get_string_value a clave = valor_de a clave"

definition config_get_int_value :: "archivo_config \<Rightarrow> string \<Rightarrow> int option" where
  "config_get_int_value a clave = map_option atoi (valor_de a clave)"

definition config_get_array_value :: "archivo_config \<Rightarrow> string \<Rightarrow> string list option" where
  "config_get_array_value a clave = map_option (arreglo_de a) (valor_de a clave)"

subsection \<open>The three programs\<close>

definition read_config_memoria :: "archivo_config \<Rightarrow> t_config_memoria option" where
  "read_config_memoria a =
     do { asignacion \<leftarrow> config_get_string_value a ''TIPO_ASIGNACION'';
          n \<leftarrow> config_get_int_value a ''TAMANIO'';
          pagina \<leftarrow> config_get_int_value a ''TAMANIO_PAGINA'';
          mmu \<leftarrow> config_get_string_value a ''ALGORITMO_REEMPLAZO_MMU'';
          entradas \<leftarrow> config_get_int_value a ''CANTIDAD_ENTRADAS_TLB'';
          reemplazo_tlb \<leftarrow> config_get_string_value a ''ALGORITMO_REEMPLAZO_TLB'';
          _ \<leftarrow> config_get_int_value a ''RETARDO_ACIERTO_TLB'';
          _ \<leftarrow> config_get_int_value a ''RETARDO_FALLO_TLB'';
          d \<leftarrow> config_get_int_value a ''DEBUG'';
          marcos \<leftarrow> config_get_int_value a ''MARCOS_POR_CARPINCHO'';
          Some \<lparr>tamanio = u32 n, tamanio_pagina = u32 pagina, tipo_asignacion = asignacion,
                algoritmo_reemplazo_mmu = mmu, cantida_entradas_tlb = entradas,
                algoritmo_reemplazo_tlb = reemplazo_tlb, debug = (d \<noteq> 0), marcos_por_carpincho = u32 marcos\<rparr> }"

text \<open>\<open>atof\<close> is the number a text spells, in the precision of a \<open>float\<close>.\<close>

definition read_config_kernel :: "(string \<Rightarrow> real) \<Rightarrow> archivo_config \<Rightarrow> t_config_kernel option" where
  "read_config_kernel atof a =
     do { texto_alfa \<leftarrow> config_get_string_value a ''ALFA'';
          estimacion \<leftarrow> config_get_int_value a ''ESTIMACION_INICIAL'';
          dispositivos \<leftarrow> config_get_array_value a ''DISPOSITIVOS_IO'';
          duraciones \<leftarrow> config_get_array_value a ''DURACIONES_IO'';
          programacion \<leftarrow> config_get_int_value a ''GRADO_MULTIPROGRAMACION'';
          procesamiento \<leftarrow> config_get_int_value a ''GRADO_MULTIPROCESAMIENTO'';
          _ \<leftarrow> config_get_int_value a ''DEBUG'';
          _ \<leftarrow> config_get_int_value a ''TIEMPO_DEADLOCK'';
          _ \<leftarrow> exige (0 \<le> programacion);
          Some \<lparr>estimacion_inicial = estimacion, alfa = atof texto_alfa, dispositivos_io = dispositivos,
                duraciones_io = map atoi duraciones, grado_multiprogramacion = nat programacion,
                grado_multiprocesamiento = nat procesamiento\<rparr> }"

text \<open>The thread of the short-term scheduler that \<open>main\<close> creates: none for any other algorithm.\<close>

definition planificador_elegido :: "entorno_kernel \<Rightarrow> archivo_config \<Rightarrow> (kernel \<Rightarrow> kernel option) option option" where
  "planificador_elegido E a =
     do { algoritmo \<leftarrow> config_get_string_value a ''ALGORITMO_PLANIFICACION'';
          Some (if algoritmo = ''HRRN'' then Some (planificarPorHRRN E)
                else if algoritmo = ''SJF'' then Some (planificarPorSJFSinDesalojo E) else None) }"

definition read_config_swamp :: "archivo_config \<Rightarrow> t_config_swamp option" where
  "read_config_swamp a =
     do { n \<leftarrow> config_get_int_value a ''TAMANIO_SWAP'';
          pagina \<leftarrow> config_get_int_value a ''TAMANIO_PAGINA'';
          archivos \<leftarrow> config_get_array_value a ''ARCHIVOS_SWAP'';
          cantidad \<leftarrow> config_get_string_value a ''ARCHIVOS_SWAP'';
          marcos \<leftarrow> config_get_int_value a ''MARCOS_MAXIMOS'';
          _ \<leftarrow> config_get_int_value a ''RETARDO_SWAP'';
          _ \<leftarrow> config_get_int_value a ''DEBUG'';
          Some \<lparr>tamanio_swamp = u32 n, tamanio_pagina_swamp = pagina, archivos_swamp = archivos,
                cant_archivos_swamp = cantidad, marcos_maximos = marcos\<rparr> }"

subsection \<open>The files that are counted and the files that are named\<close>

text \<open>The text of an array.\<close>

fun unidos :: "string list \<Rightarrow> string" where
  "unidos [] = []"
| "unidos [x] = x"
| "unidos (x # y # xs) = x @ '','' @ unidos (y # xs)"

definition texto_arreglo :: "string list \<Rightarrow> string" where
  "texto_arreglo xs = ''['' @ unidos xs @ '']''"

lemma contar_tokens_sin: "CHR '','' \<notin> set t \<Longrightarrow> contar_tokens (CHR '','') d (t @ u) =
    (if t = [] then contar_tokens (CHR '','') d u else (if d then 0 else 1) + contar_tokens (CHR '','') True u)"
  by (induction t arbitrary: d) auto

lemma contar_unidos:
  assumes "xs \<noteq> []" "\<forall>x\<in>set xs. x \<noteq> [] \<and> CHR '','' \<notin> set x"
  shows "contar_tokens (CHR '','') d (unidos xs @ u) =
    (if d then 0 else 1) + list_size xs - 1 + contar_tokens (CHR '','') True u"
  using assms
proof (induction xs arbitrary: d rule: unidos.induct)
  case (3 x y xs)
  then show ?case by (simp add: contar_tokens_sin list_size_def)
qed (simp_all add: contar_tokens_sin list_size_def)

text \<open>The server counts the names in the text of the array, of which it makes a copy without its NUL: it opens as many
  files as there are names when what lies behind the copy brings no other comma.\<close>

lemma archivos_contados:
  assumes "read_config_swamp a = Some (datosConfigSwamp C)" "valor_de a ''ARCHIVOS_SWAP'' = Some (texto_arreglo xs)"
    and "arreglo_de a (texto_arreglo xs) = xs" "xs \<noteq> []"
    and "\<forall>x\<in>set xs. x \<noteq> [] \<and> CHR '','' \<notin> set x \<and> CHR 0x00 \<notin> set x"
    and "CHR '','' \<notin> set (takeWhile (\<lambda>c. c \<noteq> CHR 0x00) (basura_config C))"
  shows "archivos_swamp (datosConfigSwamp C) = xs" "obtenerCantArchivos C = list_size xs"
proof -
  have c: "archivos_swamp (datosConfigSwamp C) = xs" "cant_archivos_swamp (datosConfigSwamp C) = texto_arreglo xs"
    using assms(1-3) by (auto simp: read_config_swamp_def config_get_array_value_def config_get_string_value_def
        bind_eq_Some_conv dest: sym)
  then show "archivos_swamp (datosConfigSwamp C) = xs" by simp
  have "CHR 0x00 \<notin> set (unidos xs)" using assms(5) by (induction xs rule: unidos.induct) auto
  then have "takeWhile (\<lambda>c. c \<noteq> CHR 0x00) (texto_arreglo xs @ basura_config C) =
      ''['' @ (unidos xs @ ('']'' @ takeWhile (\<lambda>c. c \<noteq> CHR 0x00) (basura_config C)))"
    by (subst takeWhile_append2) (auto simp: texto_arreglo_def)
  then show "obtenerCantArchivos C = list_size xs"
    using contar_unidos [OF assms(4), of True] assms(5,6) contar_tokens_sin [OF assms(6), of True "[]"]
    by (simp add: obtenerCantArchivos_def c(2))
qed

text \<open>The configurations of the tests name the key \<^verbatim>\<open>ARCHIVOS_SWAMP\<close>, which the server does not know.\<close>

lemma sin_archivos: "valor_de a ''ARCHIVOS_SWAP'' = None \<Longrightarrow> read_config_swamp a = None"
  by (auto simp: read_config_swamp_def config_get_array_value_def split: Option.bind_splits)

text \<open>A device needs a duration: when the array of durations is shorter, \<open>crearIO\<close> converts NULL.\<close>

lemma dispositivos_con_duracion: "(crearIO ds ns \<noteq> None) = (length ds \<le> length ns)"
proof (induction ds ns rule: crearIO.induct)
  case (2 d ds ns)
  then show ?case by (cases ns) (auto simp: list_get_def list_size_def split: Option.bind_splits)
qed simp

lemma atoi_ejemplos: "atoi ''1024'' = 1024" "atoi ''  -7x'' = - 7" "atoi ''x'' = 0"
  by code_simp+

end
