(* ===== verification/Spec2Isabelle.thy ===== *)
theory Spec2Isabelle
  imports Memoria_Liberacion Memoria_Dump Sistema_Plano Kernel_Paquetes Kernel_Fallos Kernel_Exclusion Configuracion
begin

text \<open>
  A verification development of a simulated operating system: a client library, a kernel that schedules the
  processes ("carpinchos") that use it, a memory process with paging, and a swap server.

  \<^bold>\<open>The program.\<close> A process links \<^verbatim>\<open>src/matelib\<close> and sends every request as one flattened
  \<open>mate_instance\<close> to the kernel (\<^verbatim>\<open>src/kernel\<close>), or straight to the memory process when there is no
  kernel. The kernel answers semaphore and device requests itself and passes memory requests on to the memory
  process (\<^verbatim>\<open>src/memoria\<close>), which keeps a heap per process over paged memory with a TLB. A page that
  has no frame is kept by the swap server (\<^verbatim>\<open>src/swamp-v2\<close>) in its files. The programs share no state;
  they talk over sockets, which are lists of bytes here.

  \<^bold>\<open>Conventions\<close> (\<open>Prelude\<close>). Code that has no defined outcome, or that waits for ever, is the value
  \<open>None\<close>; everything else is \<open>Some\<close> of a result and the new state. C integers are HOL integers
  whose conversions are written out (\<open>u32\<close>, \<open>i32\<close>); \<open>t_list\<close> is a list; a buffer is a list of
  characters; a \<open>t_pagina*\<close> and a \<open>t_pcb*\<close> are addresses of a store that is part of the state.
  Definitions keep the names of the C functions; a Spanish name with no counterpart in C is a loop or a block
  of the function that the comment above it names.

  \<^bold>\<open>What models what.\<close>
  \<^item> \<open>Prelude\<close>: integers, the lists of the commons library, byte buffers, the locale
    \<open>productor_consumidor\<close>: a counting semaphore that announces the elements of a queue.
  \<^item> \<open>Protocolo\<close>: \<open>serializar_instancia\<close> and \<open>deserializar_instancia\<close>, and every call of
    \<^verbatim>\<open>matelib.c\<close>.
  \<^item> \<open>Memoria_Estado\<close>, \<open>Memoria_Tlb\<close>, \<open>Memoria_Reemplazo\<close>, \<open>Memoria_Paginas\<close>,
    \<open>Memoria_Allocs\<close>, \<open>Memoria_Mensajes\<close>: \<^verbatim>\<open>memory.c\<close>. The record \<open>memoria\<close> holds its
    global variables, the live page objects and the state of the swap server behind the socket; the record
    \<open>entorno\<close> holds the configuration and what is not decided by the code (the order \<open>list_sort\<close>
    gives equal elements, uninitialised memory, the answers of the server).
  \<^item> \<open>Memoria_Servidor\<close>: \<^verbatim>\<open>server.c\<close> of the memory process, one turn of the loop of a client
    thread. \<open>Memoria_Swamp\<close>: \<^verbatim>\<open>client.c\<close>, and the two programs connected.
  \<^item> \<open>Swamp\<close>: \<^verbatim>\<open>swamp.c\<close>: files, frames, and the four requests.
  \<^item> \<open>Kernel_Estado\<close>, \<open>Kernel_Semaforos\<close>, \<open>Kernel_Deadlock\<close>, \<open>Kernel_Planificacion\<close>,
    \<open>Kernel_Cpu\<close>: \<^verbatim>\<open>kernel.c\<close>. The record \<open>kernel\<close> holds its queues, its POSIX semaphores
    (as counters) and the process objects. \<open>Kernel_Sistema\<close>: its threads as the step relation
    \<open>paso\<close>; a step runs one thread from one wait to the next, and the bytes that arrive are arbitrary.
  \<^item> \<open>Configuracion\<close>: \<^verbatim>\<open>lib.c\<close> of the memory process, the kernel and the swap server: the
    configurations the others take as given, read from the keys of a file.

  \<^bold>\<open>What is proved.\<close>
  \<^item> \<open>Memoria_Invariante\<close>, \<open>Memoria_Acceso\<close>, \<open>Memoria_Victima\<close>, \<open>Memoria_Fallo\<close>: the
    invariant \<open>inv_mem\<close> of frames, TLB, page objects and processes, and that lookup, choice of a victim,
    eviction and loading keep it. The locales \<open>reemplazo_tlb\<close> and \<open>reemplazo_pagina\<close> state what FIFO
    and LRU, and LRU and M-CLOCK, have in common.
  \<^item> \<open>Memoria_Virtual\<close>: reads and writes have their abstract meaning over any server that meets the
    locale \<open>servidor_swap\<close>. \<open>Swamp_Guarda\<close>: the swap server as a partial map from pages to contents.
    \<open>Memoria_Virtual_Swamp\<close>: the swap server meets the locale, so the meaning is that of the connected
    programs. \<open>Memoria_Creacion\<close>: the connected programs start in the invariant and stay in it while
    processes register and pages are created, read and written.
  \<^item> \<open>Memoria_Allocs_Correcto\<close>: the blocks of a process tile its address space; what allocation and
    release do to the tiling. \<open>Memoria_Extremo\<close>: what \<open>memory_memwrite\<close> writes is what
    \<open>memory_memread\<close> returns, in one page.
  \<^item> \<open>Memoria_Pedazos\<close>: the search that groups the bytes of a range by page yields one piece per page, in
    order. \<open>Memoria_Rangos\<close>, \<open>Memoria_Memalloc\<close>, \<open>Memoria_Bloques\<close>: ranges over any number of pages,
    allocations at the end of the blocks and into free blocks have a defined outcome and keep the invariant while
    there is room. \<open>Memoria_Servicio\<close>: every state the memory process reaches by serving admitted messages
    (allocations, releases, reads and writes) is well formed, and it answers the next one.
    \<open>Memoria_Liberacion\<close>: releases that the compaction ruins, and what the end of a process leaves behind.
    \<open>Memoria_Plana\<close>: with its pages in memory, what a process reads and writes is one flat array of bytes,
    as long as no access touches three pages. \<open>Memoria_Respuestas\<close>: messages and answers are well typed.
    \<open>Memoria_Dump\<close>: what the signals write.
  \<^item> \<open>Kernel_Invariante\<close>, \<open>Kernel_Propiedades\<close>, \<open>Kernel_Fallos\<close>: the invariants of the threads
    in every reachable state, the choice of shortest job first, termination of deadlock detection, and what goes
    wrong on the way. \<open>Kernel_Ejecutable\<close>: the step relation as a function that computes runs.
    \<open>Kernel_Reparto\<close>, \<open>Kernel_Exclusion\<close>: with one CPU a process is in one place, the degree of
    multiprogramming is respected and the schedulers are defined; with two CPUs both may run one process.
    \<open>Kernel_Paquetes\<close>: the packets of library and kernel, sent and received.
  \<^item> \<open>Sistema_Completo\<close>, \<open>Sistema_Plano\<close>: a request from the library through the kernel to the memory
    process and back, and a write followed by a read.

  \<^bold>\<open>Bounds.\<close> \<open>revisar_bloqueados\<close> takes as many rounds as there are blocked processes, and
  \<open>revision_completa\<close> shows that more rounds change nothing. \<open>comprobarDeadlock\<close> follows the owners of
  semaphores and terminates because each process is visited once. M-CLOCK makes four passes, and
  \<open>m_clock_responde\<close> shows that a candidate is found in them. The lookup of a frame and the compaction loop
  are partial functions; the lookup is proved to return under the invariant. \<open>atender_pendientes\<close> ends because
  every packet shortens the input.

  \<^bold>\<open>Hypotheses.\<close> \<open>ordenes_ok\<close>: \<open>list_sort\<close> of the commons library gives a sorted permutation.
  \<open>mensajes_ok\<close>: a page sent as a C string is a message the server can keep; the example shows it for one
  configuration. \<open>swamp_ok\<close>: one file and pages of 64 bytes, the configuration the constants of the code
  assume. The invariants of the threads are about shortest job first, as the other scheduler despatches
  nobody (\<open>hrrn_no_despacha\<close>).

  \<^bold>\<open>Not modelled.\<close> Opening, accepting and closing sockets, log files and console output (except where it
  sorts a list or dereferences a pointer), the names of the dump files, sleeping, and the mutexes that only
  protect one variable, are input and output with no state of their own. \<open>tests.c\<close> and \<open>main.c\<close> of the
  library are console demonstrations. The \<open>close_\<close> functions of the memory process only free memory before the
  process ends. \<open>copiarCarpincho\<close>, \<open>deserializar_mensaje\<close> and \<open>iterator\<close> of the kernel have no caller, and
  \<open>reasignarSemaforo\<close> is only reached through a process number that is taken for an address. The example
  server in \<^verbatim>\<open>sockets-c\<close> is not part of the system, and its header is not in the repository.
\<close>

end
